(* ===== verification/Prelude.thy ===== *)
theory Prelude
  imports Main "HOL-Library.Word" "HOL-Library.Char_ord" "HOL-Library.List_Lexorder"
begin

text \<open>
  Shared vocabulary of the development: the machine integer types of the Rust code, the
  named theorem collections the component proofs use, the result of an external process,
  and generic lemmas on lists, options and sums.

  A fallible Rust function \<open>Result<T, E>\<close> is a value of \<open>'e + 't\<close> (\<open>Inl\<close> the error);
  a function that can panic returns an \<open>option\<close> whose \<open>None\<close> is the panic.
\<close>

type_synonym u16 = "16 word"
type_synonym u32 = "32 word"
type_synonym u64 = "64 word"

named_theorems str_simps \<open>evaluation of the string primitives\<close>
named_theorems cfg_simps \<open>unfolding of configuration operations\<close>
named_theorems fs_simps \<open>lookup laws of the file system\<close>
named_theorems auth_simps \<open>unfolding of the authentication gates\<close>

section \<open>Results of external processes\<close>

text \<open>
  \<open>std::process::Command::output\<close>: either the process cannot be spawned (the text is the
  displayed error), or it ends with an exit code (\<open>None\<close> when a signal killed it) and the
  bytes of its two streams. The processes themselves are outside the repository, so their
  results are inputs of the model.
\<close>

datatype proc_result =
    Spawn_Error string
  | Exited "int option" string string

fun proc_success :: "proc_result \<Rightarrow> bool" where
  "proc_success (Exited (Some c) _ _) = (c = 0)"
| "proc_success _ = False"

section \<open>Generic lemmas\<close>

definition res_bind :: "'e + 'a \<Rightarrow> ('a \<Rightarrow> 'e + 'b) \<Rightarrow> 'e + 'b" where
  "res_bind r f = (case r of Inl e \<Rightarrow> Inl e | Inr a \<Rightarrow> f a)"

lemma res_bind_simps [simp]:
  "res_bind (Inl e) f = Inl e"
  "res_bind (Inr a) f = f a"
  by (simp_all add: res_bind_def)

lemma res_bind_Inr_iff: "res_bind r f = Inr b \<longleftrightarrow> (\<exists>a. r = Inr a \<and> f a = Inr b)"
  by (cases r) simp_all

lemma take_drop_eq_append: "take n xs = ys \<Longrightarrow> drop n xs = zs \<Longrightarrow> xs = ys @ zs"
  by (metis append_take_drop_id)

lemma set_sort_key [simp]: "set (sort_key f xs) = set xs"
  by simp

lemma option_eqI: "(\<And>a. x = Some a \<longleftrightarrow> y = Some a) \<Longrightarrow> x = y"
  by (cases x; cases y) auto

lemma map_option_Some_iff: "map_option f x = Some y \<longleftrightarrow> (\<exists>z. x = Some z \<and> y = f z)"
  by (cases x) auto

end
