(* ===== verification/Rust_Str.thy ===== *)
theory Rust_Str
  imports Prelude
begin

text \<open>
  Rust strings. A \<open>str\<close> is a sequence of bytes that is well-formed UTF-8; the model is the
  byte list itself (HOL's \<open>string\<close>, one \<open>char\<close> per byte), so that \<open>len\<close>, byte slices and
  byte comparisons are those of the code. Methods that go through \<open>chars\<close> decode the bytes
  to Unicode scalar values (\<open>nat\<close>).

  The theory models what the program uses of the standard library: character boundaries and
  slicing (which panics off a boundary), prefix and substring search, splitting, trimming,
  lines, decimal parsing and printing at a given width, UTF-8 coding, lossy decoding.
\<close>

section \<open>Bytes, boundaries, slices\<close>

definition byte :: "char \<Rightarrow> nat" where
  "byte c = of_char c"

definition is_cont :: "char \<Rightarrow> bool" where
  "is_cont c \<longleftrightarrow> 128 \<le> byte c \<and> byte c < 192"

lemma byte_less [simp]: "byte c < 256"
  by (simp add: byte_def)

lemma byte_inj [simp]: "byte c = byte d \<longleftrightarrow> c = d"
  by (simp add: byte_def)

lemma byte_char_of [simp]: "n < 256 \<Longrightarrow> byte (char_of n) = n"
  by (simp add: byte_def)

lemma char_of_byte [simp]: "char_of (byte c) = c"
  by (simp add: byte_def)

text \<open>\<open>str::is_char_boundary\<close>: both ends, and every byte that is not a continuation byte.\<close>

definition is_char_boundary :: "string \<Rightarrow> nat \<Rightarrow> bool" where
  "is_char_boundary s i \<longleftrightarrow>
     i = 0 \<or> i = length s \<or> (i < length s \<and> \<not> is_cont (s ! i))"

text \<open>The slices \<open>&s[..n]\<close> and \<open>&s[n..]\<close>; \<open>None\<close> is the panic off a boundary.\<close>

definition slice_to :: "string \<Rightarrow> nat \<Rightarrow> string option" where
  "slice_to s n = (if is_char_boundary s n then Some (take n s) else None)"

definition slice_from :: "string \<Rightarrow> nat \<Rightarrow> string option" where
  "slice_from s n = (if is_char_boundary s n then Some (drop n s) else None)"

definition is_ascii :: "string \<Rightarrow> bool" where
  "is_ascii s \<longleftrightarrow> (\<forall>c \<in> set s. byte c < 128)"

lemma is_char_boundary_le: "is_char_boundary s n \<Longrightarrow> n \<le> length s"
  by (auto simp: is_char_boundary_def)

lemma ascii_boundary: "is_ascii s \<Longrightarrow> n \<le> length s \<Longrightarrow> is_char_boundary s n"
  using nth_mem [of n s] by (fastforce simp: is_ascii_def is_char_boundary_def is_cont_def)

lemma slice_to_length: "slice_to s n = Some t \<Longrightarrow> length t = n"
  by (auto simp: slice_to_def dest: is_char_boundary_le split: if_splits)

section \<open>Prefixes and substrings\<close>

definition starts_with :: "string \<Rightarrow> string \<Rightarrow> bool" where
  "starts_with s p \<longleftrightarrow> take (length p) s = p"

definition ends_with :: "string \<Rightarrow> string \<Rightarrow> bool" where
  "ends_with s p \<longleftrightarrow> starts_with (rev s) (rev p)"

lemma starts_with_iff: "starts_with s p \<longleftrightarrow> (\<exists>r. s = p @ r)"
  by (metis append_eq_conv_conj starts_with_def)

lemma ends_with_iff: "ends_with s p \<longleftrightarrow> (\<exists>r. s = r @ p)"
proof
  assume "ends_with s p"
  then obtain r where "rev s = rev p @ r" by (auto simp: ends_with_def starts_with_iff)
  then have "s = rev r @ p" by (metis rev_append rev_rev_ident)
  then show "\<exists>r. s = r @ p" ..
next
  assume "\<exists>r. s = r @ p"
  then show "ends_with s p" by (auto simp: ends_with_def starts_with_iff)
qed

lemma starts_with_append [simp]: "starts_with (p @ r) p"
  by (auto simp: starts_with_iff)

text \<open>\<open>str::find\<close> with a string pattern: the byte offset of the first occurrence.\<close>

fun find_str :: "string \<Rightarrow> string \<Rightarrow> nat option" where
  "find_str p [] = (if p = [] then Some 0 else None)"
| "find_str p (c # s) =
     (if starts_with (c # s) p then Some 0 else map_option Suc (find_str p s))"

definition contains :: "string \<Rightarrow> string \<Rightarrow> bool" where
  "contains s p \<longleftrightarrow> find_str p s \<noteq> None"

lemma find_str_Some:
  "find_str p s = Some i \<Longrightarrow> i + length p \<le> length s \<and> (\<exists>r. drop i s = p @ r)"
proof (induction p s arbitrary: i rule: find_str.induct)
  case (1 p)
  then show ?case by (simp split: if_splits)
next
  case (2 p c s)
  show ?case
  proof (cases "starts_with (c # s) p")
    case True
    with "2.prems" have "i = 0" by simp
    from True obtain r where r: "c # s = p @ r" by (auto simp: starts_with_iff)
    then have "length p + length r = length (c # s)" by simp
    with \<open>i = 0\<close> r show ?thesis by auto
  next
    case False
    with "2.prems" obtain j where j: "find_str p s = Some j" "i = Suc j" by auto
    with "2.IH" [OF False j(1)] show ?thesis by simp
  qed
qed

lemma find_str_occurs: "find_str p (a @ p @ b) \<noteq> None"
proof (induction a)
  case Nil
  show ?case
  proof (cases "p @ b")
    case Nil
    then show ?thesis by simp
  next
    case (Cons c s)
    then have "starts_with (c # s) p" by (metis starts_with_append)
    with Cons show ?thesis by simp
  qed
next
  case (Cons x a)
  then show ?case by auto
qed

lemma contains_iff: "contains s p \<longleftrightarrow> (\<exists>a b. s = a @ p @ b)"
proof
  assume "contains s p"
  then obtain i where "find_str p s = Some i" by (auto simp: contains_def)
  then obtain r where "drop i s = p @ r" by (auto dest: find_str_Some)
  then have "s = take i s @ p @ r" by (metis append_take_drop_id)
  then show "\<exists>a b. s = a @ p @ b" by blast
next
  assume "\<exists>a b. s = a @ p @ b"
  then obtain a b where "s = a @ p @ b" by blast
  with find_str_occurs [of p a b] show "contains s p" by (simp add: contains_def)
qed

lemma contains_trans: "contains s p \<Longrightarrow> contains p q \<Longrightarrow> contains s q"
proof -
  assume "contains s p" and "contains p q"
  then obtain a b c d where "s = a @ p @ b" "p = c @ q @ d" by (auto simp: contains_iff)
  then have "s = (a @ c) @ q @ (d @ b)" by simp
  then show "contains s q" unfolding contains_iff by blast
qed

end
