(* ===== verification/Rust_Utf8.thy ===== *)
theory Rust_Utf8
  imports Rust_Str
begin

text \<open>
  UTF-8 as the standard library decodes and encodes it. \<open>utf8_step\<close> reads one scalar value
  by the table of well-formed byte sequences (no overlong forms, no surrogates, nothing above
  \<open>0x10FFFF\<close>), \<open>chars\<close> iterates it, \<open>encode_char\<close> is \<open>char::encode_utf8\<close> and \<open>lossy\<close> is
  \<open>String::from_utf8_lossy\<close>, which replaces each maximal ill-formed prefix by \<open>U+FFFD\<close>.
\<close>

section \<open>Decoding one scalar value\<close>

definition second_ok :: "nat \<Rightarrow> char \<Rightarrow> bool" where
  "second_ok x b \<longleftrightarrow>
     (if x = 224 then 160 else if x = 240 then 144 else 128) \<le> byte b \<and>
     byte b \<le> (if x = 237 then 159 else if x = 244 then 143 else 191)"

definition utf8_two :: "nat \<Rightarrow> string \<Rightarrow> (nat \<times> nat) option" where
  "utf8_two x t = (case t of
     b # _ \<Rightarrow> if is_cont b then Some ((x - 192) * 64 + (byte b - 128), 2) else None
   | _ \<Rightarrow> None)"

definition utf8_three :: "nat \<Rightarrow> string \<Rightarrow> (nat \<times> nat) option" where
  "utf8_three x t = (case t of
     b # c # _ \<Rightarrow>
       if second_ok x b \<and> is_cont c
       then Some (((x - 224) * 64 + (byte b - 128)) * 64 + (byte c - 128), 3) else None
   | _ \<Rightarrow> None)"

definition utf8_four :: "nat \<Rightarrow> string \<Rightarrow> (nat \<times> nat) option" where
  "utf8_four x t = (case t of
     b # c # d # _ \<Rightarrow>
       if second_ok x b \<and> is_cont c \<and> is_cont d
       then Some ((((x - 240) * 64 + (byte b - 128)) * 64 + (byte c - 128)) * 64
                    + (byte d - 128), 4) else None
   | _ \<Rightarrow> None)"

definition utf8_step :: "string \<Rightarrow> (nat \<times> nat) option" where
  "utf8_step s = (case s of [] \<Rightarrow> None | a # t \<Rightarrow>
     (let x = byte a in
      if x < 128 then Some (x, 1)
      else if 194 \<le> x \<and> x \<le> 223 then utf8_two x t
      else if 224 \<le> x \<and> x \<le> 239 then utf8_three x t
      else if 240 \<le> x \<and> x \<le> 244 then utf8_four x t
      else None))"

lemma utf8_two_Some:
  "utf8_two x t = Some r \<longleftrightarrow>
     (\<exists>b u. t = b # u \<and> is_cont b \<and> r = ((x - 192) * 64 + (byte b - 128), 2))"
  by (cases t) (auto simp: utf8_two_def)

lemma utf8_three_Some:
  "utf8_three x t = Some r \<longleftrightarrow>
     (\<exists>b c u. t = b # c # u \<and> second_ok x b \<and> is_cont c \<and>
        r = (((x - 224) * 64 + (byte b - 128)) * 64 + (byte c - 128), 3))"
  by (auto simp: utf8_three_def split: list.split)

lemma utf8_four_Some:
  "utf8_four x t = Some r \<longleftrightarrow>
     (\<exists>b c d u. t = b # c # d # u \<and> second_ok x b \<and> is_cont c \<and> is_cont d \<and>
        r = ((((x - 240) * 64 + (byte b - 128)) * 64 + (byte c - 128)) * 64
               + (byte d - 128), 4))"
  by (auto simp: utf8_four_def split: list.split)

text \<open>The four shapes of a decoded character: everything below is by these cases.\<close>

lemma utf8_step_elim:
  assumes "utf8_step s = Some r"
  obtains (One) a t where "s = a # t" "byte a < 128" "r = (byte a, 1)"
  | (Two) a b t where "s = a # b # t" "194 \<le> byte a" "byte a \<le> 223" "is_cont b"
      "r = ((byte a - 192) * 64 + (byte b - 128), 2)"
  | (Three) a b c t where "s = a # b # c # t" "224 \<le> byte a" "byte a \<le> 239"
      "second_ok (byte a) b" "is_cont c"
      "r = (((byte a - 224) * 64 + (byte b - 128)) * 64 + (byte c - 128), 3)"
  | (Four) a b c d t where "s = a # b # c # d # t" "240 \<le> byte a" "byte a \<le> 244"
      "second_ok (byte a) b" "is_cont c" "is_cont d"
      "r = ((((byte a - 240) * 64 + (byte b - 128)) * 64 + (byte c - 128)) * 64
              + (byte d - 128), 4)"
proof (cases s)
  case Nil
  with assms show ?thesis by (simp add: utf8_step_def)
next
  case (Cons a t)
  consider "byte a < 128" | "194 \<le> byte a \<and> byte a \<le> 223" | "224 \<le> byte a \<and> byte a \<le> 239"
    | "240 \<le> byte a \<and> byte a \<le> 244" | "128 \<le> byte a \<and> byte a < 194 \<or> 244 < byte a"
    by linarith
  then show ?thesis
  proof cases
    case 1
    with assms Cons have "r = (byte a, 1)" by (simp add: utf8_step_def)
    with Cons 1 show ?thesis by (rule_tac One)
  next
    case 2
    with assms Cons have "utf8_two (byte a) t = Some r" by (simp add: utf8_step_def)
    with Cons 2 show ?thesis by (auto simp: utf8_two_Some intro: Two)
  next
    case 3
    with assms Cons have "utf8_three (byte a) t = Some r" by (simp add: utf8_step_def)
    with Cons 3 show ?thesis by (auto simp: utf8_three_Some intro: Three)
  next
    case 4
    with assms Cons have "utf8_four (byte a) t = Some r" by (simp add: utf8_step_def)
    with Cons 4 show ?thesis by (auto simp: utf8_four_Some intro: Four)
  next
    case 5
    with assms Cons show ?thesis by (auto simp: utf8_step_def Let_def split: if_splits)
  qed
qed

lemma utf8_step_Nil [simp]: "utf8_step [] = None"
  by (simp add: utf8_step_def)

lemma utf8_step_ascii: "byte a < 128 \<Longrightarrow> utf8_step (a # s) = Some (byte a, 1)"
  by (simp add: utf8_step_def)

lemma utf8_step_two:
  "194 \<le> byte a \<Longrightarrow> byte a \<le> 223 \<Longrightarrow> is_cont b \<Longrightarrow>
   utf8_step (a # b # t) = Some ((byte a - 192) * 64 + (byte b - 128), 2)"
  by (simp add: utf8_step_def utf8_two_def)

lemma utf8_step_three:
  "224 \<le> byte a \<Longrightarrow> byte a \<le> 239 \<Longrightarrow> second_ok (byte a) b \<Longrightarrow> is_cont c \<Longrightarrow>
   utf8_step (a # b # c # t) =
     Some (((byte a - 224) * 64 + (byte b - 128)) * 64 + (byte c - 128), 3)"
  by (simp add: utf8_step_def utf8_three_def)

lemma utf8_step_four:
  "240 \<le> byte a \<Longrightarrow> byte a \<le> 244 \<Longrightarrow> second_ok (byte a) b \<Longrightarrow> is_cont c \<Longrightarrow> is_cont d \<Longrightarrow>
   utf8_step (a # b # c # d # t) =
     Some ((((byte a - 240) * 64 + (byte b - 128)) * 64 + (byte c - 128)) * 64
             + (byte d - 128), 4)"
  by (simp add: utf8_step_def utf8_four_def)

lemmas utf8_step_shapes = utf8_step_ascii utf8_step_two utf8_step_three utf8_step_four

lemma utf8_step_bounds: "utf8_step s = Some (c, n) \<Longrightarrow> 1 \<le> n \<and> n \<le> 4 \<and> n \<le> length s"
  by (erule utf8_step_elim) auto

lemma utf8_step_append: "utf8_step s = Some r \<Longrightarrow> utf8_step (s @ t) = Some r"
  by (erule utf8_step_elim) (simp_all add: utf8_step_shapes)

lemma utf8_step_take: "utf8_step s = Some (c, n) \<Longrightarrow> utf8_step (take n s) = Some (c, n)"
  by (erule utf8_step_elim) (simp_all add: utf8_step_shapes)

text \<open>The first byte of a decoded character is no continuation byte, the others all are.\<close>

lemma second_ok_cont: "second_ok x b \<Longrightarrow> is_cont b"
  by (auto simp: second_ok_def is_cont_def split: if_splits)

lemma utf8_step_lead: "utf8_step (a # s) = Some r \<Longrightarrow> \<not> is_cont a"
  by (erule utf8_step_elim) (simp_all add: is_cont_def)

lemma utf8_step_tail_cont:
  assumes "utf8_step s = Some (c, n)" and "0 < i" and "i < n"
  shows "is_cont (s ! i)"
  using assms(1)
proof (cases rule: utf8_step_elim)
  case (Three a b d t)
  then have "i = 1 \<or> i = 2" using assms by auto
  with Three show ?thesis by (auto dest: second_ok_cont)
next
  case (Four a b d e t)
  then have "i = 1 \<or> i = 2 \<or> i = 3" using assms by auto
  with Four show ?thesis by (auto dest: second_ok_cont)
qed (use assms in auto)

section \<open>Iterating: \<open>chars\<close> and well-formedness\<close>

function chars :: "string \<Rightarrow> nat list" where
  "chars s = (case utf8_step s of None \<Rightarrow> [] | Some (c, n) \<Rightarrow> c # chars (drop n s))"
  by pat_completeness auto
termination
  by (relation "measure length") (auto dest: utf8_step_bounds)

function valid_utf8 :: "string \<Rightarrow> bool" where
  "valid_utf8 s = (s = [] \<or>
     (case utf8_step s of None \<Rightarrow> False | Some (c, n) \<Rightarrow> valid_utf8 (drop n s)))"
  by pat_completeness auto
termination
  by (relation "measure length") (auto dest: utf8_step_bounds)

declare chars.simps [simp del] valid_utf8.simps [simp del]

lemma chars_Nil [simp]: "chars [] = []"
  by (simp add: chars.simps)

lemma valid_utf8_Nil [simp]: "valid_utf8 []"
  by (simp add: valid_utf8.simps)

lemma chars_step: "utf8_step s = Some (c, n) \<Longrightarrow> chars s = c # chars (drop n s)"
  by (simp add: chars.simps [of s])

lemma valid_step: "utf8_step s = Some (c, n) \<Longrightarrow> valid_utf8 s = valid_utf8 (drop n s)"
  by (subst valid_utf8.simps) auto

lemma valid_utf8_cases:
  assumes "valid_utf8 s"
  obtains "s = []" | c n where "utf8_step s = Some (c, n)" "valid_utf8 (drop n s)"
proof (cases "utf8_step s")
  case None
  with assms have "s = []" by (subst (asm) valid_utf8.simps) simp
  then show ?thesis by (rule that(1))
next
  case (Some r)
  with assms show ?thesis
    by (cases r) (auto intro: that(2) simp: valid_step)
qed

lemma valid_utf8_induct [consumes 1, case_names Nil Step]:
  assumes "valid_utf8 s" and "P []"
    and "\<And>s c n. utf8_step s = Some (c, n) \<Longrightarrow> valid_utf8 (drop n s) \<Longrightarrow> P (drop n s) \<Longrightarrow> P s"
  shows "P s"
  using assms(1)
proof (induction "length s" arbitrary: s rule: less_induct)
  case less
  from less.prems show ?case
  proof (cases rule: valid_utf8_cases)
    case 1
    with assms(2) show ?thesis by simp
  next
    case (2 c n)
    then have "length (drop n s) < length s" by (auto dest: utf8_step_bounds)
    with less.hyps 2 have "P (drop n s)" by blast
    with 2 assms(3) show ?thesis by blast
  qed
qed

lemma valid_utf8_append: "valid_utf8 s \<Longrightarrow> valid_utf8 t \<Longrightarrow> valid_utf8 (s @ t)"
proof (induction rule: valid_utf8_induct)
  case (Step s c n)
  then have "n \<le> length s" by (auto dest: utf8_step_bounds)
  with Step show ?case
    by (simp add: valid_step [OF utf8_step_append [OF Step(1)]])
qed simp

lemma chars_append: "valid_utf8 s \<Longrightarrow> chars (s @ t) = chars s @ chars t"
proof (induction rule: valid_utf8_induct)
  case (Step s c n)
  then have "n \<le> length s" by (auto dest: utf8_step_bounds)
  with Step show ?case
    by (simp add: chars_step [OF utf8_step_append [OF Step(1)]] chars_step [OF Step(1)])
qed simp

lemma valid_utf8_ascii_Cons: "byte a < 128 \<Longrightarrow> valid_utf8 (a # s) = valid_utf8 s"
  by (simp add: valid_step [OF utf8_step_ascii])

lemma chars_ascii_Cons: "byte a < 128 \<Longrightarrow> chars (a # s) = byte a # chars s"
  by (simp add: chars_step [OF utf8_step_ascii])

lemma valid_utf8_ascii: "is_ascii s \<Longrightarrow> valid_utf8 s"
  by (induction s) (auto simp: is_ascii_def valid_utf8_ascii_Cons)

lemma chars_ascii: "is_ascii s \<Longrightarrow> chars s = map byte s"
  by (induction s) (auto simp: is_ascii_def chars_ascii_Cons)

text \<open>
  Cutting a well-formed string at a boundary leaves two well-formed strings: the reason
  why a Rust slice that does not panic is again a \<open>str\<close>.
\<close>

lemma valid_utf8_boundary:
  "valid_utf8 s \<Longrightarrow> is_char_boundary s k \<Longrightarrow> valid_utf8 (take k s) \<and> valid_utf8 (drop k s)"
proof (induction arbitrary: k rule: valid_utf8_induct)
  case Nil
  then show ?case by simp
next
  case (Step s c n)
  from Step(1) have n: "1 \<le> n" "n \<le> length s" by (auto dest: utf8_step_bounds)
  from Step(1,2) have vs: "valid_utf8 s" by (simp add: valid_step)
  consider "k = 0" | "0 < k" "k < n" | "n \<le> k" by linarith
  then show ?case
  proof cases
    case 1
    with vs show ?thesis by simp
  next
    case 2
    with utf8_step_tail_cont [OF Step(1)] n have "is_cont (s ! k)" "k < length s" by auto
    with 2 Step.prems show ?thesis by (auto simp: is_char_boundary_def)
  next
    case 3
    from 3 Step.prems n have b: "is_char_boundary (drop n s) (k - n)"
      by (auto simp: is_char_boundary_def)
    from 3 n have tk: "take k s = take n s @ take (k - n) (drop n s)"
      by (metis le_add_diff_inverse take_add)
    have one: "utf8_step (take n s @ u) = Some (c, n)" for u
      by (rule utf8_step_append [OF utf8_step_take [OF Step(1)]])
    from Step.IH [OF b] 3 n show ?thesis
      by (simp add: tk valid_step [OF one])
  qed
qed

section \<open>Encoding\<close>

definition scalar :: "nat \<Rightarrow> bool" where
  "scalar c \<longleftrightarrow> c < 55296 \<or> (57344 \<le> c \<and> c < 1114112)"

definition encode_char :: "nat \<Rightarrow> string" where
  "encode_char c =
     (if c < 128 then [char_of c]
      else if c < 2048 then [char_of (192 + c div 64), char_of (128 + c mod 64)]
      else if c < 65536 then
        [char_of (224 + c div 4096), char_of (128 + (c div 64) mod 64), char_of (128 + c mod 64)]
      else [char_of (240 + c div 262144), char_of (128 + (c div 4096) mod 64),
            char_of (128 + (c div 64) mod 64), char_of (128 + c mod 64)])"

definition encode :: "nat list \<Rightarrow> string" where
  "encode cs = concat (map encode_char cs)"

text \<open>The non-ASCII characters that occur in the program's messages.\<close>

definition EM_DASH :: string where "EM_DASH = encode_char 8212"
definition PLUS_MINUS :: string where "PLUS_MINUS = encode_char 177"

lemma encode_simps [simp]: "encode [] = []" "encode (c # cs) = encode_char c @ encode cs"
  by (simp_all add: encode_def)

lemma encode_append [simp]: "encode (cs @ ds) = encode cs @ encode ds"
  by (simp add: encode_def)

lemma second_ok_224: "second_ok 224 b \<longleftrightarrow> 160 \<le> byte b \<and> byte b < 192"
  and second_ok_237: "second_ok 237 b \<longleftrightarrow> 128 \<le> byte b \<and> byte b < 160"
  and second_ok_240: "second_ok 240 b \<longleftrightarrow> 144 \<le> byte b \<and> byte b < 192"
  and second_ok_244: "second_ok 244 b \<longleftrightarrow> 128 \<le> byte b \<and> byte b < 144"
  by (auto simp: second_ok_def)

lemma second_ok_other:
  "x \<notin> {224, 237, 240, 244} \<Longrightarrow> second_ok x b \<longleftrightarrow> is_cont b"
  by (auto simp: second_ok_def is_cont_def)

lemma is_cont_char_of [simp]: "is_cont (char_of (128 + n mod (64::nat)))"
  by (auto simp: is_cont_def)

lemma byte_char_of_cont [simp]: "byte (char_of (128 + n mod (64::nat))) = 128 + n mod 64"
  by simp

lemma three_bytes:
  "((c::nat) div 4096 * 64 + c div 64 mod 64) * 64 + c mod 64 = c"
proof -
  have "c div 4096 = c div 64 div 64" by (simp add: div_mult2_eq)
  then have "c div 4096 * 64 + c div 64 mod 64 = c div 64" by (simp only: div_mult_mod_eq)
  then show ?thesis by (simp only: div_mult_mod_eq)
qed

lemma four_bytes:
  "(((c::nat) div 262144 * 64 + c div 4096 mod 64) * 64 + c div 64 mod 64) * 64 + c mod 64 = c"
proof -
  have "c div 262144 = c div 4096 div 64" by (simp add: div_mult2_eq)
  then have "c div 262144 * 64 + c div 4096 mod 64 = c div 4096" by (simp only: div_mult_mod_eq)
  then show ?thesis by (simp only: three_bytes)
qed

lemma mod_64_above_832:
  assumes "832 \<le> (q::nat)" and "q < 864"
  shows "q mod 64 = q - 832"
proof -
  have "q = (q - 832) + 13 * 64" "q - 832 < 64" using assms by simp_all
  then show ?thesis by (metis mod_less mod_mult_self3 add.commute)
qed

lemma mod_64_above_256:
  assumes "256 \<le> (q::nat)" and "q < 272"
  shows "q mod 64 < 16"
proof -
  have "q = (q - 256) + 4 * 64" "q - 256 < 64" using assms by simp_all
  then have "q mod 64 = q - 256" by (metis mod_less mod_mult_self3 add.commute)
  with assms show ?thesis by simp
qed

lemma utf8_step_encode:
  assumes "scalar c"
  shows "utf8_step (encode_char c @ s) = Some (c, length (encode_char c))"
proof -
  consider "c < 128" | "128 \<le> c" "c < 2048" | "2048 \<le> c" "c < 65536" | "65536 \<le> c" "c < 1114112"
    using assms by (fastforce simp: scalar_def)
  then show ?thesis
  proof cases
    case 1
    then show ?thesis by (simp add: encode_char_def utf8_step_ascii)
  next
    case 2
    then have "c div 64 < 32" "2 \<le> c div 64" by auto
    with 2 show ?thesis by (simp add: encode_char_def utf8_step_two)
  next
    case 3
    then have d: "c div 4096 < 16" by auto
    have "second_ok (224 + c div 4096) (char_of (128 + c div 64 mod 64))"
    proof -
      consider "c div 4096 = 0" | "c div 4096 = 13" | "c div 4096 \<noteq> 0" "c div 4096 \<noteq> 13" by blast
      then show ?thesis
      proof cases
        case 1
        then have "c < 4096" by auto
        then have "c div 64 < 64" by auto
        moreover have "32 \<le> c div 64" using 3 by auto
        ultimately show ?thesis using 1 by (simp add: second_ok_224)
      next
        case 2
        then have "53248 \<le> c \<and> c < 57344" by linarith
        with assms have r: "53248 \<le> c" "c < 55296" by (auto simp: scalar_def)
        then have "832 \<le> c div 64" "c div 64 < 864" by linarith+
        then have "c div 64 mod 64 = c div 64 - 832" by (rule mod_64_above_832)
        with 2 \<open>832 \<le> c div 64\<close> \<open>c div 64 < 864\<close> show ?thesis
          by (auto simp: second_ok_237)
      next
        case o: 3
        with d show ?thesis by (subst second_ok_other) auto
      qed
    qed
    with 3 d three_bytes [of c] show ?thesis
      by (simp add: encode_char_def utf8_step_three)
  next
    case 4
    then have d: "c div 262144 < 5" by auto
    have "second_ok (240 + c div 262144) (char_of (128 + c div 4096 mod 64))"
    proof -
      consider "c div 262144 = 0" | "c div 262144 = 4" | "c div 262144 \<noteq> 0" "c div 262144 \<noteq> 4"
        by blast
      then show ?thesis
      proof cases
        case 1
        then have "c div 4096 < 64" by auto
        moreover have "16 \<le> c div 4096" using 4 by auto
        ultimately show ?thesis using 1 by (simp add: second_ok_240)
      next
        case 2
        have "256 \<le> c div 4096" using 2 by linarith
        moreover have "c div 4096 < 272" using 4 by linarith
        ultimately have "c div 4096 mod 64 < 16" by (rule mod_64_above_256)
        with 2 show ?thesis by (simp add: second_ok_244)
      next
        case 3
        with d show ?thesis by (subst second_ok_other) auto
      qed
    qed
    with 4 d four_bytes [of c] show ?thesis
      by (simp add: encode_char_def utf8_step_four)
  qed
qed

lemma chars_encode_char: "scalar c \<Longrightarrow> chars (encode_char c @ s) = c # chars s"
  by (simp add: chars_step [OF utf8_step_encode])

lemma valid_encode_char: "scalar c \<Longrightarrow> valid_utf8 (encode_char c @ s) = valid_utf8 s"
  by (simp add: valid_step [OF utf8_step_encode])

lemma chars_encode: "\<forall>c \<in> set cs. scalar c \<Longrightarrow> chars (encode cs) = cs"
  by (induction cs) (simp_all add: chars_encode_char)

lemma valid_encode: "\<forall>c \<in> set cs. scalar c \<Longrightarrow> valid_utf8 (encode cs)"
  by (induction cs) (simp_all add: valid_encode_char)

text \<open>The other direction: decoding a well-formed string and encoding it gives it back.\<close>

lemma mul_64_div_mod:
  assumes "(y::nat) < 64"
  shows "(x * 64 + y) div 64 = x" and "(x * 64 + y) mod 64 = y"
  using assms by simp_all

lemma is_cont_byte: "is_cont b \<Longrightarrow> byte b - 128 < 64 \<and> 128 + (byte b - 128) = byte b"
  by (auto simp: is_cont_def)

lemma is_cont_char: "is_cont b \<Longrightarrow> char_of (128 + (byte b - 128)) = b"
  by (simp add: is_cont_byte)

lemma utf8_step_scalar:
  assumes "utf8_step s = Some (c, n)"
  shows "scalar c \<and> encode_char c = take n s"
  using assms
proof (cases rule: utf8_step_elim)
  case (One a t)
  then show ?thesis by (simp add: encode_char_def scalar_def)
next
  case (Two a b t)
  define x y where "x = byte a - 192" and "y = byte b - 128"
  from Two have y: "y < 64" and xy: "byte a = 192 + x" "byte b = 128 + y"
    by (auto simp: x_def y_def is_cont_def)
  have c: "c = x * 64 + y" using Two by (simp add: x_def y_def)
  have x: "2 \<le> x" "x < 32" using Two xy by auto
  have "encode_char c = [char_of (192 + x), char_of (128 + y)]"
    using x y by (simp add: encode_char_def c mul_64_div_mod)
  moreover have "scalar c" using x y by (simp add: c scalar_def)
  ultimately show ?thesis using Two by (simp flip: xy)
next
  case (Three a b d t)
  define x y z where "x = byte a - 224" and "y = byte b - 128" and "z = byte d - 128"
  from Three have cy: "is_cont b" by (simp add: second_ok_cont)
  from Three cy have yz: "y < 64" "z < 64"
    and xyz: "byte a = 224 + x" "byte b = 128 + y" "byte d = 128 + z"
    by (auto simp: x_def y_def z_def is_cont_def)
  have c: "c = (x * 64 + y) * 64 + z" using Three by (simp add: x_def y_def z_def)
  have x: "x < 16" using Three xyz by auto
  have y0: "x = 0 \<Longrightarrow> 32 \<le> y" and y13: "x = 13 \<Longrightarrow> y < 32"
    using Three xyz by (auto simp: second_ok_def)
  have d: "c div 64 = x * 64 + y" "c mod 64 = z" using yz by (simp_all only: c mul_64_div_mod)
  have "c div 4096 = c div 64 div 64" by (simp add: div_mult2_eq)
  then have d2: "c div 4096 = x" "c div 64 mod 64 = y" using yz by (simp_all only: d mul_64_div_mod)
  have lo: "2048 \<le> c" using y0 yz by (cases "x = 0") (simp_all add: c)
  have hi: "c < 65536" using x yz by (simp add: c)
  have "scalar c"
  proof (cases "x < 13")
    case True
    then show ?thesis using yz by (simp add: scalar_def c)
  next
    case False
    then have "x = 13 \<or> 14 \<le> x" by auto
    then show ?thesis using y13 yz hi by (auto simp: scalar_def c)
  qed
  moreover have "encode_char c = [char_of (224 + x), char_of (128 + y), char_of (128 + z)]"
    using lo hi yz by (simp add: encode_char_def d d2)
  ultimately show ?thesis using Three by (simp flip: xyz)
next
  case (Four a b d e t)
  define x y z w where "x = byte a - 240" and "y = byte b - 128" and "z = byte d - 128"
    and "w = byte e - 128"
  from Four have cy: "is_cont b" by (simp add: second_ok_cont)
  from Four cy have yz: "y < 64" "z < 64" "w < 64"
    and xyz: "byte a = 240 + x" "byte b = 128 + y" "byte d = 128 + z" "byte e = 128 + w"
    by (auto simp: x_def y_def z_def w_def is_cont_def)
  have c: "c = ((x * 64 + y) * 64 + z) * 64 + w" using Four by (simp add: x_def y_def z_def w_def)
  have x: "x < 5" using Four xyz by auto
  have y0: "x = 0 \<Longrightarrow> 16 \<le> y" and y4: "x = 4 \<Longrightarrow> y < 16"
    using Four xyz by (auto simp: second_ok_def)
  have d: "c div 64 = (x * 64 + y) * 64 + z" "c mod 64 = w"
    using yz by (simp_all only: c mul_64_div_mod)
  have "c div 4096 = c div 64 div 64" by (simp add: div_mult2_eq)
  then have d2: "c div 4096 = x * 64 + y" "c div 64 mod 64 = z"
    using yz by (simp_all only: d mul_64_div_mod)
  have "c div 262144 = c div 4096 div 64" by (simp add: div_mult2_eq)
  then have d3: "c div 262144 = x" "c div 4096 mod 64 = y"
    using yz by (simp_all only: d2 mul_64_div_mod)
  have lo: "65536 \<le> c" using y0 yz by (cases "x = 0") (simp_all add: c)
  have hi: "c < 1114112"
  proof (cases "x = 4")
    case True
    with y4 yz show ?thesis by (simp add: c)
  next
    case False
    with x yz show ?thesis by (simp add: c)
  qed
  have "encode_char c = [char_of (240 + c div 262144), char_of (128 + (c div 4096) mod 64),
          char_of (128 + (c div 64) mod 64), char_of (128 + c mod 64)]"
    using lo by (simp add: encode_char_def)
  then have "encode_char c
      = [char_of (240 + x), char_of (128 + y), char_of (128 + z), char_of (128 + w)]"
    by (simp only: d(2) d2(2) d3)
  moreover have "scalar c" using lo hi by (simp add: scalar_def)
  ultimately show ?thesis using Four by (simp flip: xyz)
qed

lemma encode_chars: "valid_utf8 s \<Longrightarrow> encode (chars s) = s"
proof (induction rule: valid_utf8_induct)
  case (Step s c n)
  then show ?case by (simp add: chars_step utf8_step_scalar)
qed simp

lemma chars_scalar: "\<forall>c \<in> set (chars s). scalar c"
proof (induction s rule: chars.induct)
  case (1 s)
  show ?case
  proof (cases "utf8_step s")
    case None
    then show ?thesis by (simp add: chars.simps)
  next
    case (Some r)
    then obtain c n where r: "utf8_step s = Some (c, n)" by (cases r) auto
    with 1 have "\<forall>c \<in> set (chars (drop n s)). scalar c" by fastforce
    with r show ?thesis by (simp add: chars_step utf8_step_scalar)
  qed
qed

section \<open>\<open>from_utf8_lossy\<close>\<close>

text \<open>
  How many bytes one ill-formed prefix spans: the lead byte, and those of the following bytes
  that could still have belonged to the character it announces.
\<close>

definition bad_prefix :: "string \<Rightarrow> nat" where
  "bad_prefix s = (case s of [] \<Rightarrow> 0 | a # t \<Rightarrow>
     (let x = byte a in
      if 224 \<le> x \<and> x \<le> 239 then
        (case t of b # _ \<Rightarrow> if second_ok x b then 2 else 1 | [] \<Rightarrow> 1)
      else if 240 \<le> x \<and> x \<le> 244 then
        (case t of [] \<Rightarrow> 1
         | b # u \<Rightarrow> if second_ok x b
             then (case u of c # _ \<Rightarrow> if is_cont c then 3 else 2 | [] \<Rightarrow> 2) else 1)
      else 1))"

definition replacement :: string where
  "replacement = encode_char 65533"

function lossy :: "string \<Rightarrow> string" where
  "lossy s = (if s = [] then [] else
     (case utf8_step s of
        Some (c, n) \<Rightarrow> take n s @ lossy (drop n s)
      | None \<Rightarrow> replacement @ lossy (drop (bad_prefix s) s)))"
  by pat_completeness auto
termination
proof (relation "measure length", goal_cases)
  case 1
  show ?case by simp
next
  case (2 s)
  then obtain a t where "s = a # t" by (cases s) auto
  then have "0 < bad_prefix s" by (auto simp: bad_prefix_def Let_def split: list.split)
  with 2 show ?case by (cases s) auto
next
  case (3 s r c n)
  then show ?case by (auto dest: utf8_step_bounds)
qed

declare lossy.simps [simp del]

lemma valid_replacement: "valid_utf8 (replacement @ s) = valid_utf8 s"
  by (simp add: replacement_def valid_encode_char scalar_def)

lemma valid_lossy: "valid_utf8 (lossy s)"
proof (induction s rule: lossy.induct)
  case (1 s)
  show ?case
  proof (cases "utf8_step s")
    case None
    with 1 show ?thesis
      by (subst lossy.simps) (simp add: valid_replacement)
  next
    case (Some r)
    then obtain c n where r: "utf8_step s = Some (c, n)" by (cases r) auto
    then have ne: "s \<noteq> []" by auto
    with 1 r have ih: "valid_utf8 (lossy (drop n s))" by fastforce
    from r have n: "n \<le> length s" by (auto dest: utf8_step_bounds)
    have "utf8_step (take n s @ lossy (drop n s)) = Some (c, n)"
      by (rule utf8_step_append [OF utf8_step_take [OF r]])
    with ih n have "valid_utf8 (take n s @ lossy (drop n s))"
      by (simp add: valid_step)
    with ne r show ?thesis by (subst lossy.simps) simp
  qed
qed

lemma lossy_valid: "valid_utf8 s \<Longrightarrow> lossy s = s"
proof (induction rule: valid_utf8_induct)
  case Nil
  show ?case by (simp add: lossy.simps)
next
  case (Step s c n)
  then have "s \<noteq> []" by auto
  with Step show ?case by (subst lossy.simps) simp
qed

text \<open>In well-formed text the position after an ASCII byte is a character boundary.\<close>

lemma utf8_step_ascii_head: "utf8_step (a # s) = Some (c, n) \<Longrightarrow> byte a < 128 \<Longrightarrow> n = 1"
  by (simp add: utf8_step_ascii)

lemma valid_head_boundary: "valid_utf8 s \<Longrightarrow> s \<noteq> [] \<Longrightarrow> \<not> is_cont (hd s)"
  by (erule valid_utf8_cases, simp, cases s) (auto dest: utf8_step_lead)

lemma boundary_after_ascii:
  "valid_utf8 s \<Longrightarrow> i < length s \<Longrightarrow> byte (s ! i) < 128 \<Longrightarrow> is_char_boundary s (Suc i)"
proof (induction arbitrary: i rule: valid_utf8_induct)
  case Nil
  then show ?case by simp
next
  case (Step s c n)
  from Step.hyps(1) have n: "1 \<le> n" "n \<le> length s" using utf8_step_bounds by auto
  show ?case
  proof (cases "i < n")
    case True
    have "i = 0"
      using utf8_step_tail_cont [OF Step.hyps(1) _ True] Step.prems(2) by (auto simp: is_cont_def)
    obtain a t where s: "s = a # t" using Step.prems by (cases s) auto
    with Step \<open>i = 0\<close> have "n = 1" using utf8_step_ascii_head by simp
    with s Step.hyps(2) have "valid_utf8 t" by simp
    with s \<open>i = 0\<close> show ?thesis
      using valid_head_boundary [of t] by (cases t) (auto simp: is_char_boundary_def)
  next
    case False
    with Step.prems n have "is_char_boundary (drop n s) (Suc (i - n))"
      by (intro Step.IH) auto
    with False n show ?thesis by (auto simp: is_char_boundary_def)
  qed
qed

end
