(* ===== verification/Rust_Text.thy ===== *)
theory Rust_Text
  imports Rust_Utf8
begin

text \<open>
  Text processing of the standard library as the program uses it: whitespace and
  alphanumeric tests, \<open>trim\<close>, \<open>split\<close>, \<open>split_whitespace\<close>, \<open>lines\<close>, lower-casing, decimal
  parsing (\<open>str::parse::<uN>\<close>) and printing.

  The Unicode tables beyond ASCII are parameters (\<open>uni\<close> for \<open>is_alphanumeric\<close>, \<open>ul\<close> for
  lower-casing); the standard library treats ASCII before it consults them, and so does
  the model.
\<close>

section \<open>Characters\<close>

definition is_whitespace :: "nat \<Rightarrow> bool" where
  "is_whitespace c \<longleftrightarrow> (9 \<le> c \<and> c \<le> 13) \<or> c = 32 \<or> c = 133 \<or> c = 160 \<or> c = 5760 \<or>
     (8192 \<le> c \<and> c \<le> 8202) \<or> c = 8232 \<or> c = 8233 \<or> c = 8239 \<or> c = 8287 \<or> c = 12288"

definition is_control :: "nat \<Rightarrow> bool" where
  "is_control c \<longleftrightarrow> c < 32 \<or> (127 \<le> c \<and> c < 160)"

definition is_alphanumeric :: "(nat \<Rightarrow> bool) \<Rightarrow> nat \<Rightarrow> bool" where
  "is_alphanumeric uni c \<longleftrightarrow> (48 \<le> c \<and> c \<le> 57) \<or> (65 \<le> c \<and> c \<le> 90) \<or> (97 \<le> c \<and> c \<le> 122) \<or>
     (127 < c \<and> uni c)"

definition to_lowercase :: "(nat \<Rightarrow> nat list) \<Rightarrow> string \<Rightarrow> string" where
  "to_lowercase ul s = encode (concat (map
     (\<lambda>c. if 65 \<le> c \<and> c \<le> 90 then [c + 32] else if c < 128 then [c] else ul c) (chars s)))"

definition eq_ignore_ascii_case :: "string \<Rightarrow> string \<Rightarrow> bool" where
  "eq_ignore_ascii_case s t \<longleftrightarrow>
     (let low = map (\<lambda>c. if 65 \<le> byte c \<and> byte c \<le> 90 then byte c + 32 else byte c)
      in low s = low t)"

section \<open>Trimming and splitting\<close>

definition trim_chars :: "nat list \<Rightarrow> nat list" where
  "trim_chars cs = rev (dropWhile is_whitespace (rev (dropWhile is_whitespace cs)))"

definition trim :: "string \<Rightarrow> string" where
  "trim s = encode (trim_chars (chars s))"

definition trim_start_char :: "char \<Rightarrow> string \<Rightarrow> string" where
  "trim_start_char c s = dropWhile (\<lambda>x. x = c) s"

definition trim_end_char :: "char \<Rightarrow> string \<Rightarrow> string" where
  "trim_end_char c s = rev (dropWhile (\<lambda>x. x = c) (rev s))"

text \<open>\<open>str::split\<close> with an ASCII separator: always at least one part.\<close>

fun split_char :: "char \<Rightarrow> string \<Rightarrow> string list" where
  "split_char c [] = [[]]"
| "split_char c (x # s) =
     (if x = c then [] # split_char c s
      else (case split_char c s of [] \<Rightarrow> [[x]] | p # ps \<Rightarrow> (x # p) # ps))"

fun join :: "string \<Rightarrow> string list \<Rightarrow> string" where
  "join sep [] = []"
| "join sep [x] = x"
| "join sep (x # y # xs) = x @ sep @ join sep (y # xs)"

text \<open>\<open>str::lines\<close>: split after each line feed, drop it and one carriage return before it.\<close>

definition LF :: char where "LF = CHR 0x0A"
definition CR :: char where "CR = CHR 0x0D"

definition strip_cr :: "string \<Rightarrow> string" where
  "strip_cr l = (if l \<noteq> [] \<and> last l = CR then butlast l else l)"

definition lines :: "string \<Rightarrow> string list" where
  "lines s = (let ps = split_char LF s in
     map strip_cr (butlast ps) @ (if last ps = [] then [] else [last ps]))"

text \<open>\<open>str::split_whitespace\<close>: the maximal runs of non-whitespace characters.\<close>

fun word_runs :: "nat list \<Rightarrow> nat list list" where
  "word_runs [] = [[]]"
| "word_runs (c # cs) =
     (if is_whitespace c then [] # word_runs cs
      else (case word_runs cs of [] \<Rightarrow> [[c]] | w # ws \<Rightarrow> (c # w) # ws))"

definition split_whitespace :: "string \<Rightarrow> string list" where
  "split_whitespace s = map encode (filter (\<lambda>w. w \<noteq> []) (word_runs (chars s)))"

section \<open>Decimal numbers\<close>

definition digit_val :: "char \<Rightarrow> nat option" where
  "digit_val c = (if 48 \<le> byte c \<and> byte c \<le> 57 then Some (byte c - 48) else None)"

text \<open>The checked multiply-add loop of \<open>from_str_radix\<close> at a width of \<open>w\<close> bits.\<close>

fun parse_digits :: "nat \<Rightarrow> nat \<Rightarrow> string \<Rightarrow> nat option" where
  "parse_digits w acc [] = Some acc"
| "parse_digits w acc (c # s) =
     (case digit_val c of None \<Rightarrow> None
      | Some d \<Rightarrow> if acc * 10 + d < 2 ^ w then parse_digits w (acc * 10 + d) s else None)"

definition parse_uint :: "nat \<Rightarrow> string \<Rightarrow> nat option" where
  "parse_uint w s = (case s of
     [] \<Rightarrow> None
   | c # t \<Rightarrow>
       if c = CHR ''+'' then (if t = [] then None else parse_digits w 0 t)
       else parse_digits w 0 s)"

definition parse_u16 :: "string \<Rightarrow> u16 option" where
  "parse_u16 s = map_option of_nat (parse_uint 16 s)"

definition parse_u32 :: "string \<Rightarrow> u32 option" where
  "parse_u32 s = map_option of_nat (parse_uint 32 s)"

definition parse_u64 :: "string \<Rightarrow> u64 option" where
  "parse_u64 s = map_option of_nat (parse_uint 64 s)"

definition parse_bool :: "string \<Rightarrow> bool option" where
  "parse_bool s = (if s = ''true'' then Some True else if s = ''false'' then Some False else None)"

fun show_nat :: "nat \<Rightarrow> string" where
  "show_nat n = (if n < 10 then [char_of (48 + n)]
                 else show_nat (n div 10) @ [char_of (48 + n mod 10)])"

declare show_nat.simps [simp del]

definition show_word :: "'w::len word \<Rightarrow> string" where
  "show_word n = show_nat (unat n)"

definition show_bool :: "bool \<Rightarrow> string" where
  "show_bool b = (if b then ''true'' else ''false'')"

definition show_int :: "int \<Rightarrow> string" where
  "show_int i = (if i < 0 then ''-'' @ show_nat (nat (- i)) else show_nat (nat i))"

section \<open>Laws\<close>

lemma split_char_ne [simp]: "split_char c s \<noteq> []"
  by (induction s) (auto split: list.split)

lemma join_split: "join [c] (split_char c s) = s"
proof (induction s)
  case (Cons x s)
  then show ?case
    by (cases "split_char c s"; cases "tl (split_char c s)") auto
qed simp

lemma split_char_sep: "p \<in> set (split_char c s) \<Longrightarrow> c \<notin> set p"
  by (induction s arbitrary: p) (auto split: if_splits list.splits)

lemma split_char_none: "c \<notin> set s \<Longrightarrow> split_char c s = [s]"
  by (induction s) auto

lemma split_char_first: "c \<notin> set p \<Longrightarrow> split_char c (p @ c # s) = p # split_char c s"
  by (induction p) auto

lemma split_join:
  "ps \<noteq> [] \<Longrightarrow> \<forall>p \<in> set ps. c \<notin> set p \<Longrightarrow> split_char c (join [c] ps) = ps"
  by (induction "[c]" ps rule: join.induct) (auto simp: split_char_none split_char_first)

lemma split_char_snoc: "split_char c (s @ c # p) = split_char c s @ split_char c p"
proof (induction s)
  case (Cons x s)
  then show ?case by (cases "split_char c s") auto
qed simp

text \<open>A part keeps its own parts when the whole is split at the separator it was joined with.\<close>

lemma split_join_part: "x \<in> set xs \<Longrightarrow> set (split_char c x) \<subseteq> set (split_char c (join [c] xs))"
  by (induction "[c]" xs rule: join.induct) (auto simp: split_char_snoc)

lemma split_join_line: "x \<in> set xs \<Longrightarrow> c \<notin> set x \<Longrightarrow> x \<in> set (split_char c (join [c] xs))"
  using split_join_part [of x xs c] by (simp add: split_char_none)

lemma lines_no_lf: "l \<in> set (lines s) \<Longrightarrow> LF \<notin> set l"
proof -
  assume l: "l \<in> set (lines s)"
  have last: "LF \<notin> set (last (split_char LF s))"
    by (rule split_char_sep [of _ LF s]) simp
  have init: "LF \<notin> set (strip_cr p)" if "p \<in> set (butlast (split_char LF s))" for p
    using that by (auto simp: strip_cr_def dest!: in_set_butlastD split_char_sep split: if_splits)
  from l last init show ?thesis by (auto simp: lines_def Let_def split: if_splits)
qed

lemma parse_digits_append:
  "parse_digits w acc (s @ t) = Option.bind (parse_digits w acc s) (\<lambda>a. parse_digits w a t)"
  by (induction s arbitrary: acc) (auto split: option.split)

lemma parse_digits_bound: "parse_digits w acc s = Some n \<Longrightarrow> acc < 2 ^ w \<Longrightarrow> n < 2 ^ w"
  by (induction s arbitrary: acc) (auto split: option.splits if_splits)

lemma parse_uint_bound: "parse_uint w s = Some n \<Longrightarrow> n < 2 ^ w"
  by (auto simp: parse_uint_def simp del: parse_digits.simps split: list.splits if_splits
      dest: parse_digits_bound)

lemma digit_val_show [simp]: "d < 10 \<Longrightarrow> digit_val (char_of (48 + d)) = Some d"
  by (simp add: digit_val_def)

lemma parse_digits_show: "n < 2 ^ w \<Longrightarrow> parse_digits w 0 (show_nat n) = Some n"
proof (induction n rule: show_nat.induct)
  case (1 n)
  show ?case
  proof (cases "n < 10")
    case True
    with "1.prems" show ?thesis by (subst show_nat.simps) simp
  next
    case False
    have "n div 10 < 2 ^ w" using "1.prems" by (meson div_le_dividend le_less_trans)
    with 1 False have "parse_digits w 0 (show_nat (n div 10)) = Some (n div 10)" by blast
    with False "1.prems" show ?thesis
      by (subst show_nat.simps) (simp add: parse_digits_append)
  qed
qed

lemma show_nat_digits: "c \<in> set (show_nat n) \<Longrightarrow> 48 \<le> byte c \<and> byte c \<le> 57"
proof (induction n rule: show_nat.induct)
  case (1 n)
  then show ?case
    by (cases "n < 10") (subst (asm) (2) show_nat.simps, auto)+
qed

lemma show_nat_ne [simp]: "show_nat n \<noteq> []"
  by (subst show_nat.simps) simp

lemma parse_uint_show: "n < 2 ^ w \<Longrightarrow> parse_uint w (show_nat n) = Some n"
proof -
  assume n: "n < 2 ^ w"
  obtain c t where s: "show_nat n = c # t" by (cases "show_nat n") auto
  then have "48 \<le> byte c" using show_nat_digits [of c n] by simp
  then have "c \<noteq> CHR ''+''" by (auto simp: byte_def)
  with s parse_digits_show [OF n] show ?thesis by (simp add: parse_uint_def)
qed

lemma unat_less_64: "unat (x :: u64) < 2 ^ 64"
  and unat_less_32: "unat (y :: u32) < 2 ^ 32"
  and unat_less_16: "unat (z :: u16) < 2 ^ 16"
  using unsigned_less [of x] unsigned_less [of y] unsigned_less [of z] by simp_all

lemma parse_u64_show [simp]: "parse_u64 (show_word x) = Some x"
  by (simp add: parse_u64_def show_word_def parse_uint_show [OF unat_less_64])

lemma parse_u32_show [simp]: "parse_u32 (show_word x) = Some x"
  by (simp add: parse_u32_def show_word_def parse_uint_show [OF unat_less_32])

lemma parse_u16_show [simp]: "parse_u16 (show_word x) = Some x"
  by (simp add: parse_u16_def show_word_def parse_uint_show [OF unat_less_16])

lemma parse_bool_show [simp]: "parse_bool (show_bool b) = Some b"
  by (cases b) (simp_all add: parse_bool_def show_bool_def)

end
