(* ===== verification/Core_Token.thy ===== *)
theory Core_Token
  imports Rust_Text
begin

text \<open>
  \<open>crates/nexus-link-core/src/token.rs\<close>: generation, format validation, hashing and
  verification of the two credentials, the node token (\<open>nxs_node_*\<close>) and the command token
  (\<open>nxs_cmd_*\<close>).

  The third-party functions are the parameters of \<open>crypto\<close>: SHA-256 and base64url coding,
  the constant-time comparison of \<open>subtle\<close>, hexadecimal decoding of the \<open>hex\<close> crate, and
  Ed25519 key decoding and verification (keys of type \<open>'k\<close>). What the code relies on is
  stated as named hypotheses (\<open>ct_eq_spec\<close>, \<open>sha256_length_spec\<close>).

  The locale \<open>prefixed_credential\<close> is the contract both format validators share; it is
  interpreted on each of them.
\<close>

section \<open>Third-party cryptography as parameters\<close>

record 'k crypto =
  sha256 :: "string \<Rightarrow> string"
  ct_eq :: "string \<Rightarrow> string \<Rightarrow> bool"
  b64_encode :: "string \<Rightarrow> string"
  b64_decode :: "string \<Rightarrow> string option"
  hex_decode :: "string \<Rightarrow> string option"
  key_from_bytes :: "string \<Rightarrow> 'k option"
  ed_verify :: "'k \<Rightarrow> string \<Rightarrow> string \<Rightarrow> bool"

text \<open>\<open>subtle::ConstantTimeEq\<close> on byte slices decides equality.\<close>

definition ct_eq_spec :: "('k, 'z) crypto_scheme \<Rightarrow> bool" where
  "ct_eq_spec cr \<longleftrightarrow> (\<forall>a b. ct_eq cr a b \<longleftrightarrow> a = b)"

text \<open>SHA-256 yields 32 bytes.\<close>

definition sha256_length_spec :: "('k, 'z) crypto_scheme \<Rightarrow> bool" where
  "sha256_length_spec cr \<longleftrightarrow> (\<forall>m. length (sha256 cr m) = 32)"

section \<open>Definitions\<close>

definition TOKEN_PREFIX :: string where
  "TOKEN_PREFIX = ''nxs_node_''"

definition CMD_TOKEN_PREFIX :: string where
  "CMD_TOKEN_PREFIX = ''nxs_cmd_''"

text \<open>The random generator is an input: the 32 bytes it filled in.\<close>

definition generate_token :: "('k, 'z) crypto_scheme \<Rightarrow> string \<Rightarrow> string" where
  "generate_token cr bytes = TOKEN_PREFIX @ b64_encode cr bytes"

definition validate_token_format :: "string \<Rightarrow> bool" where
  "validate_token_format token \<longleftrightarrow>
     starts_with token TOKEN_PREFIX \<and> length token > length TOKEN_PREFIX"

definition generate_cmd_token :: "('k, 'z) crypto_scheme \<Rightarrow> string \<Rightarrow> string" where
  "generate_cmd_token cr bytes = CMD_TOKEN_PREFIX @ b64_encode cr bytes"

definition validate_cmd_token_format :: "string \<Rightarrow> bool" where
  "validate_cmd_token_format token \<longleftrightarrow>
     starts_with token CMD_TOKEN_PREFIX \<and> length token > length CMD_TOKEN_PREFIX"

text \<open>The local module \<open>hex\<close>: every byte as two lower-case hexadecimal digits.\<close>

definition hex_digit :: "nat \<Rightarrow> char" where
  "hex_digit n = (if n < 10 then char_of (48 + n) else char_of (87 + n))"

definition hex_encode :: "string \<Rightarrow> string" where
  "hex_encode bytes =
     concat (map (\<lambda>b. [hex_digit (byte b div 16), hex_digit (byte b mod 16)]) bytes)"

definition hash_token :: "('k, 'z) crypto_scheme \<Rightarrow> string \<Rightarrow> string" where
  "hash_token cr token = hex_encode (sha256 cr token)"

definition verify_token :: "('k, 'z) crypto_scheme \<Rightarrow> string \<Rightarrow> string \<Rightarrow> bool" where
  "verify_token cr token stored_hash = ct_eq cr (hash_token cr token) stored_hash"

section \<open>Hexadecimal digests\<close>

lemma byte_hex_digit:
  "n < 16 \<Longrightarrow> byte (hex_digit n) = (if n < 10 then 48 + n else 87 + n)"
  by (simp add: hex_digit_def)

lemma hex_digit_inj: "n < 16 \<Longrightarrow> m < 16 \<Longrightarrow> hex_digit n = hex_digit m \<longleftrightarrow> n = m"
  by (auto simp: byte_inj [symmetric] byte_hex_digit simp del: byte_inj split: if_splits)

lemma length_hex_encode [simp]: "length (hex_encode bs) = 2 * length bs"
  by (induction bs) (auto simp: hex_encode_def)

lemma hex_encode_Cons:
  "hex_encode (b # bs) = hex_digit (byte b div 16) # hex_digit (byte b mod 16) # hex_encode bs"
  by (simp add: hex_encode_def)

lemma byte_nibbles: "byte a div 16 = byte b div 16 \<Longrightarrow> byte a mod 16 = byte b mod 16 \<Longrightarrow> a = b"
  by (metis byte_inj div_mult_mod_eq)

lemma hex_encode_inj: "hex_encode as = hex_encode bs \<Longrightarrow> as = bs"
proof (induction as arbitrary: bs)
  case Nil
  then show ?case by (cases bs) (simp_all add: hex_encode_Cons, simp add: hex_encode_def)
next
  case (Cons a as)
  then obtain b bs' where bs: "bs = b # bs'" by (cases bs) (auto simp: hex_encode_def)
  have "byte x div 16 < 16" for x
    using byte_less [of x] by linarith
  with Cons.prems bs have "byte a div 16 = byte b div 16" "byte a mod 16 = byte b mod 16"
    and "hex_encode as = hex_encode bs'"
    by (simp_all add: hex_encode_Cons hex_digit_inj)
  with Cons.IH bs byte_nibbles show ?case by blast
qed

definition is_hex_lower :: "char \<Rightarrow> bool" where
  "is_hex_lower c \<longleftrightarrow> (48 \<le> byte c \<and> byte c \<le> 57) \<or> (97 \<le> byte c \<and> byte c \<le> 102)"

lemma is_hex_lower_digit: "n < 16 \<Longrightarrow> is_hex_lower (hex_digit n)"
  by (simp add: is_hex_lower_def byte_hex_digit)

lemma hex_encode_lower: "c \<in> set (hex_encode bs) \<Longrightarrow> is_hex_lower c"
proof (induction bs)
  case (Cons b bs)
  have "byte b div 16 < 16" using byte_less [of b] by linarith
  with Cons show ?case by (auto simp: hex_encode_Cons is_hex_lower_digit)
qed (simp add: hex_encode_def)

section \<open>The contract of a prefixed credential\<close>

locale prefixed_credential =
  fixes pre :: string and validate :: "string \<Rightarrow> bool"
  assumes validate_iff: "validate t \<longleftrightarrow> (\<exists>r. t = pre @ r \<and> r \<noteq> [])"
begin

lemma generated_valid: "r \<noteq> [] \<Longrightarrow> validate (pre @ r)"
  by (simp add: validate_iff)

lemma bare_prefix_invalid: "\<not> validate pre"
  by (simp add: validate_iff)

lemma validate_starts: "validate t \<Longrightarrow> take (length pre) t = pre \<and> length pre < length t"
  by (auto simp: validate_iff)

lemma validate_extend: "validate t \<Longrightarrow> validate (t @ u)"
  by (auto simp: validate_iff)

text \<open>Two credentials whose prefixes differ at a common position never validate together.\<close>

lemma disjoint_prefix:
  assumes "validate t" and "i < length pre" and "i < length q" and "pre ! i \<noteq> q ! i"
  shows "\<not> starts_with t q"
proof
  assume "starts_with t q"
  then obtain r where "t = q @ r" by (auto simp: starts_with_iff)
  with assms show False by (auto simp: validate_iff nth_append dest: arg_cong [where f = "\<lambda>t. t ! i"])
qed

end

lemma starts_with_longer:
  "starts_with t p \<and> length t > length p \<longleftrightarrow> (\<exists>r. t = p @ r \<and> r \<noteq> [])"
  by (auto simp: starts_with_iff)

interpretation node_cred: prefixed_credential TOKEN_PREFIX validate_token_format
  by unfold_locales (auto simp: validate_token_format_def starts_with_longer)

interpretation cmd_cred: prefixed_credential CMD_TOKEN_PREFIX validate_cmd_token_format
  by unfold_locales (auto simp: validate_cmd_token_format_def starts_with_longer)

section \<open>Verification\<close>

lemma verify_token_iff:
  "ct_eq_spec cr \<Longrightarrow> verify_token cr t h \<longleftrightarrow> hash_token cr t = h"
  by (simp add: verify_token_def ct_eq_spec_def)

lemma hash_token_eq_iff: "hash_token cr s = hash_token cr t \<longleftrightarrow> sha256 cr s = sha256 cr t"
  by (auto simp: hash_token_def dest: hex_encode_inj)

lemma length_hash_token: "sha256_length_spec cr \<Longrightarrow> length (hash_token cr t) = 64"
  by (simp add: hash_token_def sha256_length_spec_def)

text \<open>A concrete instance of the parameters, for the witnesses.\<close>

definition sample_crypto :: "string crypto" where
  "sample_crypto =
     \<lparr> sha256 = (\<lambda>m. take 32 (m @ replicate 32 (CHR ''.''))), ct_eq = (=),
       b64_encode = (\<lambda>b. b), b64_decode = Some, hex_decode = Some,
       key_from_bytes = Some, ed_verify = (\<lambda>k m s. s = take 64 (k @ m @ replicate 64 (CHR ''.''))) \<rparr>"

lemma sample_crypto_spec [simp]: "ct_eq_spec sample_crypto" "sha256_length_spec sample_crypto"
  by (auto simp: sample_crypto_def ct_eq_spec_def sha256_length_spec_def min_def)

section \<open>Properties\<close>

text \<open>Generated credentials pass their own format check exactly when the encoder produced
  any text, and no string at all is both a node token and a command token.\<close>

lemma generated_tokens_validate:
  "validate_token_format (generate_token cr bytes) = (b64_encode cr bytes \<noteq> [])
   \<and> validate_cmd_token_format (generate_cmd_token cr bytes) = (b64_encode cr bytes \<noteq> [])
   \<and> \<not> (validate_token_format t \<and> validate_cmd_token_format t)"
proof -
  have "\<not> starts_with t CMD_TOKEN_PREFIX" if "validate_token_format t"
    by (rule node_cred.disjoint_prefix [OF that, of 4]) (simp_all add: TOKEN_PREFIX_def CMD_TOKEN_PREFIX_def)
  then show ?thesis
    by (auto simp: validate_token_format_def validate_cmd_token_format_def generate_token_def
        generate_cmd_token_def)
qed

text \<open>Over a constant-time comparison that decides equality and a digest of 32 bytes, a token
  is accepted against a stored hash exactly when the hash is that of a token with the same digest,
  and every stored hash is 64 lower-case hexadecimal characters.\<close>

theorem verify_token_sound:
  assumes "ct_eq_spec cr" and "sha256_length_spec cr"
  shows "verify_token cr t (hash_token cr u) = (sha256 cr t = sha256 cr u)
    \<and> length (hash_token cr u) = 64 \<and> list_all is_hex_lower (hash_token cr u)"
proof -
  have "list_all is_hex_lower (hash_token cr u)"
    by (simp add: list_all_iff hash_token_def hex_encode_lower)
  with assms show ?thesis by (simp add: verify_token_iff hash_token_eq_iff length_hash_token)
qed

lemma verify_token_sound_witness:
  "verify_token sample_crypto ''nxs_node_a'' (hash_token sample_crypto ''nxs_node_a'')
   \<and> length (hash_token sample_crypto ''nxs_node_a'') = 64"
  using verify_token_sound [of sample_crypto "''nxs_node_a''" "''nxs_node_a''"] by simp

end
