(* ===== verification/File_System.thy ===== *)
theory File_System
  imports Rust_Text "HOL-Library.AList"
begin

text \<open>
  The part of \<open>std::fs\<close> and \<open>std::path\<close> the program uses, over an explicit file system:
  a tree of regular files, directories and symbolic links keyed by absolute paths (component
  lists), and the permission bits the program sets.

  Path resolution follows symbolic links (at most 40, as Linux does). Every system call can
  also fail for a reason outside the tree (permissions, a full disk): an \<open>io_env\<close> says which
  calls fail and how many bytes a failing \<open>write\<close> left behind, and the theorems quantify over
  it. Relative paths are read from the root, the working directory of the systemd units.

  The locale \<open>node_store\<close> is the interface of a store of nodes keyed by locations; it is
  interpreted on the tree of this model.
\<close>

section \<open>Paths\<close>

type_synonym path = "string list"

definition path_of :: "string \<Rightarrow> path" where
  "path_of s = filter (\<lambda>c. c \<noteq> [] \<and> c \<noteq> ''.'') (split_char (CHR ''/'') s)"

definition join_path :: "string \<Rightarrow> string \<Rightarrow> string" where
  "join_path s name = (if s = [] \<or> last s = CHR ''/'' then s @ name else s @ ''/'' @ name)"

definition starts_with_path :: "path \<Rightarrow> path \<Rightarrow> bool" where
  "starts_with_path p q \<longleftrightarrow> take (length q) p = q"

section \<open>The tree\<close>

text \<open>A link holds its target: whether it is absolute, and its components.\<close>

datatype node = File string | Dir | Link bool path

record fs =
  tree :: "(path \<times> node) list"
  modes :: "(path \<times> nat) list"

definition lookup :: "fs \<Rightarrow> path \<Rightarrow> node option" where
  "lookup t p = (if p = [] then Some Dir else map_of (tree t) p)"

definition put_node :: "path \<Rightarrow> node \<Rightarrow> fs \<Rightarrow> fs" where
  "put_node p n t = t\<lparr>tree := AList.update p n (tree t)\<rparr>"

definition del_node :: "path \<Rightarrow> fs \<Rightarrow> fs" where
  "del_node p t = t\<lparr>tree := AList.delete p (tree t)\<rparr>"

locale node_store =
  fixes get :: "'s \<Rightarrow> 'l \<Rightarrow> 'n option"
    and put :: "'l \<Rightarrow> 'n \<Rightarrow> 's \<Rightarrow> 's"
    and del :: "'l \<Rightarrow> 's \<Rightarrow> 's"
    and ok :: "'l \<Rightarrow> bool"
  assumes get_put: "ok l \<Longrightarrow> get (put l n s) k = (if k = l then Some n else get s k)"
    and get_del: "ok l \<Longrightarrow> get (del l s) k = (if k = l then None else get s k)"
begin

lemma get_put_same: "ok l \<Longrightarrow> get (put l n s) l = Some n"
  and get_put_other: "ok l \<Longrightarrow> k \<noteq> l \<Longrightarrow> get (put l n s) k = get s k"
  by (simp_all add: get_put)

text \<open>
  Replacing a node through a temporary location: the destination takes the new node, the
  temporary one is gone, and no other location is touched, whatever was in them before.
\<close>

lemma replace_via_temporary:
  assumes "ok a" and "ok b" and "a \<noteq> b"
  shows "get (put b n (del a (put a n s))) k
    = (if k = b then Some n else if k = a then None else get s k)"
  using assms by (simp add: get_put get_del)

lemma write_then_remove: "ok a \<Longrightarrow> k \<noteq> a \<Longrightarrow> get (del a (put a n s)) k = get s k"
  by (simp add: get_put get_del)

end

interpretation tree_store: node_store lookup put_node del_node "\<lambda>p. p \<noteq> []"
  by unfold_locales
    (simp_all add: lookup_def put_node_def del_node_def update_conv' delete_conv')

lemmas lookup_put = tree_store.get_put and lookup_del = tree_store.get_del

lemma lookup_root [simp]: "lookup t [] = Some Dir"
  by (simp add: lookup_def)

lemma lookup_modes [simp]: "lookup (t\<lparr>modes := m\<rparr>) = lookup t"
  by (simp add: lookup_def fun_eq_iff)

section \<open>Path resolution\<close>

text \<open>
  \<open>walk look n base rest\<close> resolves the components \<open>rest\<close> from the canonical directory
  \<open>base\<close> with \<open>n\<close> links left: the location reached (whose last component need not exist)
  and the links left then.
\<close>

fun walk :: "(path \<Rightarrow> node option) \<Rightarrow> nat \<Rightarrow> path \<Rightarrow> path \<Rightarrow> (path \<times> nat) option" where
  "walk look n base [] = Some (base, n)"
| "walk look n base (c # cs) =
     (if c = ''..'' then walk look n (butlast base) cs
      else case look (base @ [c]) of
        Some Dir \<Rightarrow> walk look n (base @ [c]) cs
      | Some (Link absolute target) \<Rightarrow>
          (case n of 0 \<Rightarrow> None
           | Suc m \<Rightarrow> walk look m (if absolute then [] else base) (target @ cs))
      | _ \<Rightarrow> if cs = [] then Some (base @ [c], n) else None)"

definition MAX_LINKS :: nat where "MAX_LINKS = 40"

definition locate :: "fs \<Rightarrow> path \<Rightarrow> path option" where
  "locate t p = map_option fst (walk (lookup t) MAX_LINKS [] p)"

definition canonicalize :: "fs \<Rightarrow> path \<Rightarrow> path option" where
  "canonicalize t p = (case locate t p of
     Some q \<Rightarrow> if lookup t q \<noteq> None then Some q else None
   | None \<Rightarrow> None)"

definition exists :: "fs \<Rightarrow> path \<Rightarrow> bool" where
  "exists t p \<longleftrightarrow> canonicalize t p \<noteq> None"

definition node_at :: "fs \<Rightarrow> path \<Rightarrow> node option" where
  "node_at t p = Option.bind (canonicalize t p) (lookup t)"

definition is_dir :: "fs \<Rightarrow> path \<Rightarrow> bool" where
  "is_dir t p \<longleftrightarrow> node_at t p = Some Dir"

definition is_file :: "fs \<Rightarrow> path \<Rightarrow> bool" where
  "is_file t p \<longleftrightarrow> (case node_at t p of Some (File _) \<Rightarrow> True | _ \<Rightarrow> False)"

section \<open>System calls\<close>

datatype io_error = Not_Found | Is_A_Directory | Not_A_Directory | File_Exists | Invalid_Utf8
  | Permission_Denied | Other_Error string

fun io_display :: "io_error \<Rightarrow> string" where
  "io_display Not_Found = ''No such file or directory (os error 2)''"
| "io_display Is_A_Directory = ''Is a directory (os error 21)''"
| "io_display Not_A_Directory = ''Not a directory (os error 20)''"
| "io_display File_Exists = ''File exists (os error 17)''"
| "io_display Invalid_Utf8 = ''stream did not contain valid UTF-8''"
| "io_display Permission_Denied = ''Permission denied (os error 13)''"
| "io_display (Other_Error s) = s"

datatype fs_op = Op_create_dir_all path | Op_write path | Op_rename path path
  | Op_remove path | Op_chmod path nat | Op_read path

text \<open>
  The environment of a call: \<open>fault\<close> gives the error of a call that fails for reasons outside
  the tree, \<open>torn\<close> how much a failing write had already written (\<open>None\<close>: the file was not
  even opened).
\<close>

record io_env =
  fault :: "fs_op \<Rightarrow> io_error option"
  torn :: "path \<Rightarrow> nat option"

definition no_faults :: io_env where
  "no_faults = \<lparr>fault = (\<lambda>_. None), torn = (\<lambda>_. None)\<rparr>"

definition read_bytes :: "io_env \<Rightarrow> fs \<Rightarrow> path \<Rightarrow> io_error + string" where
  "read_bytes env t p = (case fault env (Op_read p) of
     Some e \<Rightarrow> Inl e
   | None \<Rightarrow> (case node_at t p of
       Some (File c) \<Rightarrow> Inr c
     | Some _ \<Rightarrow> Inl Is_A_Directory
     | None \<Rightarrow> Inl Not_Found))"

definition read_to_string :: "io_env \<Rightarrow> fs \<Rightarrow> path \<Rightarrow> io_error + string" where
  "read_to_string env t p =
     res_bind (read_bytes env t p) (\<lambda>c. if valid_utf8 c then Inr c else Inl Invalid_Utf8)"

text \<open>\<open>std::fs::write\<close>: open (following links) with truncation, then write all bytes.\<close>

definition write_file :: "io_env \<Rightarrow> path \<Rightarrow> string \<Rightarrow> fs \<Rightarrow> (io_error + unit) \<times> fs" where
  "write_file env p content t = (case locate t p of
     None \<Rightarrow> (Inl Not_Found, t)
   | Some q \<Rightarrow>
       if lookup t q = Some Dir then (Inl Is_A_Directory, t)
       else (case fault env (Op_write p) of
         None \<Rightarrow> (Inr (), put_node q (File content) t)
       | Some e \<Rightarrow> (Inl e, case torn env p of
           None \<Rightarrow> t | Some n \<Rightarrow> put_node q (File (take n content)) t)))"

text \<open>The entry a path names without following a link in its last component.\<close>

definition entry :: "fs \<Rightarrow> path \<Rightarrow> path option" where
  "entry t p = (if p = [] then None else
     (case canonicalize t (butlast p) of
        Some d \<Rightarrow> if lookup t d = Some Dir then Some (d @ [last p]) else None
      | None \<Rightarrow> None))"

text \<open>\<open>std::fs::rename\<close> of a file or link (the program renames no directories).\<close>

definition rename_file :: "io_env \<Rightarrow> path \<Rightarrow> path \<Rightarrow> fs \<Rightarrow> (io_error + unit) \<times> fs" where
  "rename_file env p q t = (case fault env (Op_rename p q) of
     Some e \<Rightarrow> (Inl e, t)
   | None \<Rightarrow> (case (entry t p, entry t q) of
       (Some a, Some b) \<Rightarrow>
         (case lookup t a of
            None \<Rightarrow> (Inl Not_Found, t)
          | Some n \<Rightarrow>
              if n = Dir \<or> lookup t b = Some Dir then (Inl Is_A_Directory, t)
              else (Inr (), put_node b n (del_node a t)))
     | _ \<Rightarrow> (Inl Not_Found, t)))"

definition remove_file :: "io_env \<Rightarrow> path \<Rightarrow> fs \<Rightarrow> (io_error + unit) \<times> fs" where
  "remove_file env p t = (case fault env (Op_remove p) of
     Some e \<Rightarrow> (Inl e, t)
   | None \<Rightarrow> (case entry t p of
       None \<Rightarrow> (Inl Not_Found, t)
     | Some a \<Rightarrow>
         (case lookup t a of
            None \<Rightarrow> (Inl Not_Found, t)
          | Some Dir \<Rightarrow> (Inl Is_A_Directory, t)
          | Some _ \<Rightarrow> (Inr (), del_node a t))))"

text \<open>\<open>create_dir_all\<close>: every missing directory from the top down.\<close>

fun make_dirs :: "fs \<Rightarrow> path \<Rightarrow> path \<Rightarrow> (io_error + unit) \<times> fs" where
  "make_dirs t done [] = (Inr (), t)"
| "make_dirs t done (c # cs) =
     (if is_dir t (done @ [c]) then make_dirs t (done @ [c]) cs
      else case entry t (done @ [c]) of
        None \<Rightarrow> (Inl Not_A_Directory, t)
      | Some a \<Rightarrow>
          if lookup t a = None then make_dirs (put_node a Dir t) (done @ [c]) cs
          else (Inl File_Exists, t))"

definition create_dir_all :: "io_env \<Rightarrow> path \<Rightarrow> fs \<Rightarrow> (io_error + unit) \<times> fs" where
  "create_dir_all env p t = (case fault env (Op_create_dir_all p) of
     Some e \<Rightarrow> (Inl e, t)
   | None \<Rightarrow> make_dirs t [] p)"

definition set_permissions :: "io_env \<Rightarrow> path \<Rightarrow> nat \<Rightarrow> fs \<Rightarrow> (io_error + unit) \<times> fs" where
  "set_permissions env p m t = (case fault env (Op_chmod p m) of
     Some e \<Rightarrow> (Inl e, t)
   | None \<Rightarrow> (case canonicalize t p of
       None \<Rightarrow> (Inl Not_Found, t)
     | Some q \<Rightarrow> (Inr (), t\<lparr>modes := AList.update q m (modes t)\<rparr>)))"

definition mode_of :: "fs \<Rightarrow> path \<Rightarrow> nat option" where
  "mode_of t p = Option.bind (canonicalize t p) (map_of (modes t))"

text \<open>\<open>read_dir\<close>: the names in a directory, in the order the tree holds them.\<close>

definition read_dir :: "fs \<Rightarrow> path \<Rightarrow> string list option" where
  "read_dir t p = (case canonicalize t p of
     Some q \<Rightarrow> if lookup t q = Some Dir
       then Some (map last (filter (\<lambda>k. k \<noteq> [] \<and> butlast k = q) (map fst (tree t))))
       else None
   | None \<Rightarrow> None)"

text \<open>\<open>std::fs::remove_dir\<close>: an empty directory only.\<close>

definition remove_dir :: "io_env \<Rightarrow> path \<Rightarrow> fs \<Rightarrow> (io_error + unit) \<times> fs" where
  "remove_dir env p t = (case fault env (Op_remove p) of
     Some e \<Rightarrow> (Inl e, t)
   | None \<Rightarrow> (case entry t p of
       None \<Rightarrow> (Inl Not_Found, t)
     | Some a \<Rightarrow> (case lookup t a of
         None \<Rightarrow> (Inl Not_Found, t)
       | Some Dir \<Rightarrow>
           if list_ex (\<lambda>k. k \<noteq> [] \<and> butlast k = a) (map fst (tree t))
           then (Inl (Other_Error ''Directory not empty (os error 39)''), t)
           else (Inr (), del_node a t)
       | Some _ \<Rightarrow> (Inl Not_A_Directory, t))))"

text \<open>\<open>remove_dir_all\<close>: a link is unlinked; a failure leaves the nodes \<open>kept\<close>.\<close>

definition prune :: "path \<Rightarrow> (path \<Rightarrow> bool) \<Rightarrow> fs \<Rightarrow> fs" where
  "prune a kept t = t\<lparr>tree := filter (\<lambda>(k, _). \<not> starts_with_path k a \<or> kept k) (tree t)\<rparr>"

definition remove_dir_all :: "io_env \<Rightarrow> (path \<Rightarrow> bool) \<Rightarrow> path \<Rightarrow> fs \<Rightarrow> (io_error + unit) \<times> fs" where
  "remove_dir_all env kept p t = (case entry t p of
     None \<Rightarrow> (Inl Not_Found, t)
   | Some a \<Rightarrow> (case lookup t a of
       None \<Rightarrow> (Inl Not_Found, t)
     | Some (File _) \<Rightarrow> (Inl Not_A_Directory, t)
     | Some (Link _ _) \<Rightarrow> (case fault env (Op_remove p) of
         Some e \<Rightarrow> (Inl e, t) | None \<Rightarrow> (Inr (), del_node a t))
     | Some Dir \<Rightarrow> (case fault env (Op_remove p) of
         Some e \<Rightarrow> (Inl e, prune a kept t) | None \<Rightarrow> (Inr (), prune a (\<lambda>_. False) t))))"

end
