(* ===== verification/File_Laws.thy ===== *)
theory File_Laws
  imports File_System
begin

text \<open>
  Laws of the file-system model: well-formedness of the tree and its preservation by every
  system call, stability of path resolution under writes to regular files, and what a
  write-then-rename leaves behind.
\<close>

section \<open>Well-formed trees\<close>

text \<open>Every node sits in a directory.\<close>

definition look_wf :: "(path \<Rightarrow> node option) \<Rightarrow> bool" where
  "look_wf look \<longleftrightarrow> look [] = Some Dir \<and>
     (\<forall>p. p \<noteq> [] \<longrightarrow> look p \<noteq> None \<longrightarrow> look (butlast p) = Some Dir)"

definition fs_wf :: "fs \<Rightarrow> bool" where
  "fs_wf t \<longleftrightarrow> look_wf (lookup t)"

definition parent_dir :: "(path \<Rightarrow> node option) \<Rightarrow> path \<Rightarrow> bool" where
  "parent_dir look p \<longleftrightarrow> p = [] \<or> look (butlast p) = Some Dir"

lemma look_wf_parent: "look_wf look \<Longrightarrow> look p \<noteq> None \<Longrightarrow> parent_dir look p"
  by (auto simp: look_wf_def parent_dir_def)

lemma walk_parent_dir:
  "walk look n base cs = Some (q, m) \<Longrightarrow> look_wf look \<Longrightarrow> look base = Some Dir \<Longrightarrow>
   parent_dir look q"
proof (induction look n base cs arbitrary: q m rule: walk.induct)
  case (1 look n base)
  then show ?case by (simp add: look_wf_parent)
next
  case (2 look n base c cs)
  show ?case
  proof (cases "c = ''..''")
    case True
    have "look (butlast base) = Some Dir"
      using "2.prems" by (cases "base = []") (auto simp: look_wf_def)
    with True 2 show ?thesis by simp
  next
    case False
    show ?thesis
    proof (cases "look (base @ [c])")
      case None
      with False 2 show ?thesis by (auto simp: parent_dir_def split: if_splits)
    next
      case (Some x)
      with False 2 show ?thesis
        by (cases x; cases n) (auto simp: parent_dir_def look_wf_def split: if_splits)
    qed
  qed
qed

lemma locate_parent_dir: "locate t p = Some q \<Longrightarrow> fs_wf t \<Longrightarrow> parent_dir (lookup t) q"
  by (auto simp: locate_def fs_wf_def intro: walk_parent_dir)

section \<open>Resolution does not depend on regular files\<close>

definition regular :: "node option \<Rightarrow> bool" where
  "regular x \<longleftrightarrow> (case x of None \<Rightarrow> True | Some (File _) \<Rightarrow> True | _ \<Rightarrow> False)"

lemma regular_simps [simp]:
  "regular None" "regular (Some (File c))" "\<not> regular (Some Dir)" "\<not> regular (Some (Link b p))"
  by (simp_all add: regular_def)

definition same_shape :: "(path \<Rightarrow> node option) \<Rightarrow> (path \<Rightarrow> node option) \<Rightarrow> bool" where
  "same_shape f g \<longleftrightarrow> (\<forall>p. f p = g p \<or> regular (f p) \<and> regular (g p))"

lemma same_shape_refl [simp]: "same_shape f f"
  by (simp add: same_shape_def)

lemma same_shape_trans: "same_shape f g \<Longrightarrow> same_shape g h \<Longrightarrow> same_shape f h"
  unfolding same_shape_def by metis

lemma walk_same_shape:
  "same_shape f g \<Longrightarrow> walk f n base cs = walk g n base cs"
proof (induction f n base cs rule: walk.induct)
  case (2 f n base c cs)
  from "2.prems" have "f (base @ [c]) = g (base @ [c]) \<or>
      regular (f (base @ [c])) \<and> regular (g (base @ [c]))"
    by (simp add: same_shape_def)
  then show ?case
  proof
    assume "f (base @ [c]) = g (base @ [c])"
    with 2 show ?thesis by (auto split: option.split node.split nat.split)
  next
    assume "regular (f (base @ [c])) \<and> regular (g (base @ [c]))"
    with 2 show ?thesis by (auto simp: regular_def split: option.splits node.splits)
  qed
qed simp

lemma same_shape_locate: "same_shape (lookup s) (lookup t) \<Longrightarrow> locate s p = locate t p"
  by (simp add: locate_def walk_same_shape)

lemma same_shape_put:
  "a \<noteq> [] \<Longrightarrow> regular (lookup t a) \<Longrightarrow> same_shape (lookup t) (lookup (put_node a (File c) t))"
  by (auto simp: same_shape_def lookup_put)

lemma same_shape_del:
  "a \<noteq> [] \<Longrightarrow> regular (lookup t a) \<Longrightarrow> same_shape (lookup t) (lookup (del_node a t))"
  by (auto simp: same_shape_def lookup_del)

text \<open>Directories are neither created nor removed between two trees of the same shape.\<close>

lemma same_shape_dir:
  "same_shape (lookup s) (lookup t) \<Longrightarrow> lookup s d = Some Dir \<longleftrightarrow> lookup t d = Some Dir"
  unfolding same_shape_def by (metis regular_simps(3))

lemma same_shape_canonical_dir:
  assumes "same_shape (lookup s) (lookup t)"
  shows "canonicalize s p = Some d \<and> lookup s d = Some Dir \<longleftrightarrow>
    canonicalize t p = Some d \<and> lookup t d = Some Dir"
  using same_shape_locate [OF assms, of p] same_shape_dir [OF assms, of d]
  by (auto simp: canonicalize_def split: option.splits if_splits)

lemma entry_Some:
  "entry t p = Some a \<longleftrightarrow> p \<noteq> [] \<and>
     (\<exists>d. (canonicalize t (butlast p) = Some d \<and> lookup t d = Some Dir) \<and> a = d @ [last p])"
  by (auto simp: entry_def split: option.splits)

lemma same_shape_entry:
  assumes "same_shape (lookup s) (lookup t)"
  shows "entry s p = entry t p"
  by (rule option_eqI) (simp only: entry_Some same_shape_canonical_dir [OF assms])

section \<open>Entries of a directory\<close>

lemma walk_snoc:
  "look_wf look \<Longrightarrow> look base = Some Dir \<Longrightarrow> c \<noteq> ''..'' \<Longrightarrow>
   walk look n base (cs @ [c]) =
     (case walk look n base cs of
        Some (d, m) \<Rightarrow> if look d = Some Dir then walk look m d [c] else None
      | None \<Rightarrow> None)"
proof (induction look n base cs rule: walk.induct)
  case (1 look n base)
  then show ?case by simp
next
  case (2 look n base x cs)
  show ?case
  proof (cases "x = ''..''")
    case True
    have "look (butlast base) = Some Dir"
      using "2.prems" by (cases "base = []") (auto simp: look_wf_def)
    with True 2 show ?thesis by (simp del: walk.simps(2)) (simp add: walk.simps(2))
  next
    case False
    show ?thesis
    proof (cases "look (base @ [x])")
      case None
      with False show ?thesis by simp
    next
      case (Some v)
      show ?thesis
      proof (cases v)
        case (File y)
        with Some False show ?thesis by simp
      next
        case Dir
        with Some False "2.IH"(2) "2.prems" show ?thesis by simp
      next
        case (Link b tgt)
        show ?thesis
        proof (cases n)
          case 0
          with Link Some False show ?thesis by simp
        next
          case (Suc m)
          have "look (if b then [] else base) = Some Dir"
            using "2.prems" by (simp add: look_wf_def)
          with "2.IH"(3) [OF False Some Link Suc] "2.prems"
          have "walk look m (if b then [] else base) ((tgt @ cs) @ [c]) =
            (case walk look m (if b then [] else base) (tgt @ cs) of
              Some (d, k) \<Rightarrow> if look d = Some Dir then walk look k d [c] else None
            | None \<Rightarrow> None)" by blast
          with Link Some False Suc show ?thesis by simp
        qed
      qed
    qed
  qed
qed

lemma locate_entry:
  assumes "fs_wf t" and "c \<noteq> ''..''" and "entry t (p @ [c]) = Some a"
    and "regular (lookup t a)"
  shows "locate t (p @ [c]) = Some a"
proof -
  from assms(3) obtain d where d: "canonicalize t p = Some d" "lookup t d = Some Dir" "a = d @ [c]"
    by (auto simp: entry_def split: option.splits if_splits)
  then obtain m where "walk (lookup t) MAX_LINKS [] p = Some (d, m)"
    by (auto simp: canonicalize_def locate_def split: option.splits if_splits)
  with d assms show ?thesis
    by (auto simp: locate_def walk_snoc fs_wf_def regular_def split: option.splits node.splits)
qed

lemma node_at_entry:
  assumes "fs_wf t" and "c \<noteq> ''..''" and "entry t (p @ [c]) = Some a"
    and "regular (lookup t a)"
  shows "node_at t (p @ [c]) = lookup t a"
  using locate_entry [OF assms]
  by (cases "lookup t a") (simp_all add: node_at_def canonicalize_def)

lemma entry_ne: "entry t p = Some a \<Longrightarrow> a \<noteq> []"
  by (auto simp: entry_def split: option.splits if_splits)

lemma entry_inj:
  "entry t (p @ [x]) = Some a \<Longrightarrow> entry t (p @ [y]) = Some b \<Longrightarrow> x \<noteq> y \<Longrightarrow> a \<noteq> b"
  by (auto simp: entry_def split: option.splits if_splits)

lemma entry_sibling:
  "entry t (p @ [x]) = Some a \<Longrightarrow> \<exists>b. entry t (p @ [y]) = Some b"
  by (auto simp: entry_def split: option.splits if_splits)

lemma entry_parent: "entry t p = Some a \<Longrightarrow> lookup t (butlast a) = Some Dir"
  by (auto simp: entry_def split: option.splits if_splits)

section \<open>Every system call keeps the tree well-formed\<close>

lemma fs_wf_put:
  assumes "fs_wf t" and "a \<noteq> []" and "lookup t (butlast a) = Some Dir" and "lookup t a \<noteq> Some Dir"
  shows "fs_wf (put_node a n t)"
proof -
  have "butlast a \<noteq> a" using assms(2) by (metis append_butlast_last_id append_self_conv not_Cons_self2)
  with assms show ?thesis by (auto simp: fs_wf_def look_wf_def lookup_put)
qed

lemma fs_wf_del:
  "fs_wf t \<Longrightarrow> a \<noteq> [] \<Longrightarrow> lookup t a \<noteq> Some Dir \<Longrightarrow> fs_wf (del_node a t)"
  by (auto simp: fs_wf_def look_wf_def lookup_del)

lemma locate_writable:
  assumes "locate t p = Some q" and "fs_wf t" and "lookup t q \<noteq> Some Dir"
  shows "q \<noteq> [] \<and> lookup t (butlast q) = Some Dir"
  using locate_parent_dir [OF assms(1,2)] assms(3) by (auto simp: parent_dir_def)

lemma write_file_wf:
  assumes "fs_wf t"
  shows "fs_wf (snd (write_file env p c t))"
proof (cases "locate t p")
  case None
  with assms show ?thesis by (simp add: write_file_def)
next
  case (Some q)
  show ?thesis
  proof (cases "lookup t q = Some Dir")
    case True
    with Some assms show ?thesis by (simp add: write_file_def)
  next
    case False
    with locate_writable [OF Some assms False] assms have "fs_wf (put_node q (File d) t)" for d
      by (intro fs_wf_put) auto
    with Some False assms show ?thesis by (simp add: write_file_def split: option.split)
  qed
qed

lemma rename_file_wf:
  assumes "fs_wf t"
  shows "fs_wf (snd (rename_file env p q t))"
proof (cases "fault env (Op_rename p q) = None \<and> (\<exists>a b n. entry t p = Some a \<and> entry t q = Some b \<and>
    lookup t a = Some n \<and> n \<noteq> Dir \<and> lookup t b \<noteq> Some Dir)")
  case True
  then obtain a b n where e: "entry t p = Some a" "entry t q = Some b" "lookup t a = Some n"
    "n \<noteq> Dir" "lookup t b \<noteq> Some Dir" by blast
  from entry_ne [OF e(1)] entry_ne [OF e(2)] have ne: "a \<noteq> []" "b \<noteq> []" by auto
  from assms ne e have "fs_wf (del_node a t)" by (intro fs_wf_del) auto
  moreover have "lookup (del_node a t) (butlast b) = Some Dir"
    using entry_parent [OF e(2)] e ne by (auto simp: lookup_del)
  ultimately have "fs_wf (put_node b n (del_node a t))"
    using ne e by (intro fs_wf_put) (auto simp: lookup_del)
  with True e show ?thesis by (simp add: rename_file_def)
next
  case False
  then have "snd (rename_file env p q t) = t"
    by (auto simp: rename_file_def split: option.split)
  with assms show ?thesis by simp
qed

lemma remove_file_wf: "fs_wf t \<Longrightarrow> fs_wf (snd (remove_file env p t))"
  by (auto simp: remove_file_def intro!: fs_wf_del dest: entry_ne split: option.splits node.splits)

lemma make_dirs_wf: "fs_wf t \<Longrightarrow> fs_wf (snd (make_dirs t d cs))"
proof (induction t d cs rule: make_dirs.induct)
  case (2 t d c cs)
  have "fs_wf (put_node a Dir t)" if "entry t (d @ [c]) = Some a" "lookup t a = None" for a
    using that "2.prems" entry_ne [OF that(1)] entry_parent [OF that(1)] by (intro fs_wf_put) auto
  with 2 show ?case by (auto split: option.split)
qed simp

lemma create_dir_all_wf: "fs_wf t \<Longrightarrow> fs_wf (snd (create_dir_all env p t))"
  by (auto simp: create_dir_all_def make_dirs_wf split: option.split)

lemma set_permissions_wf: "fs_wf t \<Longrightarrow> fs_wf (snd (set_permissions env p m t))"
  by (auto simp: set_permissions_def fs_wf_def split: option.split)

lemmas fs_op_wf = write_file_wf rename_file_wf remove_file_wf create_dir_all_wf set_permissions_wf

section \<open>Write, then rename\<close>

lemma write_file_entry:
  assumes "fs_wf t" and "c \<noteq> ''..''" and "entry t (p @ [c]) = Some a" and "regular (lookup t a)"
  shows "write_file env (p @ [c]) content t = (case fault env (Op_write (p @ [c])) of
      None \<Rightarrow> (Inr (), put_node a (File content) t)
    | Some e \<Rightarrow> (Inl e, case torn env (p @ [c]) of
        None \<Rightarrow> t | Some n \<Rightarrow> put_node a (File (take n content)) t))"
proof -
  have "lookup t a \<noteq> Some Dir" using assms(4) by auto
  with locate_entry [OF assms] show ?thesis by (simp add: write_file_def)
qed

text \<open>Whatever a write to a regular entry does, it touches that entry alone.\<close>

lemma write_file_frame:
  assumes "fs_wf t" and "c \<noteq> ''..''" and "entry t (p @ [c]) = Some a" and "regular (lookup t a)"
    and "write_file env (p @ [c]) content t = (r, t')"
  shows "(\<forall>k. k \<noteq> a \<longrightarrow> lookup t' k = lookup t k) \<and> same_shape (lookup t) (lookup t')
    \<and> regular (lookup t' a)"
  using assms(5) entry_ne [OF assms(3)] assms(4)
  by (auto simp: write_file_entry [OF assms(1-4)] lookup_put same_shape_put split: option.splits)

lemma rename_file_frame:
  assumes "rename_file env p q t = (r, t')" and "entry t p = Some a" and "entry t q = Some b"
    and "regular (lookup t a)" and "regular (lookup t b)" and "a \<noteq> b"
  shows "case r of Inl _ \<Rightarrow> t' = t
    | Inr _ \<Rightarrow> (\<forall>k. lookup t' k = (if k = b then lookup t a else if k = a then None else lookup t k))
        \<and> lookup t a \<noteq> None \<and> same_shape (lookup t) (lookup t')"
proof (cases r)
  case (Inl e)
  with assms show ?thesis by (auto simp: rename_file_def split: option.splits if_splits)
next
  case (Inr u)
  with assms obtain n where n: "lookup t a = Some n" "n \<noteq> Dir" "t' = put_node b n (del_node a t)"
    by (auto simp: rename_file_def split: option.splits if_splits)
  have ne: "a \<noteq> []" "b \<noteq> []" using entry_ne assms by blast+
  from n assms(4) obtain c where "n = File c" by (cases n) auto
  then have "same_shape (lookup t) (lookup t')"
    using assms ne n by (auto simp: same_shape_def lookup_put lookup_del)
  with Inr n ne show ?thesis by (auto simp: lookup_put lookup_del)
qed

lemma remove_file_frame:
  assumes "remove_file env p t = (r, t')" and "entry t p = Some a" and "regular (lookup t a)"
  shows "(\<forall>k. k \<noteq> a \<longrightarrow> lookup t' k = lookup t k) \<and> same_shape (lookup t) (lookup t')"
  using assms entry_ne [OF assms(2)]
  by (auto simp: remove_file_def lookup_del same_shape_del split: option.splits node.splits)

section \<open>Reading back what was written\<close>

text \<open>Resolution follows links to the end: the location it reaches is never a link.\<close>

lemma walk_no_link:
  "walk look n base cs = Some (q, m) \<Longrightarrow> look_wf look \<Longrightarrow> look base = Some Dir \<Longrightarrow>
   look q = Some Dir \<or> regular (look q)"
proof (induction look n base cs arbitrary: q m rule: walk.induct)
  case (2 look n base c cs)
  show ?case
  proof (cases "c = ''..''")
    case True
    have "look (butlast base) = Some Dir"
      using "2.prems" by (cases "base = []") (auto simp: look_wf_def)
    with True 2 show ?thesis by simp
  next
    case False
    show ?thesis
    proof (cases "look (base @ [c])")
      case None
      with False 2 show ?thesis by (auto split: if_splits)
    next
      case (Some x)
      with False 2 show ?thesis
        by (cases x; cases n) (auto simp: look_wf_def split: if_splits)
    qed
  qed
qed simp

lemma locate_no_link:
  "locate t p = Some q \<Longrightarrow> fs_wf t \<Longrightarrow> lookup t q \<noteq> Some Dir \<Longrightarrow> regular (lookup t q)"
  by (auto simp: locate_def fs_wf_def dest: walk_no_link)

lemma write_file_Inr:
  "write_file env p c t = (Inr u, t') \<longleftrightarrow>
     fault env (Op_write p) = None \<and>
     (\<exists>q. locate t p = Some q \<and> lookup t q \<noteq> Some Dir \<and> t' = put_node q (File c) t)"
  by (auto simp: write_file_def split: option.split if_splits)

theorem write_then_node_at:
  assumes "fs_wf t" and "write_file env p c t = (Inr u, t')"
  shows "node_at t' p = Some (File c)"
proof -
  from assms(2) obtain q where q: "locate t p = Some q" "lookup t q \<noteq> Some Dir"
    and t': "t' = put_node q (File c) t" by (auto simp: write_file_Inr)
  from locate_writable [OF q(1) assms(1) q(2)] have ne: "q \<noteq> []" by blast
  from locate_no_link [OF q(1) assms(1) q(2)] ne have "same_shape (lookup t) (lookup t')"
    by (simp add: t' same_shape_put)
  then have "locate t' p = Some q" using q by (simp flip: same_shape_locate)
  with ne show ?thesis by (simp add: node_at_def canonicalize_def t' lookup_put)
qed

lemma same_lookup_node_at: "lookup s = lookup t \<Longrightarrow> node_at s p = node_at t p"
  and same_lookup_canonicalize: "lookup s = lookup t \<Longrightarrow> canonicalize s p = canonicalize t p"
  by (simp_all add: node_at_def canonicalize_def locate_def cong: option.case_cong)

lemma set_permissions_lookup: "lookup (snd (set_permissions env p m t)) = lookup t"
  by (simp add: set_permissions_def split: option.split)

lemma set_permissions_mode:
  "set_permissions env p m t = (Inr u, t') \<Longrightarrow> mode_of t' p = Some m"
  by (auto simp: set_permissions_def mode_of_def canonicalize_def locate_def update_conv'
      split: option.splits if_splits)

text \<open>Well-formedness of a concrete tree, by evaluation.\<close>

lemma fs_wf_check:
  assumes "list_all (\<lambda>p. p = [] \<or> lookup t (butlast p) = Some Dir) (map fst (tree t))"
  shows "fs_wf t"
proof -
  have "lookup t (butlast p) = Some Dir" if "p \<noteq> []" "lookup t p \<noteq> None" for p
  proof -
    from that obtain n where "(p, n) \<in> set (tree t)" by (auto simp: lookup_def dest: map_of_SomeD)
    with that assms show ?thesis by (auto simp: list_all_iff)
  qed
  then show ?thesis by (simp add: fs_wf_def look_wf_def)
qed

end
