(* ===== verification/Core_Config.thy ===== *)
theory Core_Config
  imports Core_Token File_Laws
begin

text \<open>
  \<open>crates/nexus-link-core/src/config.rs\<close>: the configuration record with its defaults, where
  it is looked for, loading with migration of the legacy layout, saving with its permission
  bits, and the two accessors of the effective tokens.

  The TOML library is a parameter: \<open>toml_from\<close> and \<open>toml_to\<close> of a \<open>toml\<close> record, with the
  documented round trip \<open>toml_spec\<close>. Environment variables are a function \<open>vars\<close>.
\<close>

section \<open>The records\<close>

definition SYSTEM_CONFIG_DIR :: string where "SYSTEM_CONFIG_DIR = ''/etc/nexus-link''"
definition SYSTEM_STATE_DIR :: string where "SYSTEM_STATE_DIR = ''/var/lib/nexus-link''"
definition SERVICE_USER :: string where "SERVICE_USER = ''nexus-link''"
definition SERVICE_GROUP :: string where "SERVICE_GROUP = ''nexus-link''"

record token_entry =
  te_token :: string
  te_scope :: string

record api_tokens =
  telemetry :: "token_entry option"
  command :: "token_entry option"

record api_config =
  base_url :: string
  database_url :: "string option"
  tokens :: api_tokens
  push_interval_secs :: "u64 option"

record agent_config =
  push_sec :: u64
  poll_sec :: u64

record node_config =
  node_id :: string
  node_name :: string
  node_tok :: string
  node_tags :: "string list"

record compose_config =
  compose_dir :: string
  extra_extensions :: "string list"
  compose_cmd_token :: "string option"
  signing_public_key :: "string option"
  require_signatures :: bool

record service_config =
  listen_addr :: string
  port :: u16

record config =
  node :: node_config
  api :: api_config
  agent :: agent_config
  service :: service_config
  compose :: compose_config

section \<open>Defaults\<close>

definition default_push_sec :: u64 where "default_push_sec = 6"
definition default_poll_sec :: u64 where "default_poll_sec = 2"
definition default_listen_addr :: string where "default_listen_addr = ''127.0.0.1''"
definition default_listen_port :: u16 where "default_listen_port = 8443"
definition default_compose_dir :: string where "default_compose_dir = ''/opt/dgx-llm''"

definition default_compose_extra_extensions :: "string list" where
  "default_compose_extra_extensions = [''.env'', ''.conf'', ''.toml'']"

definition default_agent_config :: agent_config where
  "default_agent_config = \<lparr>push_sec = default_push_sec, poll_sec = default_poll_sec\<rparr>"

definition default_service_config :: service_config where
  "default_service_config = \<lparr>listen_addr = default_listen_addr, port = default_listen_port\<rparr>"

definition default_compose_config :: compose_config where
  "default_compose_config =
     \<lparr>compose_dir = default_compose_dir, extra_extensions = default_compose_extra_extensions,
      compose_cmd_token = None, signing_public_key = None, require_signatures = False\<rparr>"

section \<open>Where the configuration lives\<close>

type_synonym env_vars = "string \<Rightarrow> string option"

definition dirs_home :: "env_vars \<Rightarrow> string" where
  "dirs_home vars =
     join_path (case vars ''HOME'' of Some h \<Rightarrow> h | None \<Rightarrow> ''/root'') ''.nexus-link''"

definition default_config_path :: "env_vars \<Rightarrow> string" where
  "default_config_path vars = join_path (dirs_home vars) ''config.toml''"

definition system_config_path :: string where
  "system_config_path = join_path SYSTEM_CONFIG_DIR ''config.toml''"

definition effective_config_path :: "env_vars \<Rightarrow> fs \<Rightarrow> string" where
  "effective_config_path vars t = (case vars ''NEXUS_LINK_CONFIG'' of
     Some p \<Rightarrow> p
   | None \<Rightarrow>
       let system_path = system_config_path in
       if exists t (path_of system_path) then system_path
       else let legacy_system = join_path SYSTEM_STATE_DIR ''config.toml'' in
         if exists t (path_of legacy_system) then legacy_system
         else default_config_path vars)"

section \<open>Migration and the effective tokens\<close>

text \<open>The three migration steps, in the order \<open>migrate_legacy_fields\<close> takes them.\<close>

definition migrate_interval :: "config \<Rightarrow> config" where
  "migrate_interval c =
     (let c' = c\<lparr>api := (api c)\<lparr>push_interval_secs := None\<rparr>\<rparr> in
      case push_interval_secs (api c) of
        Some old_interval \<Rightarrow>
          if push_sec (agent c) = default_push_sec
          then c'\<lparr>agent := (agent c')\<lparr>push_sec := old_interval\<rparr>\<rparr> else c'
      | None \<Rightarrow> c')"

definition migrate_telemetry :: "config \<Rightarrow> config" where
  "migrate_telemetry c =
     (if telemetry (tokens (api c)) = None \<and> node_tok (node c) \<noteq> []
      then c\<lparr>api := (api c)\<lparr>tokens := (tokens (api c))\<lparr>telemetry :=
             Some \<lparr>te_token = node_tok (node c), te_scope = ''read''\<rparr>\<rparr>\<rparr>\<rparr>
      else c)"

definition migrate_command :: "config \<Rightarrow> config" where
  "migrate_command c =
     (case (command (tokens (api c)), compose_cmd_token (compose c)) of
        (None, Some cmd) \<Rightarrow>
          c\<lparr>api := (api c)\<lparr>tokens := (tokens (api c))\<lparr>command :=
             Some \<lparr>te_token = cmd, te_scope = ''read_write''\<rparr>\<rparr>\<rparr>\<rparr>
      | _ \<Rightarrow> c)"

definition migrate_legacy_fields :: "config \<Rightarrow> config" where
  "migrate_legacy_fields c = migrate_command (migrate_telemetry (migrate_interval c))"

definition node_token :: "config \<Rightarrow> string" where
  "node_token c = (case telemetry (tokens (api c)) of
     Some t \<Rightarrow> te_token t | None \<Rightarrow> node_tok (node c))"

definition cmd_token :: "config \<Rightarrow> string option" where
  "cmd_token c = (case command (tokens (api c)) of
     Some t \<Rightarrow> Some (te_token t) | None \<Rightarrow> compose_cmd_token (compose c))"

section \<open>Loading and saving\<close>

record toml =
  toml_from :: "string \<Rightarrow> string + config"
  toml_to :: "config \<Rightarrow> string + string"

text \<open>
  What the program relies on: serialising succeeds with text, and parsing the text gives the
  configuration back, without the field that is marked \<open>skip_serializing\<close>.
\<close>

definition toml_spec :: "toml \<Rightarrow> config \<Rightarrow> bool" where
  "toml_spec ser c \<longleftrightarrow> (\<exists>s. toml_to ser c = Inr s \<and> valid_utf8 s \<and>
     toml_from ser s = Inr (c\<lparr>api := (api c)\<lparr>push_interval_secs := None\<rparr>\<rparr>))"

definition load_from :: "toml \<Rightarrow> io_env \<Rightarrow> fs \<Rightarrow> string \<Rightarrow> string + config" where
  "load_from ser env t path = (case read_to_string env t (path_of path) of
     Inl e \<Rightarrow> Inl (''Failed to read config at '' @ path @ '': '' @ io_display e)
   | Inr content \<Rightarrow> (case toml_from ser content of
       Inl e \<Rightarrow> Inl e
     | Inr c \<Rightarrow> Inr (migrate_legacy_fields c)))"

definition load :: "toml \<Rightarrow> io_env \<Rightarrow> env_vars \<Rightarrow> fs \<Rightarrow> string + config" where
  "load ser env vars t = load_from ser env t (effective_config_path vars t)"

text \<open>
  \<open>save_to\<close>; permission bits in octal: 448 is \<open>0o700\<close>, 384 is \<open>0o600\<close>. The result of
  restricting the directory is ignored, that of restricting the file is not.
\<close>

definition save_content :: "toml \<Rightarrow> io_env \<Rightarrow> config \<Rightarrow> path \<Rightarrow> fs \<Rightarrow> (string + unit) \<times> fs" where
  "save_content ser env c p t = (case toml_to ser c of
     Inl e \<Rightarrow> (Inl e, t)
   | Inr content \<Rightarrow> (case write_file env p content t of
       (Inl e, t1) \<Rightarrow> (Inl (io_display e), t1)
     | (Inr _, t1) \<Rightarrow> (case set_permissions env p 384 t1 of
         (Inl e, t2) \<Rightarrow> (Inl (io_display e), t2)
       | (Inr _, t2) \<Rightarrow> (Inr (), t2))))"

text \<open>A relative path of one component: its parent is the empty path, for which \<open>create_dir_all\<close> does
  nothing and the change of mode fails.\<close>

definition bare_name :: "string \<Rightarrow> bool" where
  "bare_name path \<longleftrightarrow> path_of path = [hd (split_char (CHR ''/'') path)]"

definition save_to :: "toml \<Rightarrow> io_env \<Rightarrow> config \<Rightarrow> string \<Rightarrow> fs \<Rightarrow> (string + unit) \<times> fs" where
  "save_to ser env c path t =
     (let p = path_of path in
      if p = [] \<or> bare_name path then save_content ser env c p t
      else (case create_dir_all env (butlast p) t of
        (Inl e, t1) \<Rightarrow> (Inl (io_display e), t1)
      | (Inr _, t1) \<Rightarrow>
          save_content ser env c p (snd (set_permissions env (butlast p) 448 t1))))"

definition save :: "toml \<Rightarrow> io_env \<Rightarrow> env_vars \<Rightarrow> config \<Rightarrow> fs \<Rightarrow> (string + unit) \<times> fs" where
  "save ser env vars c t = save_to ser env c (effective_config_path vars t) t"

section \<open>Migration laws\<close>

lemmas migrate_defs [cfg_simps] =
  migrate_legacy_fields_def migrate_interval_def migrate_telemetry_def migrate_command_def

lemmas token_defs [cfg_simps] = node_token_def cmd_token_def

lemma migrate_interval_sel [simp]:
  "node (migrate_interval c) = node c" "compose (migrate_interval c) = compose c"
  "service (migrate_interval c) = service c" "tokens (api (migrate_interval c)) = tokens (api c)"
  "push_interval_secs (api (migrate_interval c)) = None"
  "poll_sec (agent (migrate_interval c)) = poll_sec (agent c)"
  by (simp_all add: migrate_interval_def Let_def split: option.split)

lemma migrate_interval_none:
  "push_interval_secs (api c) = None \<Longrightarrow> migrate_interval c = c"
  by (simp add: migrate_interval_def)

lemma migrate_telemetry_sel [simp]:
  "node (migrate_telemetry c) = node c" "compose (migrate_telemetry c) = compose c"
  "service (migrate_telemetry c) = service c" "agent (migrate_telemetry c) = agent c"
  "command (tokens (api (migrate_telemetry c))) = command (tokens (api c))"
  "push_interval_secs (api (migrate_telemetry c)) = push_interval_secs (api c)"
  by (simp_all add: migrate_telemetry_def)

lemma migrate_command_sel [simp]:
  "node (migrate_command c) = node c" "compose (migrate_command c) = compose c"
  "service (migrate_command c) = service c" "agent (migrate_command c) = agent c"
  "telemetry (tokens (api (migrate_command c))) = telemetry (tokens (api c))"
  "push_interval_secs (api (migrate_command c)) = push_interval_secs (api c)"
  by (simp_all add: migrate_command_def split: option.split)

lemma migrate_command_none:
  "command (tokens (api c)) \<noteq> None \<or> compose_cmd_token (compose c) = None \<Longrightarrow> migrate_command c = c"
  by (auto simp: migrate_command_def split: option.split)

lemma migrate_telemetry_none:
  "telemetry (tokens (api c)) \<noteq> None \<or> node_tok (node c) = [] \<Longrightarrow> migrate_telemetry c = c"
  by (auto simp: migrate_telemetry_def)

lemma migrate_push_sec:
  "push_sec (agent (migrate_legacy_fields c)) =
     (case push_interval_secs (api c) of
        Some n \<Rightarrow> if push_sec (agent c) = default_push_sec then n else push_sec (agent c)
      | None \<Rightarrow> push_sec (agent c))"
  by (simp add: migrate_legacy_fields_def migrate_interval_def Let_def split: option.split)

lemma migrate_tokens:
  "telemetry (tokens (api (migrate_legacy_fields c))) =
     (case telemetry (tokens (api c)) of
        Some t \<Rightarrow> Some t
      | None \<Rightarrow> if node_tok (node c) = [] then None
                else Some \<lparr>te_token = node_tok (node c), te_scope = ''read''\<rparr>)"
  "command (tokens (api (migrate_legacy_fields c))) =
     (case command (tokens (api c)) of
        Some t \<Rightarrow> Some t
      | None \<Rightarrow> map_option (\<lambda>m. \<lparr>te_token = m, te_scope = ''read_write''\<rparr>)
                  (compose_cmd_token (compose c)))"
  by (simp_all add: migrate_legacy_fields_def migrate_telemetry_def migrate_command_def
      split: option.split)

lemma migrate_node_token: "node_token (migrate_legacy_fields c) = node_token c"
proof -
  have "node (migrate_legacy_fields c) = node c" by (simp add: migrate_legacy_fields_def)
  then show ?thesis by (simp add: node_token_def migrate_tokens split: option.split)
qed

lemma migrate_cmd_token: "cmd_token (migrate_legacy_fields c) = cmd_token c"
proof -
  have "compose (migrate_legacy_fields c) = compose c" by (simp add: migrate_legacy_fields_def)
  then show ?thesis by (simp add: cmd_token_def migrate_tokens split: option.split)
qed

lemma migrate_idem: "migrate_legacy_fields (migrate_legacy_fields c) = migrate_legacy_fields c"
proof -
  let ?m = "migrate_legacy_fields c"
  have "node ?m = node c" "compose ?m = compose c" "push_interval_secs (api ?m) = None"
    by (simp_all add: migrate_legacy_fields_def)
  moreover have "telemetry (tokens (api ?m)) \<noteq> None \<or> node_tok (node c) = []"
    and "command (tokens (api ?m)) \<noteq> None \<or> compose_cmd_token (compose c) = None"
    by (auto simp: migrate_tokens split: option.split)
  ultimately show ?thesis
    by (subst migrate_legacy_fields_def)
      (simp add: migrate_interval_none migrate_telemetry_none migrate_command_none)
qed

section \<open>Saving and loading\<close>

lemma save_content_Inr:
  assumes "save_content ser env c p t = (Inr u, t')"
  shows "\<exists>s t1. toml_to ser c = Inr s \<and> write_file env p s t = (Inr (), t1) \<and>
    set_permissions env p 384 t1 = (Inr (), t')"
proof -
  from assms obtain s where s: "toml_to ser c = Inr s"
    by (cases "toml_to ser c") (auto simp: save_content_def)
  obtain r t1 where w: "write_file env p s t = (r, t1)" by fastforce
  obtain q t2 where m: "set_permissions env p 384 t1 = (q, t2)" by fastforce
  from assms s w m show ?thesis
    by (cases r; cases q) (auto simp: save_content_def)
qed

lemma save_to_Inr:
  assumes "save_to ser env c path t = (Inr u, t')" and "fs_wf t"
  shows "\<exists>t1. fs_wf t1 \<and> save_content ser env c (path_of path) t1 = (Inr u, t')"
proof (cases "path_of path = [] \<or> bare_name path")
  case True
  with assms show ?thesis by (auto simp: save_to_def Let_def)
next
  case False
  obtain r t1 where d: "create_dir_all env (butlast (path_of path)) t = (r, t1)" by fastforce
  with create_dir_all_wf [OF assms(2), of env "butlast (path_of path)"] have "fs_wf t1" by simp
  then have "fs_wf (snd (set_permissions env (butlast (path_of path)) 448 t1))"
    by (rule set_permissions_wf)
  with False assms d show ?thesis by (cases r) (auto simp: save_to_def Let_def)
qed

lemma load_from_node:
  assumes "node_at t (path_of path) = Some (File s)" and "fault env (Op_read (path_of path)) = None"
    and "valid_utf8 s" and "toml_from ser s = Inr c"
  shows "load_from ser env t path = Inr (migrate_legacy_fields c)"
  using assms by (simp add: load_from_def read_to_string_def read_bytes_def)

lemma load_from_saved:
  assumes "fs_wf t" and "toml_spec ser c" and "save_to ser env c path t = (Inr u, t')"
    and "fault env' (Op_read (path_of path)) = None"
  shows "load_from ser env' t' path =
      Inr (migrate_legacy_fields (c\<lparr>api := (api c)\<lparr>push_interval_secs := None\<rparr>\<rparr>))
    \<and> mode_of t' (path_of path) = Some 384"
proof -
  from save_to_Inr [OF assms(3,1)] obtain t1 where wf: "fs_wf t1"
    and c: "save_content ser env c (path_of path) t1 = (Inr u, t')" by blast
  from save_content_Inr [OF c] obtain s t2 where s: "toml_to ser c = Inr s"
    and w: "write_file env (path_of path) s t1 = (Inr (), t2)"
    and m: "set_permissions env (path_of path) 384 t2 = (Inr (), t')" by blast
  have "lookup t' = lookup t2"
    using set_permissions_lookup [of env "path_of path" 384 t2] m by simp
  then have "node_at t' (path_of path) = node_at t2 (path_of path)"
    by (rule same_lookup_node_at)
  also have "\<dots> = Some (File s)" by (rule write_then_node_at [OF wf w])
  finally have n: "node_at t' (path_of path) = Some (File s)" .
  from s assms(2) have v: "valid_utf8 s"
    and f: "toml_from ser s = Inr (c\<lparr>api := (api c)\<lparr>push_interval_secs := None\<rparr>\<rparr>)"
    by (simp_all add: toml_spec_def)
  from load_from_node [OF n assms(4) v f] set_permissions_mode [OF m] show ?thesis by blast
qed

section \<open>A concrete configuration\<close>

definition sample_config :: config where
  "sample_config =
     \<lparr>node = \<lparr>node_id = ''n1'', node_name = ''spark'', node_tok = ''nxs_node_a'', node_tags = []\<rparr>,
      api = \<lparr>base_url = ''https://x'', database_url = None,
             tokens = \<lparr>telemetry = None, command = None\<rparr>, push_interval_secs = None\<rparr>,
      agent = default_agent_config, service = default_service_config,
      compose = default_compose_config\<lparr>compose_cmd_token := Some ''nxs_cmd_a'',
        require_signatures := True\<rparr>\<rparr>"

section \<open>Properties\<close>

text \<open>C19. Migration of the legacy layout: running it again changes nothing, it keeps the two
  effective tokens, it drops the legacy interval, and it leaves the node, service and compose
  sections as they were.\<close>

theorem migration_correct:
  "migrate_legacy_fields (migrate_legacy_fields c) = migrate_legacy_fields c
   \<and> node_token (migrate_legacy_fields c) = node_token c
   \<and> cmd_token (migrate_legacy_fields c) = cmd_token c
   \<and> push_interval_secs (api (migrate_legacy_fields c)) = None
   \<and> node (migrate_legacy_fields c) = node c \<and> service (migrate_legacy_fields c) = service c
   \<and> compose (migrate_legacy_fields c) = compose c
   \<and> (if node_tok (node c) = [] then True
      else telemetry (tokens (api (migrate_legacy_fields c))) \<noteq> None)"
  by (intro conjI migrate_idem migrate_node_token migrate_cmd_token)
    (simp_all add: migrate_tokens split: option.split, simp_all add: migrate_legacy_fields_def)

text \<open>C20. Saving, then loading from the same path, whatever failures the two calls meet: if the
  save reported success and the read does not fail, the configuration comes back (migrated, without
  the legacy interval) and the file is readable by its owner only (mode 0600).\<close>

theorem save_load_roundtrip:
  assumes "fs_wf t" and "toml_spec ser c" and "save_to ser env c path t = (Inr (), t')"
    and "fault env' (Op_read (path_of path)) = None"
  shows "load_from ser env' t' path =
      Inr (migrate_legacy_fields (c\<lparr>api := (api c)\<lparr>push_interval_secs := None\<rparr>\<rparr>))
    \<and> mode_of t' (path_of path) = Some 384"
  by (rule load_from_saved [OF assms])

definition sample_toml :: toml where
  "sample_toml = \<lparr>toml_from = (\<lambda>_. Inr sample_config), toml_to = (\<lambda>_. Inr ''[node]'')\<rparr>"

definition empty_fs :: fs where
  "empty_fs = \<lparr>tree = [], modes = []\<rparr>"

definition sample_saved :: "(string + unit) \<times> fs" where
  "sample_saved = save_to sample_toml no_faults sample_config ''/etc/nexus-link/config.toml'' empty_fs"

lemma sample_saved_ok: "fst sample_saved = Inr ()"
  by code_simp

lemma empty_fs_wf: "fs_wf empty_fs"
  by (simp add: fs_wf_def look_wf_def lookup_def empty_fs_def)

lemma sample_toml_spec: "toml_spec sample_toml sample_config"
proof -
  have "valid_utf8 ''[node]''" by (rule valid_utf8_ascii) (simp add: is_ascii_def byte_def)
  then show ?thesis by (simp add: toml_spec_def sample_toml_def sample_config_def)
qed

lemma save_load_roundtrip_witness:
  "load_from sample_toml no_faults (snd sample_saved) ''/etc/nexus-link/config.toml''
     = Inr (migrate_legacy_fields sample_config)
   \<and> mode_of (snd sample_saved) [''etc'', ''nexus-link'', ''config.toml''] = Some 384"
proof -
  have s: "save_to sample_toml no_faults sample_config ''/etc/nexus-link/config.toml'' empty_fs
      = (Inr (), snd sample_saved)"
    using sample_saved_ok by (simp add: sample_saved_def prod_eq_iff)
  have p: "path_of ''/etc/nexus-link/config.toml'' = [''etc'', ''nexus-link'', ''config.toml'']"
    by (simp add: path_of_def)
  from save_load_roundtrip [OF empty_fs_wf sample_toml_spec s, of no_faults] p
  show ?thesis by (simp add: no_faults_def sample_config_def)
qed

end
