(* ===== verification/Service_State.thy ===== *)
theory Service_State
  imports Core_Config
begin

text \<open>
  \<open>crates/nexus-link-service/src/state.rs\<close>: the shared state of the service, with the token
  hashes computed once at start-up and the Ed25519 key read from disk or configuration.
\<close>

record 'k app_state =
  st_config :: config
  signing_pubkey :: "'k option"
  node_token_hash :: string
  cmd_token_hash :: "string option"

definition decode_verifying_key :: "('k, 'z) crypto_scheme \<Rightarrow> string \<Rightarrow> 'k option" where
  "decode_verifying_key cr b64 =
     Option.bind (b64_decode cr b64)
       (\<lambda>bytes. if length bytes = 32 then key_from_bytes cr bytes else None)"

definition signing_key_path :: "env_vars \<Rightarrow> string" where
  "signing_key_path vars = join_path (dirs_home vars) ''signing_key.pub''"

definition load_signing_pubkey ::
    "('k, 'z) crypto_scheme \<Rightarrow> io_env \<Rightarrow> env_vars \<Rightarrow> fs \<Rightarrow> config \<Rightarrow> 'k option" where
  "load_signing_pubkey cr env vars t cfg =
     (let from_file = (case read_to_string env t (path_of (signing_key_path vars)) of
            Inr content \<Rightarrow> decode_verifying_key cr (trim content)
          | Inl _ \<Rightarrow> None)
      in case from_file of
           Some key \<Rightarrow> Some key
         | None \<Rightarrow> (case signing_public_key (compose cfg) of
             Some b64 \<Rightarrow> decode_verifying_key cr (trim b64)
           | None \<Rightarrow> None))"

text \<open>\<open>AppState::new\<close>; the Docker connection is an input (an error, or connected).\<close>

definition app_state_new ::
    "('k, 'z) crypto_scheme \<Rightarrow> io_env \<Rightarrow> env_vars \<Rightarrow> fs \<Rightarrow> string + unit \<Rightarrow> config
      \<Rightarrow> string + 'k app_state" where
  "app_state_new cr env vars t docker cfg = (case docker of
     Inl e \<Rightarrow> Inl e
   | Inr _ \<Rightarrow> Inr
       \<lparr>st_config = cfg,
        signing_pubkey = load_signing_pubkey cr env vars t cfg,
        node_token_hash = hash_token cr (node_token cfg),
        cmd_token_hash = map_option (hash_token cr) (cmd_token cfg)\<rparr>)"

lemma app_state_new_Inr:
  "app_state_new cr env vars t docker cfg = Inr st \<Longrightarrow>
     st_config st = cfg \<and> node_token_hash st = hash_token cr (node_token cfg) \<and>
     cmd_token_hash st = map_option (hash_token cr) (cmd_token cfg) \<and>
     signing_pubkey st = load_signing_pubkey cr env vars t cfg"
  by (auto simp: app_state_new_def split: sum.splits)

text \<open>A readable, well-formed key file wins over the configuration field.\<close>

lemma load_signing_pubkey_file:
  assumes "read_to_string env t (path_of (signing_key_path vars)) = Inr content"
    and "decode_verifying_key cr (trim content) = Some key"
  shows "load_signing_pubkey cr env vars t cfg = Some key"
  using assms by (simp add: load_signing_pubkey_def)

lemma load_signing_pubkey_none:
  assumes "read_to_string env t (path_of (signing_key_path vars)) = Inl e"
    and "signing_public_key (compose cfg) = None"
  shows "load_signing_pubkey cr env vars t cfg = None"
  using assms by (simp add: load_signing_pubkey_def)

end
