(* ===== verification/Core_Types.thy ===== *)
theory Core_Types
  imports Rust_Text
begin

text \<open>
  The wire types of \<open>crates/nexus-link-core/src\<close>: \<open>types.rs\<close> (commands, registration, the
  compose command queue), \<open>telemetry.rs\<close> and \<open>error.rs\<close>.

  JSON values are the datatype \<open>json\<close>, with the accessors of \<open>serde_json::Value\<close> the program
  calls. The derived serialisers are written out for the types whose coding the program relies
  on: the queue items the backend sends and the results it gets back. Floating-point numbers are
  opaque (\<open>'f\<close>), a number that is not an integer keeps its literal.
\<close>

section \<open>JSON values\<close>

datatype json = JNull | JBool bool | JInt int | JFloat string | JStr string
  | JArr "json list" | JObj "(string \<times> json) list"

text \<open>\<open>Value::get\<close>, \<open>as_str\<close>, \<open>as_u64\<close>; of two equal keys the last one counts.\<close>

fun json_get :: "string \<Rightarrow> json \<Rightarrow> json option" where
  "json_get k (JObj kvs) = map_of (rev kvs) k"
| "json_get k _ = None"

fun as_str :: "json \<Rightarrow> string option" where
  "as_str (JStr s) = Some s"
| "as_str _ = None"

fun as_u64 :: "json \<Rightarrow> u64 option" where
  "as_u64 (JInt i) = (if 0 \<le> i \<and> i < 2 ^ 64 then Some (word_of_int i) else None)"
| "as_u64 _ = None"

fun opt_json :: "string \<Rightarrow> json option \<Rightarrow> (string \<times> json) list" where
  "opt_json k (Some v) = [(k, v)]"
| "opt_json k None = []"

text \<open>A struct field: serde rejects a key that occurs twice.\<close>

definition field :: "string \<Rightarrow> (string \<times> json) list \<Rightarrow> json option option" where
  "field k kvs = (case filter (\<lambda>f. fst f = k) kvs of
     [] \<Rightarrow> Some None
   | [(_, v)] \<Rightarrow> Some (Some v)
   | _ \<Rightarrow> None)"

section \<open>Commands of the legacy route\<close>

record compose_restart_payload =
  cr_service :: "string option"

record compose_logs_payload =
  cl_service :: string
  cl_tail :: u32

record config_exchange_payload =
  ce_key :: string
  ce_value :: "json option"

datatype node_command =
    Compose_Restart compose_restart_payload
  | Compose_Logs compose_logs_payload
  | Config_Exchange config_exchange_payload

record command_response =
  resp_success :: bool
  resp_message :: string
  resp_data :: "json option"

definition default_tail_lines :: u32 where
  "default_tail_lines = 100"

section \<open>Registration\<close>

record register_request =
  rr_name :: string
  rr_private_ip :: "string option"
  rr_tags :: "string list"
  rr_description :: "string option"
  rr_public_endpoint :: "string option"

record register_response =
  reg_node_id :: string
  reg_token :: string
  reg_cmd_token :: "string option"
  reg_signing_public_key :: "string option"
  reg_database_url :: "string option"

section \<open>The compose command queue\<close>

datatype command_type = Get_File | Put_File | Activate | Get_Logs_Snapshot | Validate_Yaml

record command_item =
  ci_id :: string
  ci_type :: command_type
  ci_args :: json

datatype command_status = Completed | Failed

record command_result =
  cres_status :: command_status
  cres_result :: "json option"
  cres_error :: "string option"

text \<open>\<open>rename_all = "snake_case"\<close>.\<close>

fun command_type_name :: "command_type \<Rightarrow> string" where
  "command_type_name Get_File = ''get_file''"
| "command_type_name Put_File = ''put_file''"
| "command_type_name Activate = ''activate''"
| "command_type_name Get_Logs_Snapshot = ''get_logs_snapshot''"
| "command_type_name Validate_Yaml = ''validate_yaml''"

fun command_status_name :: "command_status \<Rightarrow> string" where
  "command_status_name Completed = ''completed''"
| "command_status_name Failed = ''failed''"

definition all_command_types :: "command_type list" where
  "all_command_types = [Get_File, Put_File, Activate, Get_Logs_Snapshot, Validate_Yaml]"

text \<open>
  What \<open>serde\<close> reads besides the usual form: a struct also from the array of its fields, of which
  those after the first \<open>n\<close> have a default; a variant without data also from an object with
  its name and \<open>null\<close>.
\<close>

fun struct_fields :: "nat \<Rightarrow> string list \<Rightarrow> json \<Rightarrow> (string \<times> json) list option" where
  "struct_fields n names (JObj kvs) = Some kvs"
| "struct_fields n names (JArr vs) =
     (if n \<le> length vs \<and> length vs \<le> length names then Some (zip names vs) else None)"
| "struct_fields n names v = None"

fun variant_name :: "json \<Rightarrow> string option" where
  "variant_name (JStr s) = Some s"
| "variant_name (JObj [(s, JNull)]) = Some s"
| "variant_name v = None"

definition decode_command_type :: "json \<Rightarrow> command_type option" where
  "decode_command_type v =
     Option.bind (variant_name v) (\<lambda>s. find (\<lambda>ty. command_type_name ty = s) all_command_types)"

definition encode_command :: "command_item \<Rightarrow> json" where
  "encode_command c = JObj [(''id'', JStr (ci_id c)),
     (''type'', JStr (command_type_name (ci_type c))), (''args'', ci_args c)]"

text \<open>\<open>args\<close> defaults to \<open>null\<close>; the other two fields are required.\<close>

definition decode_command :: "json \<Rightarrow> command_item option" where
  "decode_command v = (case struct_fields 2 [''id'', ''type'', ''args''] v of
     Some kvs \<Rightarrow>
       (case (field ''id'' kvs, field ''type'' kvs, field ''args'' kvs) of
          (Some (Some (JStr i)), Some (Some ty), Some a) \<Rightarrow>
            map_option (\<lambda>t. \<lparr>ci_id = i, ci_type = t,
              ci_args = (case a of Some x \<Rightarrow> x | None \<Rightarrow> JNull)\<rparr>) (decode_command_type ty)
        | _ \<Rightarrow> None)
   | None \<Rightarrow> None)"

fun decode_list :: "(json \<Rightarrow> 'a option) \<Rightarrow> json list \<Rightarrow> 'a list option" where
  "decode_list d [] = Some []"
| "decode_list d (v # vs) = (case (d v, decode_list d vs) of
     (Some x, Some xs) \<Rightarrow> Some (x # xs) | _ \<Rightarrow> None)"

definition decode_commands :: "json \<Rightarrow> command_item list option" where
  "decode_commands v = (case v of JArr vs \<Rightarrow> decode_list decode_command vs | _ \<Rightarrow> None)"

definition encode_result :: "command_result \<Rightarrow> json" where
  "encode_result r = JObj ((''status'', JStr (command_status_name (cres_status r)))
     # opt_json ''result'' (cres_result r) @ opt_json ''error'' (map_option JStr (cres_error r)))"

section \<open>Legacy compose file types\<close>

text \<open>\<open>DateTime<Utc>\<close> is nanoseconds since the epoch.\<close>

record legacy_file_entry =
  lf_filename :: string
  lf_size_bytes :: u64
  lf_modified_at :: int

record compose_file_list_response =
  fl_compose_root :: string
  fl_files :: "legacy_file_entry list"

record compose_file_content = legacy_file_entry +
  fc_content :: string

record compose_file_write_request =
  fw_content :: string
  fw_message :: "string option"

record compose_file_write_response =
  fwr_success :: bool
  fwr_filename :: string
  fwr_size_bytes :: u64

record compose_apply_response =
  ca_success :: bool
  ca_exit_code :: "32 word"
  ca_output :: string

record compose_logs_response =
  clr_service :: "string option"
  clr_lines :: "string list"

section \<open>Telemetry\<close>

record 'f system_metrics =
  cpu_usage_percent :: 'f
  memory_total_bytes :: u64
  memory_used_bytes :: u64
  disk_total_bytes :: u64
  disk_used_bytes :: u64
  uptime_secs :: u64

record 'f container_metrics =
  cm_id :: string
  cm_name :: string
  cm_image :: string
  cm_status :: string
  cm_cpu_percent :: 'f
  cm_memory_usage_bytes :: u64
  cm_memory_limit_bytes :: u64
  cm_network_rx_bytes :: u64
  cm_network_tx_bytes :: u64

record 'f gpu_device =
  gpu_index :: u32
  gpu_name :: string
  temperature_celsius :: 'f
  utilization_percent :: 'f
  gpu_memory_total_bytes :: u64
  gpu_memory_used_bytes :: u64
  power_draw_watts :: 'f

record 'f gpu_metrics =
  devices :: "'f gpu_device list"

record 'f telemetry_payload =
  tp_node_id :: string
  tp_timestamp :: int
  tp_system :: "'f system_metrics"
  tp_containers :: "'f container_metrics list"
  tp_gpu :: "'f gpu_metrics option"
  tp_private_ip :: "string option"

section \<open>Errors\<close>

datatype nexus_link_error = Config_Error string | Auth_Error string | Api_Error string
  | Docker_Error string | Token_Validation_Error string | Service_Error string | Io_Error string

fun error_display :: "nexus_link_error \<Rightarrow> string" where
  "error_display (Config_Error e) = ''Configuration error: '' @ e"
| "error_display (Auth_Error e) = ''Authentication failed: '' @ e"
| "error_display (Api_Error e) = ''API request failed: '' @ e"
| "error_display (Docker_Error e) = ''Docker error: '' @ e"
| "error_display (Token_Validation_Error e) = ''Token validation failed: '' @ e"
| "error_display (Service_Error e) = ''Service error: '' @ e"
| "error_display (Io_Error e) = ''IO error: '' @ e"

section \<open>Laws\<close>

lemma decode_command_type_name [simp]:
  "decode_command_type (JStr (command_type_name ty)) = Some ty"
  by (cases ty) (simp_all add: decode_command_type_def all_command_types_def)

lemma decode_encode_command: "decode_command (encode_command c) = Some c"
  by (simp add: decode_command_def encode_command_def field_def)

lemma decode_list_None_iff: "decode_list d vs = None \<longleftrightarrow> (\<exists>v \<in> set vs. d v = None)"
  by (induction vs) (auto split: option.splits)

lemma decode_list_Some: "map d vs = map Some xs \<Longrightarrow> decode_list d vs = Some xs"
  by (induction vs arbitrary: xs) auto

lemma decode_encode_commands: "decode_commands (JArr (map encode_command cs)) = Some cs"
  by (simp add: decode_commands_def decode_list_Some [where xs = cs] decode_encode_command)

end
