(* ===== verification/Service_Compose.thy ===== *)
theory Service_Compose
  imports Service_Auth Core_Types
begin

text \<open>
  \<open>crates/nexus-link-service/src/handlers/compose.rs\<close>: reading the compose file with its
  companion files, replacing it through a temporary file, committing it to git, bringing the
  stack up and streaming its logs.

  The YAML parser is a parameter (\<open>yaml s\<close> is the error, if any), as are the processes the
  handlers start: \<open>git\<close> gives the result of a command line and the file system it leaves, and
  \<open>git_commit\<close> returns the command lines it ran. A handler that changes the file system returns it.
\<close>

section \<open>Requests and responses\<close>

record file_entry =
  fe_name :: string
  fe_content :: string

record get_file_response =
  gf_path :: string
  gf_content :: string
  gf_files :: "file_entry list"

record put_file_request =
  pf_content :: string
  pf_message :: string

definition default_commit_message :: string where
  "default_commit_message = ''nexus-link: update compose config''"

definition decode_put_request :: "json \<Rightarrow> put_file_request option" where
  "decode_put_request v = (case struct_fields 1 [''content'', ''message''] v of
     Some kvs \<Rightarrow> (case (field ''content'' kvs, field ''message'' kvs) of
         (Some (Some (JStr c)), Some None) \<Rightarrow>
           Some \<lparr>pf_content = c, pf_message = default_commit_message\<rparr>
       | (Some (Some (JStr c)), Some (Some (JStr m))) \<Rightarrow> Some \<lparr>pf_content = c, pf_message = m\<rparr>
       | _ \<Rightarrow> None)
   | None \<Rightarrow> None)"

record put_file_response =
  pr_path :: string
  pr_committed :: bool
  pr_commit_sha :: "string option"

record activate_response =
  ar_success :: bool
  ar_exit_code :: int
  ar_stdout :: string
  ar_stderr :: string

record logs_query =
  lq_service :: "string option"
  lq_tail :: u32

definition default_log_tail :: u32 where
  "default_log_tail = 200"

section \<open>Finding and collecting files\<close>

definition YAML_NAME :: string where "YAML_NAME = ''docker-compose.yaml''"
definition YML_NAME :: string where "YML_NAME = ''docker-compose.yml''"
definition TMP_NAME :: string where "TMP_NAME = ''docker-compose.yaml.tmp''"

definition find_compose_file :: "fs \<Rightarrow> path \<Rightarrow> path option" where
  "find_compose_file t dir =
     (let yaml = dir @ [YAML_NAME] in
      if exists t yaml then Some yaml
      else let yml = dir @ [YML_NAME] in
        if exists t yml then Some yml else None)"

definition EXTENSIONLESS_ALLOWLIST :: "string list" where
  "EXTENSIONLESS_ALLOWLIST = [''Caddyfile'', ''Dockerfile'', ''Makefile'']"

text \<open>\<open>read_dir\<close> opens the directory, which can fail like any other read.\<close>

definition list_dir :: "io_env \<Rightarrow> fs \<Rightarrow> path \<Rightarrow> string list option" where
  "list_dir env t p = (if fault env (Op_read p) \<noteq> None then None else read_dir t p)"

text \<open>\<open>file_name().and_then(to_str).unwrap_or("")\<close>, and the name relative to the root.\<close>

definition file_name :: "path \<Rightarrow> string" where
  "file_name p = (if p = [] \<or> last p = ''..'' \<or> \<not> valid_utf8 (last p) then [] else last p)"

definition rel_name :: "path \<Rightarrow> path \<Rightarrow> string" where
  "rel_name root p =
     (if starts_with_path p root \<and> valid_utf8 (join ''/'' (drop (length root) p))
      then join ''/'' (drop (length root) p) else file_name p)"

definition extra_name_matches :: "string list \<Rightarrow> string \<Rightarrow> bool" where
  "extra_name_matches extensions name =
     (if CHR ''.'' \<in> set name then list_ex (\<lambda>ext. ends_with name ext) extensions
      else name \<in> set EXTENSIONLESS_ALLOWLIST)"

text \<open>What one directory entry that is no directory to descend into contributes.\<close>

definition extra_file ::
    "io_env \<Rightarrow> fs \<Rightarrow> string list \<Rightarrow> path \<Rightarrow> path \<Rightarrow> path \<Rightarrow> file_entry list" where
  "extra_file env t extensions dir_canonical root p =
     (if \<not> is_file t p then []
      else if (case canonicalize t p of
                 Some canonical \<Rightarrow> \<not> starts_with_path canonical dir_canonical | None \<Rightarrow> False) then []
      else if file_name p = YAML_NAME \<or> file_name p = YML_NAME then []
      else if \<not> extra_name_matches extensions (file_name p) then []
      else (case read_to_string env t p of
        Inr content \<Rightarrow> [\<lparr>fe_name = rel_name root p, fe_content = content\<rparr>]
      | Inl _ \<Rightarrow> []))"

text \<open>\<open>depth\<close> is 0 exactly in the root, so the recursion goes one level down.\<close>

function collect_extra_files ::
    "io_env \<Rightarrow> fs \<Rightarrow> string list \<Rightarrow> path \<Rightarrow> path \<Rightarrow> path \<Rightarrow> file_entry list" where
  "collect_extra_files env t extensions dir_canonical root current =
     (case list_dir env t current of
        None \<Rightarrow> []
      | Some entries \<Rightarrow> concat (map (\<lambda>name.
          if is_dir t (current @ [name]) \<and> current = root
          then collect_extra_files env t extensions dir_canonical root (current @ [name])
          else extra_file env t extensions dir_canonical root (current @ [name])) entries))"
  by pat_completeness auto
termination
  by (relation "measure (\<lambda>(env, t, es, c, root, current). if current = root then 1 else 0)") auto

declare collect_extra_files.simps [simp del]

definition read_extra_files :: "io_env \<Rightarrow> fs \<Rightarrow> path \<Rightarrow> string list \<Rightarrow> file_entry list" where
  "read_extra_files env t dir extensions = (case canonicalize t dir of
     None \<Rightarrow> []
   | Some dir_canonical \<Rightarrow>
       sort_key fe_name (collect_extra_files env t extensions dir_canonical dir dir))"

section \<open>Git\<close>

definition is_git_repo :: "fs \<Rightarrow> path \<Rightarrow> bool" where
  "is_git_repo t dir \<longleftrightarrow> exists t (dir @ [''.git''])"

definition sanitize_message :: "string \<Rightarrow> string" where
  "sanitize_message message =
     (let sanitized = take 200 (filter (\<lambda>c. \<not> is_control c) (chars message))
      in if sanitized = [] then ''nexus-link: compose file update'' else encode sanitized)"

definition GIT_ADD :: "string list" where
  "GIT_ADD = [''git'', ''add'', ''docker-compose.yaml'']"

definition GIT_REV_PARSE :: "string list" where
  "GIT_REV_PARSE = [''git'', ''rev-parse'', ''--short'', ''HEAD'']"

definition git_commit_argv :: "string \<Rightarrow> string list" where
  "git_commit_argv message = [''git'', ''commit'', ''-m'', sanitize_message message]"

text \<open>\<open>git argv t\<close> is a run of the process in the compose directory: its result, and the files after
  it. What git writes is a parameter.\<close>

type_synonym git = "string list \<Rightarrow> fs \<Rightarrow> proc_result \<times> fs"

definition git_commit :: "git \<Rightarrow> string \<Rightarrow> fs \<Rightarrow> string option \<times> fs \<times> string list list" where
  "git_commit git message t = (case git GIT_ADD t of
     (Spawn_Error e, t1) \<Rightarrow> (None, t1, [GIT_ADD])
   | (Exited _ _ _, t1) \<Rightarrow>
       (case git (git_commit_argv message) t1 of (commit, t2) \<Rightarrow>
          if proc_success commit then
            (case git GIT_REV_PARSE t2 of
               (Exited _ out _, t3) \<Rightarrow>
                 (let sha = trim (lossy out) in if sha \<noteq> [] then Some sha else None,
                  t3, [GIT_ADD, git_commit_argv message, GIT_REV_PARSE])
             | (Spawn_Error _, t3) \<Rightarrow>
                 (None, t3, [GIT_ADD, git_commit_argv message, GIT_REV_PARSE]))
          else (None, t2, [GIT_ADD, git_commit_argv message])))"

section \<open>The handlers\<close>

definition get_compose_file :: "io_env \<Rightarrow> config \<Rightarrow> fs \<Rightarrow> http_error + get_file_response" where
  "get_compose_file env cfg t =
     (let dir = path_of (compose_dir (compose cfg)) in
      case find_compose_file t dir of
        None \<Rightarrow> Inl (http_err 404 ''No docker-compose.yaml found in configured compose directory'')
      | Some p \<Rightarrow> (case read_to_string env t p of
          Inl _ \<Rightarrow> Inl (http_err 500 ''Failed to read compose file'')
        | Inr content \<Rightarrow> Inr \<lparr>gf_path = last p, gf_content = content,
            gf_files = read_extra_files env t dir (extra_extensions (compose cfg))\<rparr>))"

text \<open>Lines 322 to 350 of \<open>put_compose_file\<close>: directory, temporary file, rename.\<close>

definition write_compose ::
    "io_env \<Rightarrow> path \<Rightarrow> string \<Rightarrow> fs \<Rightarrow> (http_error + unit) \<times> fs" where
  "write_compose env dir content t = (case create_dir_all env dir t of
     (Inl _, t1) \<Rightarrow> (Inl (http_err 500 ''Cannot create compose directory''), t1)
   | (Inr _, t1) \<Rightarrow> (case write_file env (dir @ [TMP_NAME]) content t1 of
       (Inl _, t2) \<Rightarrow> (Inl (http_err 500 ''Failed to write file''), t2)
     | (Inr _, t2) \<Rightarrow> (case rename_file env (dir @ [TMP_NAME]) (dir @ [YAML_NAME]) t2 of
         (Inl _, t3) \<Rightarrow> (Inl (http_err 500 ''Failed to commit file write''),
           snd (remove_file env (dir @ [TMP_NAME]) t3))
       | (Inr _, t3) \<Rightarrow> (Inr (), t3))))"

definition put_compose_file ::
    "(string \<Rightarrow> string option) \<Rightarrow> io_env \<Rightarrow> git \<Rightarrow> config
      \<Rightarrow> put_file_request \<Rightarrow> fs
      \<Rightarrow> (http_error + put_file_response) \<times> fs \<times> string list list" where
  "put_compose_file yaml env git cfg body t = (case yaml (pf_content body) of
     Some e \<Rightarrow> (Inl (http_err 422 (''Invalid YAML: '' @ e)), t, [])
   | None \<Rightarrow>
       (let dir = path_of (compose_dir (compose cfg)) in
        case write_compose env dir (pf_content body) t of
          (Inl e, t1) \<Rightarrow> (Inl e, t1, [])
        | (Inr _, t1) \<Rightarrow>
            if is_git_repo t1 dir then
              (case git_commit git (pf_message body) t1 of (sha, t2, argvs) \<Rightarrow>
                 (Inr \<lparr>pr_path = ''docker-compose.yaml'', pr_committed = True, pr_commit_sha = sha\<rparr>,
                  t2, argvs))
            else
              (Inr \<lparr>pr_path = ''docker-compose.yaml'', pr_committed = False, pr_commit_sha = None\<rparr>,
               t1, [])))"

text \<open>A process under \<open>tokio::time::timeout\<close>.\<close>

datatype timed_result = Timed_Out | Finished proc_result

definition exit_code_or :: "int option \<Rightarrow> int" where
  "exit_code_or code = (case code of Some c \<Rightarrow> c | None \<Rightarrow> -1)"

definition activate_compose :: "timed_result \<Rightarrow> http_error + activate_response" where
  "activate_compose r = (case r of
     Timed_Out \<Rightarrow> Inr \<lparr>ar_success = False, ar_exit_code = -1, ar_stdout = [],
       ar_stderr = ''Timeout: docker compose up -d did not complete within 120 seconds''\<rparr>
   | Finished (Spawn_Error e) \<Rightarrow> Inl (http_err 500 (''Failed to spawn docker compose: '' @ e))
   | Finished (Exited code out err) \<Rightarrow> Inr
       \<lparr>ar_success = proc_success (Exited code out err), ar_exit_code = exit_code_or code,
        ar_stdout = lossy out, ar_stderr = lossy err\<rparr>)"

text \<open>The check of a service name (SEC-002): no flag, and only letters, digits, \<open>-\<close> and \<open>_\<close>.\<close>

definition valid_service_name :: "(nat \<Rightarrow> bool) \<Rightarrow> string \<Rightarrow> bool" where
  "valid_service_name uni svc \<longleftrightarrow> svc \<noteq> [] \<and> \<not> starts_with svc ''-'' \<and>
     list_all (\<lambda>c. is_alphanumeric uni c \<or> c = 45 \<or> c = 95) (chars svc)"

definition stream_logs_args :: "(nat \<Rightarrow> bool) \<Rightarrow> logs_query \<Rightarrow> string + string list" where
  "stream_logs_args uni params =
     (let args = [''compose'', ''logs'', ''--follow'', ''--no-color'', ''--tail'',
                  show_word (min (lq_tail params) 10000)]
      in case lq_service params of
           None \<Rightarrow> Inr args
         | Some svc \<Rightarrow>
             if \<not> valid_service_name uni svc
             then Inl (''error: invalid service name: '' @ [CHR 0x27] @ svc @ [CHR 0x27])
             else Inr (args @ [svc]))"

text \<open>The started process: not spawned, without standard output, or with its lines.\<close>

datatype log_child = No_Child string | No_Stdout | Log_Lines "(string + string) list"

fun line_events :: "(string + string) list \<Rightarrow> string list" where
  "line_events [] = []"
| "line_events (Inr l # ls) = l # line_events ls"
| "line_events (Inl e # ls) = []"

definition stream_compose_logs ::
    "(nat \<Rightarrow> bool) \<Rightarrow> (string list \<Rightarrow> log_child) \<Rightarrow> logs_query \<Rightarrow> string list" where
  "stream_compose_logs uni spawn params = (case stream_logs_args uni params of
     Inl err_msg \<Rightarrow> [err_msg]
   | Inr args \<Rightarrow> (case spawn (''docker'' # args) of
       No_Child e \<Rightarrow> [''error: '' @ e]
     | No_Stdout \<Rightarrow> [''error: could not capture stdout'']
     | Log_Lines ls \<Rightarrow> line_events ls))"

end
