(* ===== verification/Service_Poller.thy ===== *)
theory Service_Poller
  imports Service_Compose
begin

text \<open>
  \<open>crates/nexus-link-service/src/poller.rs\<close>: one cycle of the command queue. Fetch the pending
  commands, execute each one, report each result.

  The backend's answer to the poll is an input, and so are the results of the processes each
  command starts (\<open>exec_env\<close>, one per command). The reports sent are returned in order. A panic
  of the output truncation ends the cycle: \<open>Panicked\<close>.
\<close>

section \<open>Truncating output (SEC-008)\<close>

definition MAX_OUTPUT_LEN :: nat where "MAX_OUTPUT_LEN = 8192"

definition truncate_output :: "string \<Rightarrow> string option" where
  "truncate_output s =
     (if length s \<le> MAX_OUTPUT_LEN then Some s
      else case slice_to s MAX_OUTPUT_LEN of
        None \<Rightarrow> None
      | Some p \<Rightarrow> Some (p @ ''... [truncated, '' @ show_nat (length s) @ '' bytes total]''))"

section \<open>Results\<close>

definition failed :: "string \<Rightarrow> command_result" where
  "failed e = \<lparr>cres_status = Failed, cres_result = None, cres_error = Some e\<rparr>"

definition completed :: "(string \<times> json) list \<Rightarrow> command_result" where
  "completed kvs = \<lparr>cres_status = Completed, cres_result = Some (JObj kvs), cres_error = None\<rparr>"

section \<open>Helpers of the poller\<close>

text \<open>The poller has its own copies of the file search and of the collector.\<close>

definition poller_find_compose_file :: "fs \<Rightarrow> string \<Rightarrow> string option" where
  "poller_find_compose_file t dir =
     (let yaml = join_path dir YAML_NAME in
      if exists t (path_of yaml) then Some yaml
      else let yml = join_path dir YML_NAME in
        if exists t (path_of yml) then Some yml else None)"

definition POLLER_ALLOWLIST :: "string list" where
  "POLLER_ALLOWLIST = [''Caddyfile'', ''Dockerfile'', ''Makefile'']"

function collect_poller_files ::
    "io_env \<Rightarrow> fs \<Rightarrow> string list \<Rightarrow> path \<Rightarrow> path \<Rightarrow> path \<Rightarrow> (string \<times> string) list" where
  "collect_poller_files env t extensions dir_canonical root current =
     (case list_dir env t current of
        None \<Rightarrow> []
      | Some entries \<Rightarrow> concat (map (\<lambda>name.
          if is_dir t (current @ [name]) \<and> current = root
          then collect_poller_files env t extensions dir_canonical root (current @ [name])
          else if \<not> is_file t (current @ [name]) then []
          else if (case canonicalize t (current @ [name]) of
                     Some canonical \<Rightarrow> \<not> starts_with_path canonical dir_canonical
                   | None \<Rightarrow> False) then []
          else if file_name (current @ [name]) = ''docker-compose.yaml''
            \<or> file_name (current @ [name]) = ''docker-compose.yml'' then []
          else if \<not> (if CHR ''.'' \<in> set (file_name (current @ [name]))
                     then list_ex (\<lambda>ext. ends_with (file_name (current @ [name])) ext) extensions
                     else file_name (current @ [name]) \<in> set POLLER_ALLOWLIST) then []
          else (case read_to_string env t (current @ [name]) of
            Inr content \<Rightarrow> [(rel_name root (current @ [name]), content)]
          | Inl _ \<Rightarrow> [])) entries))"
  by pat_completeness auto
termination
  by (relation "measure (\<lambda>(env, t, es, c, root, current). if current = root then 1 else 0)") auto

declare collect_poller_files.simps [simp del]

definition poller_extra_files :: "io_env \<Rightarrow> fs \<Rightarrow> path \<Rightarrow> string list \<Rightarrow> (string \<times> string) list" where
  "poller_extra_files env t dir extensions = (case canonicalize t dir of
     None \<Rightarrow> []
   | Some dir_canonical \<Rightarrow>
       sort_key fst (collect_poller_files env t extensions dir_canonical dir dir))"

section \<open>The commands\<close>

definition execute_get_file :: "io_env \<Rightarrow> config \<Rightarrow> fs \<Rightarrow> command_result" where
  "execute_get_file env cfg t =
     (let dir = compose_dir (compose cfg) in
      case poller_find_compose_file t dir of
        None \<Rightarrow> failed (''No docker-compose.yaml found in '' @ dir)
      | Some p \<Rightarrow> (case read_to_string env t (path_of p) of
          Inl e \<Rightarrow> failed (''Failed to read compose file: '' @ io_display e)
        | Inr content \<Rightarrow> completed
            [(''path'', JStr p), (''content'', JStr content),
             (''files'', JArr (map (\<lambda>(name, file_content).
                JObj [(''name'', JStr name), (''content'', JStr file_content)])
                (poller_extra_files env t (path_of dir) (extra_extensions (compose cfg)))))]))"

definition arg_str :: "string \<Rightarrow> command_item \<Rightarrow> string option" where
  "arg_str k cmd = Option.bind (json_get k (ci_args cmd)) as_str"

text \<open>The write of \<open>execute_put_file\<close>, lines 209 to 236.\<close>

definition execute_write :: "io_env \<Rightarrow> string \<Rightarrow> string \<Rightarrow> fs \<Rightarrow> command_result \<times> fs" where
  "execute_write env dir content t = (case create_dir_all env (path_of dir) t of
     (Inl e, t1) \<Rightarrow> (failed (''Cannot create compose directory: '' @ io_display e), t1)
   | (Inr _, t1) \<Rightarrow>
       (let compose_path = join_path dir YAML_NAME; tmp_path = join_path dir TMP_NAME in
        case write_file env (path_of tmp_path) content t1 of
          (Inl e, t2) \<Rightarrow> (failed (''Failed to write tmp file: '' @ io_display e), t2)
        | (Inr _, t2) \<Rightarrow> (case rename_file env (path_of tmp_path) (path_of compose_path) t2 of
            (Inl e, t3) \<Rightarrow> (failed (''Failed to commit file: '' @ io_display e),
              snd (remove_file env (path_of tmp_path) t3))
          | (Inr _, t3) \<Rightarrow>
              (completed [(''path'', JStr compose_path), (''committed'', JBool False)], t3))))"

definition execute_put_file ::
    "(string \<Rightarrow> string option) \<Rightarrow> io_env \<Rightarrow> config \<Rightarrow> command_item \<Rightarrow> fs \<Rightarrow> command_result \<times> fs" where
  "execute_put_file yaml env cfg cmd t = (case arg_str ''content'' cmd of
     None \<Rightarrow> (failed ''Missing 'content' in args'', t)
   | Some content \<Rightarrow> (case yaml content of
       Some e \<Rightarrow> (failed (''Invalid YAML: '' @ e), t)
     | None \<Rightarrow> execute_write env (compose_dir (compose cfg)) content t))"

definition execute_activate :: "timed_result \<Rightarrow> command_result option" where
  "execute_activate r = (case r of
     Timed_Out \<Rightarrow> Some (failed ''Timeout: docker compose up -d did not complete within 120s'')
   | Finished (Spawn_Error e) \<Rightarrow> Some (failed (''Failed to spawn docker compose: '' @ e))
   | Finished (Exited code out err) \<Rightarrow>
       (let success = proc_success (Exited code out err); exit_code = exit_code_or code in
        case (truncate_output (lossy out), truncate_output (lossy err)) of
          (Some stdout, Some stderr) \<Rightarrow> Some
            \<lparr>cres_status = (if success then Completed else Failed),
             cres_result = Some (JObj [(''success'', JBool success), (''exit_code'', JInt exit_code),
               (''stdout'', JStr stdout), (''stderr'', JStr stderr)]),
             cres_error = (if success then None else Some (''exit code '' @ show_int exit_code))\<rparr>
        | _ \<Rightarrow> None))"

definition MAX_LINES :: nat where "MAX_LINES = 500"

text \<open>The arguments of \<open>docker\<close>, or the refusal of the service name (SEC-003).\<close>

definition snapshot_args :: "(nat \<Rightarrow> bool) \<Rightarrow> command_item \<Rightarrow> string + string list" where
  "snapshot_args uni cmd =
     (let tail = show_word (case Option.bind (json_get ''tail'' (ci_args cmd)) as_u64 of
            Some n \<Rightarrow> n | None \<Rightarrow> 100);
          args = [''compose'', ''logs'', ''--no-color'', ''--tail'', tail]
      in case arg_str ''service'' cmd of
           None \<Rightarrow> Inr (args @ [''--since'', ''5m''])
         | Some svc \<Rightarrow>
             if \<not> valid_service_name uni svc
             then Inl (''Invalid service name: '' @ [CHR 0x27] @ svc @ [CHR 0x27])
             else Inr (args @ [svc]))"

definition snapshot_lines :: "string \<Rightarrow> string \<Rightarrow> string list \<times> bool" where
  "snapshot_lines out err =
     (let combined = lossy out @ lossy err
      in (take MAX_LINES (lines combined), length (lines combined) > MAX_LINES))"

definition execute_logs_snapshot ::
    "(nat \<Rightarrow> bool) \<Rightarrow> (string list \<Rightarrow> timed_result) \<Rightarrow> command_item \<Rightarrow> command_result" where
  "execute_logs_snapshot uni run cmd = (case snapshot_args uni cmd of
     Inl e \<Rightarrow> failed e
   | Inr args \<Rightarrow> (case run (''docker'' # args) of
       Timed_Out \<Rightarrow> failed ''Timeout collecting log snapshot''
     | Finished (Spawn_Error e) \<Rightarrow> failed (''Failed to run docker compose logs: '' @ e)
     | Finished (Exited code out err) \<Rightarrow>
         completed [(''service'', case arg_str ''service'' cmd of Some s \<Rightarrow> JStr s | None \<Rightarrow> JNull),
           (''lines'', JArr (map JStr (fst (snapshot_lines out err)))),
           (''truncated'', JBool (snd (snapshot_lines out err)))]))"

definition execute_validate_yaml :: "(string \<Rightarrow> string option) \<Rightarrow> command_item \<Rightarrow> command_result" where
  "execute_validate_yaml yaml cmd = (case arg_str ''content'' cmd of
     None \<Rightarrow> completed [(''valid'', JBool False), (''error'', JStr ''Missing 'content' in args'')]
   | Some content \<Rightarrow> (case yaml content of
       None \<Rightarrow> completed [(''valid'', JBool True)]
     | Some e \<Rightarrow> completed [(''valid'', JBool False), (''error'', JStr e)]))"

text \<open>What a command runs against: file-system failures and process results.\<close>

record exec_env =
  ex_io :: io_env
  ex_up :: timed_result
  ex_logs :: "string list \<Rightarrow> timed_result"

definition execute_command ::
    "(string \<Rightarrow> string option) \<Rightarrow> (nat \<Rightarrow> bool) \<Rightarrow> config \<Rightarrow> exec_env \<Rightarrow> command_item \<Rightarrow> fs
      \<Rightarrow> command_result option \<times> fs" where
  "execute_command yaml uni cfg ex cmd t = (case ci_type cmd of
     Get_File \<Rightarrow> (Some (execute_get_file (ex_io ex) cfg t), t)
   | Put_File \<Rightarrow> (case execute_put_file yaml (ex_io ex) cfg cmd t of (r, t') \<Rightarrow> (Some r, t'))
   | Activate \<Rightarrow> (execute_activate (ex_up ex), t)
   | Get_Logs_Snapshot \<Rightarrow> (Some (execute_logs_snapshot uni (ex_logs ex) cmd), t)
   | Validate_Yaml \<Rightarrow> (Some (execute_validate_yaml yaml cmd), t))"

section \<open>The cycle\<close>

record http_reply =
  reply_status :: nat
  reply_header :: "string \<Rightarrow> string option"
  reply_json :: "json option"

definition is_success :: "nat \<Rightarrow> bool" where
  "is_success s \<longleftrightarrow> 200 \<le> s \<and> s < 300"

text \<open>A PATCH request: its URL, its bearer token, its body.\<close>

record report =
  rep_url :: string
  rep_bearer :: string
  rep_body :: json

definition pending_url :: "config \<Rightarrow> string" where
  "pending_url cfg =
     base_url (api cfg) @ ''/api/nodes/'' @ node_id (node cfg) @ ''/compose/commands/pending''"

definition report_url :: "config \<Rightarrow> string \<Rightarrow> string" where
  "report_url cfg i =
     base_url (api cfg) @ ''/api/nodes/'' @ node_id (node cfg) @ ''/compose/commands/'' @ i"

datatype poll_outcome = Panicked | Poll_Error string | Poll_Ok "u64 option"

fun execute_all ::
    "(string \<Rightarrow> string option) \<Rightarrow> (nat \<Rightarrow> bool) \<Rightarrow> config \<Rightarrow> string \<Rightarrow> (command_item \<times> exec_env) list
      \<Rightarrow> fs \<Rightarrow> bool \<times> report list \<times> fs" where
  "execute_all yaml uni cfg tok [] t = (True, [], t)"
| "execute_all yaml uni cfg tok ((cmd, ex) # rest) t =
     (case execute_command yaml uni cfg ex cmd t of
        (None, t1) \<Rightarrow> (False, [], t1)
      | (Some result, t1) \<Rightarrow>
          (case execute_all yaml uni cfg tok rest t1 of
             (ok, reports, t2) \<Rightarrow>
               (ok, \<lparr>rep_url = report_url cfg (ci_id cmd), rep_bearer = tok,
                     rep_body = encode_result result\<rparr> # reports, t2)))"

text \<open>\<open>envs\<close> gives the environment of each command, by its position in the batch. A PATCH that
  fails is only logged.\<close>

definition poll_and_execute ::
    "(string \<Rightarrow> string option) \<Rightarrow> (nat \<Rightarrow> bool) \<Rightarrow> config
      \<Rightarrow> (string \<Rightarrow> string \<Rightarrow> string + http_reply) \<Rightarrow> (nat \<Rightarrow> exec_env) \<Rightarrow> fs
      \<Rightarrow> poll_outcome \<times> report list \<times> fs" where
  "poll_and_execute yaml uni cfg get envs t = (case compose_cmd_token (compose cfg) of
     None \<Rightarrow> (Poll_Ok None, [], t)
   | Some tok \<Rightarrow> (case get (pending_url cfg) tok of
       Inl e \<Rightarrow> (Poll_Error e, [], t)
     | Inr resp \<Rightarrow>
         (let hint = Option.bind (reply_header resp ''x-poll-interval'') parse_u64 in
          if reply_status resp = 204 then (Poll_Ok hint, [], t)
          else if \<not> is_success (reply_status resp) then (Poll_Ok hint, [], t)
          else (case Option.bind (reply_json resp) decode_commands of
            None \<Rightarrow> (Poll_Error ''error decoding response body'', [], t)
          | Some commands \<Rightarrow>
              (case execute_all yaml uni cfg tok
                      (zip commands (map envs [0..<length commands])) t of
                 (ok, reports, t') \<Rightarrow> (if ok then Poll_Ok hint else Panicked, reports, t'))))))"

end
