(* ===== verification/Service_Main.thy ===== *)
theory Service_Main
  imports Service_Poller
begin

text \<open>
  \<open>crates/nexus-link-service/src/\<close>: \<open>main.rs\<close> (start-up, routes behind their gates, the poll
  loop), \<open>pg_listener.rs\<close> (the wake-up channel with its back-off), \<open>handlers/mod.rs\<close>,
  \<open>handlers/commands.rs\<close> and \<open>handlers/health.rs\<close>.

  A request path is the one the nested router sees, without \<open>/api\<close>. Axum's extractors are
  parameters: \<open>body_json\<close> gives the JSON body or the rejection, \<open>query\<close> the log query.
  The poll loop is a step relation over the events it selects between.
\<close>

section \<open>The command route\<close>

definition decode_restart_payload :: "json \<Rightarrow> compose_restart_payload option" where
  "decode_restart_payload v = Option.bind (struct_fields 1 [''service''] v) (\<lambda>p.
     case field ''service'' p of
       Some None \<Rightarrow> Some \<lparr>cr_service = None\<rparr>
     | Some (Some JNull) \<Rightarrow> Some \<lparr>cr_service = None\<rparr>
     | Some (Some (JStr s)) \<Rightarrow> Some \<lparr>cr_service = Some s\<rparr>
     | _ \<Rightarrow> None)"

definition decode_logs_payload :: "json \<Rightarrow> compose_logs_payload option" where
  "decode_logs_payload v = Option.bind (struct_fields 1 [''service'', ''tail''] v) (\<lambda>p.
     case (field ''service'' p, field ''tail'' p) of
       (Some (Some (JStr s)), Some None) \<Rightarrow> Some \<lparr>cl_service = s, cl_tail = default_tail_lines\<rparr>
     | (Some (Some (JStr s)), Some (Some (JInt n))) \<Rightarrow>
         if 0 \<le> n \<and> n < 2 ^ 32 then Some \<lparr>cl_service = s, cl_tail = word_of_int n\<rparr> else None
     | _ \<Rightarrow> None)"

definition decode_exchange_payload :: "json \<Rightarrow> config_exchange_payload option" where
  "decode_exchange_payload v = Option.bind (struct_fields 2 [''key'', ''value''] v) (\<lambda>p.
     case (field ''key'' p, field ''value'' p) of
       (Some (Some (JStr k)), Some x) \<Rightarrow>
         Some \<lparr>ce_key = k, ce_value = (if x = Some JNull then None else x)\<rparr>
     | _ \<Rightarrow> None)"

text \<open>The tag and the payload, in either order of the keys; the payload is always required.\<close>

definition decode_node_command :: "json \<Rightarrow> node_command option" where
  "decode_node_command v = Option.bind (struct_fields 2 [''type'', ''payload''] v) (\<lambda>kvs.
     case (field ''type'' kvs, field ''payload'' kvs) of
       (Some (Some tag), Some (Some p)) \<Rightarrow> Option.bind (variant_name tag) (\<lambda>ty.
         if ty = ''compose_restart'' then map_option Compose_Restart (decode_restart_payload p)
         else if ty = ''compose_logs'' then map_option Compose_Logs (decode_logs_payload p)
         else if ty = ''config_exchange'' then map_option Config_Exchange (decode_exchange_payload p)
         else None)
     | _ \<Rightarrow> None)"

definition handle_compose_restart :: "compose_restart_payload \<Rightarrow> string + command_response" where
  "handle_compose_restart payload =
     (let target = (case cr_service payload of Some s \<Rightarrow> s | None \<Rightarrow> ''all services'') in
      Inr \<lparr>resp_success = True, resp_message = ''Restart initiated for: '' @ target, resp_data = None\<rparr>)"

definition handle_compose_logs :: "compose_logs_payload \<Rightarrow> string + command_response" where
  "handle_compose_logs payload =
     Inr \<lparr>resp_success = True, resp_message = ''Logs for: '' @ cl_service payload,
          resp_data = Some (JObj [(''lines'', JArr [])])\<rparr>"

definition handle_config_exchange :: "config_exchange_payload \<Rightarrow> string + command_response" where
  "handle_config_exchange payload =
     Inr \<lparr>resp_success = True, resp_message = ''Config key: '' @ ce_key payload, resp_data = None\<rparr>"

definition execute_node_command :: "node_command \<Rightarrow> command_response" where
  "execute_node_command c =
     (case (case c of
        Compose_Restart p \<Rightarrow> handle_compose_restart p
      | Compose_Logs p \<Rightarrow> handle_compose_logs p
      | Config_Exchange p \<Rightarrow> handle_config_exchange p) of
        Inr resp \<Rightarrow> resp
      | Inl e \<Rightarrow> \<lparr>resp_success = False, resp_message = ''Command failed: '' @ e, resp_data = None\<rparr>)"

section \<open>Routes\<close>

record health_response =
  hr_status :: string
  hr_version :: string

definition health_check :: "string \<Rightarrow> health_response" where
  "health_check version = \<lparr>hr_status = ''ok'', hr_version = version\<rparr>"

datatype response = R_Health health_response | R_Command command_response
  | R_File get_file_response | R_Put put_file_response | R_Activate activate_response
  | R_Logs "string list"

text \<open>What the handlers draw on besides the state: the parameters of the model.\<close>

record svc_env =
  sv_version :: string
  sv_yaml :: "string \<Rightarrow> string option"
  sv_uni :: "nat \<Rightarrow> bool"
  sv_io :: io_env
  sv_git :: git
  sv_up :: timed_result
  sv_logs :: "string list \<Rightarrow> log_child"
  sv_body_json :: "request \<Rightarrow> http_error + json"
  sv_query :: "request \<Rightarrow> http_error + logs_query"

definition is_get :: "request \<Rightarrow> bool" where
  "is_get req \<longleftrightarrow> req_method req = GET \<or> req_method req = Other_Method ''HEAD''"

definition not_allowed :: http_error where
  "not_allowed = http_err 405 []"

text \<open>The three groups of routes; a path that is in none of them is not found.\<close>

definition public_routes :: "svc_env \<Rightarrow> request \<Rightarrow> http_error + response" where
  "public_routes sv req =
     (if is_get req then Inr (R_Health (health_check (sv_version sv))) else Inl not_allowed)"

definition command_routes :: "svc_env \<Rightarrow> request \<Rightarrow> http_error + response" where
  "command_routes sv req =
     (if req_method req \<noteq> POST then Inl not_allowed
      else res_bind (sv_body_json sv req) (\<lambda>j. case decode_node_command j of
        None \<Rightarrow> Inl (http_err 422 ''Failed to deserialize the JSON body'')
      | Some c \<Rightarrow> Inr (R_Command (execute_node_command c))))"

text \<open>The compose routes; \<open>activated\<close> says that \<open>docker compose up\<close> was run.\<close>

definition compose_routes ::
    "svc_env \<Rightarrow> config \<Rightarrow> request \<Rightarrow> fs \<Rightarrow> (http_error + response) \<times> fs \<times> bool" where
  "compose_routes sv cfg req t =
     (if req_path req = ''/compose/file'' then
        (if is_get req then (map_sum id R_File (get_compose_file (sv_io sv) cfg t), t, False)
         else if req_method req = PUT then
           (case sv_body_json sv req of
              Inl e \<Rightarrow> (Inl e, t, False)
            | Inr j \<Rightarrow> (case decode_put_request j of
                None \<Rightarrow> (Inl (http_err 422 ''Failed to deserialize the JSON body''), t, False)
              | Some body \<Rightarrow> (case put_compose_file (sv_yaml sv) (sv_io sv) (sv_git sv) cfg body t of
                  (r, t', _) \<Rightarrow> (map_sum id R_Put r, t', False))))
         else (Inl not_allowed, t, False))
      else if req_path req = ''/compose/activate'' then
        (if req_method req = POST then (map_sum id R_Activate (activate_compose (sv_up sv)), t, True)
         else (Inl not_allowed, t, False))
      else
        (if is_get req then
           (map_sum id (\<lambda>q. R_Logs (stream_compose_logs (sv_uni sv) (sv_logs sv) q)) (sv_query sv req),
            t, False)
         else (Inl not_allowed, t, False)))"

definition compose_paths :: "string list" where
  "compose_paths = [''/compose/file'', ''/compose/activate'', ''/compose/logs'']"

text \<open>The application of \<open>main\<close>: each group behind its gate.\<close>

definition serve ::
    "('k, 'z) auth_deps_scheme \<Rightarrow> svc_env \<Rightarrow> 'k app_state \<Rightarrow> clock \<Rightarrow> request \<Rightarrow> nonce_cache \<Rightarrow> fs
      \<Rightarrow> (http_error + response) \<times> nonce_cache \<times> fs \<times> bool" where
  "serve d sv st clk req cache t =
     (if req_path req = ''/health'' then (public_routes sv req, cache, t, False)
      else if req_path req = ''/commands'' then
        (res_bind (require_auth d st req) (command_routes sv), cache, t, False)
      else if req_path req \<in> set compose_paths then
        (case require_cmd_auth d st clk req cache of
           (Inl e, c) \<Rightarrow> (Inl e, c, t, False)
         | (Inr r, c) \<Rightarrow> (case compose_routes sv (st_config st) r t of
             (resp, t', act) \<Rightarrow> (resp, c, t', act)))
      else (Inl (http_err 404 []), cache, t, False))"

section \<open>Start-up\<close>

datatype warning = Signatures_Disabled | Cleartext_Listener

record service_plan =
  sp_addr :: "string \<times> u16"
  sp_warnings :: "warning list"
  sp_poll_secs :: "u64 option"
  sp_listener :: bool

text \<open>\<open>parse_ip\<close> is the address parser; \<open>None\<close> of \<open>sp_poll_secs\<close> is a disabled poll loop.\<close>

definition service_start ::
    "(string \<Rightarrow> string + string) \<Rightarrow> string + config \<Rightarrow> (config \<Rightarrow> string + 'k app_state)
      \<Rightarrow> string + (service_plan \<times> 'k app_state)" where
  "service_start parse_ip loaded new_state =
     res_bind loaded (\<lambda>cfg.
     res_bind (parse_ip (listen_addr (service cfg))) (\<lambda>ip.
     res_bind (new_state cfg) (\<lambda>st.
       let addr = listen_addr (service cfg); tok = compose_cmd_token (compose cfg) in
       Inr (\<lparr>sp_addr = (ip, port (service cfg)),
         sp_warnings =
           (if \<not> require_signatures (compose cfg) \<and> tok \<noteq> None then [Signatures_Disabled] else [])
           @ (if addr \<noteq> ''127.0.0.1'' \<and> addr \<noteq> ''::1'' then [Cleartext_Listener] else []),
         sp_poll_secs = (if tok \<noteq> None then Some (poll_sec (agent cfg)) else None),
         sp_listener = (tok \<noteq> None \<and> database_url (api cfg) \<noteq> None)\<rparr>, st))))"

section \<open>The poll loop\<close>

definition next_interval :: "u64 \<Rightarrow> u64 \<Rightarrow> poll_outcome \<Rightarrow> u64 option" where
  "next_interval poll_interval current r = (case r of
     Poll_Ok (Some hint_secs) \<Rightarrow>
       if hint_secs > 0 then Some (if hint_secs \<noteq> current then hint_secs else current)
       else Some current
   | Poll_Ok None \<Rightarrow> Some current
   | Poll_Error e \<Rightarrow> Some poll_interval
   | Panicked \<Rightarrow> None)"

text \<open>
  The loop and the wake signal. \<open>permit\<close> is the stored permit of \<open>Notify\<close>; \<open>unseen\<close> is a ghost
  field: a notification came after the last poll began. \<open>Dead\<close> is a task that panicked.
\<close>

datatype phase = Waiting | Polling | Dead

record loop_state =
  phase :: phase
  interval :: u64
  permit :: bool
  unseen :: bool

datatype loop_event = Timer | Wake | Notify | Done poll_outcome

definition loop_start :: "u64 \<Rightarrow> loop_state" where
  "loop_start d = \<lparr>phase = Waiting, interval = d, permit = False, unseen = False\<rparr>"

inductive loop_step :: "u64 \<Rightarrow> loop_state \<Rightarrow> loop_event \<Rightarrow> loop_state \<Rightarrow> bool" for d where
  timer: "phase s = Waiting \<Longrightarrow> loop_step d s Timer (s\<lparr>phase := Polling, unseen := False\<rparr>)"
| wake: "phase s = Waiting \<Longrightarrow> permit s \<Longrightarrow>
    loop_step d s Wake (s\<lparr>phase := Polling, permit := False, unseen := False\<rparr>)"
| notify: "loop_step d s Notify (s\<lparr>permit := True, unseen := True\<rparr>)"
| finish: "phase s = Polling \<Longrightarrow> next_interval d (interval s) r = Some i \<Longrightarrow>
    loop_step d s (Done r) (s\<lparr>phase := Waiting, interval := i\<rparr>)"
| panic: "phase s = Polling \<Longrightarrow> next_interval d (interval s) r = None \<Longrightarrow>
    loop_step d s (Done r) (s\<lparr>phase := Dead\<rparr>)"

inductive loop_run :: "u64 \<Rightarrow> loop_event list \<Rightarrow> loop_state \<Rightarrow> bool" for d where
  start: "loop_run d [] (loop_start d)"
| step: "loop_run d es s \<Longrightarrow> loop_step d s e s' \<Longrightarrow> loop_run d (es @ [e]) s'"

inductive_cases timer_elim: "loop_step d s Timer s'"
inductive_cases wake_elim: "loop_step d s Wake s'"
inductive_cases notify_elim: "loop_step d s Notify s'"
inductive_cases done_elim: "loop_step d s (Done r) s'"

inductive_simps timer_iff: "loop_step d s Timer s'"
inductive_simps wake_iff: "loop_step d s Wake s'"

section \<open>The wake-up channel\<close>

definition MAX_BACKOFF_SECS :: u64 where "MAX_BACKOFF_SECS = 30"

text \<open>One round of \<open>run\<close>: the seconds slept, and the back-off of the next round.\<close>

definition backoff_round :: "string + unit \<Rightarrow> u64 \<Rightarrow> u64 \<times> u64" where
  "backoff_round r backoff_secs =
     (let b = (case r of Inr _ \<Rightarrow> 1 | Inl _ \<Rightarrow> backoff_secs)
      in (b, min (b * 2) MAX_BACKOFF_SECS))"

fun backoff_sleeps :: "(string + unit) list \<Rightarrow> u64 \<Rightarrow> u64 list" where
  "backoff_sleeps [] b = []"
| "backoff_sleeps (r # rs) b = (let (s, b') = backoff_round r b in s # backoff_sleeps rs b')"

definition listener_sleeps :: "config \<Rightarrow> (string + unit) list \<Rightarrow> u64 list" where
  "listener_sleeps cfg results =
     (case database_url (api cfg) of None \<Rightarrow> [] | Some _ \<Rightarrow> backoff_sleeps results 1)"

definition channel_name :: "config \<Rightarrow> string" where
  "channel_name cfg = ''node_cmd_'' @ node_id (node cfg)"

fun double_quotes :: "string \<Rightarrow> string" where
  "double_quotes [] = []"
| "double_quotes (c # s) =
     (if c = CHR 0x22 then CHR 0x22 # CHR 0x22 # double_quotes s else c # double_quotes s)"

definition listen_stmt :: "string \<Rightarrow> string" where
  "listen_stmt channel = ''LISTEN '' @ [CHR 0x22] @ double_quotes channel @ [CHR 0x22]"

datatype pg_message = Pg_Notification string string | Pg_Notice string | Pg_Other | Pg_Error string

text \<open>The stream until it ends: the wake signals sent, and the result.\<close>

fun pg_stream :: "pg_message list \<Rightarrow> nat \<times> (string + unit)" where
  "pg_stream [] = (0, Inr ())"
| "pg_stream (Pg_Notification c p # ms) = (let (n, r) = pg_stream ms in (Suc n, r))"
| "pg_stream (Pg_Notice m # ms) = pg_stream ms"
| "pg_stream (Pg_Other # ms) = pg_stream ms"
| "pg_stream (Pg_Error e # ms) = (0, Inl e)"

text \<open>Connect, subscribe, listen; the server's side of the first two is an input.\<close>

definition connect_and_listen ::
    "(string \<Rightarrow> string + unit) \<Rightarrow> (string \<Rightarrow> string + pg_message list) \<Rightarrow> string \<Rightarrow> string
      \<Rightarrow> nat \<times> (string + unit)" where
  "connect_and_listen connect execute url channel = (case connect url of
     Inl e \<Rightarrow> (0, Inl e)
   | Inr _ \<Rightarrow> (case execute (listen_stmt channel) of
       Inl e \<Rightarrow> (0, Inl e)
     | Inr stream \<Rightarrow> pg_stream stream))"

end
