(* ===== verification/Auth_Laws.thy ===== *)
theory Auth_Laws
  imports Service_Auth
begin

text \<open>
  What the two gates of \<open>Service_Auth\<close> guarantee: who is accepted, that the two credentials
  never open each other's routes, that a nonce is not accepted twice while it is remembered,
  and where that protection ends.
\<close>

section \<open>The contract of a replay cache\<close>

fun run_checks :: "(int \<Rightarrow> 'k \<Rightarrow> 'c \<Rightarrow> bool \<times> 'c) \<Rightarrow> (int \<times> 'k) list \<Rightarrow> 'c \<Rightarrow> 'c" where
  "run_checks check [] c = c"
| "run_checks check ((t, k) # xs) c = run_checks check xs (snd (check t k c))"

locale replay_cache =
  fixes check :: "int \<Rightarrow> 'k \<Rightarrow> 'c \<Rightarrow> bool \<times> 'c"
    and expiry :: "'c \<Rightarrow> 'k \<Rightarrow> int option"
    and ttl :: int
  assumes ttl_pos: "0 < ttl"
    and accept_iff: "fst (check t k c) \<longleftrightarrow> (\<forall>e. expiry c k = Some e \<longrightarrow> e \<le> t)"
    and recorded: "fst (check t k c) \<Longrightarrow> expiry (snd (check t k c)) k = Some (t + ttl)"
    and kept: "expiry c k = Some e \<Longrightarrow> t < e \<Longrightarrow> expiry (snd (check t j c)) k = Some e"
begin

lemma rejected_while_live: "expiry c k = Some e \<Longrightarrow> t < e \<Longrightarrow> \<not> fst (check t k c)"
  by (auto simp: accept_iff)

lemma live_after_run:
  "expiry c k = Some e \<Longrightarrow> \<forall>(t, j) \<in> set xs. t < e \<Longrightarrow> expiry (run_checks check xs c) k = Some e"
  by (induction xs arbitrary: c) (auto simp: kept)

lemma no_replay:
  assumes "fst (check t k c)" and "\<forall>(u, j) \<in> set xs. u < t + ttl" and "u < t + ttl"
  shows "\<not> fst (check u k (run_checks check xs (snd (check t k c))))"
  using live_after_run [OF recorded [OF assms(1)] assms(2)] assms(3)
  by (rule rejected_while_live)

text \<open>The other side of the window: once expired, the key is accepted again.\<close>

lemma accepted_when_expired:
  assumes "fst (check t k c)" and "t + ttl \<le> u"
  shows "fst (check u k (snd (check t k c)))"
  using recorded [OF assms(1)] assms(2) by (simp add: accept_iff)

end

lemma minutes_pos [simp]: "0 < minutes n \<longleftrightarrow> 0 < n"
  by (simp add: minutes_def)

lemma cache_retain_None: "cache_retain t c k = None \<longleftrightarrow> (\<forall>e. c k = Some e \<longrightarrow> e \<le> t)"
  by (auto simp: cache_retain_def split: option.split)

lemma cache_retain_live: "c k = Some e \<Longrightarrow> t < e \<Longrightarrow> cache_retain t c k = Some e"
  by (simp add: cache_retain_def)

lemma fst_nonce_check: "fst (nonce_check t k c) \<longleftrightarrow> cache_retain t c k = None"
  by (simp add: nonce_check_def Let_def)

lemma snd_nonce_check:
  "snd (nonce_check t k c) = (if cache_retain t c k = None
     then (cache_retain t c)(k \<mapsto> t + minutes 6) else cache_retain t c)"
  by (simp add: nonce_check_def Let_def)

interpretation nonce: replay_cache nonce_check "\<lambda>c. c" "minutes 6"
proof
  fix t k and c :: nonce_cache
  show "fst (nonce_check t k c) \<longleftrightarrow> (\<forall>e. c k = Some e \<longrightarrow> e \<le> t)"
    by (simp only: fst_nonce_check cache_retain_None)
  show "snd (nonce_check t k c) k = Some (t + minutes 6)" if "fst (nonce_check t k c)"
    using that by (simp add: fst_nonce_check snd_nonce_check)
next
  fix t e k j and c :: nonce_cache
  assume live: "c k = Some e" "t < e"
  have "cache_retain t c k = Some e" using live by (rule cache_retain_live)
  then show "snd (nonce_check t j c) k = Some e"
    by (auto simp: snd_nonce_check)
qed simp

section \<open>Acceptance of the command gate\<close>

definition signed_write :: "'k app_state \<Rightarrow> request \<Rightarrow> bool" where
  "signed_write st req \<longleftrightarrow> is_write req \<and> require_signatures (compose (st_config st))"

lemma cmd_token_gate_None:
  "cmd_token_gate cr st req = None \<longleftrightarrow>
     (\<exists>h token. cmd_token_hash st = Some h \<and>
        req_header req ''authorization'' = Some (''Bearer '' @ token) \<and>
        validate_cmd_token_format token \<and> verify_token cr token h)"
proof -
  have "cmd_token_gate cr st req = None \<longleftrightarrow>
     (\<exists>h token. cmd_token_hash st = Some h \<and>
        bearer_token (req_header req ''authorization'') = Some token \<and>
        validate_cmd_token_format token \<and> verify_token cr token h)"
    by (cases "cmd_token_hash st"; cases "bearer_token (req_header req ''authorization'')")
      (simp_all add: cmd_token_gate_def)
  then show ?thesis by (simp only: bearer_token_Some)
qed

lemma timestamp_gate_None:
  "timestamp_gate d clk s = None \<longleftrightarrow>
     (\<exists>ts. parse_datetime d s = Some ts \<and> \<bar>now_window clk - ts\<bar> \<le> minutes 5)"
  by (auto simp: timestamp_gate_def split: option.split)

lemma signature_gate_Inr:
  "signature_gate d k req sig ts nonce = Inr r \<longleftrightarrow>
     (\<exists>body b. req_body req = Some body \<and> length body \<le> MAX_BODY \<and>
        hex_decode d sig = Some b \<and> length b = 64 \<and>
        ed_verify d k (canonical_message (method_str (req_method req)) (req_path req) ts nonce
          (hex_crate_encode d (sha256 d body))) b \<and> r = req)"
  by (auto simp: signature_gate_def Let_def split: option.split)

lemma unsigned_cmd_auth:
  "\<not> signed_write st req \<Longrightarrow> require_cmd_auth d st clk req cache =
     (case cmd_token_gate d st req of Some e \<Rightarrow> Inl e | None \<Rightarrow> Inr req, cache)"
  by (auto simp: require_cmd_auth_def signed_write_def split: option.split)

lemma nonce_check_pair:
  "(case nonce_check t n c of (False, c') \<Rightarrow> (Inl e, c') | (True, c') \<Rightarrow> (g, c')) =
     (if fst (nonce_check t n c) then g else Inl e, snd (nonce_check t n c))"
  by (cases "nonce_check t n c") (simp split: bool.split)

lemma signed_cmd_auth:
  assumes "signed_write st req"
  shows "require_cmd_auth d st clk req cache = (Inr r, cache') \<longleftrightarrow>
    cmd_token_gate d st req = None \<and>
    (\<exists>k sig ts nonce. signing_pubkey st = Some k \<and>
       req_header req ''x-nexus-signature'' = Some sig \<and>
       req_header req ''x-nexus-timestamp'' = Some ts \<and>
       req_header req ''x-nexus-nonce'' = Some nonce \<and>
       timestamp_gate d clk ts = None \<and> fst (nonce_check (now_nonce clk) nonce cache) \<and>
       signature_gate d k req sig ts nonce = Inr r \<and>
       cache' = snd (nonce_check (now_nonce clk) nonce cache))"
  using assms
  by (auto simp: require_cmd_auth_def signed_write_def nonce_check_pair split: option.splits)

text \<open>Whatever the outcome, the cache is untouched or has been through one check.\<close>

lemma cmd_auth_cache:
  "snd (require_cmd_auth d st clk req cache) = cache \<or>
   (\<exists>n. snd (require_cmd_auth d st clk req cache) = snd (nonce_check (now_nonce clk) n cache))"
  by (auto simp: require_cmd_auth_def nonce_check_pair split: option.split)

fun cache_after ::
    "('k, 'z) auth_deps_scheme \<Rightarrow> 'k app_state \<Rightarrow> (clock \<times> request) list \<Rightarrow> nonce_cache
      \<Rightarrow> nonce_cache" where
  "cache_after d st [] cache = cache"
| "cache_after d st ((clk, req) # rest) cache =
     cache_after d st rest (snd (require_cmd_auth d st clk req cache))"

lemma cmd_auth_kept:
  "cache n = Some e \<Longrightarrow> now_nonce clk < e \<Longrightarrow> snd (require_cmd_auth d st clk req cache) n = Some e"
  using cmd_auth_cache [of d st clk req cache] nonce.kept [of cache n e "now_nonce clk"] by metis

lemma cache_after_kept:
  "cache n = Some e \<Longrightarrow> \<forall>(clk, req) \<in> set reqs. now_nonce clk < e \<Longrightarrow>
   cache_after d st reqs cache n = Some e"
  by (induction reqs arbitrary: cache) (auto simp: cmd_auth_kept)

lemma serve_auth_append:
  "serve_auth d st (xs @ ys) cache =
     serve_auth d st xs cache @ serve_auth d st ys (cache_after d st xs cache)"
  by (induction xs arbitrary: cache) (auto simp: case_prod_unfold Let_def)

section \<open>The canonical message\<close>

lemma canonical_split:
  assumes "LF \<notin> set m" and "LF \<notin> set p" and "LF \<notin> set t" and "LF \<notin> set n" and "LF \<notin> set h"
  shows "split_char LF (canonical_message m p t n h) = [m, p, t, n, h]"
  using assms by (simp add: canonical_message_def split_char_first split_char_none)

section \<open>A concrete service for the witnesses\<close>

definition sample_deps :: "string auth_deps" where
  "sample_deps = crypto.extend
     (sample_crypto\<lparr>ed_verify := (\<lambda>k m s. s = replicate 64 (CHR ''A''))\<rparr>)
     \<lparr>parse_datetime = (\<lambda>s. if s = ''+2'' then Some (minutes 2) else Some 0),
      hex_crate_encode = hex_encode\<rparr>"

definition sample_state :: "string app_state" where
  "sample_state =
     \<lparr>st_config = sample_config, signing_pubkey = Some ''key'',
      node_token_hash = hash_token sample_deps ''nxs_node_a'',
      cmd_token_hash = Some (hash_token sample_deps ''nxs_cmd_a'')\<rparr>"

definition signed_request :: "string \<Rightarrow> string \<Rightarrow> request" where
  "signed_request ts sig =
     \<lparr>req_method = PUT, req_path = ''/compose/file'',
      req_header = (\<lambda>h. if h = ''authorization'' then Some ''Bearer nxs_cmd_a''
        else if h = ''x-nexus-signature'' then Some sig
        else if h = ''x-nexus-timestamp'' then Some ts
        else if h = ''x-nexus-nonce'' then Some ''a3f5'' else None),
      req_body = Some ''{}''\<rparr>"

definition good_sig :: string where
  "good_sig = replicate 64 (CHR ''A'')"

definition at_time :: "int \<Rightarrow> clock" where
  "at_time t = \<lparr>now_window = t, now_nonce = t\<rparr>"

lemma at_time_sel [simp]: "now_window (at_time t) = t" "now_nonce (at_time t) = t"
  by (simp_all add: at_time_def)

lemma sample_deps_sel [simp]:
  "ct_eq sample_deps = (=)" "hex_decode sample_deps = Some"
  "ed_verify sample_deps k m s = (s = good_sig)"
  "parse_datetime sample_deps s = (if s = ''+2'' then Some (minutes 2) else Some 0)"
  by (simp_all add: sample_deps_def sample_crypto_def crypto.defs good_sig_def)

lemma sample_signed_write [simp]: "signed_write sample_state (signed_request ts sig)"
  by (simp add: signed_write_def is_write_def signed_request_def sample_state_def sample_config_def)

lemma sample_headers [simp]:
  "req_header (signed_request ts sig) ''x-nexus-signature'' = Some sig"
  "req_header (signed_request ts sig) ''x-nexus-timestamp'' = Some ts"
  "req_header (signed_request ts sig) ''x-nexus-nonce'' = Some ''a3f5''"
  by (simp_all add: signed_request_def)

lemma sample_gate [simp]: "cmd_token_gate sample_deps sample_state (signed_request ts sig) = None"
  by (simp add: cmd_token_gate_None sample_state_def signed_request_def validate_cmd_token_format_def
      CMD_TOKEN_PREFIX_def starts_with_def verify_token_def)

lemma length_good_sig [simp]: "length good_sig = 64"
  by (simp add: good_sig_def)

lemma sample_key [simp]: "signing_pubkey sample_state = Some ''key''"
  by (simp add: sample_state_def)

lemma sample_signature:
  "signature_gate sample_deps k (signed_request ts sig) sig ts' n =
     (if length sig \<noteq> 64 then Inl (http_err 403 ''Invalid X-Nexus-Signature'')
      else if sig = good_sig then Inr (signed_request ts sig)
      else Inl (http_err 403 ''Invalid request signature''))"
proof -
  have "req_body (signed_request ts sig) = Some ''{}''" by (simp add: signed_request_def)
  moreover have "(signed_request ts x)\<lparr>req_body := Some ''{}''\<rparr> = signed_request ts x" for x
    by (simp add: signed_request_def)
  ultimately show ?thesis by (simp add: signature_gate_def MAX_BODY_def)
qed

lemma sample_accepted:
  assumes "\<bar>t - (if ts = ''+2'' then minutes 2 else 0)\<bar> \<le> minutes 5"
    and "cache_retain t cache ''a3f5'' = None"
  shows "require_cmd_auth sample_deps sample_state (at_time t) (signed_request ts good_sig) cache
    = (Inr (signed_request ts good_sig), snd (nonce_check t ''a3f5'' cache))"
  using assms
  by (auto simp: signed_cmd_auth timestamp_gate_None fst_nonce_check sample_signature)

section \<open>Properties\<close>

text \<open>What a request must show: the command token, and for a signed write a signature.\<close>

definition holds_cmd_token :: "('k, 'z) crypto_scheme \<Rightarrow> 'k app_state \<Rightarrow> request \<Rightarrow> bool" where
  "holds_cmd_token cr st req \<longleftrightarrow>
     (\<exists>h token. cmd_token_hash st = Some h \<and>
        req_header req ''authorization'' = Some (''Bearer '' @ token) \<and>
        validate_cmd_token_format token \<and> verify_token cr token h)"

definition holds_signature ::
    "('k, 'z) auth_deps_scheme \<Rightarrow> 'k app_state \<Rightarrow> clock \<Rightarrow> nonce_cache \<Rightarrow> request \<Rightarrow> bool" where
  "holds_signature d st clk cache req \<longleftrightarrow>
     (\<exists>key sig ts nonce t body b. signing_pubkey st = Some key \<and>
        req_header req ''x-nexus-signature'' = Some sig \<and>
        req_header req ''x-nexus-timestamp'' = Some ts \<and>
        req_header req ''x-nexus-nonce'' = Some nonce \<and>
        parse_datetime d ts = Some t \<and> \<bar>now_window clk - t\<bar> \<le> minutes 5 \<and>
        cache_retain (now_nonce clk) cache nonce = None \<and>
        req_body req = Some body \<and> length body \<le> MAX_BODY \<and>
        hex_decode d sig = Some b \<and> length b = 64 \<and>
        ed_verify d key (canonical_message (method_str (req_method req)) (req_path req) ts nonce
          (hex_crate_encode d (sha256 d body))) b)"

lemma holds_signature_alt:
  "holds_signature d st clk cache req \<and> r = req \<longleftrightarrow>
     (\<exists>k sig ts nonce. signing_pubkey st = Some k \<and>
       req_header req ''x-nexus-signature'' = Some sig \<and>
       req_header req ''x-nexus-timestamp'' = Some ts \<and>
       req_header req ''x-nexus-nonce'' = Some nonce \<and>
       timestamp_gate d clk ts = None \<and> fst (nonce_check (now_nonce clk) nonce cache) \<and>
       signature_gate d k req sig ts nonce = Inr r)"
  unfolding holds_signature_def timestamp_gate_None signature_gate_Inr fst_nonce_check by fast

lemma accepts_iff:
  "fst (require_cmd_auth d st clk req cache) = Inr r \<longleftrightarrow> r = req \<and> holds_cmd_token d st req \<and>
     (if is_write req \<and> require_signatures (compose (st_config st))
      then holds_signature d st clk cache req else True)"
proof (cases "signed_write st req")
  case True
  have "fst (require_cmd_auth d st clk req cache) = Inr r \<longleftrightarrow>
      (\<exists>c. require_cmd_auth d st clk req cache = (Inr r, c))"
    by (metis fst_conv prod.collapse)
  also have "\<dots> \<longleftrightarrow> cmd_token_gate d st req = None \<and>
      (holds_signature d st clk cache req \<and> r = req)"
    unfolding signed_cmd_auth [OF True] holds_signature_alt by blast
  also have "cmd_token_gate d st req = None \<longleftrightarrow> holds_cmd_token d st req"
    by (simp only: cmd_token_gate_None holds_cmd_token_def)
  finally show ?thesis using True by (auto simp: signed_write_def)
next
  case False
  then have "fst (require_cmd_auth d st clk req cache) = Inr r \<longleftrightarrow>
      cmd_token_gate d st req = None \<and> r = req"
    by (auto simp: unsigned_cmd_auth split: option.split)
  with False show ?thesis
    by (auto simp: signed_write_def cmd_token_gate_None holds_cmd_token_def)
qed

text \<open>C2. Acceptance at the compose routes, in full. A request passes exactly when the channel is
  configured and the bearer token has the command format and the configured hash; and, if it
  is a write under signature enforcement, when a key is loaded, the three signature headers
  are there, the timestamp is within five minutes, the nonce is fresh, and the 64-byte
  signature verifies over the canonical message with the hash of this very body. The request
  handed on is the request that was verified.
\<close>

theorem cmd_auth_accepts_iff:
  "fst (require_cmd_auth d st clk req cache) = Inr r \<longleftrightarrow> r = req \<and> holds_cmd_token d st req \<and>
     (if is_write req \<and> require_signatures (compose (st_config st))
      then holds_signature d st clk cache req else True)"
  by (rule accepts_iff)

text \<open>C7. The two credentials are separate: no request, whatever its headers, is accepted both by the
  node-token gate and by the command-token gate, in any two states of the service.
\<close>

theorem credentials_disjoint:
  "\<not> ((\<exists>r. require_auth cr st req = Inr r) \<and>
      (\<exists>r. fst (require_cmd_auth d st' clk req cache) = Inr r))"
proof
  assume a: "(\<exists>r. require_auth cr st req = Inr r) \<and>
      (\<exists>r. fst (require_cmd_auth d st' clk req cache) = Inr r)"
  then obtain s where "bearer_token (req_header req ''authorization'') = Some s"
      and s: "validate_token_format s"
    by (auto simp: require_auth_def split: option.splits if_splits)
  moreover from a have "cmd_token_gate d st' req = None"
    by (auto simp: require_cmd_auth_def split: option.splits)
  ultimately have "validate_cmd_token_format s"
    by (auto simp: cmd_token_gate_def split: option.splits if_splits)
  then have "starts_with s CMD_TOKEN_PREFIX" by (simp add: validate_cmd_token_format_def)
  with node_cred.disjoint_prefix [OF s, of 4 CMD_TOKEN_PREFIX] show False
    by (simp add: TOKEN_PREFIX_def CMD_TOKEN_PREFIX_def)
qed

lemma nonce_check_again:
  assumes "fst (require_cmd_auth d st clk req cache) = Inr r"
    and "signed_write st req" and "req_header req ''x-nexus-nonce'' = Some n"
    and "signed_write st req'" and "req_header req' ''x-nexus-nonce'' = Some n"
    and "\<forall>(c, q) \<in> set between. now_nonce c < now_nonce clk + minutes 6"
    and "now_nonce clk' < now_nonce clk + minutes 6"
  shows "\<exists>e. fst (require_cmd_auth d st clk' req'
    (cache_after d st between (snd (require_cmd_auth d st clk req cache)))) = Inl e"
proof -
  from assms(1) obtain c where c: "require_cmd_auth d st clk req cache = (Inr r, c)"
    by (cases "require_cmd_auth d st clk req cache") auto
  with assms(2,3) have fresh: "fst (nonce_check (now_nonce clk) n cache)"
      and c': "c = snd (nonce_check (now_nonce clk) n cache)"
    by (auto simp: signed_cmd_auth)
  let ?c = "cache_after d st between c"
  from nonce.recorded [OF fresh] have "c n = Some (now_nonce clk + minutes 6)"
    by (simp add: c')
  then have "?c n = Some (now_nonce clk + minutes 6)"
    using assms(6) by (rule cache_after_kept)
  then have "\<not> fst (nonce_check (now_nonce clk') n ?c)"
    using assms(7) by (rule nonce.rejected_while_live)
  with assms(5) have "\<not> holds_signature d st clk' ?c req'"
    by (auto simp: holds_signature_def fst_nonce_check)
  with assms(4) have "fst (require_cmd_auth d st clk' req' ?c) \<noteq> Inr q" for q
    by (auto simp: accepts_iff signed_write_def)
  with c show ?thesis by (cases "fst (require_cmd_auth d st clk' req' ?c)") auto
qed

text \<open>C3. Replay prevention. Once a signed write has been accepted, every signed write that carries
  the same nonce is rejected, whatever else it carries and whatever requests were served in
  between, as long as the clock stays below six minutes after the acceptance.
\<close>

theorem nonce_not_accepted_twice:
  assumes "fst (require_cmd_auth d st clk req cache) = Inr r"
    and "signed_write st req" and "req_header req ''x-nexus-nonce'' = Some n"
    and "signed_write st req'" and "req_header req' ''x-nexus-nonce'' = Some n"
    and "\<forall>(c, q) \<in> set between. now_nonce c < now_nonce clk + minutes 6"
    and "now_nonce clk' < now_nonce clk + minutes 6"
  shows "\<exists>e. fst (require_cmd_auth d st clk' req'
    (cache_after d st between (snd (require_cmd_auth d st clk req cache)))) = Inl e"
  using assms by (rule nonce_check_again)

theorem nonce_not_accepted_twice_witness:
  "\<exists>e. fst (require_cmd_auth sample_deps sample_state (at_time (minutes 3)) (signed_request ''0'' good_sig)
    (cache_after sample_deps sample_state [(at_time (minutes 1), signed_request ''+2'' [])]
      (snd (require_cmd_auth sample_deps sample_state (at_time 0) (signed_request ''0'' good_sig)
        Map.empty)))) = Inl e"
  by (rule nonce_not_accepted_twice
      [where r = "signed_request ''0'' good_sig" and n = "''a3f5''"])
    (simp_all add: sample_accepted cache_retain_def minutes_def)

text \<open>C6. Replay protection for a request as a whole: a signed write whose timestamp is not ahead of
  the server clock by more than a minute (less the time between the two clock readings) is
  never accepted again, at any later time: first its nonce is remembered, then its timestamp
  is too old.
\<close>

theorem request_not_replayed:
  assumes "fst (require_cmd_auth d st clk req cache) = Inr r" and "signed_write st req"
    and "req_header req ''x-nexus-timestamp'' = Some ts" and "parse_datetime d ts = Some t"
    and "t + minutes 5 + delay < now_nonce clk + minutes 6"
    and "\<forall>(c, q) \<in> set between. now_nonce c \<le> now_nonce clk'"
    and "now_nonce clk' \<le> now_window clk' + delay"
  shows "\<exists>e. fst (require_cmd_auth d st clk' req
    (cache_after d st between (snd (require_cmd_auth d st clk req cache)))) = Inl e"
proof (cases "now_nonce clk' < now_nonce clk + minutes 6")
  case True
  from assms(1,2) obtain n where n: "req_header req ''x-nexus-nonce'' = Some n"
    by (auto simp: accepts_iff signed_write_def holds_signature_def)
  from assms(6) True have "\<forall>(c, q) \<in> set between. now_nonce c < now_nonce clk + minutes 6"
    by (fastforce intro: le_less_trans)
  from nonce_check_again [OF assms(1,2) n assms(2) n this True] show ?thesis .
next
  case False
  then have "\<not> \<bar>now_window clk' - t\<bar> \<le> minutes 5" using assms(5,7) by linarith
  with assms(3,4) have "\<not> holds_signature d st clk' c req" for c
    by (auto simp: holds_signature_def)
  with assms(2) have "fst (require_cmd_auth d st clk' req c) \<noteq> Inr q" for c q
    by (auto simp: accepts_iff signed_write_def)
  then show ?thesis by (meson sum.exhaust)
qed

theorem request_not_replayed_witness:
  "\<exists>e. fst (require_cmd_auth sample_deps sample_state (at_time (minutes 30)) (signed_request ''0'' good_sig)
    (cache_after sample_deps sample_state [(at_time (minutes 1), signed_request ''+2'' [])]
      (snd (require_cmd_auth sample_deps sample_state (at_time 0) (signed_request ''0'' good_sig)
        Map.empty)))) = Inl e"
  by (rule request_not_replayed
      [where r = "signed_request ''0'' good_sig" and ts = "''0''" and t = 0 and delay = 0])
    (simp_all add: sample_accepted cache_retain_def minutes_def)

text \<open>C31. Where the protection ends. The nonce is remembered for six minutes from the acceptance, but
  the timestamp window is centred on the timestamp: a signed write stamped between one and
  five minutes ahead of the server clock is accepted once more, with the same nonce and the
  same signature, six minutes after it was accepted the first time.
\<close>

theorem early_request_replayable:
  assumes "fst (require_cmd_auth d st (at_time now) req cache) = Inr r" and "signed_write st req"
    and "req_header req ''x-nexus-timestamp'' = Some ts" and "parse_datetime d ts = Some t"
    and "now + minutes 1 \<le> t"
  shows "fst (require_cmd_auth d st (at_time (now + minutes 6)) req
    (snd (require_cmd_auth d st (at_time now) req cache))) = Inr r"
proof -
  from assms(1,2) have sig: "holds_signature d st (at_time now) cache req"
    and tok: "r = req \<and> holds_cmd_token d st req"
    by (simp_all add: accepts_iff signed_write_def)
  from sig assms(3,4) have old: "\<bar>now - t\<bar> \<le> minutes 5"
    by (auto simp: holds_signature_def)
  let ?c = "snd (require_cmd_auth d st (at_time now) req cache)"
  from sig obtain n where n: "req_header req ''x-nexus-nonce'' = Some n"
      and f: "fst (nonce_check now n cache)"
    by (auto simp: holds_signature_def fst_nonce_check)
  from assms(1) obtain c' where e: "require_cmd_auth d st (at_time now) req cache = (Inr r, c')"
    by (cases "require_cmd_auth d st (at_time now) req cache") auto
  with n have "c' = snd (nonce_check now n cache)"
    by (auto simp: signed_cmd_auth [OF assms(2)])
  with e have c: "?c = snd (nonce_check now n cache)" by simp
  have "cache_retain (now + minutes 6) ?c n = None"
    using nonce.accepted_when_expired [OF f, of "now + minutes 6"] by (simp add: c fst_nonce_check)
  moreover have "\<bar>now + minutes 6 - t\<bar> \<le> minutes 5"
    using old assms(5) by (simp add: minutes_def)
  ultimately have "holds_signature d st (at_time (now + minutes 6)) ?c req"
    using sig n assms(3,4) by (auto simp: holds_signature_def)
  with tok show ?thesis by (simp add: accepts_iff)
qed

theorem early_request_replayable_witness:
  "fst (require_cmd_auth sample_deps sample_state (at_time (0 + minutes 6)) (signed_request ''+2'' good_sig)
      (snd (require_cmd_auth sample_deps sample_state (at_time 0) (signed_request ''+2'' good_sig)
        Map.empty))) = Inr (signed_request ''+2'' good_sig)"
  by (rule early_request_replayable [where ts = "''+2''" and t = "minutes 2"])
    (simp_all add: sample_accepted cache_retain_def minutes_def)

text \<open>C32. The nonce is spent before the signature is looked at: a write with the right token, headers
  and timestamp but a signature that does not verify is rejected, and from then on a
  correctly signed write with that nonce is rejected as a replay, for six minutes.
\<close>

theorem bad_signature_spends_nonce:
  assumes "signed_write st req" and "cmd_token_gate d st req = None"
    and "signing_pubkey st = Some key" and "req_header req ''x-nexus-signature'' = Some sig"
    and "req_header req ''x-nexus-timestamp'' = Some ts" and "timestamp_gate d clk ts = None"
    and "req_header req ''x-nexus-nonce'' = Some n" and "fst (nonce_check (now_nonce clk) n cache)"
    and "signature_gate d key req sig ts n = Inl e"
    and "signed_write st req'" and "req_header req' ''x-nexus-nonce'' = Some n"
    and "now_nonce clk' < now_nonce clk + minutes 6"
  shows "fst (require_cmd_auth d st clk req cache) = Inl e \<and>
    (\<exists>e'. fst (require_cmd_auth d st clk' req' (snd (require_cmd_auth d st clk req cache))) = Inl e')"
proof -
  have r: "require_cmd_auth d st clk req cache = (Inl e, snd (nonce_check (now_nonce clk) n cache))"
    using assms(1-9) by (simp add: require_cmd_auth_def signed_write_def nonce_check_pair)
  let ?c = "snd (nonce_check (now_nonce clk) n cache)"
  have "\<not> fst (nonce_check (now_nonce clk') n ?c)"
    using nonce.recorded [OF assms(8)] assms(12) by (rule nonce.rejected_while_live)
  with assms(11) have "\<not> holds_signature d st clk' ?c req'"
    by (auto simp: holds_signature_def fst_nonce_check)
  with assms(10) have "fst (require_cmd_auth d st clk' req' ?c) \<noteq> Inr q" for q
    by (auto simp: accepts_iff signed_write_def)
  with r show ?thesis by (metis fst_conv snd_conv sum.exhaust)
qed

theorem bad_signature_spends_nonce_witness:
  "fst (require_cmd_auth sample_deps sample_state (at_time 0) (signed_request ''0'' ''bad'') Map.empty)
     = Inl (http_err 403 ''Invalid X-Nexus-Signature'') \<and>
   (\<exists>e'. fst (require_cmd_auth sample_deps sample_state (at_time (minutes 1)) (signed_request ''0'' good_sig)
     (snd (require_cmd_auth sample_deps sample_state (at_time 0) (signed_request ''0'' ''bad'') Map.empty)))
     = Inl e')"
  by (rule bad_signature_spends_nonce
      [where key = "''key''" and sig = "''bad''" and ts = "''0''" and n = "''a3f5''"])
    (simp_all add: timestamp_gate_None fst_nonce_check cache_retain_def sample_signature minutes_def)

text \<open>The canonical message commits to its five parts: two messages built from line-free parts are
  equal only when method, path, timestamp, nonce and body hash all agree.
\<close>

theorem canonical_message_commits:
  assumes "canonical_message m p t n h = canonical_message m' p' t' n' h'"
    and "\<forall>s \<in> set [m, p, t, n, h, m', p', t', n', h']. LF \<notin> set s"
  shows "m = m' \<and> p = p' \<and> t = t' \<and> n = n' \<and> h = h'"
proof -
  have "[m, p, t, n, h] = split_char LF (canonical_message m p t n h)"
    using assms(2) by (simp add: canonical_split)
  also have "\<dots> = split_char LF (canonical_message m' p' t' n' h')" by (simp only: assms(1))
  also have "\<dots> = [m', p', t', n', h']" using assms(2) by (simp add: canonical_split)
  finally show ?thesis by simp
qed

theorem canonical_message_commits_witness:
  "''PUT'' = ''PUT'' \<and> ''/compose/file'' = ''/compose/file'' \<and> ''t'' = ''t'' \<and> ''a3f5'' = ''a3f5'' \<and> ''00'' = ''00''"
  by (rule canonical_message_commits) (simp_all add: LF_def)

end
