(* ===== verification/Replace_Laws.thy ===== *)
theory Replace_Laws
  imports File_Laws
begin

text \<open>
  Replacing a file atomically: the abstract operation \<open>atomic_replace\<close> (make the directory,
  write a temporary file, rename it over the target, clean up when the rename fails), its
  behaviour under any failure, and the locale \<open>file_replacer\<close> of the operations that refine it.
\<close>

section \<open>Making a directory that is there\<close>

lemma walk_prefix_dir:
  "walk look n base (cs @ ds) = Some r \<Longrightarrow> ds \<noteq> [] \<Longrightarrow> look_wf look \<Longrightarrow> look base = Some Dir \<Longrightarrow>
   \<exists>q m. walk look n base cs = Some (q, m) \<and> look q = Some Dir"
proof (induction look n base cs rule: walk.induct)
  case (1 look n base)
  then show ?case by simp
next
  case (2 look n base c cs)
  show ?case
  proof (cases "c = ''..''")
    case True
    have "look (butlast base) = Some Dir"
      using "2.prems" by (cases "base = []") (auto simp: look_wf_def)
    with True 2 show ?thesis by simp
  next
    case False
    show ?thesis
    proof (cases "look (base @ [c])")
      case None
      with False 2 show ?thesis by (auto split: if_splits)
    next
      case (Some x)
      have root: "look [] = Some Dir" using "2.prems"(3) by (simp add: look_wf_def)
      show ?thesis
      proof (cases x)
        case (Link b p)
        with False Some 2 root show ?thesis by (cases n; cases b) auto
      qed (use False Some 2 in \<open>auto split: if_splits\<close>)
    qed
  qed
qed

lemma is_dir_prefix:
  assumes "fs_wf t" and "is_dir t (p @ ds)"
  shows "is_dir t p"
proof (cases "ds = []")
  case False
  from assms(2) obtain r where "walk (lookup t) MAX_LINKS [] (p @ ds) = Some r"
    by (auto simp: is_dir_def node_at_def canonicalize_def locate_def split: option.splits)
  from walk_prefix_dir [OF this False] assms(1)
  obtain q m where "walk (lookup t) MAX_LINKS [] p = Some (q, m)" "lookup t q = Some Dir"
    by (auto simp: fs_wf_def)
  then show ?thesis by (simp add: is_dir_def node_at_def canonicalize_def locate_def)
qed (use assms in simp)

lemma make_dirs_existing: "fs_wf t \<Longrightarrow> is_dir t (p @ cs) \<Longrightarrow> make_dirs t p cs = (Inr (), t)"
proof (induction t p cs rule: make_dirs.induct)
  case (2 t p c cs)
  have "is_dir t (p @ [c])"
    using "2.prems" by (intro is_dir_prefix [of t "p @ [c]" cs]) auto
  with 2 show ?case by simp
qed simp

lemma create_dir_all_existing:
  "fs_wf t \<Longrightarrow> is_dir t p \<Longrightarrow> create_dir_all env p t =
     (case fault env (Op_create_dir_all p) of Some e \<Rightarrow> (Inl e, t) | None \<Rightarrow> (Inr (), t))"
  by (simp add: create_dir_all_def make_dirs_existing split: option.split)

section \<open>The abstract replacement\<close>

definition atomic_replace :: "io_env \<Rightarrow> path \<Rightarrow> string \<Rightarrow> string \<Rightarrow> string \<Rightarrow> fs \<Rightarrow> bool \<times> fs" where
  "atomic_replace env dir tmp name content t = (case create_dir_all env dir t of
     (Inl _, t1) \<Rightarrow> (False, t1)
   | (Inr _, t1) \<Rightarrow> (case write_file env (dir @ [tmp]) content t1 of
       (Inl _, t2) \<Rightarrow> (False, t2)
     | (Inr _, t2) \<Rightarrow> (case rename_file env (dir @ [tmp]) (dir @ [name]) t2 of
         (Inl _, t3) \<Rightarrow> (False, snd (remove_file env (dir @ [tmp]) t3))
       | (Inr _, t3) \<Rightarrow> (True, t3))))"

text \<open>The directory exists at \<open>d\<close>, and neither name in it is a directory or a link.\<close>

definition replace_ready :: "fs \<Rightarrow> path \<Rightarrow> string \<Rightarrow> string \<Rightarrow> path \<Rightarrow> bool" where
  "replace_ready t dir tmp name d \<longleftrightarrow> fs_wf t \<and> canonicalize t dir = Some d \<and>
     lookup t d = Some Dir \<and> regular (lookup t (d @ [tmp])) \<and> regular (lookup t (d @ [name])) \<and>
     tmp \<noteq> name \<and> tmp \<noteq> ''..'' \<and> name \<noteq> ''..''"

lemma ready_dir: "replace_ready t dir tmp name d \<Longrightarrow> is_dir t dir"
  by (simp add: replace_ready_def is_dir_def node_at_def)

lemma ready_entry: "replace_ready t dir tmp name d \<Longrightarrow> entry t (dir @ [x]) = Some (d @ [x])"
  by (simp add: replace_ready_def entry_def)

lemma ready_same_shape:
  assumes "replace_ready t dir tmp name d" and "same_shape (lookup t) (lookup t')" and "fs_wf t'"
    and "regular (lookup t' (d @ [tmp]))" and "regular (lookup t' (d @ [name]))"
  shows "replace_ready t' dir tmp name d"
  using assms same_shape_canonical_dir [OF assms(2), of dir d] by (auto simp: replace_ready_def)

lemma ready_node_at:
  assumes "replace_ready t dir tmp name d"
  shows "node_at t (dir @ [name]) = lookup t (d @ [name])"
  using assms ready_entry [OF assms, of name]
  by (intro node_at_entry) (auto simp: replace_ready_def)

text \<open>What a replacement does: the named file is the old one or, on success, the new one; only
  it and the temporary file change; and the next replacement finds the same situation.\<close>

lemma atomic_replace_effect:
  assumes ready: "replace_ready t dir tmp name d"
    and run: "atomic_replace env dir tmp name content t = (ok, t')"
  shows "lookup t' (d @ [name]) = (if ok then Some (File content) else lookup t (d @ [name]))
    \<and> (\<forall>k. k \<noteq> d @ [tmp] \<longrightarrow> k \<noteq> d @ [name] \<longrightarrow> lookup t' k = lookup t k)
    \<and> (ok \<longrightarrow> lookup t' (d @ [tmp]) = None)
    \<and> replace_ready t' dir tmp name d"
proof -
  from ready have wf: "fs_wf t" and names: "tmp \<noteq> name" "tmp \<noteq> ''..''"
    and reg: "regular (lookup t (d @ [tmp]))" "regular (lookup t (d @ [name]))"
    by (auto simp: replace_ready_def)
  note e = ready_entry [OF ready]
  from create_dir_all_existing [OF wf ready_dir [OF ready], of env]
  obtain c where c: "create_dir_all env dir t = (c, t)"
    by (cases "fault env (Op_create_dir_all dir)") auto
  obtain w t2 where w: "write_file env (dir @ [tmp]) content t = (w, t2)" by fastforce
  obtain r t3 where r: "rename_file env (dir @ [tmp]) (dir @ [name]) t2 = (r, t3)" by fastforce
  obtain m t4 where m: "remove_file env (dir @ [tmp]) t3 = (m, t4)" by fastforce
  have wf2: "fs_wf t2" using write_file_wf [OF wf, of env "dir @ [tmp]" content] w by simp
  have wf3: "fs_wf t3" using rename_file_wf [OF wf2, of env "dir @ [tmp]" "dir @ [name]"] r by simp
  have wf4: "fs_wf t4" using remove_file_wf [OF wf3, of env "dir @ [tmp]"] m by simp
  from write_file_frame [OF wf names(2) e reg(1) w]
  have f2: "\<forall>k. k \<noteq> d @ [tmp] \<longrightarrow> lookup t2 k = lookup t k"
    and s2: "same_shape (lookup t) (lookup t2)" and g2: "regular (lookup t2 (d @ [tmp]))" by auto
  have l2: "lookup t2 (d @ [tmp]) = Some (File content)" if "w = Inr u" for u
    using w that names wf e reg(1)
    by (auto simp: write_file_entry lookup_put split: option.splits)
  have e2: "entry t2 (dir @ [x]) = Some (d @ [x])" for x
    using e same_shape_entry [OF s2, of "dir @ [x]"] by simp
  have n2: "lookup t2 (d @ [name]) = lookup t (d @ [name])" using f2 names by simp
  have ready2: "replace_ready t2 dir tmp name d"
    using ready_same_shape [OF ready s2 wf2] g2 n2 reg(2) by simp
  from rename_file_frame [OF r e2 e2 g2] n2 reg(2) names
  have f3: "case r of Inl _ \<Rightarrow> t3 = t2 | Inr _ \<Rightarrow>
      (\<forall>k. lookup t3 k = (if k = d @ [name] then lookup t2 (d @ [tmp])
         else if k = d @ [tmp] then None else lookup t2 k))
      \<and> same_shape (lookup t2) (lookup t3)" by (auto split: sum.splits)
  show ?thesis
  proof (cases c)
    case (Inl x)
    with run c ready show ?thesis by (auto simp: atomic_replace_def)
  next
    case c': (Inr x)
    show ?thesis
    proof (cases w)
      case (Inl y)
      with run c c' w ready2 n2 f2 show ?thesis by (auto simp: atomic_replace_def)
    next
      case w': (Inr y)
      show ?thesis
      proof (cases r)
        case (Inl z)
        with f3 have t3: "t3 = t2" by simp
        have e3: "entry t3 (dir @ [tmp]) = Some (d @ [tmp])" using e2 t3 by simp
        from remove_file_frame [OF m e3] g2 t3
        have f4: "\<forall>k. k \<noteq> d @ [tmp] \<longrightarrow> lookup t4 k = lookup t2 k"
          and s4: "same_shape (lookup t2) (lookup t4)" by auto
        have g4: "regular (lookup t4 (d @ [tmp]))"
          using s4 g2 unfolding same_shape_def by metis
        have ready4: "replace_ready t4 dir tmp name d"
          using ready_same_shape [OF ready2 s4 wf4 g4] f4 n2 reg(2) names by simp
        from run c c' w w' r m Inl have "ok = False" "t' = t4" by (auto simp: atomic_replace_def)
        with f4 f2 n2 names ready4 show ?thesis by simp
      next
        case r': (Inr z)
        from run c c' w w' r r' have "ok = True" "t' = t3" by (auto simp: atomic_replace_def)
        moreover have "replace_ready t3 dir tmp name d"
          using ready_same_shape [OF ready2 _ wf3] f3 r' w' l2 names by simp
        ultimately show ?thesis using f3 r' w' l2 f2 names by simp
      qed
    qed
  qed
qed

text \<open>Without a failing call a replacement succeeds.\<close>

lemma atomic_replace_succeeds:
  assumes ready: "replace_ready t dir tmp name d" and quiet: "fault env = (\<lambda>_. None)"
  shows "fst (atomic_replace env dir tmp name content t)"
proof -
  from ready have wf: "fs_wf t" and names: "tmp \<noteq> name" "tmp \<noteq> ''..''"
    and reg: "regular (lookup t (d @ [tmp]))" "regular (lookup t (d @ [name]))"
    by (auto simp: replace_ready_def)
  let ?t2 = "put_node (d @ [tmp]) (File content) t"
  have w: "write_file env (dir @ [tmp]) content t = (Inr (), ?t2)"
    using names wf ready_entry [OF ready] reg(1) quiet by (simp add: write_file_entry)
  have s: "same_shape (lookup t) (lookup ?t2)" by (rule same_shape_put) (use reg in auto)
  have e: "entry ?t2 (dir @ [x]) = Some (d @ [x])" for x
    using ready_entry [OF ready] same_shape_entry [OF s, of "dir @ [x]"] by simp
  have n: "lookup ?t2 (d @ [name]) \<noteq> Some Dir" using reg(2) names by (auto simp: lookup_put)
  have "fst (rename_file env (dir @ [tmp]) (dir @ [name]) ?t2) = Inr ()"
    using quiet e n by (simp add: rename_file_def lookup_put)
  then obtain t3 where "rename_file env (dir @ [tmp]) (dir @ [name]) ?t2 = (Inr (), t3)"
    by (metis prod.collapse)
  with w create_dir_all_existing [OF wf ready_dir [OF ready], of env] quiet show ?thesis
    by (simp add: atomic_replace_def)
qed

section \<open>The contract of a replacing operation\<close>

text \<open>
  An operation on one file, the \<open>slot\<close>: as long as the files are \<open>ready\<close> for it, it leaves the new
  content when it succeeds and the old one when it does not, accepts what it writes, changes at
  most the locations of \<open>aux\<close> besides, and leaves the files ready for the next one.
\<close>

locale file_replacer =
  fixes ready :: "fs \<Rightarrow> bool" and slot :: path and aux :: "path \<Rightarrow> bool"
    and content_of :: "'r \<Rightarrow> string" and accepts :: "string \<Rightarrow> bool"
    and replace :: "io_env \<Rightarrow> 'r \<Rightarrow> fs \<Rightarrow> bool \<times> fs"
  assumes replace_effect: "ready t \<Longrightarrow> replace env w t = (ok, t') \<Longrightarrow>
      lookup t' slot = (if ok then Some (File (content_of w)) else lookup t slot)
      \<and> (\<forall>k. k \<noteq> slot \<longrightarrow> \<not> aux k \<longrightarrow> lookup t' k = lookup t k)
      \<and> (ok \<longrightarrow> accepts (content_of w)) \<and> ready t'"
begin

text \<open>A run of replacements: the successful contents, in order.\<close>

fun run_replaces :: "(io_env \<times> 'r) list \<Rightarrow> fs \<Rightarrow> string list \<times> fs" where
  "run_replaces [] t = ([], t)"
| "run_replaces ((env, w) # ws) t =
     (let (ok, t1) = replace env w t; (cs, t2) = run_replaces ws t1
      in (if ok then content_of w # cs else cs, t2))"

lemma last_replace_wins:
  "ready t \<Longrightarrow> run_replaces ws t = (cs, t') \<Longrightarrow>
   lookup t' slot = (if cs = [] then lookup t slot else Some (File (last cs)))
   \<and> (\<forall>c \<in> set cs. accepts c) \<and> ready t'"
proof (induction ws arbitrary: t cs)
  case Nil
  then show ?case by auto
next
  case (Cons x ws)
  obtain env w where x: "x = (env, w)" by fastforce
  obtain ok t1 where r: "replace env w t = (ok, t1)" by fastforce
  obtain cs1 t2 where rs: "run_replaces ws t1 = (cs1, t2)" by fastforce
  from Cons.prems(2) x r rs have cs: "cs = (if ok then content_of w # cs1 else cs1)" and "t' = t2"
    by auto
  with rs have rs': "run_replaces ws t1 = (cs1, t')" by simp
  note e = replace_effect [OF Cons.prems(1) r]
  from Cons.IH [OF _ rs'] e cs show ?case by (cases ok) (auto split: if_splits)
qed

end

end
