(* ===== verification/Compose_Laws.thy ===== *)
theory Compose_Laws
  imports Service_Compose Replace_Laws
begin

text \<open>
  The compose handlers: the HTTP replacement refines the abstract atomic replacement
  (interpretation \<open>http_put\<close>), what is written is what is read back, companion files never
  come from outside the compose directory, and no caller-supplied text becomes a flag of a
  command line.
\<close>

section \<open>The HTTP replacement refines the abstract one\<close>

lemma write_compose_refines:
  "(case write_compose env dir content t of (r, t') \<Rightarrow> (r = Inr (), t'))
     = atomic_replace env dir TMP_NAME YAML_NAME content t"
  by (simp add: write_compose_def atomic_replace_def split: prod.split sum.split)

text \<open>
  What git may do. \<open>own\<close> are the locations git keeps its data in (the directory \<open>.git\<close>, or where
  a file of that name points): \<open>git add\<close>, \<open>git commit\<close> and \<open>git rev-parse\<close> write there and leave the
  work tree alone, so the compose file is none of them and the directory stays as a replacement
  finds it.
\<close>

definition git_spec :: "git \<Rightarrow> (path \<Rightarrow> bool) \<Rightarrow> path \<Rightarrow> path \<Rightarrow> bool" where
  "git_spec git own dir d \<longleftrightarrow> \<not> own (d @ [YAML_NAME]) \<and>
     (\<forall>argv t. replace_ready t dir TMP_NAME YAML_NAME d \<longrightarrow>
        replace_ready (snd (git argv t)) dir TMP_NAME YAML_NAME d
        \<and> (\<forall>k. \<not> own k \<longrightarrow> lookup (snd (git argv t)) k = lookup t k))"

lemma git_specD:
  assumes "git_spec git own dir d" and "replace_ready t dir TMP_NAME YAML_NAME d"
    and "git argv t = (r, t')"
  shows "replace_ready t' dir TMP_NAME YAML_NAME d" and "\<not> own k \<Longrightarrow> lookup t' k = lookup t k"
  using assms unfolding git_spec_def by (metis snd_conv)+

lemma git_commit_effect:
  assumes g: "git_spec git own dir d" and ready: "replace_ready t dir TMP_NAME YAML_NAME d"
    and run: "git_commit git message t = (sha, t', argvs)"
  shows "replace_ready t' dir TMP_NAME YAML_NAME d \<and> (\<forall>k. \<not> own k \<longrightarrow> lookup t' k = lookup t k)
    \<and> argvs \<noteq> []"
proof -
  obtain r1 t1 where a: "git GIT_ADD t = (r1, t1)" by fastforce
  obtain r2 t2 where c: "git (git_commit_argv message) t1 = (r2, t2)" by fastforce
  obtain r3 t3 where p: "git GIT_REV_PARSE t2 = (r3, t3)" by fastforce
  note s1 = git_specD [OF g ready a]
  note s2 = git_specD [OF g s1(1) c]
  note s3 = git_specD [OF g s2(1) p]
  from run have "(t' = t1 \<or> t' = t2 \<or> t' = t3) \<and> argvs \<noteq> []"
    unfolding git_commit_def a c p prod.case
    by (auto simp: c p split: proc_result.splits if_splits)
  with s1 s2 s3 show ?thesis by auto
qed

lemma put_compose_file_steps:
  assumes "put_compose_file yaml env git cfg body t = (r, t', argvs)"
  shows "case yaml (pf_content body) of Some e \<Rightarrow> isl r \<and> t' = t \<and> argvs = []
    | None \<Rightarrow> (\<exists>u. atomic_replace env (path_of (compose_dir (compose cfg))) TMP_NAME YAML_NAME
          (pf_content body) t = (\<not> isl r, u)
        \<and> (if isl r \<or> \<not> is_git_repo u (path_of (compose_dir (compose cfg))) then t' = u \<and> argvs = []
           else \<exists>sha. git_commit git (pf_message body) u = (sha, t', argvs)))"
proof (cases "yaml (pf_content body)")
  case None
  let ?dir = "path_of (compose_dir (compose cfg))"
  obtain w u where w: "write_compose env ?dir (pf_content body) t = (w, u)" by fastforce
  have "atomic_replace env ?dir TMP_NAME YAML_NAME (pf_content body) t = (w = Inr (), u)"
    using write_compose_refines [of env ?dir "pf_content body" t] w by simp
  with assms None w show ?thesis
    by (cases w) (auto simp: put_compose_file_def Let_def split: prod.splits if_splits)
qed (use assms in \<open>auto simp: put_compose_file_def\<close>)

definition http_replace ::
    "(string \<Rightarrow> string option) \<Rightarrow> git \<Rightarrow> config \<Rightarrow> io_env \<Rightarrow> put_file_request \<Rightarrow> fs \<Rightarrow> bool \<times> fs" where
  "http_replace yaml git cfg env body t =
     (case put_compose_file yaml env git cfg body t of (r, t', _) \<Rightarrow> (\<not> isl r, t'))"

lemma put_compose_file_effect:
  assumes "put_compose_file yaml env git cfg body t = (r, t', argvs)"
    and "replace_ready t (path_of (compose_dir (compose cfg))) TMP_NAME YAML_NAME d"
    and g: "git_spec git own (path_of (compose_dir (compose cfg))) d"
  shows "lookup t' (d @ [YAML_NAME]) =
      (if isl r then lookup t (d @ [YAML_NAME]) else Some (File (pf_content body)))
    \<and> (\<forall>k. k = d @ [TMP_NAME] \<or> k = d @ [YAML_NAME] \<or> (own k \<and> argvs \<noteq> []) \<or> lookup t' k = lookup t k)
    \<and> (\<not> isl r \<longrightarrow> yaml (pf_content body) = None)
    \<and> replace_ready t' (path_of (compose_dir (compose cfg))) TMP_NAME YAML_NAME d"
proof (cases "yaml (pf_content body)")
  case (Some e)
  with put_compose_file_steps [OF assms(1)] assms(2) show ?thesis by auto
next
  case None
  let ?dir = "path_of (compose_dir (compose cfg))"
  from put_compose_file_steps [OF assms(1)] None obtain u where
    u: "atomic_replace env ?dir TMP_NAME YAML_NAME (pf_content body) t = (\<not> isl r, u)"
    and t': "if isl r \<or> \<not> is_git_repo u ?dir then t' = u \<and> argvs = []
      else \<exists>sha. git_commit git (pf_message body) u = (sha, t', argvs)" by auto
  note e = atomic_replace_effect [OF assms(2) u]
  show ?thesis
  proof (cases "isl r \<or> \<not> is_git_repo u ?dir")
    case True
    with t' e None show ?thesis by auto
  next
    case False
    with t' obtain sha where "git_commit git (pf_message body) u = (sha, t', argvs)" by auto
    from git_commit_effect [OF g _ this] e have c: "replace_ready t' ?dir TMP_NAME YAML_NAME d"
      "\<forall>k. \<not> own k \<longrightarrow> lookup t' k = lookup u k" "argvs \<noteq> []" by auto
    moreover have "\<not> own (d @ [YAML_NAME])" using g by (simp add: git_spec_def)
    ultimately show ?thesis using e False None by auto
  qed
qed

interpretation http_put: file_replacer
    "\<lambda>t. replace_ready t (path_of (compose_dir (compose cfg))) TMP_NAME YAML_NAME d
       \<and> git_spec git own (path_of (compose_dir (compose cfg))) d"
    "d @ [YAML_NAME]" "\<lambda>k. k = d @ [TMP_NAME] \<or> own k" pf_content "\<lambda>c. yaml c = None"
    "http_replace yaml git cfg"
  for yaml git cfg d own
proof unfold_locales
  fix t env and w :: put_file_request and ok t'
  assume ready: "replace_ready t (path_of (compose_dir (compose cfg))) TMP_NAME YAML_NAME d
      \<and> git_spec git own (path_of (compose_dir (compose cfg))) d"
    and run: "http_replace yaml git cfg env w t = (ok, t')"
  obtain r argvs where "put_compose_file yaml env git cfg w t = (r, t', argvs)" and "ok = (\<not> isl r)"
    using run by (auto simp: http_replace_def split: prod.splits)
  with put_compose_file_effect [OF this(1)] ready
  show "lookup t' (d @ [YAML_NAME]) = (if ok then Some (File (pf_content w)) else lookup t (d @ [YAML_NAME]))
      \<and> (\<forall>k. k \<noteq> d @ [YAML_NAME] \<longrightarrow> \<not> (k = d @ [TMP_NAME] \<or> own k) \<longrightarrow> lookup t' k = lookup t k)
      \<and> (ok \<longrightarrow> yaml (pf_content w) = None)
      \<and> replace_ready t' (path_of (compose_dir (compose cfg))) TMP_NAME YAML_NAME d
      \<and> git_spec git own (path_of (compose_dir (compose cfg))) d"
    by auto
qed

section \<open>Reading back\<close>

lemma names_ne [simp]:
  "TMP_NAME \<noteq> YAML_NAME" "TMP_NAME \<noteq> ''..''" "YAML_NAME \<noteq> ''..''" "YML_NAME \<noteq> YAML_NAME"
  by (simp_all add: TMP_NAME_def YAML_NAME_def YML_NAME_def)

lemma node_at_exists: "node_at t p = Some n \<Longrightarrow> exists t p"
  by (auto simp: node_at_def exists_def bind_eq_Some_conv)

lemma get_compose_file_node:
  assumes "node_at t (path_of (compose_dir (compose cfg)) @ [YAML_NAME]) = Some (File content)"
    and "valid_utf8 content"
    and "fault env (Op_read (path_of (compose_dir (compose cfg)) @ [YAML_NAME])) = None"
  shows "\<exists>resp. get_compose_file env cfg t = Inr resp \<and> gf_content resp = content
    \<and> gf_path resp = YAML_NAME"
  using assms node_at_exists [OF assms(1)]
  by (simp add: get_compose_file_def find_compose_file_def read_to_string_def read_bytes_def Let_def)

section \<open>Companion files stay inside\<close>

lemma file_name_valid: "file_name p \<noteq> [] \<Longrightarrow> file_name p = last p"
  by (auto simp: file_name_def split: if_splits)

text \<open>A file handed out: where it is, what it is called.\<close>

definition confined_file :: "fs \<Rightarrow> string list \<Rightarrow> path \<Rightarrow> path \<Rightarrow> file_entry \<Rightarrow> bool" where
  "confined_file t extensions dir_canonical root e \<longleftrightarrow>
     (\<exists>p q. canonicalize t p = Some q \<and> starts_with_path q dir_canonical \<and>
        lookup t q = Some (File (fe_content e)) \<and> fe_name e = rel_name root p \<and>
        file_name p \<noteq> YAML_NAME \<and> file_name p \<noteq> YML_NAME \<and>
        extra_name_matches extensions (file_name p) \<and> valid_utf8 (fe_content e))"

lemma read_to_string_Inr:
  "read_to_string env t p = Inr c \<longleftrightarrow>
     fault env (Op_read p) = None \<and> node_at t p = Some (File c) \<and> valid_utf8 c"
  by (auto simp: read_to_string_def read_bytes_def res_bind_Inr_iff
      split: option.splits node.splits if_splits)

lemma extra_file_confined:
  assumes "e \<in> set (extra_file env t extensions dir_canonical root p)"
  shows "confined_file t extensions dir_canonical root e"
proof -
  from assms obtain c where c: "read_to_string env t p = Inr c"
    and e: "e = \<lparr>fe_name = rel_name root p, fe_content = c\<rparr>"
    and esc: "\<not> (case canonicalize t p of
       Some canonical \<Rightarrow> \<not> starts_with_path canonical dir_canonical | None \<Rightarrow> False)"
    and names: "file_name p \<noteq> YAML_NAME" "file_name p \<noteq> YML_NAME"
      "extra_name_matches extensions (file_name p)"
    unfolding extra_file_def by (cases "read_to_string env t p") (auto split: if_split_asm)
  from c obtain q where q: "canonicalize t p = Some q" "lookup t q = Some (File c)"
    by (auto simp: read_to_string_Inr node_at_def bind_eq_Some_conv)
  moreover from esc q have "starts_with_path q dir_canonical" by simp
  moreover from c have "valid_utf8 c" by (simp add: read_to_string_Inr)
  ultimately show ?thesis unfolding confined_file_def
    using e names by (intro exI [of _ p] exI [of _ q]) simp
qed

lemma collect_confined:
  "e \<in> set (collect_extra_files env t extensions dir_canonical root current) \<Longrightarrow>
   confined_file t extensions dir_canonical root e"
proof (induction env t extensions dir_canonical root current rule: collect_extra_files.induct)
  case (1 env t extensions dir_canonical root current)
  from "1.prems" obtain names name where l: "list_dir env t current = Some names"
    and n: "name \<in> set names"
    and e: "e \<in> set (if is_dir t (current @ [name]) \<and> current = root
          then collect_extra_files env t extensions dir_canonical root (current @ [name])
          else extra_file env t extensions dir_canonical root (current @ [name]))"
    unfolding collect_extra_files.simps [of env t extensions dir_canonical root current]
    by (cases "list_dir env t current") auto
  show ?case
  proof (cases "is_dir t (current @ [name]) \<and> current = root")
    case True
    from e have "e \<in> set (collect_extra_files env t extensions dir_canonical root (current @ [name]))"
      unfolding if_P [OF True] .
    then show ?thesis by (rule "1.IH" [OF l n True])
  next
    case False
    from e have "e \<in> set (extra_file env t extensions dir_canonical root (current @ [name]))"
      unfolding if_not_P [OF False] .
    then show ?thesis by (rule extra_file_confined)
  qed
qed

lemma read_extra_confined:
  assumes "e \<in> set (read_extra_files env t dir extensions)"
  shows "\<exists>d. canonicalize t dir = Some d \<and> confined_file t extensions d dir e"
  using assms
  by (cases "canonicalize t dir") (auto simp: read_extra_files_def dest: collect_confined)

lemma read_extra_sorted: "sorted (map fe_name (read_extra_files env t dir extensions))"
  by (simp add: read_extra_files_def split: option.split)

section \<open>Command lines\<close>

lemma sanitize_message_chars:
  "chars (sanitize_message m) =
     (let cs = take 200 (filter (\<lambda>c. \<not> is_control c) (chars m))
      in if cs = [] then map byte ''nexus-link: compose file update'' else cs)"
proof -
  let ?cs = "take 200 (filter (\<lambda>c. \<not> is_control c) (chars m))"
  have "set ?cs \<subseteq> set (chars m)" using set_take_subset [of 200] by fastforce
  then have "\<forall>c \<in> set ?cs. scalar c" using chars_scalar [of m] by blast
  then have "chars (encode ?cs) = ?cs" by (rule chars_encode)
  moreover have "chars ''nexus-link: compose file update'' = map byte ''nexus-link: compose file update''"
    by (rule chars_ascii) (simp add: is_ascii_def byte_def)
  ultimately show ?thesis by (simp only: sanitize_message_def Let_def split: if_split) simp
qed

lemma default_message_chars: "\<forall>c \<in> set ''nexus-link: compose file update''. \<not> is_control (byte c)"
  by (simp add: is_control_def byte_def)

lemma sanitize_message_ok:
  "length (chars (sanitize_message m)) \<le> 200 \<and> (\<forall>c \<in> set (chars (sanitize_message m)). \<not> is_control c)
   \<and> chars (sanitize_message m) \<noteq> []"
proof -
  define cs where "cs = take 200 (filter (\<lambda>c. \<not> is_control c) (chars m))"
  have m: "chars (sanitize_message m) =
      (if cs = [] then map byte ''nexus-link: compose file update'' else cs)"
    by (simp only: sanitize_message_chars Let_def cs_def)
  have "length cs \<le> 200" and "\<forall>c \<in> set cs. \<not> is_control c"
    unfolding cs_def by (auto dest: in_set_takeD)
  then show ?thesis using default_message_chars unfolding m by (cases "cs = []") simp_all
qed

lemma valid_service_name_no_flag:
  "valid_service_name uni s \<Longrightarrow> s \<noteq> [] \<and> hd s \<noteq> CHR ''-''"
  by (cases s) (auto simp: valid_service_name_def starts_with_def)

section \<open>Properties\<close>

text \<open>A concrete node: the compose directory with a stack, a companion file and a link that
  leaves the directory.\<close>

definition sample_tree :: fs where
  "sample_tree = \<lparr>tree =
     [([''opt''], Dir), ([''opt'', ''dgx-llm''], Dir),
      ([''opt'', ''dgx-llm'', ''docker-compose.yaml''], File ''a: 1''),
      ([''opt'', ''dgx-llm'', ''.env''], File ''K=1''),
      ([''opt'', ''dgx-llm'', ''leak.env''], Link True [''key.env'']),
      ([''key.env''], File ''secret'')],
    modes = []\<rparr>"

definition sample_dir :: path where
  "sample_dir = [''opt'', ''dgx-llm'']"

lemma sample_lookup:
  "lookup sample_tree [''opt''] = Some Dir"
  "lookup sample_tree [''opt'', ''dgx-llm''] = Some Dir"
  "lookup sample_tree [''opt'', ''dgx-llm'', ''docker-compose.yaml''] = Some (File ''a: 1'')"
  "lookup sample_tree [''opt'', ''dgx-llm'', ''docker-compose.yaml.tmp''] = None"
  "lookup sample_tree [''opt'', ''dgx-llm'', ''.env''] = Some (File ''K=1'')"
  by (simp_all add: lookup_def sample_tree_def)

lemma sample_path: "path_of ''/opt/dgx-llm'' = sample_dir"
  by (simp add: path_of_def sample_dir_def)

lemma sample_compose_dir: "path_of (compose_dir (compose sample_config)) = sample_dir"
  by (simp add: sample_config_def default_compose_config_def default_compose_dir_def sample_path)

lemma sample_ready: "replace_ready sample_tree sample_dir TMP_NAME YAML_NAME sample_dir"
proof -
  have "fs_wf sample_tree"
    by (rule fs_wf_check) (simp add: sample_tree_def lookup_def)
  moreover have "canonicalize sample_tree sample_dir = Some sample_dir"
    by (simp add: canonicalize_def locate_def sample_dir_def sample_lookup)
  ultimately show ?thesis
    by (simp add: replace_ready_def sample_dir_def TMP_NAME_def YAML_NAME_def sample_lookup)
qed

text \<open>The same directory as a git repository, and a git that writes its index.\<close>

definition git_tree :: fs where
  "git_tree = put_node (sample_dir @ [''.git'']) Dir sample_tree"

definition git_index :: path where
  "git_index = sample_dir @ [''.git'', ''index'']"

definition sample_git :: git where
  "sample_git argv t = (Exited (Some 0) [] [],
     if lookup t (butlast git_index) = Some Dir \<and> regular (lookup t git_index)
     then put_node git_index (File ''i'') t else t)"

definition no_git :: git where
  "no_git argv t = (Spawn_Error [], t)"

lemma git_tree_ready: "replace_ready git_tree sample_dir TMP_NAME YAML_NAME sample_dir"
proof -
  have "fs_wf git_tree" by (rule fs_wf_check) code_simp
  moreover have "canonicalize git_tree sample_dir = Some sample_dir" by code_simp
  moreover have "lookup git_tree sample_dir = Some Dir" "lookup git_tree (sample_dir @ [TMP_NAME]) = None"
    "lookup git_tree (sample_dir @ [YAML_NAME]) = Some (File ''a: 1'')" by code_simp+
  ultimately show ?thesis by (simp add: replace_ready_def)
qed

lemma no_git_spec: "git_spec no_git (\<lambda>_. False) dir d"
  by (simp add: git_spec_def no_git_def)

lemma sample_git_spec: "git_spec sample_git (\<lambda>k. k = git_index) dir sample_dir"
proof -
  have ne: "git_index \<noteq> sample_dir @ [x]" "git_index \<noteq> []" "sample_dir @ [x] \<noteq> git_index" for x
    by (simp_all add: git_index_def)
  have "replace_ready (put_node git_index (File c) t) dir TMP_NAME YAML_NAME sample_dir"
    if r: "replace_ready t dir TMP_NAME YAML_NAME sample_dir"
      and i: "lookup t (butlast git_index) = Some Dir" "regular (lookup t git_index)" for t c
  proof (rule ready_same_shape [OF r])
    show "same_shape (lookup t) (lookup (put_node git_index (File c) t))"
      by (rule same_shape_put [OF ne(2) i(2)])
    show "fs_wf (put_node git_index (File c) t)"
      using r i by (intro fs_wf_put) (auto simp: replace_ready_def ne)
  qed (use r ne in \<open>auto simp: replace_ready_def lookup_put\<close>)
  then show ?thesis by (auto simp: git_spec_def sample_git_def lookup_put ne)
qed


definition sample_put :: "(http_error + put_file_response) \<times> fs \<times> string list list" where
  "sample_put = put_compose_file (\<lambda>_. None) no_faults no_git sample_config
     \<lparr>pf_content = ''a: 2'', pf_message = []\<rparr> sample_tree"

lemma sample_put_ok: "isl (fst sample_put) = False"
  by code_simp

definition git_put :: "(http_error + put_file_response) \<times> fs \<times> string list list" where
  "git_put = put_compose_file (\<lambda>_. None) no_faults sample_git sample_config
     \<lparr>pf_content = ''a: 2'', pf_message = []\<rparr> git_tree"

lemma git_put_ok:
  "\<not> isl (fst git_put)" "is_git_repo (fst (snd git_put)) sample_dir" "length (snd (snd git_put)) = 3"
  "lookup (fst (snd git_put)) git_index \<noteq> lookup git_tree git_index"
  by code_simp+


text \<open>C8. Any number of HTTP replacements, each under its own failures, followed by a read: the
  content served is that of the last replacement that reported success.\<close>

theorem compose_puts_then_get:
  assumes "replace_ready t (path_of (compose_dir (compose cfg))) TMP_NAME YAML_NAME d"
    and "git_spec git own (path_of (compose_dir (compose cfg))) d"
    and "file_replacer.run_replaces pf_content (http_replace yaml git cfg) writes t = (contents, t')"
    and "contents \<noteq> []" and "valid_utf8 (last contents)"
    and "fault env (Op_read (path_of (compose_dir (compose cfg)) @ [YAML_NAME])) = None"
  shows "\<exists>resp. get_compose_file env cfg t' = Inr resp \<and> gf_content resp = last contents
    \<and> yaml (last contents) = None"
proof -
  from http_put.last_replace_wins [OF conjI [OF assms(1,2)] assms(3)] assms(4)
  have l: "lookup t' (d @ [YAML_NAME]) = Some (File (last contents))"
    and v: "yaml (last contents) = None"
    and ready: "replace_ready t' (path_of (compose_dir (compose cfg))) TMP_NAME YAML_NAME d" by auto
  from l ready_node_at [OF ready]
  have "node_at t' (path_of (compose_dir (compose cfg)) @ [YAML_NAME]) = Some (File (last contents))"
    by simp
  from get_compose_file_node [OF this assms(5,6)] v show ?thesis by blast
qed

lemma sample_run:
  "\<exists>t'. file_replacer.run_replaces pf_content (http_replace (\<lambda>_. None) sample_git sample_config)
     [(no_faults, \<lparr>pf_content = ''a: 2'', pf_message = []\<rparr>)] git_tree = ([''a: 2''], t')"
proof -
  let ?b = "\<lparr>pf_content = ''a: 2'', pf_message = []\<rparr>"
  have "fst (http_replace (\<lambda>_. None) sample_git sample_config no_faults ?b git_tree)"
    using git_put_ok(1) by (simp add: http_replace_def git_put_def split_beta)
  then show ?thesis
    by (cases "http_replace (\<lambda>_. None) sample_git sample_config no_faults ?b git_tree")
      (simp add: http_put.run_replaces.simps)
qed

lemma compose_puts_then_get_witness:
  "\<exists>t' resp. get_compose_file no_faults sample_config t' = Inr resp \<and> gf_content resp = ''a: 2''"
proof -
  from sample_run obtain t' where
    t': "file_replacer.run_replaces pf_content (http_replace (\<lambda>_. None) sample_git sample_config)
      [(no_faults, \<lparr>pf_content = ''a: 2'', pf_message = []\<rparr>)] git_tree = ([''a: 2''], t')" by blast
  have v: "valid_utf8 ''a: 2''" by (rule valid_utf8_ascii) (simp add: is_ascii_def byte_def)
  from compose_puts_then_get [OF _ _ t', of sample_dir "\<lambda>k. k = git_index" no_faults] git_tree_ready
    sample_git_spec v
  show ?thesis by (auto simp: sample_compose_dir no_faults_def)
qed

text \<open>The git commit message is never empty, has at most 200 characters and no control
  character, and the git command lines run are a prefix of add, commit, rev-parse in this order,
  with the message as the argument of \<open>-m\<close>.\<close>

lemma git_commit_argvs:
  "(\<exists>n. snd (snd (git_commit git message t)) = take n
      [[''git'', ''add'', ''docker-compose.yaml''],
       [''git'', ''commit'', ''-m'', sanitize_message message],
       [''git'', ''rev-parse'', ''--short'', ''HEAD'']])
   \<and> length (chars (sanitize_message message)) \<le> 200
   \<and> chars (sanitize_message message) \<noteq> []
   \<and> list_all (\<lambda>c. \<not> is_control c) (chars (sanitize_message message))"
proof -
  have "\<exists>n. snd (snd (git_commit git message t)) = take n [GIT_ADD, git_commit_argv message, GIT_REV_PARSE]"
    unfolding git_commit_def
    by (auto split: proc_result.split prod.split intro: exI [of _ 1] exI [of _ 2] exI [of _ 3])
  with sanitize_message_ok [of message] show ?thesis
    by (simp add: GIT_ADD_def git_commit_argv_def GIT_REV_PARSE_def list_all_iff)
qed

text \<open>In a git repository a successful replacement always answers \<open>committed = true\<close>, even
  when \<open>git add\<close> could not be started or \<open>git commit\<close> failed: nothing was committed then.\<close>

theorem committed_without_commit:
  assumes "put_compose_file yaml env git cfg body t = (Inr resp, t', argvs)"
    and "argvs \<noteq> []"
    and "\<forall>u. \<not> proc_success (fst (git [''git'', ''commit'', ''-m'', sanitize_message (pf_message body)] u))"
  shows "pr_committed resp \<and> pr_commit_sha resp = None"
proof -
  have "fst (git_commit git (pf_message body) u) = None" for u
    using assms(3) by (cases "fst (git GIT_ADD u)") (simp_all add: git_commit_def git_commit_argv_def split_beta)
  with assms(1,2) show ?thesis
    by (auto simp: put_compose_file_def Let_def split_beta split: option.splits sum.splits if_splits)
qed

definition uncommitted_put :: "(http_error + put_file_response) \<times> fs \<times> string list list" where
  "uncommitted_put = put_compose_file (\<lambda>_. None) no_faults no_git sample_config
     \<lparr>pf_content = ''a: 2'', pf_message = []\<rparr> git_tree"

lemma uncommitted_put_ok: "\<not> isl (fst uncommitted_put)" "snd (snd uncommitted_put) \<noteq> []"
  by code_simp+

lemma committed_without_commit_witness:
  "pr_committed (projr (fst uncommitted_put)) \<and> pr_commit_sha (projr (fst uncommitted_put)) = None"
  using committed_without_commit [where yaml = "\<lambda>_. None" and env = no_faults
      and git = no_git and cfg = sample_config
      and body = "\<lparr>pf_content = ''a: 2'', pf_message = []\<rparr>" and t = git_tree
      and resp = "projr (fst uncommitted_put)" and t' = "fst (snd uncommitted_put)"
      and argvs = "snd (snd uncommitted_put)"]
    uncommitted_put_ok
  by (simp add: uncommitted_put_def [symmetric] no_git_def)

section \<open>How deep the collector looks\<close>

definition near_root :: "path \<Rightarrow> file_entry \<Rightarrow> bool" where
  "near_root dir e \<longleftrightarrow> (\<exists>ns. (length ns = 1 \<or> length ns = 2) \<and> fe_name e = rel_name dir (dir @ ns))"

lemma extra_file_name: "e \<in> set (extra_file env t extensions c root p) \<Longrightarrow> fe_name e = rel_name root p"
  by (auto simp: extra_file_def split: if_splits sum.splits)

lemma collect_below:
  assumes "current \<noteq> root" and "e \<in> set (collect_extra_files env t extensions c root current)"
  shows "\<exists>name. fe_name e = rel_name root (current @ [name])"
  using assms by (subst (asm) collect_extra_files.simps) (auto dest: extra_file_name split: option.splits)

lemma collect_near_root:
  assumes "e \<in> set (collect_extra_files env t extensions c root root)"
  shows "near_root root e"
proof -
  from assms obtain name where "e \<in> set (extra_file env t extensions c root (root @ [name]))
      \<or> e \<in> set (collect_extra_files env t extensions c root (root @ [name]))"
    by (subst (asm) collect_extra_files.simps) (auto split: option.splits if_splits)
  then show ?thesis
  proof
    assume "e \<in> set (extra_file env t extensions c root (root @ [name]))"
    from extra_file_name [OF this] show ?thesis
      unfolding near_root_def by (intro exI [of _ "[name]"]) simp
  next
    assume "e \<in> set (collect_extra_files env t extensions c root (root @ [name]))"
    from collect_below [OF _ this] obtain name' where "fe_name e = rel_name root (root @ [name, name'])" by auto
    then show ?thesis unfolding near_root_def by (intro exI [of _ "[name, name']"]) simp
  qed
qed

text \<open>C16. Every companion file served with the compose file is a regular file whose resolved location
  (all symbolic links followed) lies in the resolved compose directory; it is an entry of that
  directory or of a direct subdirectory, also where links lead back; it is not a compose file, its
  name matches the configured extensions or the allow-list, its content is well-formed text; and the
  files come sorted by name.\<close>

theorem extra_files_confined:
  "sorted (map fe_name (read_extra_files env t dir extensions))
   \<and> list_all (\<lambda>e. near_root dir e \<and> (case canonicalize t dir of
        None \<Rightarrow> False | Some d \<Rightarrow> confined_file t extensions d dir e))
      (read_extra_files env t dir extensions)"
proof -
  have "near_root dir e" if "e \<in> set (read_extra_files env t dir extensions)" for e
    using that collect_near_root by (auto simp: read_extra_files_def split: option.splits)
  with read_extra_confined [of _ env t dir extensions] read_extra_sorted [of env t dir extensions]
  show ?thesis by (force simp: list_all_iff split: option.split)
qed

end
