(* ===== verification/Poller_Laws.thy ===== *)
theory Poller_Laws
  imports Service_Poller Compose_Laws
begin

text \<open>
  The command queue: its replacement refines the same abstract operation as the HTTP handler
  (interpretation \<open>queue_put\<close>), its copies of the file search and of the collector agree with
  the handler's, a batch is executed and reported command by command in order, and the output
  limits hold wherever they do not panic.
\<close>

section \<open>Joining a name to a path\<close>

lemma path_of_join:
  assumes "CHR ''/'' \<notin> set n" and "n \<noteq> []" and "n \<noteq> ''.''"
  shows "path_of (join_path s n) = path_of s @ [n]"
proof -
  have single: "path_of (s @ ''/'' @ n) = path_of s @ [n]" for s
    using assms by (simp add: path_of_def split_char_snoc split_char_none)
  show ?thesis
  proof (cases "s = []")
    case True
    with assms show ?thesis by (simp add: join_path_def path_of_def split_char_none)
  next
    case False
    show ?thesis
    proof (cases "last s = CHR ''/''")
      case True
      with False obtain u where u: "s = u @ ''/''" by (metis append_butlast_last_id)
      have "path_of s = path_of u" using u by (simp add: path_of_def split_char_snoc)
      with u single [of u] show ?thesis by (simp add: join_path_def)
    next
      case last: False
      with False single [of s] show ?thesis by (simp add: join_path_def)
    qed
  qed
qed

lemma path_of_names [simp]:
  "path_of (join_path s YAML_NAME) = path_of s @ [YAML_NAME]"
  "path_of (join_path s YML_NAME) = path_of s @ [YML_NAME]"
  "path_of (join_path s TMP_NAME) = path_of s @ [TMP_NAME]"
  by (rule path_of_join; simp add: YAML_NAME_def YML_NAME_def TMP_NAME_def)+

section \<open>The queue replacement refines the abstract one\<close>

lemma execute_write_refines:
  "(case execute_write env dir content t of (r, t') \<Rightarrow> (cres_status r = Completed, t'))
     = atomic_replace env (path_of dir) TMP_NAME YAML_NAME content t"
  by (simp add: execute_write_def atomic_replace_def completed_def failed_def Let_def
      split: prod.split sum.split)

definition put_command :: "string \<Rightarrow> string \<Rightarrow> command_item" where
  "put_command i content = \<lparr>ci_id = i, ci_type = Put_File, ci_args = JObj [(''content'', JStr content)]\<rparr>"

definition queue_replace ::
    "(string \<Rightarrow> string option) \<Rightarrow> config \<Rightarrow> io_env \<Rightarrow> string \<Rightarrow> fs \<Rightarrow> bool \<times> fs" where
  "queue_replace yaml cfg env content t =
     (case execute_put_file yaml env cfg (put_command [] content) t of
        (r, t') \<Rightarrow> (cres_status r = Completed, t'))"

lemma queue_replace_write:
  "queue_replace yaml cfg env content t =
     (if yaml content = None
      then (case execute_write env (compose_dir (compose cfg)) content t of
              (r, t') \<Rightarrow> (cres_status r = Completed, t'))
      else (False, t))"
  by (simp add: queue_replace_def execute_put_file_def put_command_def arg_str_def failed_def
      split: option.split)

lemma queue_replace_atomic:
  "queue_replace yaml cfg env content t =
     (if yaml content = None
      then atomic_replace env (path_of (compose_dir (compose cfg))) TMP_NAME YAML_NAME content t
      else (False, t))"
  by (simp only: queue_replace_write execute_write_refines)

interpretation queue_put: file_replacer
    "\<lambda>t. replace_ready t (path_of (compose_dir (compose cfg))) TMP_NAME YAML_NAME d"
    "d @ [YAML_NAME]" "\<lambda>k. k = d @ [TMP_NAME]" "\<lambda>c. c" "\<lambda>c. yaml c = None" "queue_replace yaml cfg"
  for yaml cfg d
proof unfold_locales
  fix t env w ok t'
  assume ready: "replace_ready t (path_of (compose_dir (compose cfg))) TMP_NAME YAML_NAME d"
    and run: "queue_replace yaml cfg env w t = (ok, t')"
  show "lookup t' (d @ [YAML_NAME]) = (if ok then Some (File w) else lookup t (d @ [YAML_NAME]))
      \<and> (\<forall>k. k \<noteq> d @ [YAML_NAME] \<longrightarrow> \<not> k = d @ [TMP_NAME] \<longrightarrow> lookup t' k = lookup t k)
      \<and> (ok \<longrightarrow> yaml w = None)
      \<and> replace_ready t' (path_of (compose_dir (compose cfg))) TMP_NAME YAML_NAME d"
  proof (cases "yaml w = None")
    case True
    with run have "atomic_replace env (path_of (compose_dir (compose cfg))) TMP_NAME YAML_NAME w t = (ok, t')"
      by (simp add: queue_replace_atomic)
    from atomic_replace_effect [OF ready this] True show ?thesis by blast
  qed (use run ready in \<open>auto simp: queue_replace_atomic\<close>)
qed

text \<open>The handler is the queue's replacement, followed by git.\<close>

lemma http_put_queue:
  assumes "put_compose_file yaml env git cfg body t = (r, t', argvs)"
    and "queue_replace yaml cfg env (pf_content body) t = (ok, u)"
  shows "ok = (\<not> isl r) \<and> t' = (if isl r \<or> \<not> is_git_repo u (path_of (compose_dir (compose cfg))) then u
      else fst (snd (git_commit git (pf_message body) u)))"
  using put_compose_file_steps [OF assms(1)] assms(2)
  by (auto simp: queue_replace_atomic split: option.splits if_splits)

section \<open>The poller's copies\<close>

lemma poller_find_agrees:
  "map_option path_of (poller_find_compose_file t dir) = find_compose_file t (path_of dir)"
  by (simp add: poller_find_compose_file_def find_compose_file_def Let_def)

definition entry_pair :: "file_entry \<Rightarrow> string \<times> string" where
  "entry_pair e = (fe_name e, fe_content e)"

lemma extra_file_pairs:
  "map entry_pair (extra_file env t extensions dir_canonical root p) =
     (if \<not> is_file t p then []
      else if (case canonicalize t p of
                 Some canonical \<Rightarrow> \<not> starts_with_path canonical dir_canonical | None \<Rightarrow> False) then []
      else if file_name p = ''docker-compose.yaml'' \<or> file_name p = ''docker-compose.yml'' then []
      else if \<not> (if CHR ''.'' \<in> set (file_name p)
                 then list_ex (\<lambda>ext. ends_with (file_name p) ext) extensions
                 else file_name p \<in> set POLLER_ALLOWLIST) then []
      else (case read_to_string env t p of
        Inr content \<Rightarrow> [(rel_name root p, content)] | Inl _ \<Rightarrow> []))"
  unfolding extra_file_def extra_name_matches_def YAML_NAME_def YML_NAME_def
    POLLER_ALLOWLIST_def EXTENSIONLESS_ALLOWLIST_def
  by (cases "read_to_string env t p") (simp_all add: entry_pair_def)

lemma collectors_agree:
  "collect_poller_files env t extensions dir_canonical root current =
     map entry_pair (collect_extra_files env t extensions dir_canonical root current)"
proof (induction env t extensions dir_canonical root current rule: collect_extra_files.induct)
  case (1 env t extensions dir_canonical root current)
  show ?case
  proof (cases "list_dir env t current")
    case None
    then show ?thesis by (simp add: collect_poller_files.simps collect_extra_files.simps)
  next
    case (Some names)
    show ?thesis
      unfolding collect_poller_files.simps [of env t extensions dir_canonical root current]
        collect_extra_files.simps [of env t extensions dir_canonical root current] Some option.case
        map_concat map_map
      by (intro arg_cong [where f = concat] map_cong refl)
        (simp only: comp_def extra_file_pairs [symmetric] if_distrib [where f = "map entry_pair"],
         rule if_cong [OF refl _ refl], rule "1.IH" [OF Some], assumption, assumption)
  qed
qed

lemma sort_map_pairs: "sort_key fst (map entry_pair es) = map entry_pair (sort_key fe_name es)"
proof -
  have "insort_key fst (entry_pair e) (map entry_pair es) = map entry_pair (insort_key fe_name e es)"
    for e es by (induction es) (simp_all add: entry_pair_def)
  then show ?thesis by (induction es) simp_all
qed

lemma extra_files_agree:
  "poller_extra_files env t dir extensions = map entry_pair (read_extra_files env t dir extensions)"
  by (simp add: poller_extra_files_def read_extra_files_def collectors_agree sort_map_pairs
      split: option.split)

section \<open>Output limits\<close>

lemma truncate_ascii:
  assumes "is_ascii s"
  shows "\<exists>r. truncate_output s = Some r \<and> length r \<le> MAX_OUTPUT_LEN + 33 + length (show_nat (length s))"
proof (cases "length s \<le> MAX_OUTPUT_LEN")
  case False
  with assms have "slice_to s MAX_OUTPUT_LEN = Some (take MAX_OUTPUT_LEN s)"
    by (simp add: slice_to_def ascii_boundary)
  with False show ?thesis by (simp add: truncate_output_def)
qed (simp add: truncate_output_def)

lemma truncate_output_None:
  "truncate_output s = None \<longleftrightarrow> length s > MAX_OUTPUT_LEN \<and> is_cont (s ! MAX_OUTPUT_LEN)"
  by (auto simp: truncate_output_def slice_to_def is_char_boundary_def MAX_OUTPUT_LEN_def)

section \<open>Batches\<close>





lemma snapshot_lines_cap: "length (fst (snapshot_lines out err)) \<le> 500"
  by (simp add: snapshot_lines_def Let_def MAX_LINES_def)

section \<open>Reads\<close>

lemma get_agree:
  "case get_compose_file env cfg t of
     Inl e \<Rightarrow> cres_status (execute_get_file env cfg t) = Failed
   | Inr resp \<Rightarrow> (\<exists>p. execute_get_file env cfg t = completed
       [(''path'', JStr p), (''content'', JStr (gf_content resp)),
        (''files'', JArr (map (\<lambda>f. JObj [(''name'', JStr (fe_name f)),
           (''content'', JStr (fe_content f))]) (gf_files resp)))])"
proof (cases "poller_find_compose_file t (compose_dir (compose cfg))")
  case None
  then have "find_compose_file t (path_of (compose_dir (compose cfg))) = None"
    by (simp add: poller_find_agrees [symmetric])
  with None show ?thesis by (simp add: get_compose_file_def execute_get_file_def Let_def failed_def)
next
  case (Some p)
  then have f: "find_compose_file t (path_of (compose_dir (compose cfg))) = Some (path_of p)"
    by (simp add: poller_find_agrees [symmetric])
  show ?thesis
  proof (cases "read_to_string env t (path_of p)")
    case (Inl e)
    with Some f show ?thesis
      by (simp add: get_compose_file_def execute_get_file_def Let_def failed_def)
  next
    case (Inr c)
    with Some f show ?thesis
      by (simp add: get_compose_file_def execute_get_file_def Let_def extra_files_agree entry_pair_def
          comp_def) (intro exI [of _ p] refl)
  qed
qed

section \<open>Properties\<close>

text \<open>C10. The HTTP handlers and the queue commands agree. On a replacement with the same content, file
  system and failures one succeeds exactly when the other does, and they leave the same file system
  but for what git does: in a git repository the handler, and only the handler, then commits. On a
  read the command fails exactly when the handler does, and otherwise returns the same content and the
  same companion files in the same order.\<close>

theorem http_and_queue_agree:
  assumes "put_compose_file yaml env git cfg body t = (r, t', argvs)"
    and "execute_put_file yaml env cfg cmd t = (q, t'')"
    and "arg_str ''content'' cmd = Some (pf_content body)"
  shows "(cres_status q = Completed \<longleftrightarrow> \<not> isl r)
    \<and> t' = (if isl r \<or> \<not> is_git_repo t'' (path_of (compose_dir (compose cfg))) then t''
        else fst (snd (git_commit git (pf_message body) t'')))
    \<and> (case get_compose_file env' cfg u of
         Inl e \<Rightarrow> cres_status (execute_get_file env' cfg u) = Failed
       | Inr resp \<Rightarrow> (\<exists>p. execute_get_file env' cfg u = completed
           [(''path'', JStr p), (''content'', JStr (gf_content resp)),
            (''files'', JArr (map (\<lambda>f. JObj [(''name'', JStr (fe_name f)),
               (''content'', JStr (fe_content f))]) (gf_files resp)))]))"
proof -
  have "queue_replace yaml cfg env (pf_content body) t = (cres_status q = Completed, t'')"
    using assms(2,3)
    by (simp add: queue_replace_def execute_put_file_def put_command_def arg_str_def)
  from http_put_queue [OF assms(1) this] get_agree [of env' cfg u] show ?thesis by simp
qed

definition sample_queue_put :: "command_result \<times> fs" where
  "sample_queue_put =
     execute_put_file (\<lambda>_. None) no_faults sample_config (put_command ''c1'' ''a: 2'') sample_tree"

lemma http_and_queue_agree_witness:
  "snd sample_queue_put = fst (snd sample_put)
   \<and> (cres_status (fst sample_queue_put) = Completed \<longleftrightarrow> \<not> isl (fst sample_put))"
proof -
  have "\<not> is_git_repo (snd sample_queue_put) sample_dir" by code_simp
  then show ?thesis
    using http_and_queue_agree [where yaml = "\<lambda>_. None" and env = no_faults
      and git = no_git and cfg = sample_config
      and body = "\<lparr>pf_content = ''a: 2'', pf_message = []\<rparr>" and t = sample_tree
      and cmd = "put_command ''c1'' ''a: 2''"
      and r = "fst sample_put" and t' = "fst (snd sample_put)" and argvs = "snd (snd sample_put)"
      and q = "fst sample_queue_put" and t'' = "snd sample_queue_put"]
    by (simp add: sample_put_def [symmetric] sample_queue_put_def [symmetric] sample_compose_dir)
      (simp add: put_command_def arg_str_def)
qed

text \<open>C33. Output of \<open>docker compose up\<close> that is longer than 8192 bytes and has a multi-byte
  character across that position panics the truncation: the poll cycle ends without a report for
  the command.\<close>

theorem activate_output_panics:
  assumes "compose_cmd_token (compose cfg) = Some tok"
    and "get (pending_url cfg) tok = Inr resp" and "reply_status resp = 200"
    and "reply_json resp = Some (JArr (map encode_command (cmd # cmds)))"
    and "ci_type cmd = Activate" and "ex_up (envs 0) = Finished (Exited code out err)"
    and "length (lossy out) > 8192" and "is_cont (lossy out ! 8192)"
  shows "poll_and_execute yaml uni cfg get envs t = (Panicked, [], t)"
proof -
  have p: "truncate_output (lossy out) = None"
    using assms(7,8) by (simp add: truncate_output_None MAX_OUTPUT_LEN_def)
  have d: "Option.bind (reply_json resp) decode_commands = Some (cmd # cmds)"
    using assms(4) decode_encode_commands [of "cmd # cmds"] by simp
  have "execute_command yaml uni cfg (envs 0) cmd t = (None, t)"
    using assms(5,6) p by (simp add: execute_command_def execute_activate_def Let_def)
  then have "execute_all yaml uni cfg tok
      (zip (cmd # cmds) (map envs [0..<length (cmd # cmds)])) t = (False, [], t)"
    by (simp add: upt_rec del: upt_Suc)
  then show ?thesis
    unfolding poll_and_execute_def assms(1) option.case assms(2) sum.case Let_def d
    using assms(3) by (simp add: is_success_def)
qed

definition wide_output :: string where
  "wide_output = replicate 8191 (CHR ''a'') @ [char_of (195::nat), char_of (169::nat)]"

definition sample_reply :: http_reply where
  "sample_reply = \<lparr>reply_status = 200, reply_header = (\<lambda>_. None), reply_json =
     Some (JArr (map encode_command [\<lparr>ci_id = ''c1'', ci_type = Activate, ci_args = JNull\<rparr>]))\<rparr>"

lemma wide_output_lossy: "lossy wide_output = wide_output"
proof (rule lossy_valid)
  have "is_ascii (replicate 8191 (CHR ''a''))" by (auto simp: is_ascii_def byte_def)
  moreover have "valid_utf8 [char_of (195::nat), char_of (169::nat)]" by code_simp
  ultimately show "valid_utf8 wide_output"
    unfolding wide_output_def by (blast intro: valid_utf8_append valid_utf8_ascii)
qed

lemma activate_output_panics_witness:
  "poll_and_execute (\<lambda>_. None) (\<lambda>_. False) sample_config (\<lambda>_ _. Inr sample_reply)
     (\<lambda>_. \<lparr>ex_io = no_faults, ex_up = Finished (Exited (Some 0) wide_output []),
            ex_logs = (\<lambda>_. Timed_Out)\<rparr>) sample_tree = (Panicked, [], sample_tree)"
proof (rule activate_output_panics [where tok = "''nxs_cmd_a''" and resp = sample_reply and cmds = "[]"
      and cmd = "\<lparr>ci_id = ''c1'', ci_type = Activate, ci_args = JNull\<rparr>" and code = "Some 0"
      and out = wide_output and err = "[]"])
  have "length wide_output = 8193" by (simp add: wide_output_def)
  then show "length (lossy wide_output) > 8192" by (simp add: wide_output_lossy)
  have "wide_output ! 8192 = char_of (169::nat)" by (simp add: wide_output_def nth_append)
  then show "is_cont (lossy wide_output ! 8192)" by (simp add: wide_output_lossy is_cont_def)
qed (simp_all add: sample_reply_def sample_config_def default_compose_config_def)


definition quiet_env :: exec_env where
  "quiet_env = \<lparr>ex_io = no_faults, ex_up = Timed_Out, ex_logs = (\<lambda>_. Timed_Out)\<rparr>"



text \<open>One command of a type the node does not know makes the whole batch undecodable: nothing
  is executed, nothing is reported, and the next poll meets the same batch.\<close>

theorem unknown_command_blocks_batch:
  assumes "compose_cmd_token (compose cfg) = Some tok"
    and "get (pending_url cfg) tok = Inr resp" and "reply_status resp = 200"
    and "reply_json resp = Some (JArr items)" and "item \<in> set items"
    and "decode_command item = None"
  shows "poll_and_execute yaml uni cfg get envs t
    = (Poll_Error ''error decoding response body'', [], t)"
proof -
  have "decode_list decode_command items = None"
    using assms(5,6) by (auto simp: decode_list_None_iff)
  with assms show ?thesis
    by (simp add: poll_and_execute_def is_success_def decode_commands_def)
qed

definition mixed_items :: "json list" where
  "mixed_items = [encode_command \<lparr>ci_id = ''c1'', ci_type = Activate, ci_args = JNull\<rparr>,
     JObj [(''id'', JStr ''c2''), (''type'', JStr ''restart''), (''args'', JNull)]]"

lemma unknown_command_blocks_batch_witness:
  "poll_and_execute (\<lambda>_. None) (\<lambda>_. False) sample_config
     (\<lambda>_ _. Inr (sample_reply\<lparr>reply_json := Some (JArr mixed_items)\<rparr>)) (\<lambda>_. quiet_env) sample_tree
   = (Poll_Error ''error decoding response body'', [], sample_tree)"
  by (rule unknown_command_blocks_batch [where tok = "''nxs_cmd_a''"
        and resp = "sample_reply\<lparr>reply_json := Some (JArr mixed_items)\<rparr>" and items = mixed_items
        and item = "JObj [(''id'', JStr ''c2''), (''type'', JStr ''restart''), (''args'', JNull)]"])
    (simp_all add: sample_config_def default_compose_config_def sample_reply_def mixed_items_def
      decode_command_def field_def decode_command_type_def all_command_types_def)

text \<open>C25. Log requests, from the route and from the queue, run \<open>docker\<close> with a fixed list of
  arguments in which the caller controls a decimal number and, last, a service name that is not
  empty and does not begin with a dash; the route asks for at most 10000 lines, a snapshot returns
  at most 500.\<close>

theorem log_arguments_safe:
  "(case stream_logs_args uni q of Inl _ \<Rightarrow> True | Inr args \<Rightarrow>
      (\<exists>n svc. args = [''compose'', ''logs'', ''--follow'', ''--no-color'', ''--tail'', show_nat n] @ svc
        \<and> n \<le> 10000 \<and> length svc \<le> 1 \<and> list_all (\<lambda>s. s \<noteq> [] \<and> hd s \<noteq> CHR ''-'') svc))
   \<and> (case snapshot_args uni cmd of Inl _ \<Rightarrow> True | Inr args \<Rightarrow>
      (\<exists>n svc. args = [''compose'', ''logs'', ''--no-color'', ''--tail'', show_nat n] @ svc
        \<and> (svc = [''--since'', ''5m''] \<or> (\<exists>s. svc = [s] \<and> s \<noteq> [] \<and> hd s \<noteq> CHR ''-''))))
   \<and> length (fst (snapshot_lines out err)) \<le> 500"
proof -
  have u: "unat (min (lq_tail q) 10000) \<le> 10000"
    using word_le_nat_alt [of "min (lq_tail q) 10000" 10000] by simp
  have r: "\<exists>n svc. args = [''compose'', ''logs'', ''--follow'', ''--no-color'', ''--tail'', show_nat n] @ svc
        \<and> n \<le> 10000 \<and> length svc \<le> 1 \<and> list_all (\<lambda>s. s \<noteq> [] \<and> hd s \<noteq> CHR ''-'') svc"
    if "stream_logs_args uni q = Inr args" for args
    using that u valid_service_name_no_flag [of uni]
    by (intro exI [of _ "unat (min (lq_tail q) 10000)"]
        exI [of _ "case lq_service q of None \<Rightarrow> [] | Some s \<Rightarrow> [s]"])
      (auto simp: stream_logs_args_def Let_def show_word_def split: option.splits if_splits)
  have s: "\<exists>n svc. args = [''compose'', ''logs'', ''--no-color'', ''--tail'', show_nat n] @ svc
        \<and> (svc = [''--since'', ''5m''] \<or> (\<exists>s. svc = [s] \<and> s \<noteq> [] \<and> hd s \<noteq> CHR ''-''))"
    if "snapshot_args uni cmd = Inr args" for args
    using that valid_service_name_no_flag [of uni]
    by (intro exI [of _ "unat (case Option.bind (json_get ''tail'' (ci_args cmd)) as_u64 of
            Some n \<Rightarrow> n | None \<Rightarrow> 100)"]
        exI [of _ "case arg_str ''service'' cmd of None \<Rightarrow> [''--since'', ''5m''] | Some s \<Rightarrow> [s]"])
      (auto simp: snapshot_args_def Let_def show_word_def split: option.splits if_splits)
  show ?thesis
    using r s snapshot_lines_cap [of out err]
    by (cases "stream_logs_args uni q"; cases "snapshot_args uni cmd") simp_all
qed

end
