(* ===== verification/Service_Laws.thy ===== *)
theory Service_Laws
  imports Service_Main Auth_Laws Poller_Laws
begin

text \<open>
  The service as a whole: no request changes a file or starts the stack without the command
  credential, the poll loop loses no wake-up and cannot be made to poll more often than its
  timer and its notifications allow, the back-off of the listener is bounded, and the
  subscription statement quotes any channel name.
\<close>

section \<open>Requests\<close>

lemma compose_routes_effect:
  assumes "compose_routes sv cfg req t = (resp, t', act)" and "t' \<noteq> t \<or> act"
  shows "is_write req"
proof (cases "req_path req = ''/compose/file''")
  case True
  show ?thesis
  proof (cases "req_method req = PUT")
    case False
    with True assms show ?thesis by (auto simp: compose_routes_def split: if_splits)
  qed (simp add: is_write_def)
next
  case False
  with assms show ?thesis by (auto simp: compose_routes_def is_write_def split: if_splits)
qed

lemma serve_effect:
  assumes "serve d sv st clk req cache t = (resp, cache', t', act)" and "t' \<noteq> t \<or> act"
  shows "holds_cmd_token d st req \<and>
    (if require_signatures (compose (st_config st)) then holds_signature d st clk cache req else True)"
proof -
  obtain g c where g: "require_cmd_auth d st clk req cache = (g, c)" by fastforce
  from assms have p: "req_path req \<in> set compose_paths"
    and n: "req_path req \<noteq> ''/health''" "req_path req \<noteq> ''/commands''"
    by (auto simp: serve_def split: if_splits)
  show ?thesis
  proof (cases g)
    case (Inl e)
    with assms g p n show ?thesis by (auto simp: serve_def)
  next
    case (Inr r)
    with g have a: "fst (require_cmd_auth d st clk req cache) = Inr r" by simp
    then have r: "r = req" and tok: "holds_cmd_token d st req"
      and sig: "if is_write req \<and> require_signatures (compose (st_config st))
        then holds_signature d st clk cache req else True"
      unfolding accepts_iff by blast+
    obtain x t1 b where co: "compose_routes sv (st_config st) req t = (x, t1, b)"
      using prod_cases3 by blast
    with assms g p n Inr r have "t1 = t'" "b = act" by (auto simp: serve_def)
    with co assms(2) have "is_write req" using compose_routes_effect by blast
    with tok sig show ?thesis by simp
  qed
qed

section \<open>The poll loop\<close>

lemma loop_run_permit: "loop_run d es s \<Longrightarrow> unseen s \<longrightarrow> permit s"
proof (induction rule: loop_run.induct)
  case start
  then show ?case by (simp add: loop_start_def)
next
  case (step es s e s')
  from step.hyps(2) step.IH show ?case by cases auto
qed

abbreviation polls :: "loop_event list \<Rightarrow> nat" where
  "polls es \<equiv> length (filter (\<lambda>e. e = Timer \<or> e = Wake) es)"

lemma loop_run_wakes:
  "loop_run d es s \<Longrightarrow>
   length (filter (\<lambda>e. e = Wake) es) + (if permit s then 1 else 0)
     \<le> length (filter (\<lambda>e. e = Notify) es)"
proof (induction rule: loop_run.induct)
  case start
  then show ?case by (simp add: loop_start_def)
next
  case (step es s e s')
  from step.hyps(2) step.IH show ?case by cases (auto split: if_splits)
qed

lemma polls_split:
  "polls es = length (filter (\<lambda>e. e = Timer) es) + length (filter (\<lambda>e. e = Wake) es)"
  by (induction es) auto

lemma loop_run_interval:
  "loop_run d es s \<Longrightarrow>
   interval s = d \<or> (\<exists>h. Done (Poll_Ok (Some h)) \<in> set es \<and> 0 < h \<and> interval s = h)"
proof (induction rule: loop_run.induct)
  case start
  then show ?case by (simp add: loop_start_def)
next
  case (step es s e s')
  from step.hyps(2) step.IH show ?case
    by cases (auto simp: next_interval_def split: poll_outcome.splits option.splits if_splits)
qed

section \<open>The back-off\<close>

lemma next_interval_None: "next_interval d i r = None \<longleftrightarrow> r = Panicked"
  by (auto simp: next_interval_def split: poll_outcome.splits option.splits if_splits)

lemma loop_run_dead: "loop_run d es s \<Longrightarrow> phase s = Dead \<longleftrightarrow> Done Panicked \<in> set es"
proof (induction rule: loop_run.induct)
  case start
  show ?case by (simp add: loop_start_def)
next
  case (step es s e s')
  from step.hyps(2) step.IH show ?case
    by (cases rule: loop_step.cases) (auto simp: next_interval_None, simp add: next_interval_def)
qed

lemma done_error:
  "phase s = Polling \<Longrightarrow> loop_step d s (Done (Poll_Error e)) (s\<lparr>phase := Waiting, interval := d\<rparr>)"
  by (rule loop_step.finish) (simp_all add: next_interval_def)

lemma done_ok: "phase s = Polling \<Longrightarrow> loop_step d s (Done (Poll_Ok None)) (s\<lparr>phase := Waiting\<rparr>)"
  using loop_step.finish [of s d "Poll_Ok None" "interval s"] by (simp add: next_interval_def)

lemma backoff_round_bounds:
  assumes "1 \<le> b" and "b \<le> 30" and "backoff_round r b = (s, b')"
  shows "1 \<le> s \<and> s \<le> 30 \<and> 1 \<le> b' \<and> b' \<le> 30"
proof -
  have dbl: "1 \<le> min (x * 2) (30 :: u64)" if "1 \<le> x" "x \<le> 30" for x :: u64
  proof -
    have "unat x \<le> 30" "1 \<le> unat x" using that by (simp_all add: word_le_nat_alt)
    then have "unat (x * 2) = unat x * 2" by (simp add: unat_word_ariths)
    with \<open>1 \<le> unat x\<close> have "1 \<le> x * 2" by (simp add: word_le_nat_alt)
    then show ?thesis by simp
  qed
  show ?thesis
  proof (cases r)
    case (Inl e)
    with assms dbl [of b] show ?thesis
      by (auto simp: backoff_round_def Let_def MAX_BACKOFF_SECS_def)
  next
    case (Inr u)
    with assms dbl [of 1] show ?thesis
      by (auto simp: backoff_round_def Let_def MAX_BACKOFF_SECS_def)
  qed
qed

lemma backoff_sleeps_bounds:
  "1 \<le> b \<Longrightarrow> b \<le> 30 \<Longrightarrow> list_all (\<lambda>s. 1 \<le> s \<and> s \<le> 30) (backoff_sleeps rs b)"
proof (induction rs arbitrary: b)
  case (Cons r rs)
  obtain s b' where r: "backoff_round r b = (s, b')" by fastforce
  from backoff_round_bounds [OF Cons.prems r] Cons.IH r show ?case by simp
qed simp

lemma backoff_sleeps_append:
  "\<exists>b'. backoff_sleeps (rs @ [r]) b = backoff_sleeps rs b @ [fst (backoff_round r b')]"
proof (induction rs arbitrary: b)
  case Nil
  then show ?case by (auto simp: split_beta)
next
  case (Cons x rs)
  then show ?case by (simp add: split_beta)
qed

section \<open>Quoting\<close>

text \<open>How PostgreSQL reads a quoted identifier after its opening quote: the name and the rest.\<close>

fun read_quoted :: "string \<Rightarrow> (string \<times> string) option" where
  "read_quoted [] = None"
| "read_quoted (c # s) =
     (if c = CHR 0x22 then
        (case s of
           d # u \<Rightarrow> if d = CHR 0x22
             then map_option (\<lambda>(name, rest). (CHR 0x22 # name, rest)) (read_quoted u)
             else Some ([], s)
         | [] \<Rightarrow> Some ([], []))
      else map_option (\<lambda>(name, rest). (c # name, rest)) (read_quoted s))"

lemma read_double_quotes: "read_quoted (double_quotes s @ [CHR 0x22]) = Some (s, [])"
  by (induction s rule: double_quotes.induct) auto

section \<open>Properties\<close>

text \<open>C1. End to end: whatever request the service gets, if serving it changed any file or ran
  \<open>docker compose up\<close>, the request carried the command token and, under signature enforcement,
  a fresh valid signature over its method, path and body.\<close>

theorem effects_need_command_credential:
  assumes "serve d sv st clk req cache t = (resp, cache', t', act)" and "t' \<noteq> t \<or> act"
  shows "holds_cmd_token d st req \<and>
    (if require_signatures (compose (st_config st)) then holds_signature d st clk cache req else True)"
  by (rule serve_effect [OF assms])

definition sample_sv :: svc_env where
  "sample_sv = \<lparr>sv_version = ''1'', sv_yaml = (\<lambda>_. None), sv_uni = (\<lambda>_. False), sv_io = no_faults,
     sv_git = no_git, sv_up = Finished (Exited (Some 0) [] []),
     sv_logs = (\<lambda>_. No_Stdout), sv_body_json = (\<lambda>_. Inr (JObj [(''content'', JStr ''a: 2''), (''message'', JStr [])])),
     sv_query = (\<lambda>_. Inl not_allowed)\<rparr>"

definition sample_served :: "(http_error + response) \<times> nonce_cache \<times> fs \<times> bool" where
  "sample_served = serve sample_deps sample_sv sample_state (at_time 0) (signed_request ''0'' good_sig)
     Map.empty sample_tree"

lemma sample_served_fs: "fst (snd (snd sample_served)) = fst (snd sample_put)"
proof -
  obtain c where "require_cmd_auth sample_deps sample_state (at_time 0) (signed_request ''0'' good_sig)
      Map.empty = (Inr (signed_request ''0'' good_sig), c)"
    using sample_accepted [of 0 "''0''" Map.empty] by (simp add: cache_retain_def minutes_def)
  moreover have "decode_put_request (JObj [(''content'', JStr ''a: 2''), (''message'', JStr [])])
      = Some \<lparr>pf_content = ''a: 2'', pf_message = []\<rparr>"
    by (simp add: decode_put_request_def field_def)
  ultimately show ?thesis
    by (simp add: sample_served_def serve_def compose_paths_def compose_routes_def signed_request_def
        is_get_def sample_sv_def sample_state_def sample_put_def split: prod.split)
qed

lemma sample_put_changes: "fst (snd sample_put) \<noteq> sample_tree"
  by code_simp

lemma effects_need_command_credential_witness:
  "holds_cmd_token sample_deps sample_state (signed_request ''0'' good_sig) \<and>
   holds_signature sample_deps sample_state (at_time 0) Map.empty (signed_request ''0'' good_sig)"
proof -
  have s: "serve sample_deps sample_sv sample_state (at_time 0) (signed_request ''0'' good_sig)
      Map.empty sample_tree = (fst sample_served, fst (snd sample_served),
        fst (snd (snd sample_served)), snd (snd (snd sample_served)))"
    by (simp add: sample_served_def)
  from effects_need_command_credential [OF s] sample_served_fs sample_put_changes show ?thesis
    by (simp add: sample_state_def sample_config_def)
qed

text \<open>C18. The poll loop, in every reachable state. No wake-up is lost: a notification that no poll has
  followed is still stored as a permit, so that a waiting loop can take the wake branch at once. The
  loop polls at most once per timer tick and once per notification. Its interval is the configured
  one or a positive hint the backend sent, and a failed poll restores the configured one. A poll that
  ends puts the loop back to waiting, and the loop is dead exactly when a poll has panicked.\<close>

theorem poll_loop_invariant:
  assumes "loop_run d es s"
  shows "(if unseen s \<and> phase s = Waiting
          then loop_step d s Wake (s\<lparr>phase := Polling, permit := False, unseen := False\<rparr>) else True)
    \<and> polls es \<le> length (filter (\<lambda>e. e = Timer) es) + length (filter (\<lambda>e. e = Notify) es)
    \<and> (interval s = d \<or> (\<exists>h. Done (Poll_Ok (Some h)) \<in> set es \<and> 0 < h \<and> interval s = h))
    \<and> (if phase s = Polling
       then loop_step d s (Done (Poll_Error e)) (s\<lparr>phase := Waiting, interval := d\<rparr>)
         \<and> loop_step d s (Done (Poll_Ok None)) (s\<lparr>phase := Waiting\<rparr>) else True)
    \<and> (phase s = Dead \<longleftrightarrow> Done Panicked \<in> set es)"
  using loop_run_permit [OF assms] loop_run_wakes [OF assms] polls_split [of es]
    loop_run_interval [OF assms] loop_run_dead [OF assms] done_ok [of s d] done_error [of s d e]
  by (auto simp: wake_iff)

lemma sample_loop: "loop_run 2 [Notify] ((loop_start 2)\<lparr>permit := True, unseen := True\<rparr>)"
  using loop_run.step [OF loop_run.start loop_step.notify, of 2] by simp

lemma poll_loop_invariant_witness:
  "polls [Notify] \<le> 1 \<and> interval ((loop_start 2)\<lparr>permit := True, unseen := True\<rparr>) = 2 \<and>
   loop_step 2 ((loop_start 2)\<lparr>permit := True, unseen := True\<rparr>) Wake
     ((loop_start 2)\<lparr>phase := Polling, permit := False, unseen := False\<rparr>)"
  using poll_loop_invariant [OF sample_loop] by (simp add: loop_start_def)

text \<open>The back-off of the listener: every sleep is between 1 and 30 seconds whatever the
  connections do, an ordinary end of a connection is followed by a sleep of one second, and
  repeated failures sleep 1, 2, 4, 8, 16 and then 30 seconds.\<close>

theorem listener_backoff:
  "list_all (\<lambda>s. 1 \<le> s \<and> s \<le> 30) (listener_sleeps cfg results)
   \<and> last (backoff_sleeps (results @ [Inr ()]) 1) = 1
   \<and> backoff_sleeps (replicate 7 (Inl e)) 1 = [1, 2, 4, 8, 16, 30, 30]"
proof -
  have "list_all (\<lambda>s. 1 \<le> s \<and> s \<le> 30) (listener_sleeps cfg results)"
    by (simp add: listener_sleeps_def backoff_sleeps_bounds split: option.split)
  moreover have "last (backoff_sleeps (results @ [Inr ()]) 1) = 1"
    using backoff_sleeps_append [of results "Inr ()" 1] by (auto simp: backoff_round_def Let_def)
  moreover have "backoff_sleeps (replicate 7 (Inl e)) 1 = [1, 2, 4, 8, 16, 30, 30]"
    by code_simp
  ultimately show ?thesis by blast
qed

text \<open>The subscription statement is safe for every node id: read back by the rules of quoted
  identifiers, it names exactly the channel, and nothing of the name is left over as SQL.\<close>

theorem listen_statement_quotes:
  "\<exists>rest. listen_stmt (channel_name cfg) = ''LISTEN '' @ CHR 0x22 # rest
    \<and> read_quoted rest = Some (channel_name cfg, [])"
  by (simp add: listen_stmt_def read_double_quotes)

text \<open>A configuration that holds the command token only in \<open>api.tokens.command\<close> (the layout
  migration moves to) gives a service whose compose routes accept that token but whose command
  queue is never polled.\<close>

theorem poll_disabled_without_legacy_token:
  assumes "compose_cmd_token (compose c) = None" and "command (tokens (api c)) = Some e"
    and "service_start parse_ip (Inr (migrate_legacy_fields c)) (app_state_new cr env vars t docker)
      = Inr (plan, st)"
  shows "sp_poll_secs plan = None \<and> cmd_token_hash st = Some (hash_token cr (te_token e))"
proof -
  let ?m = "migrate_legacy_fields c"
  from assms(3) have n: "app_state_new cr env vars t docker ?m = Inr st"
    and p: "sp_poll_secs plan = (if compose_cmd_token (compose ?m) \<noteq> None
      then Some (poll_sec (agent ?m)) else None)"
    by (auto simp: service_start_def res_bind_Inr_iff Let_def)
  have "compose ?m = compose c" by (simp add: migrate_legacy_fields_def)
  moreover have "cmd_token ?m = Some (te_token e)"
    using assms(2) by (simp add: migrate_cmd_token) (simp add: cmd_token_def)
  ultimately show ?thesis using p assms(1) app_state_new_Inr [OF n] by simp
qed

definition new_layout_config :: config where
  "new_layout_config = sample_config
     \<lparr>api := (api sample_config)\<lparr>tokens :=
        \<lparr>telemetry = None, command = Some \<lparr>te_token = ''nxs_cmd_a'', te_scope = ''read_write''\<rparr>\<rparr>\<rparr>,
      compose := (compose sample_config)\<lparr>compose_cmd_token := None\<rparr>\<rparr>"

definition sample_start :: "string + (service_plan \<times> string app_state)" where
  "sample_start = service_start Inr (Inr (migrate_legacy_fields new_layout_config))
     (app_state_new sample_crypto no_faults (\<lambda>_. None) empty_fs (Inr ()))"

lemma poll_disabled_without_legacy_token_witness:
  "sp_poll_secs (fst (projr sample_start)) = None
   \<and> cmd_token_hash (snd (projr sample_start)) = Some (hash_token sample_crypto ''nxs_cmd_a'')"
proof -
  have "\<not> isl sample_start"
    by (simp add: sample_start_def service_start_def app_state_new_def Let_def)
  then have "sample_start = Inr (fst (projr sample_start), snd (projr sample_start))"
    by (cases sample_start) simp_all
  from poll_disabled_without_legacy_token [OF _ _ this [unfolded sample_start_def]]
  show ?thesis by (simp add: sample_start_def new_layout_config_def)
qed

end
