(* ===== verification/Core_Network.thy ===== *)
theory Core_Network
  imports Rust_Text
begin

text \<open>
  \<open>crates/nexus-link-core/src/network.rs\<close>: the private address of the node, read from the
  output of \<open>ip route get\<close> or, failing that, of \<open>hostname -I\<close>. The two process results are
  inputs; the outer \<open>None\<close> is a panic of the string slice.
\<close>

section \<open>Definitions\<close>

definition first_word :: "string \<Rightarrow> string" where
  "first_word s = (case split_whitespace s of [] \<Rightarrow> [] | w # _ \<Rightarrow> w)"

definition ROUTE_ARGV :: "string list" where
  "ROUTE_ARGV = [''ip'', ''route'', ''get'', ''1.1.1.1'']"

definition HOSTNAME_ARGV :: "string list" where
  "HOSTNAME_ARGV = [''hostname'', ''-I'']"

text \<open>Strategy 1: the word after \<open>src\<close>.\<close>

definition route_source :: "string \<Rightarrow> string option option" where
  "route_source stdout = (case find_str ''src '' stdout of
     None \<Rightarrow> Some None
   | Some src_idx \<Rightarrow> (case slice_from stdout (src_idx + 4) of
       None \<Rightarrow> None
     | Some after_src \<Rightarrow>
         let ip = first_word after_src in Some (if ip \<noteq> [] then Some ip else None)))"

text \<open>Strategy 2: the first word.\<close>

definition hostname_first :: "proc_result \<Rightarrow> string option" where
  "hostname_first r = (case r of
     Exited code out err \<Rightarrow>
       if proc_success r then
         (let first_ip = first_word (lossy out) in if first_ip \<noteq> [] then Some first_ip else None)
       else None
   | _ \<Rightarrow> None)"

definition detect_private_ip :: "(string list \<Rightarrow> proc_result) \<Rightarrow> string option option" where
  "detect_private_ip run = (case run ROUTE_ARGV of
     Exited code out err \<Rightarrow>
       if proc_success (run ROUTE_ARGV) then
         (case route_source (lossy out) of
            None \<Rightarrow> None
          | Some (Some ip) \<Rightarrow> Some (Some ip)
          | Some None \<Rightarrow> Some (hostname_first (run HOSTNAME_ARGV)))
       else Some (hostname_first (run HOSTNAME_ARGV))
   | _ \<Rightarrow> Some (hostname_first (run HOSTNAME_ARGV)))"

definition format_service_endpoint :: "string \<Rightarrow> u16 \<Rightarrow> string" where
  "format_service_endpoint ip port_no = ip @ '':'' @ show_word port_no"

section \<open>Laws\<close>

lemma slice_after_src:
  assumes "valid_utf8 s" and "find_str ''src '' s = Some i"
  shows "slice_from s (i + 4) = Some (drop (i + 4) s)"
proof -
  from find_str_Some [OF assms(2)] obtain r where i: "i + 4 \<le> length s"
    and d: "drop i s = ''src '' @ r" by auto
  from i have "s ! (i + 3) = drop i s ! 3" by simp
  also have "\<dots> = CHR '' ''" unfolding d by simp
  finally have "byte (s ! (i + 3)) < 128" by (simp add: byte_def)
  with assms(1) i have "is_char_boundary s (Suc (i + 3))" by (intro boundary_after_ascii) auto
  then show ?thesis by (simp add: slice_from_def eval_nat_numeral)
qed

lemma split_whitespace_ne: "w \<in> set (split_whitespace s) \<Longrightarrow> w \<noteq> []"
proof -
  have encode_char_ne: "encode_char c \<noteq> []" for c by (simp add: encode_char_def)
  assume "w \<in> set (split_whitespace s)"
  then obtain v where "w = encode v" "v \<noteq> []" by (auto simp: split_whitespace_def)
  then show ?thesis using encode_char_ne by (cases v) auto
qed

lemma route_source_total: "valid_utf8 s \<Longrightarrow> route_source s \<noteq> None"
  by (auto simp: route_source_def slice_after_src Let_def split: option.split)

lemma route_source_ne: "route_source s = Some (Some ip) \<Longrightarrow> ip \<noteq> []"
  by (auto simp: route_source_def Let_def split: option.splits if_splits)

lemma hostname_first_ne: "hostname_first r = Some ip \<Longrightarrow> ip \<noteq> []"
  by (auto simp: hostname_first_def Let_def split: proc_result.splits if_splits)

lemma detect_total: "\<exists>res. detect_private_ip run = Some res \<and> res \<noteq> Some []"
proof -
  have h: "hostname_first r \<noteq> Some []" for r using hostname_first_ne [of r] by auto
  show ?thesis
  proof (cases "run ROUTE_ARGV")
    case (Exited code out err)
    have "route_source (lossy out) \<noteq> None" by (rule route_source_total [OF valid_lossy])
    moreover have "route_source (lossy out) \<noteq> Some (Some [])" using route_source_ne by blast
    ultimately show ?thesis using h Exited
      by (cases "route_source (lossy out)"; cases "the (route_source (lossy out))")
        (auto simp: detect_private_ip_def)
  qed (use h in \<open>simp add: detect_private_ip_def\<close>)
qed

text \<open>What the two commands say: a word, empty when there is none.\<close>

definition route_answer :: "(string list \<Rightarrow> proc_result) \<Rightarrow> string" where
  "route_answer run = (case run ROUTE_ARGV of
     Exited code out err \<Rightarrow>
       (case find_str ''src '' (lossy out) of
          Some i \<Rightarrow> if proc_success (Exited code out err) then first_word (drop (i + 4) (lossy out)) else []
        | None \<Rightarrow> [])
   | _ \<Rightarrow> [])"

definition hostname_answer :: "(string list \<Rightarrow> proc_result) \<Rightarrow> string" where
  "hostname_answer run = (case run HOSTNAME_ARGV of
     Exited code out err \<Rightarrow> if proc_success (Exited code out err) then first_word (lossy out) else []
   | _ \<Rightarrow> [])"

lemma hostname_first_answer:
  "hostname_first (run HOSTNAME_ARGV) = (if hostname_answer run = [] then None else Some (hostname_answer run))"
  by (simp add: hostname_first_def hostname_answer_def Let_def split: proc_result.split)

lemma route_source_answer:
  "route_source (lossy out) = Some (let w = (case find_str ''src '' (lossy out) of
      Some i \<Rightarrow> first_word (drop (i + 4) (lossy out)) | None \<Rightarrow> []) in if w = [] then None else Some w)"
  by (simp add: route_source_def slice_after_src [OF valid_lossy] Let_def split: option.split)

lemma detect_private_ip_answer:
  "detect_private_ip run = Some
     (if route_answer run \<noteq> [] then Some (route_answer run)
      else if hostname_answer run \<noteq> [] then Some (hostname_answer run) else None)"
  by (simp add: detect_private_ip_def hostname_first_answer route_source_answer route_answer_def Let_def
      split: proc_result.split option.split)

section \<open>Properties\<close>

text \<open>Address detection never panics, whatever bytes the two commands print: the slice after
  \<open>src\<close> is always on a character boundary; and an address it returns is never empty.\<close>

theorem detect_private_ip_total: "\<exists>res. detect_private_ip run = Some res \<and> res \<noteq> Some []"
  by (rule detect_total)

end
