(* ===== verification/Agent.thy ===== *)
theory Agent
  imports Core_Config Core_Types Core_Network
begin

text \<open>
  \<open>crates/nexus-link-agent/src/\<close>: what the telemetry agent measures (\<open>collector.rs\<close>), sends
  (\<open>pusher.rs\<close>) and repeats (\<open>main.rs\<close>).

  Floating-point arithmetic is the parameter \<open>f64\<close>; the operating system, the Docker daemon and
  \<open>nvidia-smi\<close> are inputs. Integers wrap at 64 bits, as in the release build. The outer \<open>None\<close> of a
  result is a panic; \<open>debug_on\<close> says whether debug messages are evaluated.
\<close>

section \<open>Parameters\<close>

record 'f f64 =
  f_zero :: 'f
  f_of_u64 :: "u64 \<Rightarrow> 'f"
  f_sub :: "'f \<Rightarrow> 'f \<Rightarrow> 'f"
  f_div :: "'f \<Rightarrow> 'f \<Rightarrow> 'f"
  f_mul :: "'f \<Rightarrow> 'f \<Rightarrow> 'f"
  f_positive :: "'f \<Rightarrow> bool"
  f_parse :: "string \<Rightarrow> 'f option"

section \<open>System metrics\<close>

record disk =
  total_space :: u64
  available_space :: u64

record 'f host =
  global_cpu_usage :: 'f
  total_memory :: u64
  used_memory :: u64
  uptime :: u64
  disks :: "disk list"

definition collect_system_metrics :: "'f host \<Rightarrow> 'f system_metrics" where
  "collect_system_metrics h =
     \<lparr>cpu_usage_percent = global_cpu_usage h,
      memory_total_bytes = total_memory h,
      memory_used_bytes = used_memory h,
      disk_total_bytes = sum_list (map total_space (disks h)),
      disk_used_bytes = sum_list (map (\<lambda>d. total_space d - available_space d) (disks h)),
      uptime_secs = uptime h\<rparr>"

section \<open>Containers\<close>

record cpu_sample =
  total_usage :: u64
  system_cpu_usage :: "u64 option"
  online_cpus :: "u64 option"

record docker_stats =
  cpu_stats :: cpu_sample
  precpu_stats :: cpu_sample
  mem_usage :: "u64 option"
  mem_limit :: "u64 option"
  networks :: "(string \<times> u64 \<times> u64) list option"

record container =
  ct_id :: "string option"
  ct_names :: "string list option"
  ct_image :: "string option"
  ct_status :: "string option"

record 'f container_stats =
  cs_cpu_percent :: 'f
  cs_memory_usage :: u64
  cs_memory_limit :: u64
  cs_network_rx :: u64
  cs_network_tx :: u64

definition or_zero :: "u64 option \<Rightarrow> u64" where
  "or_zero x = (case x of Some n \<Rightarrow> n | None \<Rightarrow> 0)"

definition calculate_cpu_percent :: "'f f64 \<Rightarrow> docker_stats \<Rightarrow> 'f" where
  "calculate_cpu_percent fl stats =
     (let cpu_delta = f_sub fl (f_of_u64 fl (total_usage (cpu_stats stats)))
                                (f_of_u64 fl (total_usage (precpu_stats stats)));
          system_delta = f_sub fl (f_of_u64 fl (or_zero (system_cpu_usage (cpu_stats stats))))
                                  (f_of_u64 fl (or_zero (system_cpu_usage (precpu_stats stats))))
      in if f_positive fl system_delta \<and> f_positive fl cpu_delta then
           (let num_cpus = f_of_u64 fl (case online_cpus (cpu_stats stats) of Some n \<Rightarrow> n | None \<Rightarrow> 1)
            in f_mul fl (f_mul fl (f_div fl cpu_delta system_delta) num_cpus) (f_of_u64 fl 100))
         else f_zero fl)"

definition default_stats :: "'f f64 \<Rightarrow> 'f container_stats" where
  "default_stats fl = \<lparr>cs_cpu_percent = f_zero fl, cs_memory_usage = 0, cs_memory_limit = 0,
     cs_network_rx = 0, cs_network_tx = 0\<rparr>"

text \<open>The first item of the statistics stream: an end, an error, or the statistics.\<close>

definition get_container_stats ::
    "'f f64 \<Rightarrow> bool \<Rightarrow> string \<Rightarrow> (string + docker_stats) option \<Rightarrow> 'f container_stats option" where
  "get_container_stats fl debug_on container_id item = (case item of
     None \<Rightarrow> Some (default_stats fl)
   | Some (Inl e) \<Rightarrow>
       if debug_on \<and> slice_to container_id 12 = None then None else Some (default_stats fl)
   | Some (Inr stats) \<Rightarrow>
       (let (rx, tx) = (case networks stats of
              None \<Rightarrow> (0, 0)
            | Some nets \<Rightarrow> fold (\<lambda>(_, r, x) (rx, tx). (rx + r, tx + x)) nets (0, 0))
        in Some \<lparr>cs_cpu_percent = calculate_cpu_percent fl stats,
          cs_memory_usage = or_zero (mem_usage stats),
          cs_memory_limit = or_zero (mem_limit stats),
          cs_network_rx = rx, cs_network_tx = tx\<rparr>))"

definition container_metric ::
    "'f f64 \<Rightarrow> bool \<Rightarrow> (string \<Rightarrow> (string + docker_stats) option) \<Rightarrow> container
      \<Rightarrow> 'f container_metrics option" where
  "container_metric fl debug_on stats_of c =
     (let i = (case ct_id c of Some i \<Rightarrow> i | None \<Rightarrow> []);
          short_id = encode (take 12 (chars i));
          name = trim_start_char (CHR ''/'')
            (case ct_names c of Some (n # _) \<Rightarrow> n | _ \<Rightarrow> short_id)
      in map_option (\<lambda>s.
           \<lparr>cm_id = short_id, cm_name = name,
            cm_image = (case ct_image c of Some x \<Rightarrow> x | None \<Rightarrow> []),
            cm_status = (case ct_status c of Some x \<Rightarrow> x | None \<Rightarrow> []),
            cm_cpu_percent = cs_cpu_percent s,
            cm_memory_usage_bytes = cs_memory_usage s, cm_memory_limit_bytes = cs_memory_limit s,
            cm_network_rx_bytes = cs_network_rx s, cm_network_tx_bytes = cs_network_tx s\<rparr>)
         (get_container_stats fl debug_on i (stats_of i)))"

fun all_some :: "'a option list \<Rightarrow> 'a list option" where
  "all_some [] = Some []"
| "all_some (None # xs) = None"
| "all_some (Some x # xs) = map_option ((#) x) (all_some xs)"

text \<open>The Docker daemon: whether it can be connected to, and its answer to the listing.\<close>

definition collect_container_metrics ::
    "'f f64 \<Rightarrow> bool \<Rightarrow> string + (string + container list) \<Rightarrow> (string \<Rightarrow> (string + docker_stats) option)
      \<Rightarrow> (string + 'f container_metrics list) option" where
  "collect_container_metrics fl debug_on docker stats_of = (case docker of
     Inl e \<Rightarrow> Some (Inr [])
   | Inr (Inl e) \<Rightarrow> Some (Inl e)
   | Inr (Inr containers) \<Rightarrow>
       map_option Inr (all_some (map (container_metric fl debug_on stats_of) containers)))"

section \<open>GPUs\<close>

definition or_f :: "'f f64 \<Rightarrow> 'f option \<Rightarrow> 'f" where
  "or_f fl x = (case x of Some v \<Rightarrow> v | None \<Rightarrow> f_zero fl)"

definition parse_gpu_line :: "'f f64 \<Rightarrow> string \<Rightarrow> 'f gpu_device option" where
  "parse_gpu_line fl raw =
     (let line = trim raw in
      if line = [] then None
      else let kvs = map trim (split_char (CHR '','') line) in
        if length kvs < 7 then None
        else
          (let index = (case parse_u32 (kvs ! 0) of Some n \<Rightarrow> n | None \<Rightarrow> 0);
               memory_total_mib = or_zero (parse_u64 (kvs ! 4));
               memory_used_mib = or_zero (parse_u64 (kvs ! 5))
           in Some \<lparr>gpu_index = index, gpu_name = kvs ! 1,
                temperature_celsius = or_f fl (f_parse fl (kvs ! 2)),
                utilization_percent = or_f fl (f_parse fl (kvs ! 3)),
                gpu_memory_total_bytes = memory_total_mib * 1024 * 1024,
                gpu_memory_used_bytes = memory_used_mib * 1024 * 1024,
                power_draw_watts = or_f fl (f_parse fl (kvs ! 6))\<rparr>))"

definition parse_nvidia_smi_output :: "'f f64 \<Rightarrow> string \<Rightarrow> 'f gpu_device list" where
  "parse_nvidia_smi_output fl out = List.map_filter (parse_gpu_line fl) (lines out)"

definition query_process_gpu_memory :: "proc_result \<Rightarrow> u64" where
  "query_process_gpu_memory r = (case r of
     Exited code out err \<Rightarrow>
       if proc_success r then
         sum_list (List.map_filter (\<lambda>l. parse_u64 (trim l)) (lines (lossy out))) * 1024 * 1024
       else 0
   | Spawn_Error e \<Rightarrow> 0)"

fun meminfo_total :: "string list \<Rightarrow> u64 option" where
  "meminfo_total [] = None"
| "meminfo_total (l # ls) =
     (if starts_with l ''MemTotal:'' then
        Some ((case split_whitespace l of
                 _ # v # _ \<Rightarrow> or_zero (parse_u64 v) | _ \<Rightarrow> 0) * 1024)
      else meminfo_total ls)"

definition get_system_memory_total :: "io_error + string \<Rightarrow> u64" where
  "get_system_memory_total meminfo =
     (case (case meminfo of Inr content \<Rightarrow> meminfo_total (lines content) | Inl e \<Rightarrow> None) of
        Some n \<Rightarrow> n
      | None \<Rightarrow> 128 * 1024 * 1024 * 1024)"

text \<open>The second command and the memory file are consulted again for every device without
  memory figures.\<close>

definition collect_gpu_metrics ::
    "'f f64 \<Rightarrow> proc_result \<Rightarrow> proc_result \<Rightarrow> io_error + string \<Rightarrow> 'f gpu_metrics option" where
  "collect_gpu_metrics fl smi apps meminfo = (case smi of
     Exited code out err \<Rightarrow>
       if proc_success smi then
         (let found = map (\<lambda>d.
                if gpu_memory_total_bytes d = 0 \<and> gpu_memory_used_bytes d = 0
                then d\<lparr>gpu_memory_used_bytes := query_process_gpu_memory apps,
                       gpu_memory_total_bytes := get_system_memory_total meminfo\<rparr>
                else d) (parse_nvidia_smi_output fl (lossy out))
          in if found = [] then None else Some \<lparr>devices = found\<rparr>)
       else None
   | Spawn_Error e \<Rightarrow> None)"

section \<open>One round\<close>

record 'f round_env =
  re_host :: "'f host"
  re_docker :: "string + (string + container list)"
  re_stats :: "string \<Rightarrow> (string + docker_stats) option"
  re_smi :: proc_result
  re_apps :: proc_result
  re_meminfo :: "io_error + string"
  re_run :: "string list \<Rightarrow> proc_result"
  re_now :: int
  re_reply :: "string + (nat \<times> string)"

definition collect_telemetry ::
    "'f f64 \<Rightarrow> bool \<Rightarrow> config \<Rightarrow> 'f round_env \<Rightarrow> (string + 'f telemetry_payload) option" where
  "collect_telemetry fl debug_on cfg re =
     (case collect_container_metrics fl debug_on (re_docker re) (re_stats re) of
        None \<Rightarrow> None
      | Some (Inl e) \<Rightarrow> Some (Inl e)
      | Some (Inr containers) \<Rightarrow>
          map_option (\<lambda>ip. Inr
            \<lparr>tp_node_id = node_id (node cfg), tp_timestamp = re_now re,
             tp_system = collect_system_metrics (re_host re), tp_containers = containers,
             tp_gpu = collect_gpu_metrics fl (re_smi re) (re_apps re) (re_meminfo re),
             tp_private_ip = ip\<rparr>) (detect_private_ip (re_run re)))"

text \<open>The POST handed to the HTTP client, with its bearer token, and the client's answer: an error text
  unless it is a success status. A request the client cannot build (a URL it cannot parse) is among
  its errors.\<close>

record 'f push =
  push_url :: string
  push_bearer :: string
  push_payload :: "'f telemetry_payload"

definition push_telemetry ::
    "config \<Rightarrow> string + (nat \<times> string) \<Rightarrow> 'f telemetry_payload \<Rightarrow> 'f push \<times> (string + unit)" where
  "push_telemetry cfg reply payload =
     (\<lparr>push_url = base_url (api cfg) @ ''/api/nodes/'' @ node_id (node cfg) @ ''/telemetry'',
       push_bearer = node_token cfg, push_payload = payload\<rparr>,
      case reply of
        Inl e \<Rightarrow> Inl e
      | Inr (status, body) \<Rightarrow>
          if 200 \<le> status \<and> status < 300 then Inr ()
          else Inl (''Telemetry push failed ('' @ show_nat status @ ''): '' @ body))"

section \<open>The push loop\<close>

text \<open>
  \<open>tokio::time::interval\<close> panics on a zero period. A round that fails is logged, and the loop
  goes on; a panic ends the task (\<open>Stopped\<close>) while the process stays up.
\<close>

datatype task_end = Running | Stopped

fun push_rounds ::
    "'f f64 \<Rightarrow> bool \<Rightarrow> config \<Rightarrow> 'f round_env list \<Rightarrow> 'f push list \<times> task_end" where
  "push_rounds fl debug_on cfg [] = ([], Running)"
| "push_rounds fl debug_on cfg (re # res) =
     (case collect_telemetry fl debug_on cfg re of
        None \<Rightarrow> ([], Stopped)
      | Some (Inl e) \<Rightarrow> push_rounds fl debug_on cfg res
      | Some (Inr payload) \<Rightarrow>
          (case push_telemetry cfg (re_reply re) payload of
             (p, _) \<Rightarrow> (case push_rounds fl debug_on cfg res of (ps, e) \<Rightarrow> (p # ps, e))))"

definition agent_main ::
    "'f f64 \<Rightarrow> bool \<Rightarrow> string + config \<Rightarrow> 'f round_env list \<Rightarrow> string + ('f push list \<times> task_end)" where
  "agent_main fl debug_on loaded rounds =
     res_bind loaded (\<lambda>cfg.
       Inr (if push_sec (agent cfg) = 0 then ([], Stopped) else push_rounds fl debug_on cfg rounds))"

end
