(* ===== verification/Agent_Laws.thy ===== *)
theory Agent_Laws
  imports Agent
begin

text \<open>
  The agent: rounds are independent and total when debug messages are off, what a payload says of the
  machine field by field (\<open>payload_reading\<close>), a legacy interval of zero stops the telemetry for good,
  and the GPU table is read back row by row.
\<close>

section \<open>Rounds\<close>

lemma get_container_stats_total: "get_container_stats fl False i item \<noteq> None"
  by (simp add: get_container_stats_def split: option.split sum.split prod.split)

lemma get_container_stats_None:
  "get_container_stats fl debug_on i item = None \<longleftrightarrow>
     debug_on \<and> slice_to i 12 = None \<and> (\<exists>e. item = Some (Inl e))"
  by (auto simp: get_container_stats_def Let_def split: option.splits sum.splits prod.splits)

lemma all_some_None: "all_some xs = None \<longleftrightarrow> None \<in> set xs"
  by (induction xs rule: all_some.induct) auto

lemma collect_containers_total: "collect_container_metrics fl False docker stats_of \<noteq> None"
proof -
  have "container_metric fl False stats_of c \<noteq> None" for c
    by (simp only: container_metric_def Let_def map_option_is_None get_container_stats_total
        not_False_eq_True)
  then have "None \<notin> set (map (container_metric fl False stats_of) cs)" for cs
    by (metis (no_types, lifting) ex_map_conv)
  then have "all_some (map (container_metric fl False stats_of) cs) \<noteq> None" for cs
    by (simp only: all_some_None not_False_eq_True)
  then show ?thesis by (auto simp: collect_container_metrics_def split: sum.split)
qed

definition listing_failed :: "'f round_env \<Rightarrow> bool" where
  "listing_failed re \<longleftrightarrow> (case re_docker re of Inr (Inl e) \<Rightarrow> True | _ \<Rightarrow> False)"

lemma collect_telemetry_total:
  "\<exists>r. collect_telemetry fl False cfg re = Some r \<and> (isl r \<longleftrightarrow> listing_failed re)"
proof -
  obtain ip where ip: "detect_private_ip (re_run re) = Some ip" using detect_total by blast
  obtain c where c: "collect_container_metrics fl False (re_docker re) (re_stats re) = Some c"
    using collect_containers_total by blast
  then have "isl c \<longleftrightarrow> listing_failed re"
    by (auto simp: collect_container_metrics_def listing_failed_def split: sum.splits)
  with ip c show ?thesis by (cases c) (simp_all add: collect_telemetry_def)
qed

text \<open>What the payload of a round is to say, field by field: first of one container.\<close>

definition or_empty :: "string option \<Rightarrow> string" where
  "or_empty x = (case x of Some s \<Rightarrow> s | None \<Rightarrow> [])"

definition net_bytes :: "docker_stats \<Rightarrow> u64 \<times> u64" where
  "net_bytes s = (case networks s of None \<Rightarrow> (0, 0)
   | Some nets \<Rightarrow> (sum_list (map (fst \<circ> snd) nets), sum_list (map (snd \<circ> snd) nets)))"

definition container_figures :: "'f f64 \<Rightarrow> docker_stats \<Rightarrow> 'f container_metrics \<Rightarrow> bool" where
  "container_figures fl s m \<longleftrightarrow>
     (let used = f_sub fl (f_of_u64 fl (total_usage (cpu_stats s))) (f_of_u64 fl (total_usage (precpu_stats s)));
          whole = f_sub fl (f_of_u64 fl (or_zero (system_cpu_usage (cpu_stats s))))
                           (f_of_u64 fl (or_zero (system_cpu_usage (precpu_stats s))));
          cpus = f_of_u64 fl (case online_cpus (cpu_stats s) of Some n \<Rightarrow> n | None \<Rightarrow> 1)
      in cm_cpu_percent m = (if f_positive fl used \<and> f_positive fl whole
           then f_mul fl (f_mul fl (f_div fl used whole) cpus) (f_of_u64 fl 100) else f_zero fl))
     \<and> cm_memory_usage_bytes m = or_zero (mem_usage s) \<and> cm_memory_limit_bytes m = or_zero (mem_limit s)
     \<and> (cm_network_rx_bytes m, cm_network_tx_bytes m) = net_bytes s"

definition no_figures :: "'f f64 \<Rightarrow> 'f container_metrics \<Rightarrow> bool" where
  "no_figures fl m \<longleftrightarrow> cm_cpu_percent m = f_zero fl \<and> cm_memory_usage_bytes m = 0
     \<and> cm_memory_limit_bytes m = 0 \<and> cm_network_rx_bytes m = 0 \<and> cm_network_tx_bytes m = 0"

definition container_reading ::
    "'f f64 \<Rightarrow> (string \<Rightarrow> (string + docker_stats) option) \<Rightarrow> container \<Rightarrow> 'f container_metrics \<Rightarrow> bool" where
  "container_reading fl stats_of c m \<longleftrightarrow>
     cm_id m = encode (take 12 (chars (or_empty (ct_id c))))
     \<and> cm_name m = trim_start_char (CHR ''/'') (case ct_names c of Some (n # _) \<Rightarrow> n | _ \<Rightarrow> cm_id m)
     \<and> cm_image m = or_empty (ct_image c) \<and> cm_status m = or_empty (ct_status c)
     \<and> (case stats_of (or_empty (ct_id c)) of
          Some (Inr s) \<Rightarrow> container_figures fl s m | _ \<Rightarrow> no_figures fl m)"

text \<open>Then of the machine: its time, system, containers, GPUs and address.\<close>

definition system_reading :: "'f host \<Rightarrow> 'f system_metrics \<Rightarrow> bool" where
  "system_reading h m \<longleftrightarrow> cpu_usage_percent m = global_cpu_usage h
     \<and> memory_total_bytes m = total_memory h \<and> memory_used_bytes m = used_memory h
     \<and> disk_total_bytes m = sum_list (map total_space (disks h))
     \<and> disk_used_bytes m = sum_list (map (\<lambda>d. total_space d - available_space d) (disks h))
     \<and> uptime_secs m = uptime h"

definition payload_reading :: "'f f64 \<Rightarrow> 'f round_env \<Rightarrow> 'f telemetry_payload \<Rightarrow> bool" where
  "payload_reading fl re y \<longleftrightarrow> tp_timestamp y = re_now re \<and> system_reading (re_host re) (tp_system y)
     \<and> (case re_docker re of
          Inl e \<Rightarrow> tp_containers y = []
        | Inr (Inl e) \<Rightarrow> False
        | Inr (Inr listed) \<Rightarrow> list_all2 (container_reading fl (re_stats re)) listed (tp_containers y))
     \<and> tp_gpu y = collect_gpu_metrics fl (re_smi re) (re_apps re) (re_meminfo re)
     \<and> tp_private_ip y = (if route_answer (re_run re) \<noteq> [] then Some (route_answer (re_run re))
          else if hostname_answer (re_run re) \<noteq> [] then Some (hostname_answer (re_run re)) else None)"

lemma fold_net_bytes:
  "fold (\<lambda>(_, r, x) (rx, tx). (rx + r, tx + x)) nets (a, b)
     = (a + sum_list (map (fst \<circ> snd) nets), b + sum_list (map (snd \<circ> snd) nets))"
  for a b :: u64
  by (induction nets arbitrary: a b) (auto simp: add.assoc)

definition takes_figures :: "'f container_metrics \<Rightarrow> 'f container_stats \<Rightarrow> bool" where
  "takes_figures m x \<longleftrightarrow> cm_cpu_percent m = cs_cpu_percent x
     \<and> cm_memory_usage_bytes m = cs_memory_usage x \<and> cm_memory_limit_bytes m = cs_memory_limit x
     \<and> cm_network_rx_bytes m = cs_network_rx x \<and> cm_network_tx_bytes m = cs_network_tx x"

lemma stats_figures:
  assumes "get_container_stats fl debug_on i item = Some x" and "takes_figures m x"
  shows "case item of Some (Inr s) \<Rightarrow> container_figures fl s m | _ \<Rightarrow> no_figures fl m"
proof (cases "\<exists>s. item = Some (Inr s)")
  case True
  then obtain s where "item = Some (Inr s)" by blast
  with assms show ?thesis
    by (auto simp: get_container_stats_def container_figures_def calculate_cpu_percent_def Let_def
        net_bytes_def fold_net_bytes takes_figures_def split: option.splits prod.splits)
next
  case False
  with assms(1) have "x = default_stats fl"
    by (auto simp: get_container_stats_def split: option.splits sum.splits if_splits)
  with False assms(2) show ?thesis
    by (auto simp: no_figures_def takes_figures_def default_stats_def split: option.split sum.split)
qed

lemma container_metric_reading:
  assumes "container_metric fl debug_on stats_of c = Some m"
  shows "container_reading fl stats_of c m"
proof -
  let ?i = "or_empty (ct_id c)"
  obtain x where x: "get_container_stats fl debug_on ?i (stats_of ?i) = Some x" "takes_figures m x"
    and m: "cm_id m = encode (take 12 (chars ?i))"
      "cm_name m = trim_start_char (CHR ''/'') (case ct_names c of Some (n # _) \<Rightarrow> n | _ \<Rightarrow> cm_id m)"
      "cm_image m = or_empty (ct_image c)" "cm_status m = or_empty (ct_status c)"
    using assms
    by (auto simp: container_metric_def Let_def or_empty_def takes_figures_def
        cong: option.case_cong list.case_cong)
  from stats_figures [OF x] m show ?thesis by (simp only: container_reading_def simp_thms)
qed

lemma all_some_list_all2: "all_some (map f xs) = Some ys \<Longrightarrow> list_all2 (\<lambda>x y. f x = Some y) xs ys"
proof (induction xs arbitrary: ys)
  case (Cons x xs)
  then show ?case by (cases "f x") auto
qed simp

lemma collect_telemetry_fields:
  assumes "collect_telemetry fl debug_on cfg re = Some (Inr p)"
  shows "tp_node_id p = node_id (node cfg) \<and> payload_reading fl re p"
proof -
  from assms obtain cs where c: "collect_container_metrics fl debug_on (re_docker re) (re_stats re) = Some (Inr cs)"
    and p: "p = \<lparr>tp_node_id = node_id (node cfg), tp_timestamp = re_now re,
      tp_system = collect_system_metrics (re_host re), tp_containers = cs,
      tp_gpu = collect_gpu_metrics fl (re_smi re) (re_apps re) (re_meminfo re),
      tp_private_ip = (if route_answer (re_run re) \<noteq> [] then Some (route_answer (re_run re))
          else if hostname_answer (re_run re) \<noteq> [] then Some (hostname_answer (re_run re)) else None)\<rparr>"
    by (auto simp: collect_telemetry_def detect_private_ip_answer split: option.splits sum.splits)
  have "case re_docker re of Inl e \<Rightarrow> cs = [] | Inr (Inl e) \<Rightarrow> False
      | Inr (Inr listed) \<Rightarrow> list_all2 (container_reading fl (re_stats re)) listed cs"
    using c by (auto simp: collect_container_metrics_def split: sum.splits
        dest!: all_some_list_all2 elim: list_all2_mono intro: container_metric_reading)
  then show ?thesis
    unfolding payload_reading_def p
    by (simp add: system_reading_def collect_system_metrics_def cong: option.case_cong sum.case_cong)
qed

definition addressed :: "config \<Rightarrow> 'f push \<Rightarrow> bool" where
  "addressed cfg p \<longleftrightarrow> push_bearer p = node_token cfg \<and> tp_node_id (push_payload p) = node_id (node cfg)
     \<and> push_url p = base_url (api cfg) @ ''/api/nodes/'' @ node_id (node cfg) @ ''/telemetry''"

lemma push_rounds_total:
  "snd (push_rounds fl False cfg rounds) = Running
   \<and> list_all2 (\<lambda>re p. payload_reading fl re (push_payload p))
       (filter (\<lambda>re. \<not> listing_failed re) rounds) (fst (push_rounds fl False cfg rounds))
   \<and> list_all (addressed cfg) (fst (push_rounds fl False cfg rounds))"
proof (induction rounds)
  case (Cons re res)
  obtain r where r: "collect_telemetry fl False cfg re = Some r" "isl r \<longleftrightarrow> listing_failed re"
    using collect_telemetry_total by blast
  obtain ps e where ps: "push_rounds fl False cfg res = (ps, e)" by fastforce
  with Cons r collect_telemetry_fields [of fl False cfg re] show ?case
    by (cases r) (simp_all add: push_telemetry_def addressed_def)
qed simp

section \<open>Reading the GPU table\<close>

text \<open>A field of the table: text without commas and line feeds, with nothing to trim.\<close>

definition clean_field :: "string \<Rightarrow> bool" where
  "clean_field s \<longleftrightarrow> valid_utf8 s \<and> chars s \<noteq> [] \<and> \<not> is_whitespace (hd (chars s)) \<and>
     \<not> is_whitespace (last (chars s)) \<and> CHR '','' \<notin> set s \<and> LF \<notin> set s \<and> CR \<notin> set s"

lemma trim_chars_clean:
  "cs \<noteq> [] \<Longrightarrow> \<not> is_whitespace (hd cs) \<Longrightarrow> \<not> is_whitespace (last cs) \<Longrightarrow> trim_chars cs = cs"
proof -
  assume a: "cs \<noteq> []" "\<not> is_whitespace (hd cs)" "\<not> is_whitespace (last cs)"
  then have "dropWhile is_whitespace cs = cs" by (cases cs) simp_all
  moreover have "dropWhile is_whitespace (rev cs) = rev cs"
    using a by (cases cs rule: rev_cases) simp_all
  ultimately show ?thesis by (simp add: trim_chars_def)
qed

lemma trim_clean: "clean_field s \<Longrightarrow> trim s = s"
  by (simp add: clean_field_def trim_def trim_chars_clean encode_chars)

lemma trim_space_clean:
  assumes "clean_field s"
  shows "trim ('' '' @ s) = s"
proof -
  have "trim_chars (32 # chars s) = chars s"
    using assms trim_chars_clean [of "chars s"]
    by (simp add: clean_field_def trim_chars_def is_whitespace_def)
  moreover have "chars ('' '' @ s) = 32 # chars s" by (simp add: chars_ascii_Cons byte_def)
  ultimately show ?thesis using assms by (simp add: trim_def clean_field_def encode_chars)
qed

lemma is_whitespace_digit: "c \<in> set (show_nat n) \<Longrightarrow> \<not> is_whitespace (byte c)"
  using show_nat_digits [of c n] by (auto simp: is_whitespace_def)

lemma clean_show: "clean_field (show_nat n)"
proof -
  have a: "is_ascii (show_nat n)" using show_nat_digits by (force simp: is_ascii_def)
  have "c \<notin> set (show_nat n)" if "byte c < 48" for c using that show_nat_digits by force
  then have "CHR '','' \<notin> set (show_nat n)" "LF \<notin> set (show_nat n)" "CR \<notin> set (show_nat n)"
    by (simp_all add: byte_def LF_def CR_def)
  moreover have "\<not> is_whitespace (byte (hd (show_nat n)))" "\<not> is_whitespace (byte (last (show_nat n)))"
    using is_whitespace_digit hd_in_set last_in_set show_nat_ne by blast+
  ultimately show ?thesis
    using a by (simp add: clean_field_def valid_utf8_ascii chars_ascii hd_map last_map)
qed

record 'f gpu_row =
  row_index :: u32
  row_name :: string
  row_temperature :: string
  row_utilization :: string
  row_total_mib :: u64
  row_used_mib :: u64
  row_power :: string

definition row_fields :: "'f gpu_row \<Rightarrow> string list" where
  "row_fields r = [show_word (row_index r), row_name r, row_temperature r, row_utilization r,
     show_word (row_total_mib r), show_word (row_used_mib r), row_power r]"

definition row_text :: "'f gpu_row \<Rightarrow> string" where
  "row_text r = join '', '' (row_fields r)"

definition clean_row :: "'f gpu_row \<Rightarrow> bool" where
  "clean_row r \<longleftrightarrow> list_all clean_field (row_fields r)"

definition row_device :: "'f f64 \<Rightarrow> 'f gpu_row \<Rightarrow> 'f gpu_device" where
  "row_device fl r = \<lparr>gpu_index = row_index r, gpu_name = row_name r,
     temperature_celsius = or_f fl (f_parse fl (row_temperature r)),
     utilization_percent = or_f fl (f_parse fl (row_utilization r)),
     gpu_memory_total_bytes = row_total_mib r * 1024 * 1024,
     gpu_memory_used_bytes = row_used_mib r * 1024 * 1024,
     power_draw_watts = or_f fl (f_parse fl (row_power r))\<rparr>"

lemma split_join_comma:
  "list_all clean_field (f # fs) \<Longrightarrow>
   split_char (CHR '','') (join '', '' (f # fs)) = f # map (\<lambda>g. '' '' @ g) fs"
proof (induction fs arbitrary: f)
  case Nil
  then show ?case by (simp add: clean_field_def split_char_none)
next
  case (Cons g fs)
  have c: "CHR '','' \<notin> set f" using Cons.prems by (simp add: clean_field_def)
  have "split_char (CHR '','') (join '', '' (f # g # fs))
      = f # split_char (CHR '','') ('' '' @ join '', '' (g # fs))"
    using split_char_first [OF c, of "'' '' @ join '', '' (g # fs)"] by simp
  also have "\<dots> = f # ('' '' @ g) # map (\<lambda>g. '' '' @ g) fs"
    using Cons.IH [of g] Cons.prems by simp
  finally show ?case by simp
qed

lemma trim_split_fields:
  "list_all clean_field (f # fs) \<Longrightarrow>
   map trim (split_char (CHR '','') (join '', '' (f # fs))) = f # fs"
proof -
  assume a: "list_all clean_field (f # fs)"
  then have "map trim (map (\<lambda>g. '' '' @ g) fs) = fs"
    using trim_space_clean by (induction fs) (auto simp: list_all_iff)
  with a split_join_comma [OF a] show ?thesis by (simp add: trim_clean)
qed

lemma valid_comma_space: "valid_utf8 '', ''"
  by (rule valid_utf8_ascii) (simp add: is_ascii_def byte_def)

lemma join_clean:
  "list_all clean_field (f # fs) \<Longrightarrow>
   valid_utf8 (join '', '' (f # fs)) \<and> chars (join '', '' (f # fs)) \<noteq> [] \<and>
   hd (chars (join '', '' (f # fs))) = hd (chars f) \<and>
   last (chars (join '', '' (f # fs))) = last (chars (last (f # fs))) \<and>
   LF \<notin> set (join '', '' (f # fs)) \<and> CR \<notin> set (join '', '' (f # fs))"
proof (induction fs arbitrary: f)
  case Nil
  then show ?case by (simp add: clean_field_def)
next
  case (Cons g fs)
  let ?t = "join '', '' (g # fs)"
  have f: "clean_field f" using Cons.prems by simp
  have t: "valid_utf8 ?t" "chars ?t \<noteq> []" "last (chars ?t) = last (chars (last (g # fs)))"
    "LF \<notin> set ?t" "CR \<notin> set ?t" using Cons.IH [of g] Cons.prems by simp_all
  have e: "join '', '' (f # g # fs) = f @ '', '' @ ?t" by simp
  have "chars (f @ '', '' @ ?t) = chars f @ chars '', '' @ chars ?t"
    using f by (simp only: chars_append [OF valid_comma_space] chars_append clean_field_def)
  moreover have "valid_utf8 (f @ '', '' @ ?t)"
    using f t valid_comma_space by (blast intro: valid_utf8_append dest: clean_field_def [THEN iffD1])
  ultimately show ?case unfolding e
    using f t by (simp add: clean_field_def LF_def CR_def)
qed

lemma parse_gpu_row:
  assumes "clean_row r"
  shows "parse_gpu_line fl (row_text r) = Some (row_device fl r)"
proof -
  note c = assms [unfolded clean_row_def]
  let ?j = "row_text r"
  from join_clean [OF c [unfolded row_fields_def]] c
  have "\<not> is_whitespace (hd (chars ?j))" "\<not> is_whitespace (last (chars ?j))"
    and j: "chars ?j \<noteq> []" "valid_utf8 ?j"
    by (simp_all add: row_text_def row_fields_def clean_field_def)
  then have t: "trim ?j = ?j" by (simp add: trim_def trim_chars_clean encode_chars)
  have ne: "?j \<noteq> []" using j by auto
  have fs: "map trim (split_char (CHR '','') ?j) = row_fields r"
    using trim_split_fields [OF c [unfolded row_fields_def]]
    by (simp only: row_text_def row_fields_def)
  show ?thesis
    unfolding parse_gpu_line_def t Let_def fs
    using ne by (simp add: row_fields_def row_device_def or_zero_def)
qed

lemma lines_rows:
  "list_all (\<lambda>r. LF \<notin> set r \<and> CR \<notin> set r) rs \<Longrightarrow> lines (concat (map (\<lambda>r. r @ [LF]) rs)) = rs"
proof -
  assume a: "list_all (\<lambda>r. LF \<notin> set r \<and> CR \<notin> set r) rs"
  then have "split_char LF (concat (map (\<lambda>r. r @ [LF]) rs)) = rs @ [[]]"
    by (induction rs) (simp_all add: split_char_first)
  moreover from a have "map strip_cr rs = rs"
    by (induction rs) (auto simp: strip_cr_def dest: last_in_set)
  ultimately show ?thesis by (simp add: lines_def Let_def)
qed

lemma row_text_lines: "clean_row r \<Longrightarrow> LF \<notin> set (row_text r) \<and> CR \<notin> set (row_text r)"
  using join_clean [of "show_word (row_index r)" "tl (row_fields r)"]
  by (simp add: clean_row_def row_text_def row_fields_def)

lemma mib_bytes: "unat (m :: u64) < 2 ^ 44 \<Longrightarrow> unat (m * 1024 * 1024) = unat m * 1048576"
  by (simp add: unat_word_ariths)

section \<open>Properties\<close>

definition unit_f64 :: "string f64" where
  "unit_f64 = \<lparr>f_zero = [], f_of_u64 = show_word, f_sub = (\<lambda>a b. a), f_div = (\<lambda>a b. a),
     f_mul = (\<lambda>a b. a), f_positive = (\<lambda>_. False), f_parse = Some\<rparr>"

text \<open>C24. The agent, started with a configuration and run for any number of rounds with debug messages
  off: a zero interval panics the push task before anything is sent; with any other interval the
  task never panics, whatever the operating system, the Docker daemon and the backend answer. A
  round whose container listing fails is skipped; for every other round exactly one payload is handed
  to the HTTP client, in order, addressed to the URL of this node under its effective token, and it
  says what was read in that round: the time, the system figures, one entry per listed container with
  the figures of its statistics (zeros when there are none; no entries when Docker cannot be reached),
  the GPUs, and the address the route or the host name gives.\<close>

theorem agent_pushes_every_round:
  "case agent_main fl False (Inr cfg) rounds of Inl e \<Rightarrow> False | Inr (pushes, task) \<Rightarrow>
     (if push_sec (agent cfg) = 0 then pushes = [] \<and> task = Stopped
      else task = Running \<and> list_all (addressed cfg) pushes
        \<and> list_all2 (\<lambda>re p. payload_reading fl re (push_payload p))
            (filter (\<lambda>re. \<not> listing_failed re) rounds) pushes)"
  using push_rounds_total [of fl cfg rounds]
  by (auto simp: agent_main_def split: prod.split)

text \<open>With debug messages on, a statistics error for a container whose id is shorter than 12
  bytes (an id the daemon did not report is empty) panics the push task; nothing else in the
  statistics does.\<close>

lemma debug_stats_panic:
  "get_container_stats fl debug_on i item = None \<longleftrightarrow>
     debug_on \<and> \<not> is_char_boundary i 12 \<and> (\<exists>e. item = Some (Inl e))"
  by (auto simp: get_container_stats_None slice_to_def split: if_splits)

text \<open>A legacy configuration with \<open>push_interval_secs = 0\<close> and the default \<open>push_sec\<close> migrates
  to a zero interval: the agent starts, its push task panics at once, and nothing is ever sent.\<close>

theorem zero_legacy_interval_stops_agent:
  assumes "push_interval_secs (api c) = Some 0" and "push_sec (agent c) = default_push_sec"
  shows "agent_main fl debug_on (Inr (migrate_legacy_fields c)) rounds = Inr ([], Stopped)"
  using assms by (simp add: agent_main_def migrate_push_sec)

lemma zero_legacy_interval_stops_agent_witness:
  "agent_main unit_f64 False (Inr (migrate_legacy_fields (sample_config
     \<lparr>api := (api sample_config)\<lparr>push_interval_secs := Some 0\<rparr>\<rparr>))) [] = Inr ([], Stopped)"
  by (rule zero_legacy_interval_stops_agent)
    (simp_all add: sample_config_def default_agent_config_def)

text \<open>C28. The GPU table is read back row by row: whatever rows of clean fields \<open>nvidia-smi\<close> prints, the
  parser returns one device per row, in order, with its index, its name and its figures, and with the
  memory converted from MiB to bytes without wrap-around below \<open>2 ^ 44\<close> MiB.\<close>

theorem gpu_table_roundtrip:
  assumes "list_all clean_row rows"
    and "list_all (\<lambda>r. unat (row_total_mib r) < 2 ^ 44 \<and> unat (row_used_mib r) < 2 ^ 44) rows"
  shows "list_all2 (\<lambda>r d. gpu_index d = row_index r \<and> gpu_name d = row_name r
      \<and> temperature_celsius d = or_f fl (f_parse fl (row_temperature r))
      \<and> utilization_percent d = or_f fl (f_parse fl (row_utilization r))
      \<and> unat (gpu_memory_total_bytes d) = unat (row_total_mib r) * 1048576
      \<and> unat (gpu_memory_used_bytes d) = unat (row_used_mib r) * 1048576
      \<and> power_draw_watts d = or_f fl (f_parse fl (row_power r)))
    rows (parse_nvidia_smi_output fl (concat (map (\<lambda>r. row_text r @ [LF]) rows)))"
proof -
  have "lines (concat (map (\<lambda>t. t @ [LF]) (map row_text rows))) = map row_text rows"
    by (rule lines_rows) (use assms(1) row_text_lines in \<open>auto simp: list_all_iff\<close>)
  moreover have "List.map_filter (parse_gpu_line fl) (map row_text rows) = map (row_device fl) rows"
    using assms(1) by (induction rows) (simp_all add: parse_gpu_row)
  ultimately have "parse_nvidia_smi_output fl (concat (map (\<lambda>r. row_text r @ [LF]) rows))
      = map (row_device fl) rows" by (simp add: parse_nvidia_smi_output_def comp_def)
  moreover have "list_all2 (\<lambda>r d. d = row_device fl r) rows (map (row_device fl) rows)"
    by (simp add: list_all2_conv_all_nth)
  ultimately show ?thesis using assms(2) mib_bytes
    by (auto simp: list_all2_conv_all_nth list_all_length row_device_def)
qed

definition spark_row :: "string gpu_row" where
  "spark_row = \<lparr>row_index = 0, row_name = ''NVIDIA GB202'', row_temperature = ''48'',
     row_utilization = ''72'', row_total_mib = 131072, row_used_mib = 94208, row_power = ''125.50''\<rparr>"

lemma clean_ascii:
  "is_ascii s \<Longrightarrow> s \<noteq> [] \<Longrightarrow> \<not> is_whitespace (byte (hd s)) \<Longrightarrow> \<not> is_whitespace (byte (last s)) \<Longrightarrow>
   CHR '','' \<notin> set s \<Longrightarrow> LF \<notin> set s \<Longrightarrow> CR \<notin> set s \<Longrightarrow> clean_field s"
  by (simp add: clean_field_def valid_utf8_ascii chars_ascii hd_map last_map)

lemma spark_row_clean: "clean_row spark_row"
  by (auto simp: clean_row_def row_fields_def spark_row_def show_word_def clean_show
      intro!: clean_ascii simp: is_ascii_def byte_def is_whitespace_def LF_def CR_def)

lemma gpu_table_roundtrip_witness:
  "map gpu_name (parse_nvidia_smi_output unit_f64 (row_text spark_row @ [LF])) = [''NVIDIA GB202'']
   \<and> map (\<lambda>d. unat (gpu_memory_total_bytes d)) (parse_nvidia_smi_output unit_f64 (row_text spark_row @ [LF]))
       = [137438953472]"
proof -
  have c: "list_all clean_row [spark_row]" using spark_row_clean by simp
  have m: "list_all (\<lambda>r. unat (row_total_mib r) < 2 ^ 44 \<and> unat (row_used_mib r) < 2 ^ 44) [spark_row]"
    by (simp add: spark_row_def)
  from gpu_table_roundtrip [OF c m, of unit_f64] show ?thesis
    by (auto simp: list_all2_Cons1) (simp_all add: spark_row_def)
qed

end
