(* ===== verification/Cli_Config.thy ===== *)
theory Cli_Config
  imports Core_Config
begin

text \<open>
  The commands of \<open>crates/nexus-link-cli/src/commands/\<close> that read or change the configuration:
  \<open>config.rs\<close> (show, set, get, path), \<open>refresh.rs\<close> (rotate the node token), \<open>refresh_cmd.rs\<close> (rotate
  the command token) and \<open>status.rs\<close>.

  A command ends with a value, an error or a panic, and returns the file system. What \<open>show\<close>,
  \<open>get\<close> and \<open>status\<close> print is their value; the progress messages of the others are left out, and
  an error text is its first line.
\<close>

section \<open>Outcomes and environment\<close>

datatype 'a cli = Cli_Ok 'a | Cli_Error string | Cli_Panic

record cli_env =
  cx_vars :: env_vars
  cx_io :: io_env
  cx_toml :: toml
  cx_run :: "string list \<Rightarrow> proc_result"

definition cx_load :: "cli_env \<Rightarrow> fs \<Rightarrow> string + config" where
  "cx_load cx t = load (cx_toml cx) (cx_io cx) (cx_vars cx) t"

definition cx_save :: "cli_env \<Rightarrow> config \<Rightarrow> fs \<Rightarrow> unit cli \<times> fs" where
  "cx_save cx c t = (case save (cx_toml cx) (cx_io cx) (cx_vars cx) c t of
     (Inl e, t') \<Rightarrow> (Cli_Error e, t') | (Inr _, t') \<Rightarrow> (Cli_Ok (), t'))"

text \<open>\<open>&s[..n.min(s.len())]\<close>, the way tokens are abbreviated.\<close>

definition abbreviate :: "nat \<Rightarrow> string \<Rightarrow> string option" where
  "abbreviate n s = slice_to s (min n (length s))"

section \<open>Keys\<close>

datatype config_key = K_Base_Url | K_Push_Sec | K_Poll_Sec | K_Telemetry | K_Command
  | K_Listen_Addr | K_Port | K_Name | K_Tags | K_Compose_Dir | K_Cmd_Token
  | K_Require_Signatures | K_Signing_Key | K_Node_Id | K_Node_Token

definition key_names :: "(string \<times> config_key) list" where
  "key_names =
     [(''api.base_url'', K_Base_Url), (''api_url'', K_Base_Url),
      (''agent.push_sec'', K_Push_Sec), (''api.push_interval_secs'', K_Push_Sec),
      (''push_interval'', K_Push_Sec), (''interval'', K_Push_Sec),
      (''agent.poll_sec'', K_Poll_Sec), (''poll_sec'', K_Poll_Sec),
      (''api.tokens.telemetry'', K_Telemetry), (''telemetry_token'', K_Telemetry),
      (''api.tokens.command'', K_Command), (''command_token'', K_Command),
      (''service.listen_addr'', K_Listen_Addr), (''listen_addr'', K_Listen_Addr),
      (''service.port'', K_Port), (''port'', K_Port),
      (''node.name'', K_Name), (''name'', K_Name),
      (''node.tags'', K_Tags), (''tags'', K_Tags),
      (''compose.dir'', K_Compose_Dir), (''compose_dir'', K_Compose_Dir),
      (''compose.cmd_token'', K_Cmd_Token), (''cmd_token'', K_Cmd_Token),
      (''compose.require_signatures'', K_Require_Signatures),
      (''require_signatures'', K_Require_Signatures),
      (''compose.signing_public_key'', K_Signing_Key),
      (''signing_public_key'', K_Signing_Key),
      (''node.node_id'', K_Node_Id), (''node_id'', K_Node_Id),
      (''node.token'', K_Node_Token), (''token'', K_Node_Token)]"

text \<open>The last two keys can be read but not set.\<close>

definition settable_key :: "string \<Rightarrow> config_key option" where
  "settable_key k = (case map_of key_names k of
     Some K_Node_Id \<Rightarrow> None | Some K_Node_Token \<Rightarrow> None | x \<Rightarrow> x)"

definition gettable_key :: "string \<Rightarrow> config_key option" where
  "gettable_key k = map_of key_names k"

definition unknown_key :: "string \<Rightarrow> string" where
  "unknown_key key = ''Unknown config key: '' @ [CHR 0x27] @ key @ [CHR 0x27]"

section \<open>Setting\<close>

definition parse_secs :: "string \<Rightarrow> string \<Rightarrow> string + u64" where
  "parse_secs what value = (case parse_u64 value of
     None \<Rightarrow> Inl ''Invalid value: expected integer (seconds)''
   | Some secs \<Rightarrow> if secs < 1 then Inl (what @ '' interval must be at least 1 second'') else Inr secs)"

definition signing_key_file :: "cli_env \<Rightarrow> path" where
  "signing_key_file cx = path_of (join_path (dirs_home (cx_vars cx)) ''signing_key.pub'')"

definition telemetry_entry :: "string \<Rightarrow> token_entry option" where
  "telemetry_entry value = (if value = [] then None else Some \<lparr>te_token = value, te_scope = ''read''\<rparr>)"

definition command_entry :: "string \<Rightarrow> token_entry option" where
  "command_entry value =
     (if value = [] then None else Some \<lparr>te_token = value, te_scope = ''read_write''\<rparr>)"

definition set_telemetry :: "string \<Rightarrow> config \<Rightarrow> config" where
  "set_telemetry value c =
     (let c1 = c\<lparr>api := (api c)\<lparr>tokens := (tokens (api c))\<lparr>telemetry := telemetry_entry value\<rparr>\<rparr>\<rparr>
      in case telemetry_entry value of
           Some t \<Rightarrow> c1\<lparr>node := (node c1)\<lparr>node_tok := te_token t\<rparr>\<rparr>
         | None \<Rightarrow> c1)"

definition set_command :: "string \<Rightarrow> config \<Rightarrow> config" where
  "set_command value c =
     c\<lparr>api := (api c)\<lparr>tokens := (tokens (api c))\<lparr>command := command_entry value\<rparr>\<rparr>,
       compose := (compose c)\<lparr>compose_cmd_token := map_option te_token (command_entry value)\<rparr>\<rparr>"

definition set_signing_key ::
    "cli_env \<Rightarrow> string \<Rightarrow> config \<Rightarrow> fs \<Rightarrow> config cli \<times> fs" where
  "set_signing_key cx value c t =
     (let p = signing_key_file cx in
      if value = [] then
        (Cli_Ok (c\<lparr>compose := (compose c)\<lparr>signing_public_key := None\<rparr>\<rparr>),
         snd (remove_file (cx_io cx) p t))
      else (case create_dir_all (cx_io cx) (butlast p) t of
        (Inl e, t1) \<Rightarrow> (Cli_Error (io_display e), t1)
      | (Inr _, t1) \<Rightarrow> (case write_file (cx_io cx) p value t1 of
          (Inl e, t2) \<Rightarrow> (Cli_Error (io_display e), t2)
        | (Inr _, t2) \<Rightarrow>
            if abbreviate 20 value = None then (Cli_Panic, t2)
            else (Cli_Ok (c\<lparr>compose := (compose c)\<lparr>signing_public_key := Some value\<rparr>\<rparr>), t2))))"

text \<open>The arms of \<open>set\<close> that change the record only.\<close>

fun set_plain :: "config_key \<Rightarrow> string \<Rightarrow> config \<Rightarrow> config cli" where
  "set_plain K_Base_Url value c = Cli_Ok (c\<lparr>api := (api c)\<lparr>base_url := value\<rparr>\<rparr>)"
| "set_plain K_Push_Sec value c = (case parse_secs ''Push'' value of
     Inl e \<Rightarrow> Cli_Error e | Inr secs \<Rightarrow> Cli_Ok (c\<lparr>agent := (agent c)\<lparr>push_sec := secs\<rparr>\<rparr>))"
| "set_plain K_Poll_Sec value c = (case parse_secs ''Poll'' value of
     Inl e \<Rightarrow> Cli_Error e | Inr secs \<Rightarrow> Cli_Ok (c\<lparr>agent := (agent c)\<lparr>poll_sec := secs\<rparr>\<rparr>))"
| "set_plain K_Telemetry value c = Cli_Ok (set_telemetry value c)"
| "set_plain K_Command value c = Cli_Ok (set_command value c)"
| "set_plain K_Listen_Addr value c = Cli_Ok (c\<lparr>service := (service c)\<lparr>listen_addr := value\<rparr>\<rparr>)"
| "set_plain K_Port value c = (case parse_u16 value of
     None \<Rightarrow> Cli_Error ''Invalid value: expected port number (1-65535)''
   | Some n \<Rightarrow> Cli_Ok (c\<lparr>service := (service c)\<lparr>port := n\<rparr>\<rparr>))"
| "set_plain K_Name value c = Cli_Ok (c\<lparr>node := (node c)\<lparr>node_name := value\<rparr>\<rparr>)"
| "set_plain K_Tags value c =
     Cli_Ok (c\<lparr>node := (node c)\<lparr>node_tags := map trim (split_char (CHR '','') value)\<rparr>\<rparr>)"
| "set_plain K_Compose_Dir value c = Cli_Ok (c\<lparr>compose := (compose c)\<lparr>compose_dir := value\<rparr>\<rparr>)"
| "set_plain K_Cmd_Token value c =
     (if value \<noteq> [] \<and> \<not> validate_cmd_token_format value
      then Cli_Error ''Invalid cmd_token format. Expected: nxs_cmd_<...>''
      else if abbreviate 20 value = None then Cli_Panic
      else Cli_Ok (c\<lparr>compose := (compose c)
             \<lparr>compose_cmd_token := (if value = [] then None else Some value)\<rparr>\<rparr>))"
| "set_plain K_Require_Signatures value c = (case parse_bool value of
     None \<Rightarrow> Cli_Error ''Expected true or false''
   | Some b \<Rightarrow> Cli_Ok (c\<lparr>compose := (compose c)\<lparr>require_signatures := b\<rparr>\<rparr>))"
| "set_plain k value c = Cli_Error ''Unknown config key''"

definition apply_set :: "cli_env \<Rightarrow> config_key \<Rightarrow> string \<Rightarrow> config \<Rightarrow> fs \<Rightarrow> config cli \<times> fs" where
  "apply_set cx k value c t =
     (if k = K_Signing_Key then set_signing_key cx value c t else (set_plain k value c, t))"

definition config_set :: "cli_env \<Rightarrow> string \<Rightarrow> string \<Rightarrow> fs \<Rightarrow> unit cli \<times> fs" where
  "config_set cx key value t = (case cx_load cx t of
     Inl e \<Rightarrow> (Cli_Error e, t)
   | Inr c \<Rightarrow> (case settable_key key of
       None \<Rightarrow> (Cli_Error (unknown_key key), t)
     | Some k \<Rightarrow> (case apply_set cx k value c t of
         (Cli_Ok c', t') \<Rightarrow> cx_save cx c' t'
       | (Cli_Error e, t') \<Rightarrow> (Cli_Error e, t')
       | (Cli_Panic, t') \<Rightarrow> (Cli_Panic, t'))))"

section \<open>Getting and showing\<close>

definition or_none :: "string option \<Rightarrow> string" where
  "or_none x = (case x of Some s \<Rightarrow> s | None \<Rightarrow> ''(not configured)'')"

fun get_field :: "config_key \<Rightarrow> config \<Rightarrow> string" where
  "get_field K_Base_Url c = base_url (api c)"
| "get_field K_Push_Sec c = show_word (push_sec (agent c))"
| "get_field K_Poll_Sec c = show_word (poll_sec (agent c))"
| "get_field K_Telemetry c = or_none (map_option te_token (telemetry (tokens (api c))))"
| "get_field K_Command c = or_none (map_option te_token (command (tokens (api c))))"
| "get_field K_Listen_Addr c = listen_addr (service c)"
| "get_field K_Port c = show_word (port (service c))"
| "get_field K_Name c = node_name (node c)"
| "get_field K_Tags c = join '','' (node_tags (node c))"
| "get_field K_Compose_Dir c = compose_dir (compose c)"
| "get_field K_Cmd_Token c = or_none (compose_cmd_token (compose c))"
| "get_field K_Require_Signatures c = show_bool (require_signatures (compose c))"
| "get_field K_Signing_Key c = or_none (signing_public_key (compose c))"
| "get_field K_Node_Id c = node_id (node c)"
| "get_field K_Node_Token c = node_tok (node c)"

definition config_get :: "cli_env \<Rightarrow> string \<Rightarrow> fs \<Rightarrow> string cli" where
  "config_get cx key t = (case cx_load cx t of
     Inl e \<Rightarrow> Cli_Error e
   | Inr c \<Rightarrow> (case gettable_key key of
       None \<Rightarrow> Cli_Error (unknown_key key)
     | Some k \<Rightarrow> Cli_Ok (get_field k c)))"

definition config_path :: "cli_env \<Rightarrow> string" where
  "config_path cx = default_config_path (cx_vars cx)"

text \<open>The abbreviated secrets of \<open>show\<close>, in the order printed; one that cannot be sliced panics.\<close>

fun abbreviate_all :: "string list \<Rightarrow> string list option" where
  "abbreviate_all [] = Some []"
| "abbreviate_all (s # ss) = (case (abbreviate 20 s, abbreviate_all ss) of
     (Some a, Some as) \<Rightarrow> Some (a # as) | _ \<Rightarrow> None)"

definition shown_secrets :: "config \<Rightarrow> string list" where
  "shown_secrets c =
     node_tok (node c)
     # (case telemetry (tokens (api c)) of Some t \<Rightarrow> [te_token t] | None \<Rightarrow> [])
     @ (case command (tokens (api c)) of Some t \<Rightarrow> [te_token t] | None \<Rightarrow> [])
     @ (case compose_cmd_token (compose c) of Some t \<Rightarrow> [t] | None \<Rightarrow> [])
     @ (case signing_public_key (compose c) of Some k \<Rightarrow> [k] | None \<Rightarrow> [])"

text \<open>\<open>show\<close>: the secrets as printed, or nothing when the default path has no file.\<close>

definition config_show :: "cli_env \<Rightarrow> fs \<Rightarrow> string list option cli" where
  "config_show cx t =
     (if \<not> exists t (path_of (default_config_path (cx_vars cx))) then Cli_Ok None
      else (case cx_load cx t of
        Inl e \<Rightarrow> Cli_Error e
      | Inr c \<Rightarrow> (case abbreviate_all (shown_secrets c) of
          None \<Rightarrow> Cli_Panic | Some ss \<Rightarrow> Cli_Ok (Some ss))))"

definition node_status :: "cli_env \<Rightarrow> fs \<Rightarrow> (string \<times> string) list cli" where
  "node_status cx t = (case cx_load cx t of
     Inl e \<Rightarrow> Cli_Error e
   | Inr c \<Rightarrow> Cli_Ok
       ([(''Node ID'', node_id (node c)), (''Name'', node_name (node c)),
         (''API'', base_url (api c)),
         (''Interval'', show_word (push_sec (agent c)) @ ''s push / ''
            @ show_word (poll_sec (agent c)) @ ''s poll''),
         (''Service'', listen_addr (service c) @ '':'' @ show_word (port (service c)))]
        @ (if node_tags (node c) \<noteq> [] then [(''Tags'', join '', '' (node_tags (node c)))] else [])))"

section \<open>Rotating the node token\<close>

record heartbeat =
  hb_url :: string
  hb_bearer :: string

text \<open>The backend's answer to the heartbeat: a transport error or a status.\<close>

definition send_heartbeat :: "config \<Rightarrow> (heartbeat \<Rightarrow> string + nat) \<Rightarrow> bool" where
  "send_heartbeat c backend =
     (case backend \<lparr>hb_url = base_url (api c) @ ''/api/nodes/'' @ node_id (node c) @ ''/heartbeat'',
                    hb_bearer = node_tok (node c)\<rparr> of
        Inl e \<Rightarrow> False | Inr s \<Rightarrow> 200 \<le> s \<and> s < 300)"

definition RESTART_ARGVS :: "string list list" where
  "RESTART_ARGVS =
     [[''systemctl'', ''--user'', ''restart'', ''nexus-link-agent''],
      [''systemctl'', ''restart'', ''nexus-link-agent''],
      [''sudo'', ''-n'', ''systemctl'', ''restart'', ''nexus-link-agent'']]"

text \<open>Commands are tried in order until one succeeds; the ones run are returned.\<close>

fun try_commands :: "(string list \<Rightarrow> proc_result) \<Rightarrow> string list list \<Rightarrow> string list list" where
  "try_commands run [] = []"
| "try_commands run (a # as) = (if proc_success (run a) then [a] else a # try_commands run as)"

definition restart_agent :: "(string list \<Rightarrow> proc_result) \<Rightarrow> string list list" where
  "restart_agent run = try_commands run RESTART_ARGVS"

definition with_node_token :: "string \<Rightarrow> config \<Rightarrow> config" where
  "with_node_token tok c =
     c\<lparr>node := (node c)\<lparr>node_tok := tok\<rparr>,
       api := (api c)\<lparr>tokens := (tokens (api c))\<lparr>telemetry :=
         (case telemetry (tokens (api c)) of
            Some t \<Rightarrow> Some (t\<lparr>te_token := tok\<rparr>)
          | None \<Rightarrow> Some \<lparr>te_token = tok, te_scope = ''read''\<rparr>)\<rparr>\<rparr>\<rparr>"

definition refresh ::
    "cli_env \<Rightarrow> (heartbeat \<Rightarrow> string + nat) \<Rightarrow> string \<Rightarrow> fs \<Rightarrow> unit cli \<times> fs \<times> string list list" where
  "refresh cx backend tok t =
     (if \<not> validate_token_format tok
      then (Cli_Error ''Invalid token format. Expected: nxs_node_<...>'', t, [])
      else (case cx_load cx t of
        Inl e \<Rightarrow> (Cli_Error e, t, [])
      | Inr c \<Rightarrow>
          if node_tok (node c) = tok then (Cli_Ok (), t, [])
          else if send_heartbeat (with_node_token tok c) backend then
            (case cx_save cx (with_node_token tok c) t of
               (Cli_Ok _, t') \<Rightarrow> (Cli_Ok (), t', restart_agent (cx_run cx))
             | (r, t') \<Rightarrow> (r, t', []))
          else (Cli_Error ''Token refresh failed. No changes made.'', t, [])))"

section \<open>Rotating the command token\<close>

definition refresh_cmd :: "cli_env \<Rightarrow> string \<Rightarrow> fs \<Rightarrow> unit cli \<times> fs" where
  "refresh_cmd cx tok t =
     (if \<not> validate_cmd_token_format tok
      then (Cli_Error ''Invalid cmd-token format. Expected: nxs_cmd_<...>'', t)
      else (case cx_load cx t of
        Inl e \<Rightarrow> (Cli_Error e, t)
      | Inr c \<Rightarrow>
          if compose_cmd_token (compose c) = Some tok then (Cli_Ok (), t)
          else if abbreviate 16 tok = None then (Cli_Panic, t)
          else cx_save cx (c\<lparr>compose := (compose c)\<lparr>compose_cmd_token := Some tok\<rparr>\<rparr>) t))"

end
