(* ===== verification/Cli_Upgrade.thy ===== *)
theory Cli_Upgrade
  imports Cli_Config Replace_Laws
begin

text \<open>
  \<open>crates/nexus-link-cli/src/commands/upgrade.rs\<close>: comparing versions, choosing the release asset,
  and installing the binaries of a release over the running ones.

  GitHub, the download and \<open>tar\<close> are inputs (\<open>upgrade_env\<close>; \<open>ue_tar\<close> is what unpacking does to the
  file system). The temporary directory is not removed in the model.
\<close>

section \<open>Versions\<close>

datatype version = Version (major: u32) (minor: u32) (patch: u32)

text \<open>The order of the tuple \<open>(u32, u32, u32)\<close>: lexicographic.\<close>

instantiation version :: linorder
begin

fun less_version :: "version \<Rightarrow> version \<Rightarrow> bool" where
  "Version a b c < Version x y z \<longleftrightarrow> a < x \<or> (a = x \<and> (b < y \<or> (b = y \<and> c < z)))"

definition less_eq_version :: "version \<Rightarrow> version \<Rightarrow> bool" where
  "v \<le> w \<longleftrightarrow> v < w \<or> v = (w :: version)"

instance
proof
  fix u v w :: version
  obtain a b c where u: "u = Version a b c" by (cases u)
  obtain d e f where v: "v = Version d e f" by (cases v)
  obtain g h i where w: "w = Version g h i" by (cases w)
  show "u < v \<longleftrightarrow> u \<le> v \<and> \<not> v \<le> u" unfolding u v less_eq_version_def by auto
  show "u \<le> u" unfolding less_eq_version_def by simp
  show "u \<le> v \<Longrightarrow> v \<le> w \<Longrightarrow> u \<le> w" unfolding u v w less_eq_version_def by auto
  show "u \<le> v \<Longrightarrow> v \<le> u \<Longrightarrow> u = v" unfolding u v less_eq_version_def by auto
  show "u \<le> v \<or> v \<le> u" unfolding u v less_eq_version_def by auto
qed

end

definition nth_or_zero :: "u32 list \<Rightarrow> nat \<Rightarrow> u32" where
  "nth_or_zero parts i = (if i < length parts then parts ! i else 0)"

definition parse_version :: "string \<Rightarrow> version" where
  "parse_version v =
     (let parts = List.map_filter parse_u32 (split_char (CHR ''.'') (trim_start_char (CHR ''v'') v))
      in Version (nth_or_zero parts 0) (nth_or_zero parts 1) (nth_or_zero parts 2))"

definition version_newer :: "string \<Rightarrow> string \<Rightarrow> bool" where
  "version_newer latest current \<longleftrightarrow> parse_version latest > parse_version current"

section \<open>The release\<close>

record github_asset =
  ga_name :: string
  ga_url :: string

record github_release =
  gr_tag_name :: string
  gr_assets :: "github_asset list"

definition detect_target :: "string \<Rightarrow> string \<Rightarrow> string + string" where
  "detect_target os arch =
     (if os = ''linux'' \<and> arch = ''aarch64'' then Inr ''aarch64-linux''
      else if os = ''linux'' \<and> arch = ''x86_64'' then Inr ''x86_64-linux''
      else if os = ''macos'' \<and> arch = ''aarch64'' then Inr ''aarch64-darwin''
      else if os = ''macos'' \<and> arch = ''x86_64'' then Inr ''x86_64-darwin''
      else Inl (''Unsupported platform: '' @ os @ ''/'' @ arch))"

text \<open>The answer of the release API: a transport error, or a status with the decoded release.\<close>

type_synonym release_reply = "string + (nat \<times> (string + github_release))"

definition check_update :: "string \<Rightarrow> release_reply \<Rightarrow> string + string option" where
  "check_update current reply = (case reply of
     Inl e \<Rightarrow> Inr None
   | Inr (status, body) \<Rightarrow>
       if \<not> (200 \<le> status \<and> status < 300) then Inr None
       else (case body of
         Inl e \<Rightarrow> Inl e
       | Inr release \<Rightarrow>
           (let latest = trim_start_char (CHR ''v'') (gr_tag_name release)
            in Inr (if version_newer latest current then Some latest else None))))"

section \<open>Installing\<close>

text \<open>\<open>std::fs::copy\<close>: read the source, write the destination.\<close>

definition copy_file :: "io_env \<Rightarrow> path \<Rightarrow> path \<Rightarrow> fs \<Rightarrow> (io_error + unit) \<times> fs" where
  "copy_file env src dst t = (case read_bytes env t src of
     Inl e \<Rightarrow> (Inl e, t)
   | Inr content \<Rightarrow> write_file env dst content t)"

text \<open>\<open>with_extension("old")\<close>: what follows the last dot is replaced, unless the name starts with it.\<close>

definition file_stem :: "string \<Rightarrow> string" where
  "file_stem s = (case dropWhile (\<lambda>c. c \<noteq> CHR ''.'') (rev s) of
     [] \<Rightarrow> s | _ # before \<Rightarrow> if before = [] then s else rev before)"

definition backup_name :: "string \<Rightarrow> string" where
  "backup_name bin = file_stem bin @ ''.old''"

text \<open>One binary: move the old one aside, copy the new one, set mode \<open>0o755\<close> (493), drop the
  backup. The results of the removals and of the rename are ignored.\<close>

definition install_binary :: "io_env \<Rightarrow> path \<Rightarrow> path \<Rightarrow> string \<Rightarrow> fs \<Rightarrow> (string + unit) \<times> fs" where
  "install_binary env candidate bin_dir bin t =
     (let dest = bin_dir @ [bin]; backup = bin_dir @ [backup_name bin];
          t1 = (if exists t dest
                then snd (rename_file env dest backup (snd (remove_file env backup t))) else t)
      in case copy_file env candidate dest t1 of
           (Inl e, t2) \<Rightarrow> (Inl (''Failed to install '' @ bin), t2)
         | (Inr _, t2) \<Rightarrow> (case set_permissions env dest 493 t2 of
             (Inl e, t3) \<Rightarrow> (Inl (io_display e), t3)
           | (Inr _, t3) \<Rightarrow> (Inr (), snd (remove_file env backup t3))))"

definition candidates :: "path \<Rightarrow> string \<Rightarrow> string \<Rightarrow> path list" where
  "candidates tmp target bin =
     [tmp @ [bin], tmp @ [''nexus-link-'' @ target, bin], tmp @ [''dist'', bin]]"

fun install_all ::
    "io_env \<Rightarrow> path \<Rightarrow> string \<Rightarrow> path \<Rightarrow> string list \<Rightarrow> fs \<Rightarrow> (string + nat) \<times> fs" where
  "install_all env tmp target bin_dir [] t = (Inr 0, t)"
| "install_all env tmp target bin_dir (b # bs) t =
     (case find (exists t) (candidates tmp target b) of
        None \<Rightarrow> install_all env tmp target bin_dir bs t
      | Some c \<Rightarrow> (case install_binary env c bin_dir b t of
          (Inl e, t1) \<Rightarrow> (Inl e, t1)
        | (Inr _, t1) \<Rightarrow> (case install_all env tmp target bin_dir bs t1 of
            (Inl e, t2) \<Rightarrow> (Inl e, t2)
          | (Inr n, t2) \<Rightarrow> (Inr (Suc n), t2))))"

definition BINARIES :: "string list" where
  "BINARIES = [''nexus-link'', ''nexus-link-agent'', ''nexus-link-service'']"

record upgrade_env =
  ue_current :: string
  ue_reply :: release_reply
  ue_os :: string
  ue_arch :: string
  ue_download :: "string \<Rightarrow> string + string"
  ue_exe :: "string + path"
  ue_tmp :: "string + path"
  ue_io :: io_env
  ue_tar :: "fs \<Rightarrow> proc_result \<times> fs"

definition unpack_and_install :: "upgrade_env \<Rightarrow> string \<Rightarrow> string \<Rightarrow> fs \<Rightarrow> (string + nat) \<times> fs" where
  "unpack_and_install ue target archive t = (case ue_exe ue of
     Inl e \<Rightarrow> (Inl ''Cannot determine current binary path'', t)
   | Inr exe \<Rightarrow>
       if exe = [] then (Inl ''Cannot determine binary directory'', t)
       else (case ue_tmp ue of
         Inl e \<Rightarrow> (Inl ''Cannot create temp directory'', t)
       | Inr tmp \<Rightarrow> (case write_file (ue_io ue) (tmp @ [''nexus-link-'' @ target @ ''.tar.gz'']) archive t of
           (Inl e, t1) \<Rightarrow> (Inl (io_display e), t1)
         | (Inr _, t1) \<Rightarrow> (case ue_tar ue t1 of
             (Spawn_Error e, t2) \<Rightarrow> (Inl ''Failed to extract archive (is 'tar' available?)'', t2)
           | (Exited code out err, t2) \<Rightarrow>
               if \<not> proc_success (Exited code out err)
               then (Inl (''tar extraction failed: '' @ lossy err), t2)
               else (case install_all (ue_io ue) tmp target (butlast exe) BINARIES t2 of
                 (Inr 0, t3) \<Rightarrow> (Inl ''No binaries found in the release archive'', t3)
               | r \<Rightarrow> r)))))"

text \<open>\<open>execute\<close>: the number of binaries installed, 0 when there is nothing to do.\<close>

definition upgrade :: "upgrade_env \<Rightarrow> bool \<Rightarrow> fs \<Rightarrow> (string + nat) \<times> fs" where
  "upgrade ue force t = (case ue_reply ue of
     Inl e \<Rightarrow> (Inl ''Failed to reach GitHub API'', t)
   | Inr (status, body) \<Rightarrow>
       if \<not> (200 \<le> status \<and> status < 300)
       then (Inl (''GitHub API returned '' @ show_nat status @ '' -- check network connectivity''), t)
       else (case body of
         Inl e \<Rightarrow> (Inl e, t)
       | Inr release \<Rightarrow>
           (let latest = trim_start_char (CHR ''v'') (gr_tag_name release) in
            if \<not> force \<and> \<not> version_newer latest (ue_current ue) then (Inr 0, t)
            else (case detect_target (ue_os ue) (ue_arch ue) of
              Inl e \<Rightarrow> (Inl e, t)
            | Inr target \<Rightarrow>
                (case find (\<lambda>a. ga_name a = ''nexus-link-'' @ target @ ''.tar.gz'') (gr_assets release) of
                   None \<Rightarrow> (Inl (''No release asset 'nexus-link-'' @ target
                     @ ''.tar.gz' found for your platform.''), t)
                 | Some asset \<Rightarrow> (case ue_download ue (ga_url asset) of
                     Inl e \<Rightarrow> (Inl e, t)
                   | Inr archive \<Rightarrow> unpack_and_install ue target archive t))))))"

section \<open>Laws of the version order\<close>

lemma trim_start_v: "v = [] \<or> hd v \<noteq> CHR ''v'' \<Longrightarrow> trim_start_char (CHR ''v'') v = v"
  by (cases v) (auto simp: trim_start_char_def)

lemma show_nat_no: "byte c < 48 \<or> 57 < byte c \<Longrightarrow> c \<notin> set (show_nat n)"
  using show_nat_digits [of c n] by auto

definition show_version :: "version \<Rightarrow> string" where
  "show_version v = join ''.'' [show_word (major v), show_word (minor v), show_word (patch v)]"

lemma parse_show_version:
  "parse_version (show_version v) = v" "parse_version (CHR ''v'' # show_version v) = v"
proof -
  have dot: "CHR ''.'' \<notin> set (show_word x)" for x :: u32
    by (simp add: show_word_def show_nat_no byte_def)
  have v: "hd (show_version v) \<noteq> CHR ''v''" "show_version v \<noteq> []"
  proof -
    have "hd (show_word (major v)) \<in> set (show_word (major v))"
      by (rule hd_in_set) (simp add: show_word_def)
    moreover have "CHR ''v'' \<notin> set (show_word (major v))"
      by (simp add: show_word_def show_nat_no byte_def)
    moreover have "hd (show_version v) = hd (show_word (major v))"
      by (simp add: show_version_def show_word_def)
    ultimately show "hd (show_version v) \<noteq> CHR ''v''" by metis
  qed (simp add: show_version_def)
  have s: "split_char (CHR ''.'') (show_version v)
      = [show_word (major v), show_word (minor v), show_word (patch v)]"
    unfolding show_version_def by (rule split_join) (use dot in auto)
  have m: "List.map_filter parse_u32 [show_word a, show_word b, show_word c] = [a, b, c]" for a b c
    by (simp add: List.map_filter_def)
  show p: "parse_version (show_version v) = v"
    using v unfolding parse_version_def
    by (simp add: trim_start_v s m nth_or_zero_def)
  have "trim_start_char (CHR ''v'') (CHR ''v'' # show_version v) = show_version v"
    using trim_start_v [of "show_version v"] v by (simp add: trim_start_char_def)
  with p v show "parse_version (CHR ''v'' # show_version v) = v"
    by (simp add: parse_version_def trim_start_v)
qed

lemma version_newer_order:
  "\<not> version_newer v v" "version_newer v w \<Longrightarrow> \<not> version_newer w v"
  "version_newer u v \<Longrightarrow> version_newer v w \<Longrightarrow> version_newer u w"
  by (auto simp: version_newer_def)

end
