(* ===== verification/Upgrade_Laws.thy ===== *)
theory Upgrade_Laws
  imports Cli_Upgrade
begin

text \<open>
  Upgrading: the version comparison is a strict order that agrees with the numeric one, an
  upgrade that is not needed touches nothing, and every outcome of installing a binary over an
  existing one, by which of its calls fails.
\<close>

section \<open>Moving the old binary aside\<close>

text \<open>A directory \<open>dir\<close> that resolves to \<open>d\<close> and holds the binary \<open>bin\<close>.\<close>

definition bin_ready :: "fs \<Rightarrow> path \<Rightarrow> path \<Rightarrow> string \<Rightarrow> string \<Rightarrow> bool" where
  "bin_ready t dir d bin old \<longleftrightarrow> replace_ready t dir (backup_name bin) bin d \<and>
     lookup t (d @ [bin]) = Some (File old)"

lemma installed_backup_names:
  "map backup_name BINARIES = [''nexus-link.old'', ''nexus-link-agent.old'', ''nexus-link-service.old'']"
  by code_simp

lemma ready_backup_ne:
  "bin_ready t dir d bin old \<Longrightarrow> backup_name bin \<noteq> bin" "bin_ready t dir d bin old \<Longrightarrow> bin \<noteq> backup_name bin"
  by (auto simp: bin_ready_def replace_ready_def)

definition moved_aside :: "io_env \<Rightarrow> path \<Rightarrow> string \<Rightarrow> fs \<Rightarrow> fs" where
  "moved_aside env dir bin t = snd (rename_file env (dir @ [bin]) (dir @ [backup_name bin])
     (snd (remove_file env (dir @ [backup_name bin]) t)))"

lemma moved_aside_effect:
  assumes ready: "bin_ready t dir d bin old"
    and quiet: "fault env (Op_rename (dir @ [bin]) (dir @ [backup_name bin])) = None"
  shows "lookup (moved_aside env dir bin t) k =
      (if k = d @ [backup_name bin] then Some (File old)
       else if k = d @ [bin] then None else lookup t k)
    \<and> same_shape (lookup t) (lookup (moved_aside env dir bin t)) \<and> fs_wf (moved_aside env dir bin t)"
proof -
  let ?b = "backup_name bin"
  note ne [simp] = ready_backup_ne [OF ready]
  from ready have r: "replace_ready t dir ?b bin d" and o: "lookup t (d @ [bin]) = Some (File old)"
    by (auto simp: bin_ready_def)
  from r have wf: "fs_wf t" and g: "regular (lookup t (d @ [?b]))" by (auto simp: replace_ready_def)
  obtain m t0 where m: "remove_file env (dir @ [?b]) t = (m, t0)" by fastforce
  from remove_file_frame [OF m ready_entry [OF r] g]
  have f0: "\<forall>k. k \<noteq> d @ [?b] \<longrightarrow> lookup t0 k = lookup t k"
    and s0: "same_shape (lookup t) (lookup t0)" by auto
  have g0: "regular (lookup t0 (d @ [?b]))" using s0 g unfolding same_shape_def by metis
  have o0: "lookup t0 (d @ [bin]) = Some (File old)" using f0 o by simp
  have e0: "entry t0 (dir @ [x]) = Some (d @ [x])" for x
    using ready_entry [OF r] same_shape_entry [OF s0, of "dir @ [x]"] by simp
  have wf0: "fs_wf t0" using remove_file_wf [OF wf, of env "dir @ [?b]"] m by simp
  obtain q t1 where q: "rename_file env (dir @ [bin]) (dir @ [?b]) t0 = (q, t1)" by fastforce
  have "lookup t0 (d @ [?b]) \<noteq> Some Dir" using g0 by auto
  then have "q = Inr ()" using q quiet e0 o0 by (auto simp: rename_file_def)
  with rename_file_frame [OF q e0 e0] o0 g0
  have l1: "lookup t1 k = (if k = d @ [?b] then Some (File old)
      else if k = d @ [bin] then None else lookup t0 k)"
    and s1: "same_shape (lookup t0) (lookup t1)" for k by auto
  have "fs_wf t1" using rename_file_wf [OF wf0, of env "dir @ [bin]" "dir @ [?b]"] q by simp
  moreover have "moved_aside env dir bin t = t1" by (simp add: moved_aside_def m q)
  ultimately show ?thesis using l1 s1 s0 f0 by (auto intro: same_shape_trans)
qed

lemma install_binary_existing:
  assumes "bin_ready t dir d bin old"
  shows "install_binary env c dir bin t =
     (case copy_file env c (dir @ [bin]) (moved_aside env dir bin t) of
        (Inl e, t2) \<Rightarrow> (Inl (''Failed to install '' @ bin), t2)
      | (Inr _, t2) \<Rightarrow> (case set_permissions env (dir @ [bin]) 493 t2 of
          (Inl e, t3) \<Rightarrow> (Inl (io_display e), t3)
        | (Inr _, t3) \<Rightarrow> (Inr (), snd (remove_file env (dir @ [backup_name bin]) t3))))"
proof -
  from assms have "node_at t (dir @ [bin]) = Some (File old)"
    using ready_node_at by (fastforce simp: bin_ready_def)
  then have "exists t (dir @ [bin])" by (auto simp: node_at_def exists_def bind_eq_Some_conv)
  then show ?thesis by (simp add: install_binary_def Let_def moved_aside_def)
qed

section \<open>Every outcome of an installation\<close>

lemma copy_after_move:
  assumes ready: "bin_ready t dir d bin old"
    and quiet: "fault env (Op_rename (dir @ [bin]) (dir @ [backup_name bin])) = None"
    and c: "canonicalize t c = Some q" "lookup t q = Some (File new)"
    and apart: "q \<notin> {d @ [bin], d @ [backup_name bin]}"
  shows "copy_file env c (dir @ [bin]) (moved_aside env dir bin t) =
    (let t1 = moved_aside env dir bin t in case fault env (Op_read c) of
       Some e \<Rightarrow> (Inl e, t1)
     | None \<Rightarrow> (case fault env (Op_write (dir @ [bin])) of
         None \<Rightarrow> (Inr (), put_node (d @ [bin]) (File new) t1)
       | Some e \<Rightarrow> (Inl e, case torn env (dir @ [bin]) of
           None \<Rightarrow> t1 | Some n \<Rightarrow> put_node (d @ [bin]) (File (take n new)) t1)))"
proof -
  let ?t1 = "moved_aside env dir bin t"
  note ne [simp] = ready_backup_ne [OF ready]
  from ready have r: "replace_ready t dir (backup_name bin) bin d" by (simp add: bin_ready_def)
  then have name: "bin \<noteq> ''..''" by (simp add: replace_ready_def)
  note m = moved_aside_effect [OF ready quiet]
  then have s: "same_shape (lookup t) (lookup ?t1)" and wf: "fs_wf ?t1" by auto
  have "locate ?t1 c = Some q"
    using c(1) same_shape_locate [OF s, of c] by (auto simp: canonicalize_def split: option.splits if_splits)
  then have rd: "read_bytes env ?t1 c = (case fault env (Op_read c) of Some e \<Rightarrow> Inl e | None \<Rightarrow> Inr new)"
    using c(2) apart m by (simp add: read_bytes_def node_at_def canonicalize_def split: option.split)
  have e1: "entry ?t1 (dir @ [bin]) = Some (d @ [bin])"
    using ready_entry [OF r] same_shape_entry [OF s, of "dir @ [bin]"] by simp
  have g: "regular (lookup ?t1 (d @ [bin]))" using m by simp
  show ?thesis
    by (simp add: copy_file_def rd write_file_entry [OF wf name e1 g] Let_def split: option.split)
qed

text \<open>After the copy: the mode, and the removal of the backup.\<close>

lemma finish_install:
  assumes ready: "bin_ready t dir d bin old"
    and quiet: "fault env (Op_rename (dir @ [bin]) (dir @ [backup_name bin])) = None"
    and t2: "t2 = put_node (d @ [bin]) (File new) (moved_aside env dir bin t)"
    and p: "set_permissions env (dir @ [bin]) 493 t2 = (u, t3)"
  shows "(u = Inr () \<longleftrightarrow> fault env (Op_chmod (dir @ [bin]) 493) = None) \<and> lookup t3 = lookup t2
    \<and> lookup (snd (remove_file env (dir @ [backup_name bin]) t3)) k =
       (if k = d @ [backup_name bin] \<and> fault env (Op_remove (dir @ [backup_name bin])) = None
        then None else lookup t2 k)"
proof -
  let ?t1 = "moved_aside env dir bin t" and ?b = "backup_name bin"
  note ne [simp] = ready_backup_ne [OF ready]
  from ready have r: "replace_ready t dir ?b bin d" by (simp add: bin_ready_def)
  then have name: "bin \<noteq> ''..''" by (simp add: replace_ready_def)
  note m = moved_aside_effect [OF ready quiet]
  then have s: "same_shape (lookup t) (lookup ?t1)" and wf: "fs_wf ?t1" by auto
  have s2: "same_shape (lookup ?t1) (lookup t2)" unfolding t2 by (rule same_shape_put) (simp_all add: m)
  have e2: "entry t2 (dir @ [x]) = Some (d @ [x])" for x
    using ready_entry [OF r] same_shape_entry [OF same_shape_trans [OF s s2], of "dir @ [x]"] by simp
  have "entry ?t1 (dir @ [bin]) = Some (d @ [bin])"
    using ready_entry [OF r] same_shape_entry [OF s, of "dir @ [bin]"] by simp
  then have "lookup ?t1 (butlast (d @ [bin])) = Some Dir" by (rule entry_parent)
  then have "fs_wf t2" unfolding t2 by (intro fs_wf_put [OF wf]) (simp_all add: m)
  then have "node_at t2 (dir @ [bin]) = Some (File new)"
    using node_at_entry [OF _ name e2] by (simp add: lookup_put t2)
  then have "canonicalize t2 (dir @ [bin]) \<noteq> None" by (auto simp: node_at_def bind_eq_Some_conv)
  with p have u: "u = Inr () \<longleftrightarrow> fault env (Op_chmod (dir @ [bin]) 493) = None"
    by (auto simp: set_permissions_def split: option.splits)
  have l3: "lookup t3 = lookup t2" using set_permissions_lookup [of env "dir @ [bin]" 493 t2] p by simp
  have "same_shape (lookup t2) (lookup t3)" by (simp add: l3)
  from same_shape_entry [OF this, of "dir @ [?b]"] e2
  have e3: "entry t3 (dir @ [?b]) = Some (d @ [?b])" by simp
  have "lookup t2 (d @ [?b]) = Some (File old)" using m by (simp add: t2 lookup_put)
  with e3 u l3 show ?thesis by (auto simp: remove_file_def lookup_del split: option.split)
qed

section \<open>Properties\<close>

text \<open>C40. The version comparison: on printed versions, with or without a leading \<open>v\<close>, it is the
  lexicographic order of the three numbers; on all strings it is irreflexive, asymmetric and
  transitive, so that two nodes never consider each other outdated.\<close>

theorem version_newer_correct:
  "version_newer (show_version v) (show_version w) = (w < v)
   \<and> version_newer (CHR ''v'' # show_version v) (show_version w) = (w < v)
   \<and> \<not> version_newer s s \<and> \<not> (version_newer s u \<and> version_newer u s)
   \<and> \<not> (version_newer s u \<and> version_newer u x \<and> \<not> version_newer s x)"
proof -
  have "version_newer (show_version v) (show_version w) = (w < v)"
    "version_newer (CHR ''v'' # show_version v) (show_version w) = (w < v)"
    by (simp_all only: version_newer_def parse_show_version)
  then show ?thesis using version_newer_order(1) [of s] version_newer_order(2) [of s u] version_newer_order(3) [of s u x] by blast
qed

text \<open>C39. Every outcome of installing a binary over an existing one, when the old one could be moved
  aside. The command succeeds exactly if reading the new file, writing it and setting its mode all
  succeed; then the new file is in place, and the backup is gone unless it could not be removed. Else
  the old binary is left under the backup name, and under its own name is nothing (the copy did not
  get to open it), the beginning that a failed write left, or the whole new file (its mode could not
  be set). No other file changes.\<close>

theorem install_binary_outcomes:
  assumes "bin_ready t dir d bin old" and "canonicalize t c = Some q" and "lookup t q = Some (File new)"
    and "q \<notin> {d @ [bin], d @ [backup_name bin]}"
    and "fault env (Op_rename (dir @ [bin]) (dir @ [backup_name bin])) = None"
    and "install_binary env c dir bin t = (r, t')"
  shows "(r = Inr () \<longleftrightarrow> fault env (Op_read c) = None \<and> fault env (Op_write (dir @ [bin])) = None
        \<and> fault env (Op_chmod (dir @ [bin]) 493) = None)
    \<and> lookup t' k =
       (if k = d @ [bin] then
          (if fault env (Op_read c) \<noteq> None then None
           else if fault env (Op_write (dir @ [bin])) = None then Some (File new)
           else case torn env (dir @ [bin]) of None \<Rightarrow> None | Some n \<Rightarrow> Some (File (take n new)))
        else if k = d @ [backup_name bin] then
          (if r = Inr () \<and> fault env (Op_remove (dir @ [backup_name bin])) = None then None
           else Some (File old))
        else lookup t k)"
proof -
  let ?t1 = "moved_aside env dir bin t" and ?t2 = "put_node (d @ [bin]) (File new) (moved_aside env dir bin t)"
  note ne [simp] = ready_backup_ne [OF assms(1)]
  note m = moved_aside_effect [OF assms(1,5)]
  note i = install_binary_existing [OF assms(1), of env c, unfolded
      copy_after_move [OF assms(1,5,2,3,4)] Let_def]
  show ?thesis
  proof (cases "fault env (Op_read c) = None \<and> fault env (Op_write (dir @ [bin])) = None")
    case True
    obtain u t3 where p: "set_permissions env (dir @ [bin]) 493 ?t2 = (u, t3)" by fastforce
    from finish_install [OF assms(1,5) refl p] True i p assms(6) m show ?thesis
      by (cases u) (auto simp: lookup_put)
  next
    case False
    with i assms(6) m show ?thesis by (auto simp: lookup_put split: option.splits)
  qed
qed

definition bin_tree :: fs where
  "bin_tree = \<lparr>tree = [([''bin''], Dir), ([''bin'', ''nexus-link''], File ''v1''),
     ([''tmp''], Dir), ([''tmp'', ''nexus-link''], File ''v2'')], modes = []\<rparr>"

text \<open>The disk fills up after one byte.\<close>

definition disk_full :: io_env where
  "disk_full = \<lparr>fault = (\<lambda>op. if op = Op_write [''bin'', ''nexus-link'']
     then Some (Other_Error ''No space left on device (os error 28)'') else None), torn = (\<lambda>_. Some 1)\<rparr>"

lemma bin_tree_wf: "fs_wf bin_tree"
proof -
  have "lookup bin_tree (butlast p) = Some Dir" if "p \<noteq> []" "lookup bin_tree p \<noteq> None" for p
    using that by (auto simp: lookup_def bin_tree_def split: if_splits)
  then show ?thesis by (simp add: fs_wf_def look_wf_def)
qed

lemma bin_tree_ready: "bin_ready bin_tree [''bin''] [''bin''] ''nexus-link'' ''v1''"
proof -
  have "canonicalize bin_tree [''bin''] = Some [''bin'']" "backup_name ''nexus-link'' = ''nexus-link.old''"
    by code_simp+
  then show ?thesis using bin_tree_wf
    by (simp add: bin_ready_def replace_ready_def lookup_def bin_tree_def)
qed

lemma install_binary_outcomes_witness:
  "\<exists>e t'. install_binary disk_full [''tmp'', ''nexus-link''] [''bin''] ''nexus-link'' bin_tree = (Inl e, t')
     \<and> lookup t' [''bin'', ''nexus-link''] = Some (File ''v'')
     \<and> lookup t' [''bin'', ''nexus-link.old''] = Some (File ''v1'')"
proof -
  let ?c = "[''tmp'', ''nexus-link'']"
  obtain r t' where i: "install_binary disk_full ?c [''bin''] ''nexus-link'' bin_tree = (r, t')"
    by (rule prod.exhaust)
  have c: "canonicalize bin_tree ?c = Some ?c" and b: "backup_name ''nexus-link'' = ''nexus-link.old''"
    by code_simp+
  have l: "lookup bin_tree ?c = Some (File ''v2'')" by (simp add: lookup_def bin_tree_def)
  have a: "?c \<notin> {[''bin''] @ [''nexus-link''], [''bin''] @ [backup_name ''nexus-link'']}" by simp
  have f: "fault disk_full (Op_rename ([''bin''] @ [''nexus-link'']) ([''bin''] @ [backup_name ''nexus-link''])) = None"
    by (simp add: disk_full_def)
  note o = install_binary_outcomes [OF bin_tree_ready c l a f i]
  have "r \<noteq> Inr ()" using o by (simp add: disk_full_def)
  with o [of "[''bin'', ''nexus-link'']"] o [of "[''bin'', ''nexus-link.old'']"] i show ?thesis
    by (cases r) (auto simp: disk_full_def b)
qed

end
