(* ===== verification/Core_Preflight.thy ===== *)
theory Core_Preflight
  imports Rust_Text
begin

text \<open>
  \<open>crates/nexus-link-core/src/preflight.rs\<close>: the device checks and the verdict. The commands run
  and the files read are the fields of \<open>machine\<close>; \<open>ul\<close> is the lower-casing of non-ASCII characters.
  Printing the report is left out.
\<close>

section \<open>The report\<close>

datatype check_status = Pass | Warn | Fail

datatype preflight_verdict = Compatible | Not_Recommended | Incompatible

record preflight_check =
  pc_name :: string
  pc_status :: check_status
  pc_detail :: string

record known_device =
  kd_name :: string
  kd_identifier :: string
  kd_notes :: string

record preflight_report =
  pf_checks :: "preflight_check list"
  pf_verdict :: preflight_verdict
  pf_device_match :: "known_device option"

record machine =
  mc_os :: string
  mc_arch :: string
  mc_run :: "string list \<Rightarrow> proc_result"
  mc_read :: "string \<Rightarrow> string option"

definition mk_check :: "string \<Rightarrow> check_status \<Rightarrow> string \<Rightarrow> preflight_check" where
  "mk_check n s d = \<lparr>pc_name = n, pc_status = s, pc_detail = d\<rparr>"

definition KNOWN_DEVICES :: "(string \<times> string \<times> string) list" where
  "KNOWN_DEVICES =
     [(''NVIDIA DGX Spark'', ''gb10'', ''GB10 Grace Blackwell, 128 GB unified memory, aarch64''),
      (''NVIDIA DGX Station A100'', ''a100'', ''4x A100 80GB, AMD EPYC, x86_64''),
      (''NVIDIA DGX A100'', ''dgx-a100'', ''8x A100 80GB, AMD EPYC, x86_64''),
      (''NVIDIA DGX H100'', ''dgx-h100'', ''8x H100 80GB, x86_64'')]"

section \<open>The checks\<close>

definition check_architecture :: "machine \<Rightarrow> preflight_check" where
  "check_architecture mc =
     (let os = mc_os mc; arch = mc_arch mc; both = os @ ''/'' @ arch in
      if os = ''linux'' \<and> arch = ''aarch64'' then mk_check ''architecture'' Pass (both @ '' (ARM64 Linux)'')
      else if os = ''linux'' \<and> arch = ''x86_64'' then mk_check ''architecture'' Pass (both @ '' (x86_64 Linux)'')
      else if os = ''linux'' then mk_check ''architecture'' Warn (both @ '' (uncommon architecture)'')
      else mk_check ''architecture'' Warn (both @ '' (non-Linux -- development use only)''))"

definition GPU_ARGV :: "string list" where
  "GPU_ARGV = [''nvidia-smi'', ''--query-gpu=name,memory.total,driver_version'',
     ''--format=csv,noheader,nounits'']"

definition check_gpu :: "machine \<Rightarrow> preflight_check" where
  "check_gpu mc = (case mc_run mc GPU_ARGV of
     Exited code out err \<Rightarrow>
       if proc_success (Exited code out err) then
         (let ls = lines (lossy out);
              first_line = (case ls of l # _ \<Rightarrow> l | [] \<Rightarrow> ''unknown GPU'')
          in mk_check ''gpu'' Pass (show_nat (length ls) @ '' GPU(s) detected: '' @ trim first_line))
       else mk_check ''gpu'' Fail ''nvidia-smi found but returned error (no NVIDIA GPU or driver issue)''
   | Spawn_Error e \<Rightarrow> mk_check ''gpu'' Fail ''nvidia-smi not found -- no NVIDIA GPU detected'')"

definition check_docker :: "machine \<Rightarrow> preflight_check" where
  "check_docker mc = (case mc_run mc [''docker'', ''info''] of
     Exited code out err \<Rightarrow>
       if proc_success (Exited code out err) then mk_check ''docker'' Pass ''Docker daemon accessible''
       else mk_check ''docker'' Warn ''Docker found but daemon not accessible (permission issue?)''
   | Spawn_Error e \<Rightarrow>
       mk_check ''docker'' Warn ''Docker not found (container metrics will be unavailable)'')"

definition CURL_ARGV :: "string list" where
  "CURL_ARGV = [''curl'', ''-sfSL'', ''--max-time'', ''5'', ''-o'', ''/dev/null'', ''-w'', ''%{http_code}'',
     ''https://nexus.gatewarden.eu/api/health'']"

definition check_network :: "machine \<Rightarrow> preflight_check" where
  "check_network mc =
     (let unreachable = mk_check ''network'' Warn ''Cannot reach Nexus API (offline or firewall)'' in
      case mc_run mc CURL_ARGV of
        Exited code out err \<Rightarrow>
          if proc_success (Exited code out err) then
            (let c = trim (lossy out) in
             if c = ''200'' then mk_check ''network'' Pass ''Nexus API reachable''
             else mk_check ''network'' Warn (''Nexus API returned HTTP '' @ c))
          else unreachable
      | Spawn_Error e \<Rightarrow> unreachable)"

definition avail_gb :: "string \<Rightarrow> u64" where
  "avail_gb out =
     (let ls = lines (lossy out);
          avail_str = trim_end_char (CHR ''G'') (trim (if length ls > 1 then ls ! 1 else ''0G''))
      in case parse_u64 avail_str of Some n \<Rightarrow> n | None \<Rightarrow> 0)"

definition check_disk_space :: "machine \<Rightarrow> preflight_check" where
  "check_disk_space mc =
     (let fallback = (if proc_success (mc_run mc [''df'', ''-g'', ''/''])
        then mk_check ''disk'' Pass ''Disk space check passed (macOS)''
        else mk_check ''disk'' Warn ''Could not determine available disk space'')
      in case mc_run mc [''df'', ''-BG'', ''--output=avail'', ''/''] of
        Exited code out err \<Rightarrow>
          if proc_success (Exited code out err) then
            (let n = avail_gb out in
             if n \<ge> 10 then mk_check ''disk'' Pass (show_word n @ ''G available'')
             else mk_check ''disk'' Warn (''Only '' @ show_word n @ ''G available (recommend >= 10G)''))
          else fallback
      | Spawn_Error e \<Rightarrow> fallback)"

section \<open>Known devices\<close>

text \<open>The first entry of the registry whose identifier or name occurs in the text.\<close>

fun match_registry ::
    "(nat \<Rightarrow> nat list) \<Rightarrow> string \<Rightarrow> (string \<times> string \<times> string) list \<Rightarrow> known_device option" where
  "match_registry ul text [] = None"
| "match_registry ul text ((n, i, notes) # rest) =
     (if contains text (to_lowercase ul i) \<or> contains text (to_lowercase ul n)
      then Some \<lparr>kd_name = n, kd_identifier = i, kd_notes = notes\<rparr>
      else match_registry ul text rest)"

definition match_file :: "(nat \<Rightarrow> nat list) \<Rightarrow> machine \<Rightarrow> string \<Rightarrow> known_device option" where
  "match_file ul mc file = (case mc_read mc file of
     None \<Rightarrow> None
   | Some text \<Rightarrow> match_registry ul (to_lowercase ul text) KNOWN_DEVICES)"

definition match_gpu_name :: "string \<Rightarrow> known_device option" where
  "match_gpu_name gpu_name =
     (if contains gpu_name ''blackwell'' \<or> contains gpu_name ''gb10'' \<or> contains gpu_name ''gb202''
      then Some \<lparr>kd_name = ''NVIDIA DGX Spark'', kd_identifier = ''gb10'',
        kd_notes = ''GB10 Grace Blackwell, 128 GB unified memory, aarch64''\<rparr>
      else if contains gpu_name ''a100''
      then Some \<lparr>kd_name = ''NVIDIA DGX Station A100'', kd_identifier = ''a100'',
        kd_notes = ''A100 GPU detected''\<rparr>
      else if contains gpu_name ''h100''
      then Some \<lparr>kd_name = ''NVIDIA DGX H100'', kd_identifier = ''dgx-h100'',
        kd_notes = ''H100 GPU detected''\<rparr>
      else None)"

definition detect_known_device :: "(nat \<Rightarrow> nat list) \<Rightarrow> machine \<Rightarrow> known_device option" where
  "detect_known_device ul mc =
     (case match_file ul mc ''/sys/firmware/devicetree/base/model'' of
        Some d \<Rightarrow> Some d
      | None \<Rightarrow> (case match_file ul mc ''/sys/class/dmi/id/product_name'' of
          Some d \<Rightarrow> Some d
        | None \<Rightarrow> (case mc_run mc [''nvidia-smi'', ''--query-gpu=name'', ''--format=csv,noheader''] of
            Exited code out err \<Rightarrow>
              if proc_success (Exited code out err)
              then match_gpu_name (to_lowercase ul (lossy out)) else None
          | Spawn_Error e \<Rightarrow> None)))"

definition run_preflight :: "(nat \<Rightarrow> nat list) \<Rightarrow> machine \<Rightarrow> preflight_report" where
  "run_preflight ul mc =
     (let gpu_check = check_gpu mc;
          has_gpu = (pc_status gpu_check = Pass);
          device_match = detect_known_device ul mc
      in \<lparr>pf_checks = [check_architecture mc, gpu_check, check_docker mc, check_network mc,
            check_disk_space mc],
          pf_verdict = (if device_match \<noteq> None then Compatible
            else if has_gpu then Not_Recommended else Incompatible),
          pf_device_match = device_match\<rparr>)"

section \<open>Laws\<close>

lemma to_lowercase_literals [str_simps]:
  "to_lowercase ul ''gb10'' = ''gb10''" "to_lowercase ul ''a100'' = ''a100''"
  "to_lowercase ul ''dgx-a100'' = ''dgx-a100''" "to_lowercase ul ''NVIDIA DGX A100'' = ''nvidia dgx a100''"
  by code_simp+

lemma contains_suffix: "contains hay (p @ q) \<Longrightarrow> contains hay q"
proof -
  assume "contains hay (p @ q)"
  moreover have "contains (p @ q) q" unfolding contains_iff by (metis append_Nil2)
  ultimately show ?thesis by (rule contains_trans)
qed

lemma registry_not_dgx_a100:
  "match_registry ul hay KNOWN_DEVICES = Some d \<Longrightarrow> kd_identifier d \<noteq> ''dgx-a100''"
proof -
  have "contains hay ''dgx-a100'' \<Longrightarrow> contains hay ''a100''"
    using contains_suffix [of hay "''dgx-''" "''a100''"] by simp
  moreover have "contains hay ''nvidia dgx a100'' \<Longrightarrow> contains hay ''a100''"
    using contains_suffix [of hay "''nvidia dgx ''" "''a100''"] by simp
  moreover assume "match_registry ul hay KNOWN_DEVICES = Some d"
  ultimately show ?thesis
    by (auto simp: KNOWN_DEVICES_def str_simps split: if_splits)
qed

lemma detect_not_dgx_a100:
  assumes "detect_known_device ul mc = Some d"
  shows "kd_identifier d \<noteq> ''dgx-a100''"
proof -
  have f: "match_file ul mc fname = Some e \<Longrightarrow> kd_identifier e \<noteq> ''dgx-a100''" for fname e
    by (auto simp: match_file_def dest: registry_not_dgx_a100 split: option.splits)
  have g: "match_gpu_name s = Some e \<Longrightarrow> kd_identifier e \<noteq> ''dgx-a100''" for s e
    by (auto simp: match_gpu_name_def split: if_splits)
  from assms show ?thesis
    by (auto simp: detect_known_device_def dest: f g split: option.splits proc_result.splits if_splits)
qed

section \<open>Properties\<close>

text \<open>The preflight verdict: compatible exactly when a known device was recognised, not
  recommended exactly when none was but the GPU check passed, incompatible otherwise; the report
  always has the five checks in order; and no machine is ever recognised as the registry's
  \<open>dgx-a100\<close>, because the entry \<open>a100\<close> before it matches every text that entry matches.\<close>

theorem preflight_verdict_correct:
  "(pf_verdict (run_preflight ul mc) = Compatible) = (pf_device_match (run_preflight ul mc) \<noteq> None)
   \<and> (pf_verdict (run_preflight ul mc) = Not_Recommended)
       = (pf_device_match (run_preflight ul mc) = None \<and> proc_success (mc_run mc GPU_ARGV))
   \<and> map pc_name (pf_checks (run_preflight ul mc))
       = [''architecture'', ''gpu'', ''docker'', ''network'', ''disk'']
   \<and> map_option kd_identifier (pf_device_match (run_preflight ul mc)) \<noteq> Some ''dgx-a100''"
proof -
  have gpu: "pc_status (check_gpu mc) = Pass \<longleftrightarrow> proc_success (mc_run mc GPU_ARGV)"
    by (simp add: check_gpu_def mk_check_def Let_def split: proc_result.split)
  have names: "pc_name (check_architecture mc) = ''architecture''" "pc_name (check_gpu mc) = ''gpu''"
    "pc_name (check_docker mc) = ''docker''" "pc_name (check_network mc) = ''network''"
    "pc_name (check_disk_space mc) = ''disk''"
    by (simp_all add: check_architecture_def check_gpu_def check_docker_def check_network_def
        check_disk_space_def mk_check_def Let_def split: proc_result.split)
  show ?thesis
    using gpu names detect_not_dgx_a100 [of ul mc]
    by (auto simp: run_preflight_def Let_def)
qed

end
