(* ===== verification/Core_Setup.thy ===== *)
theory Core_Setup
  imports Core_Config
begin

text \<open>
  \<open>crates/nexus-link-core/src/setup.rs\<close>: the seven steps of the system setup, each with its checks
  and its \<open>sudo\<close> commands. Printing the report is left out.

  The machine is a \<open>setup_host\<close>: what a command returns and which paths exist may depend on
  everything that was run before, so each is a function of the history of the actions so far.
  A step returns its result and the longer history.
\<close>

section \<open>Actions and their results\<close>

datatype action = Ran "string list" | Teed string string

type_synonym history = "action list"

record setup_host =
  or_run :: "history \<Rightarrow> string list \<Rightarrow> proc_result"
  or_tee :: "history \<Rightarrow> string \<Rightarrow> string + bool"
  or_exists :: "history \<Rightarrow> string \<Rightarrow> bool"
  or_link :: "history \<Rightarrow> string \<Rightarrow> bool"
  or_canon :: "history \<Rightarrow> string \<Rightarrow> string option"
  or_exe :: "string + string"
  or_vars :: env_vars

definition run_query :: "setup_host \<Rightarrow> string list \<Rightarrow> history \<Rightarrow> proc_result \<times> history" where
  "run_query w argv h = (or_run w h argv, h @ [Ran argv])"

definition sudo :: "setup_host \<Rightarrow> string list \<Rightarrow> history \<Rightarrow> (string + unit) \<times> history" where
  "sudo w args h = (case or_run w h (''sudo'' # args) of
     Spawn_Error e \<Rightarrow> (Inl (''Failed to invoke sudo: '' @ e), h @ [Ran (''sudo'' # args)])
   | Exited code out err \<Rightarrow>
       (if proc_success (Exited code out err) then Inr ()
        else Inl (''sudo '' @ join '' '' args @ '' failed: '' @ trim (lossy err)),
        h @ [Ran (''sudo'' # args)]))"

text \<open>A chain of \<open>and_then\<close>: it stops at the first failure.\<close>

fun sudo_chain :: "setup_host \<Rightarrow> string list list \<Rightarrow> history \<Rightarrow> (string + unit) \<times> history" where
  "sudo_chain w [] h = (Inr (), h)"
| "sudo_chain w (a # as) h = (case sudo w a h of
     (Inl e, h1) \<Rightarrow> (Inl e, h1) | (Inr _, h1) \<Rightarrow> sudo_chain w as h1)"

declare sudo_chain.simps [simp del]

text \<open>\<open>sudo tee\<close>: an error of the pipe, or whether the child succeeded.\<close>

definition write_file_sudo :: "setup_host \<Rightarrow> string \<Rightarrow> string \<Rightarrow> history \<Rightarrow> (string + unit) \<times> history" where
  "write_file_sudo w p content h = (case or_tee w h p of
     Inl e \<Rightarrow> (Inl e, h @ [Teed p content])
   | Inr ok \<Rightarrow> (if ok then Inr () else Inl (''sudo tee '' @ p @ '' exited with an error''),
       h @ [Teed p content]))"

section \<open>Steps\<close>

datatype step_status = Created | Skipped | Step_Failed

record setup_step =
  ss_name :: string
  ss_status :: step_status
  ss_message :: string

record setup_report =
  sr_steps :: "setup_step list"
  sr_success :: bool

definition mk_step :: "string \<Rightarrow> step_status \<Rightarrow> string \<Rightarrow> setup_step" where
  "mk_step n s m = \<lparr>ss_name = n, ss_status = s, ss_message = m\<rparr>"

definition quoted :: "string \<Rightarrow> string" where
  "quoted s = [CHR 0x27] @ s @ [CHR 0x27]"

definition create_system_user :: "setup_host \<Rightarrow> history \<Rightarrow> setup_step \<times> history" where
  "create_system_user w h =
     (let (check, h1) = run_query w [''id'', SERVICE_USER] h in
      if proc_success check
      then (mk_step ''System user'' Skipped (''User '' @ quoted SERVICE_USER @ '' already exists''), h1)
      else (case sudo w [''useradd'', ''--system'', ''--no-create-home'', ''--shell'',
              ''/usr/sbin/nologin'', ''--home-dir'', SYSTEM_CONFIG_DIR, SERVICE_USER] h1 of
        (Inr _, h2) \<Rightarrow>
          (mk_step ''System user'' Created (''Created system user '' @ quoted SERVICE_USER), h2)
      | (Inl e, h2) \<Rightarrow> (mk_step ''System user'' Step_Failed (''Failed to create user: '' @ e), h2)))"

definition in_docker_group :: "proc_result \<Rightarrow> bool" where
  "in_docker_group r = (case r of
     Exited code out err \<Rightarrow> ''docker'' \<in> set (split_whitespace (lossy out)) | Spawn_Error e \<Rightarrow> False)"

definition add_docker_group :: "setup_host \<Rightarrow> history \<Rightarrow> setup_step \<times> history" where
  "add_docker_group w h =
     (let (group_check, h1) = run_query w [''getent'', ''group'', ''docker''] h in
      if \<not> proc_success group_check
      then (mk_step ''Docker group'' Skipped ''Docker group does not exist (docker not installed?)'', h1)
      else
        (let (id_check, h2) = run_query w [''id'', ''-nG'', SERVICE_USER] h1 in
         if in_docker_group id_check
         then (mk_step ''Docker group'' Skipped
                (''User '' @ quoted SERVICE_USER @ '' already in docker group''), h2)
         else (case sudo w [''usermod'', ''-aG'', ''docker'', SERVICE_USER] h2 of
           (Inr _, h3) \<Rightarrow> (mk_step ''Docker group'' Created
              (''Added '' @ quoted SERVICE_USER @ '' to docker group''), h3)
         | (Inl e, h3) \<Rightarrow> (mk_step ''Docker group'' Step_Failed (''Failed to add to docker group: '' @ e), h3))))"

definition SERVICE_OWNER :: string where
  "SERVICE_OWNER = SERVICE_USER @ '':'' @ SERVICE_GROUP"

text \<open>One missing directory: created with its owner and mode, or the error.\<close>

definition ensure_dir ::
    "setup_host \<Rightarrow> string \<Rightarrow> string \<Rightarrow> string \<Rightarrow> history \<Rightarrow> (string + string list) \<times> history" where
  "ensure_dir w dir owner mode h =
     (if or_exists w h dir then (Inr [], h)
      else (case sudo_chain w [[''mkdir'', ''-p'', dir], [''chown'', owner, dir], [''chmod'', mode, dir]] h of
        (Inr _, h1) \<Rightarrow> (Inr [dir], h1)
      | (Inl e, h1) \<Rightarrow> (Inl (''Failed to create '' @ dir @ '': '' @ e), h1)))"

definition create_config_dir :: "setup_host \<Rightarrow> history \<Rightarrow> setup_step \<times> history" where
  "create_config_dir w h = (case ensure_dir w SYSTEM_CONFIG_DIR ''root:root'' ''755'' h of
     (Inl e, h1) \<Rightarrow> (mk_step ''Config directory'' Step_Failed e, h1)
   | (Inr a, h1) \<Rightarrow> (case ensure_dir w SYSTEM_STATE_DIR SERVICE_OWNER ''700'' h1 of
       (Inl e, h2) \<Rightarrow> (mk_step ''Config directory'' Step_Failed e, h2)
     | (Inr b, h2) \<Rightarrow>
         (let made = a @ b in
          (if made = []
           then mk_step ''Directories'' Skipped (SYSTEM_CONFIG_DIR @ '' and '' @ SYSTEM_STATE_DIR @ '' already exist'')
           else mk_step ''Directories'' Created (''Created: '' @ join '', '' made), h2))))"

definition STATE_CONFIG :: string where
  "STATE_CONFIG = join_path SYSTEM_STATE_DIR ''config.toml''"

definition STATE_KEY :: string where
  "STATE_KEY = join_path SYSTEM_STATE_DIR ''signing_key.pub''"

text \<open>The key is copied from the first place that has one; the outcome is ignored.\<close>

definition migrate_key :: "setup_host \<Rightarrow> history \<Rightarrow> history" where
  "migrate_key w h =
     (if or_exists w h STATE_KEY then h
      else (case find (or_exists w h) [join_path (dirs_home (or_vars w)) ''signing_key.pub'', STATE_KEY] of
        None \<Rightarrow> h
      | Some src \<Rightarrow> snd (sudo_chain w [[''cp'', ''-p'', src, STATE_KEY], [''chown'', SERVICE_OWNER, STATE_KEY]] h)))"

definition ARROW :: string where "ARROW = encode_char 8594"

definition migrate_legacy_config :: "setup_host \<Rightarrow> history \<Rightarrow> setup_step \<times> history" where
  "migrate_legacy_config w h =
     (let system_path = system_config_path; legacy_path = default_config_path (or_vars w) in
      if or_exists w h system_path
      then (mk_step ''Config migration'' Skipped
             (''System config already exists '' @ EM_DASH @ '' no migration needed''), h)
      else
        (case (if or_exists w h STATE_CONFIG then Some STATE_CONFIG
               else if or_exists w h legacy_path then Some legacy_path else None) of
           None \<Rightarrow> (mk_step ''Config migration'' Skipped
             (''No legacy config found '' @ EM_DASH @ '' will be created at registration''), h)
         | Some source \<Rightarrow>
             (case sudo_chain w [[''cp'', ''-p'', source, system_path], [''chown'', ''root:root'', system_path],
                     [''chmod'', ''644'', system_path]] h of
                (r, h1) \<Rightarrow>
                  ((case r of
                      Inr _ \<Rightarrow> mk_step ''Config migration'' Created
                        (''Migrated '' @ source @ '' '' @ ARROW @ '' '' @ system_path)
                    | Inl e \<Rightarrow> mk_step ''Config migration'' Step_Failed (''Failed: '' @ e)),
                   migrate_key w h1))))"

section \<open>Binaries\<close>

definition INSTALL_DIR :: string where "INSTALL_DIR = ''/usr/local/bin''"

definition SETUP_BINARIES :: "string list" where
  "SETUP_BINARIES = [''nexus-link'', ''nexus-link-agent'', ''nexus-link-service'']"

definition invoking_home :: "env_vars \<Rightarrow> string" where
  "invoking_home vars = (case vars ''SUDO_USER'' of
     Some u \<Rightarrow> ''/home/'' @ u
   | None \<Rightarrow> (case vars ''HOME'' of Some hm \<Rightarrow> hm | None \<Rightarrow> ''/root''))"

definition find_user_binary_dir :: "setup_host \<Rightarrow> history \<Rightarrow> string option" where
  "find_user_binary_dir w h =
     find (\<lambda>dir. or_exists w h (join_path dir ''nexus-link'') \<and> path_of dir \<noteq> path_of INSTALL_DIR)
       [join_path (invoking_home (or_vars w)) ''.local/bin'',
        join_path (invoking_home (or_vars w)) ''.cargo/bin'', ''/root/.local/bin'']"

text \<open>The parent of an absolute path, \<open>None\<close> for the root.\<close>

definition parent_of :: "string \<Rightarrow> string option" where
  "parent_of s = (if path_of s = [] then None else Some (''/'' @ join ''/'' (butlast (path_of s))))"

text \<open>One binary: nothing (\<open>None\<close>), installed, or an error.\<close>

definition install_one ::
    "setup_host \<Rightarrow> string \<Rightarrow> string \<Rightarrow> history \<Rightarrow> (string + unit) option \<times> history" where
  "install_one w source_dir bin h =
     (let source = join_path source_dir bin; target = join_path INSTALL_DIR bin in
      if \<not> or_exists w h source then (None, h)
      else if or_canon w h source \<noteq> None \<and> or_canon w h source = or_canon w h target then (None, h)
      else
        (case (if or_exists w h target \<or> or_link w h target
               then sudo w [''rm'', ''-f'', target] h else (Inr (), h)) of
           (Inl e, h1) \<Rightarrow> (Some (Inl (bin @ '': '' @ e)), h1)
         | (Inr _, h1) \<Rightarrow> (case sudo_chain w [[''cp'', source, target], [''chmod'', ''755'', target]] h1 of
             (Inr _, h2) \<Rightarrow> (Some (Inr ()), h2)
           | (Inl e, h2) \<Rightarrow> (Some (Inl (bin @ '': '' @ e)), h2))))"

fun install_each ::
    "setup_host \<Rightarrow> string \<Rightarrow> string list \<Rightarrow> history \<Rightarrow> string list \<times> string list \<times> history" where
  "install_each w source_dir [] h = ([], [], h)"
| "install_each w source_dir (b # bs) h = (case install_one w source_dir b h of
     (r, h1) \<Rightarrow> (case install_each w source_dir bs h1 of
       (done, errs, h2) \<Rightarrow> (case r of
          None \<Rightarrow> (done, errs, h2)
        | Some (Inr _) \<Rightarrow> (b # done, errs, h2)
        | Some (Inl e) \<Rightarrow> (done, e # errs, h2))))"

definition effective_source :: "setup_host \<Rightarrow> string \<Rightarrow> history \<Rightarrow> string" where
  "effective_source w source_dir h =
     (if path_of source_dir = path_of INSTALL_DIR
      then (case find_user_binary_dir w h of Some d \<Rightarrow> d | None \<Rightarrow> source_dir) else source_dir)"

definition install_binaries :: "setup_host \<Rightarrow> history \<Rightarrow> setup_step \<times> history" where
  "install_binaries w h =
     (let bad = (\<lambda>m. (mk_step ''Install binaries'' Step_Failed m, h)) in
      case or_exe w of
        Inl e \<Rightarrow> bad (''Cannot resolve current executable: '' @ e)
      | Inr exe \<Rightarrow> (case or_canon w h exe of
          None \<Rightarrow> bad ''Cannot canonicalize executable path''
        | Some real_exe \<Rightarrow> (case parent_of real_exe of
            None \<Rightarrow> bad ''Cannot determine source binary directory''
          | Some source_dir \<Rightarrow>
              (let src = effective_source w source_dir h in
               if path_of src = path_of INSTALL_DIR
               then (mk_step ''Install binaries'' Skipped ''Binaries already in /usr/local/bin (up to date)'', h)
               else (case install_each w src SETUP_BINARIES h of
                 (installed, errors, h1) \<Rightarrow>
                   (if errors \<noteq> [] then mk_step ''Install binaries'' Step_Failed (''Errors: '' @ join ''; '' errors)
                    else if installed = []
                    then mk_step ''Install binaries'' Skipped ''No binaries found in source directory''
                    else mk_step ''Install binaries'' Created
                      (''Installed '' @ show_nat (length installed) @ '' '' @ ARROW @ '' '' @ INSTALL_DIR
                       @ '' ('' @ join '', '' installed @ '')''), h1))))))"

section \<open>Systemd units\<close>

definition SYSTEMD_DIR :: string where "SYSTEMD_DIR = ''/etc/systemd/system''"

definition unit_text :: "string \<Rightarrow> string \<Rightarrow> string list" where
  "unit_text description exec =
     [''[Unit]'', ''Description='' @ description, ''After=network-online.target docker.service'',
      ''Wants=network-online.target'', ''Requires=docker.service'', [],
      ''[Service]'', ''Type=simple'', ''User=nexus-link'', ''Group=nexus-link'',
      ''SupplementaryGroups=docker'', ''ExecStart=/usr/local/bin/'' @ exec, ''Restart=on-failure'',
      ''RestartSec=5'', ''Environment=NEXUS_LINK_CONFIG=/etc/nexus-link/config.toml'', [],
      ''# Hardening'', ''ProtectHome=true'', ''ProtectSystem=strict'', ''ProtectKernelTunables=true'',
      ''ProtectKernelModules=true'', ''ProtectControlGroups=true'', ''RestrictSUIDSGID=true'',
      ''NoNewPrivileges=true'', ''ReadWritePaths=/var/lib/nexus-link'', [],
      ''[Install]'', ''WantedBy=multi-user.target'']"

definition AGENT_UNIT_LINES :: "string list" where
  "AGENT_UNIT_LINES = unit_text (''Nexus Link Agent '' @ EM_DASH @ '' telemetry push daemon'') ''nexus-link-agent''"

definition SERVICE_UNIT_LINES :: "string list" where
  "SERVICE_UNIT_LINES =
     unit_text (''Nexus Link Service '' @ EM_DASH @ '' command receiver (HTTPS :8443)'') ''nexus-link-service''"

definition render_unit :: "string list \<Rightarrow> string" where
  "render_unit ls = concat (map (\<lambda>l. l @ [LF]) ls)"

definition AGENT_UNIT_PATH :: string where
  "AGENT_UNIT_PATH = SYSTEMD_DIR @ ''/nexus-link-agent.service''"

definition SERVICE_UNIT_PATH :: string where
  "SERVICE_UNIT_PATH = SYSTEMD_DIR @ ''/nexus-link-service.service''"

definition install_systemd_units :: "setup_host \<Rightarrow> history \<Rightarrow> setup_step \<times> history" where
  "install_systemd_units w h =
     (let bad = (\<lambda>e h'. (mk_step ''Systemd units'' Step_Failed (''Failed: '' @ e), h')) in
      case write_file_sudo w AGENT_UNIT_PATH (render_unit AGENT_UNIT_LINES) h of
        (Inl e, h1) \<Rightarrow> bad e h1
      | (Inr _, h1) \<Rightarrow> (case write_file_sudo w SERVICE_UNIT_PATH (render_unit SERVICE_UNIT_LINES) h1 of
          (Inl e, h2) \<Rightarrow> bad e h2
        | (Inr _, h2) \<Rightarrow> (case sudo w [''systemctl'', ''daemon-reload''] h2 of
            (Inl e, h3) \<Rightarrow> bad e h3
          | (Inr _, h3) \<Rightarrow> (mk_step ''Systemd units'' Created
              ''Installed nexus-link-agent.service + nexus-link-service.service, daemon-reload done'', h3))))"

definition enable_services :: "setup_host \<Rightarrow> history \<Rightarrow> setup_step \<times> history" where
  "enable_services w h =
     (case sudo_chain w [[''systemctl'', ''enable'', ''--now'', ''nexus-link-agent.service''],
             [''systemctl'', ''enable'', ''--now'', ''nexus-link-service.service'']] h of
        (Inr _, h1) \<Rightarrow> (mk_step ''Enable services'' Created
          ''Enabled and started nexus-link-agent + nexus-link-service'', h1)
      | (Inl e, h1) \<Rightarrow> (mk_step ''Enable services'' Step_Failed (''Failed: '' @ e), h1))"

section \<open>The whole setup\<close>

fun run_steps :: "(history \<Rightarrow> setup_step \<times> history) list \<Rightarrow> history \<Rightarrow> setup_step list \<times> history" where
  "run_steps [] h = ([], h)"
| "run_steps (f # fs) h = (case f h of (s, h1) \<Rightarrow> (case run_steps fs h1 of (ss, h2) \<Rightarrow> (s # ss, h2)))"

definition setup_steps :: "setup_host \<Rightarrow> (history \<Rightarrow> setup_step \<times> history) list" where
  "setup_steps w = [create_system_user w, add_docker_group w, create_config_dir w,
     migrate_legacy_config w, install_binaries w, install_systemd_units w, enable_services w]"

definition run_setup :: "setup_host \<Rightarrow> history \<Rightarrow> setup_report \<times> history" where
  "run_setup w h = (case run_steps (setup_steps w) h of
     (steps, h1) \<Rightarrow>
       (\<lparr>sr_steps = steps, sr_success = list_all (\<lambda>s. ss_status s \<noteq> Step_Failed) steps\<rparr>, h1))"

end
