(* ===== verification/Cli_Lifecycle.thy ===== *)
theory Cli_Lifecycle
  imports Cli_Config Core_Setup Core_Preflight Core_Network Core_Types
begin

text \<open>
  The life of an installation, \<open>crates/nexus-link-cli/src/commands/\<close>: \<open>register.rs\<close> (preflight,
  setup, registration, saving the answer), \<open>unregister.rs\<close> and \<open>reset.rs\<close>.

  Privileged commands run against the host of \<open>Core_Setup\<close>; \<open>lx_effect h a t\<close> is what the action
  \<open>a\<close>, run after \<open>h\<close>, does to the files. The backend's answers, the operator's input and the
  survivors of a directory removal that fails half way are inputs. Progress messages are left out.
\<close>

section \<open>Commands with an effect on files\<close>

record life_env =
  lx_cx :: cli_env
  lx_host :: setup_host
  lx_effect :: "history \<Rightarrow> action \<Rightarrow> fs \<Rightarrow> fs"
  lx_kept :: "path \<Rightarrow> bool"

type_synonym world = "history \<times> fs"

text \<open>The effects of the actions \<open>as\<close>, run after \<open>h\<close>.\<close>

fun effects :: "(history \<Rightarrow> action \<Rightarrow> fs \<Rightarrow> fs) \<Rightarrow> history \<Rightarrow> action list \<Rightarrow> fs \<Rightarrow> fs" where
  "effects eff h [] t = t"
| "effects eff h (a # as) t = effects eff (h @ [a]) as (eff h a t)"

definition perform :: "life_env \<Rightarrow> string list \<Rightarrow> world \<Rightarrow> proc_result \<times> world" where
  "perform lx argv wd = (case wd of (h, t) \<Rightarrow>
     (or_run (lx_host lx) h argv, (h @ [Ran argv], lx_effect lx h (Ran argv) t)))"

definition perform_tee :: "life_env \<Rightarrow> string \<Rightarrow> string \<Rightarrow> world \<Rightarrow> (string + bool) \<times> world" where
  "perform_tee lx p content wd = (case wd of (h, t) \<Rightarrow>
     (or_tee (lx_host lx) h p, (h @ [Teed p content], lx_effect lx h (Teed p content) t)))"

definition perform_setup :: "life_env \<Rightarrow> world \<Rightarrow> setup_report \<times> world" where
  "perform_setup lx wd = (case wd of (h, t) \<Rightarrow>
     (case run_setup (lx_host lx) h of
        (report, h1) \<Rightarrow> (report, (h1, effects (lx_effect lx) h (drop (length h) h1) t))))"

section \<open>Registration\<close>

record register_args =
  ra_api_url :: string
  ra_token :: string
  ra_cmd_token :: "string option"
  ra_name :: "string option"
  ra_tags :: "string list"
  ra_skip_preflight :: bool
  ra_force :: bool

record register_post =
  rp_url :: string
  rp_bearer :: string
  rp_body :: register_request

text \<open>The backend's answer: status, body text, and the body decoded.\<close>

record register_reply =
  ry_status :: nat
  ry_status_line :: string
  ry_text :: string
  ry_decoded :: "string + register_response"

definition hostname_get :: "proc_result \<Rightarrow> string" where
  "hostname_get r = (case r of
     Spawn_Error e \<Rightarrow> ''unknown'' | Exited code out err \<Rightarrow> trim (lossy out))"

definition host_name_of :: "life_env \<Rightarrow> string" where
  "host_name_of lx = hostname_get (cx_run (lx_cx lx) [''hostname''])"

definition node_name_of :: "life_env \<Rightarrow> register_args \<Rightarrow> string" where
  "node_name_of lx ra = (case ra_name ra of Some n \<Rightarrow> n | None \<Rightarrow> host_name_of lx)"

definition preflight_gate :: "preflight_verdict \<Rightarrow> bool \<Rightarrow> string option" where
  "preflight_gate verdict forced = (case verdict of
     Compatible \<Rightarrow> None
   | Not_Recommended \<Rightarrow> if forced then None else Some (''Device is not in the compatibility registry. ''
       @ ''Use --force to register anyway, or --skip-preflight to bypass checks.'')
   | Incompatible \<Rightarrow> if forced then None else Some (''Device is incompatible (no GPU detected). ''
       @ ''Nexus Link requires NVIDIA GPU hardware.''))"

definition token_checks :: "register_args \<Rightarrow> string option" where
  "token_checks ra =
     (if \<not> validate_token_format (ra_token ra) then Some ''Invalid token format. Expected: nxs_node_<...>''
      else case ra_cmd_token ra of
        Some ct \<Rightarrow> if \<not> validate_cmd_token_format ct
          then Some ''Invalid cmd-token format. Expected: nxs_cmd_<...>'' else None
      | None \<Rightarrow> None)"

definition register_body ::
    "register_args \<Rightarrow> string \<Rightarrow> string \<Rightarrow> string option \<Rightarrow> register_request" where
  "register_body ra host_name node_nm private_ip =
     \<lparr>rr_name = node_nm, rr_private_ip = private_ip, rr_tags = ra_tags ra,
      rr_description = Some (''Registered via nexus-link CLI from '' @ host_name),
      rr_public_endpoint = map_option (\<lambda>ip. format_service_endpoint ip 8443) private_ip\<rparr>"

text \<open>\<open>reg_cmd_token r.or(cmd_token)\<close>: the backend's command token wins.\<close>

definition resolved_cmd_token :: "register_args \<Rightarrow> register_response \<Rightarrow> string option" where
  "resolved_cmd_token ra r = (case reg_cmd_token r of Some ct \<Rightarrow> Some ct | None \<Rightarrow> ra_cmd_token ra)"

definition registered_config :: "register_args \<Rightarrow> string \<Rightarrow> register_response \<Rightarrow> config" where
  "registered_config ra node_nm r =
     \<lparr>node = \<lparr>node_id = reg_node_id r, node_name = node_nm, node_tok = reg_token r,
              node_tags = ra_tags ra\<rparr>,
      api = \<lparr>base_url = ra_api_url ra, database_url = reg_database_url r,
             tokens = \<lparr>telemetry = Some \<lparr>te_token = reg_token r, te_scope = ''read''\<rparr>,
               command = map_option (\<lambda>ct. \<lparr>te_token = ct, te_scope = ''read_write''\<rparr>)
                 (resolved_cmd_token ra r)\<rparr>,
             push_interval_secs = None\<rparr>,
      agent = default_agent_config, service = default_service_config,
      compose = default_compose_config\<lparr>compose_cmd_token := resolved_cmd_token ra r,
        signing_public_key := reg_signing_public_key r\<rparr>\<rparr>"

text \<open>Saving: the system path with its owner and mode, or the user path.\<close>

definition OWN_CONFIG :: "string list" where
  "OWN_CONFIG = [''sudo'', ''chown'', SERVICE_OWNER, system_config_path]"

definition RESTRICT_CONFIG :: "string list" where
  "RESTRICT_CONFIG = [''sudo'', ''chmod'', ''600'', system_config_path]"

definition save_registered :: "life_env \<Rightarrow> config \<Rightarrow> world \<Rightarrow> (string + string) \<times> world" where
  "save_registered lx c wd = (case wd of (h, t) \<Rightarrow>
     let cx = lx_cx lx in
     if exists t (path_of SYSTEM_CONFIG_DIR) then
       (case save_to (cx_toml cx) (cx_io cx) c system_config_path t of
          (Inl e, t1) \<Rightarrow> (Inl e, (h, t1))
        | (Inr _, t1) \<Rightarrow>
            (Inr system_config_path,
             snd (perform lx RESTRICT_CONFIG (snd (perform lx OWN_CONFIG (h, t1))))))
     else
       (case save (cx_toml cx) (cx_io cx) (cx_vars cx) c t of
          (Inl e, t1) \<Rightarrow> (Inl e, (h, t1))
        | (Inr _, t1) \<Rightarrow> (Inr (effective_config_path (cx_vars cx) t1), (h, t1))))"

text \<open>The signing key beside the configuration; the exit status of \<open>sudo tee\<close> is not looked at.\<close>

definition key_path_beside :: "string \<Rightarrow> string" where
  "key_path_beside save_path = join_path
     (case parent_of save_path of Some d \<Rightarrow> d | None \<Rightarrow> SYSTEM_CONFIG_DIR) ''signing_key.pub''"

definition write_signing_key :: "life_env \<Rightarrow> string \<Rightarrow> string \<Rightarrow> world \<Rightarrow> (string + unit) \<times> world" where
  "write_signing_key lx save_path pubkey_b64 wd =
     (let key_path = key_path_beside save_path in
      case write_file (cx_io (lx_cx lx)) (path_of key_path) pubkey_b64 (snd wd) of
        (Inr _, t1) \<Rightarrow> (Inr (), (fst wd, t1))
      | (Inl _, t1) \<Rightarrow> (case perform_tee lx key_path pubkey_b64 (fst wd, t1) of
          (Inl e, wd1) \<Rightarrow> (Inl e, wd1)
        | (Inr _, wd1) \<Rightarrow>
            (Inr (), snd (perform lx [''sudo'', ''chown'', SERVICE_OWNER, key_path] wd1))))"

text \<open>From the backend's answer on.\<close>

definition finish_registration ::
    "life_env \<Rightarrow> register_args \<Rightarrow> string \<Rightarrow> string + register_reply \<Rightarrow> world \<Rightarrow> string cli \<times> world" where
  "finish_registration lx ra node_nm reply wd = (case reply of
     Inl e \<Rightarrow> (Cli_Error e, wd)
   | Inr y \<Rightarrow>
       if \<not> (200 \<le> ry_status y \<and> ry_status y < 300)
       then (Cli_Error (''Registration failed ('' @ ry_status_line y @ ''): '' @ ry_text y), wd)
       else (case ry_decoded y of
         Inl e \<Rightarrow> (Cli_Error e, wd)
       | Inr r \<Rightarrow> (case save_registered lx (registered_config ra node_nm r) wd of
           (Inl e, wd1) \<Rightarrow> (Cli_Error e, wd1)
         | (Inr save_path, wd1) \<Rightarrow> (case reg_signing_public_key r of
             None \<Rightarrow> (Cli_Ok save_path, wd1)
           | Some key \<Rightarrow> (case write_signing_key lx save_path key wd1 of
               (Inl e, wd2) \<Rightarrow> (Cli_Error e, wd2)
             | (Inr _, wd2) \<Rightarrow> (Cli_Ok save_path, wd2))))))"

record registration =
  re_outcome :: "string cli"
  re_posts :: "register_post list"
  re_world :: world

definition register ::
    "(nat \<Rightarrow> nat list) \<Rightarrow> machine \<Rightarrow> life_env \<Rightarrow> (register_post \<Rightarrow> string + register_reply)
      \<Rightarrow> register_args \<Rightarrow> world \<Rightarrow> registration" where
  "register ul mc lx backend ra wd =
     (let stop = (\<lambda>m w. \<lparr>re_outcome = Cli_Error m, re_posts = [], re_world = w\<rparr>);
          host_name = host_name_of lx; node_nm = node_name_of lx ra
      in case (if ra_skip_preflight ra then None
               else preflight_gate (pf_verdict (run_preflight ul mc)) (ra_force ra)) of
           Some m \<Rightarrow> stop m wd
         | None \<Rightarrow> (case perform_setup lx wd of
             (report, wd1) \<Rightarrow>
               if \<not> sr_success report then stop (''System setup failed '' @ EM_DASH
                 @ '' resolve the issues above before registering.'') wd1
               else (case token_checks ra of
                 Some m \<Rightarrow> stop m wd1
               | None \<Rightarrow> (case detect_private_ip (cx_run (lx_cx lx)) of
                   None \<Rightarrow> \<lparr>re_outcome = Cli_Panic, re_posts = [], re_world = wd1\<rparr>
                 | Some ip \<Rightarrow>
                     (let post = \<lparr>rp_url = ra_api_url ra @ ''/api/nodes/register'',
                                  rp_bearer = ra_token ra,
                                  rp_body = register_body ra host_name node_nm ip\<rparr>
                      in case finish_registration lx ra node_nm (backend post) wd1 of
                           (r, wd2) \<Rightarrow>
                             \<lparr>re_outcome = r, re_posts = [post], re_world = wd2\<rparr>)))))"

section \<open>Unregistering\<close>

record offline_post =
  op_url :: string
  op_bearer :: string
  op_body :: json

definition offline_heartbeat :: "config \<Rightarrow> offline_post" where
  "offline_heartbeat c =
     \<lparr>op_url = base_url (api c) @ ''/api/nodes/'' @ node_id (node c) @ ''/heartbeat'',
      op_bearer = node_tok (node c),
      op_body = JObj [(''status'', JStr ''offline''), (''reason'', JStr ''unregister'')]\<rparr>"

definition STOP_ARGVS :: "string list list" where
  "STOP_ARGVS = [[''systemctl'', ''stop'', ''nexus-link-agent''], [''pkill'', ''-f'', ''nexus-link-agent'']]"

definition confirmed :: "string \<Rightarrow> bool" where
  "confirmed line \<longleftrightarrow> trim line = ''y'' \<or> trim line = ''Y''"

text \<open>The removal, once confirmed. The heartbeat's answer is not looked at.\<close>

definition remove_config :: "cli_env \<Rightarrow> bool \<Rightarrow> fs \<Rightarrow> unit cli \<times> fs" where
  "remove_config cx forced t =
     (let p = path_of (default_config_path (cx_vars cx)) in
      case remove_file (cx_io cx) p t of
        (r, t1) \<Rightarrow>
          if isl r \<and> \<not> forced
          then (Cli_Error (''Failed to remove config: '' @ io_display (projl r)), t1)
          else (Cli_Ok (), if p = [] then t1 else snd (remove_dir (cx_io cx) (butlast p) t1)))"

record unregistration =
  un_outcome :: "unit cli"
  un_posts :: "offline_post list"
  un_argvs :: "string list list"
  un_fs :: fs

definition unregister :: "cli_env \<Rightarrow> string + string \<Rightarrow> bool \<Rightarrow> fs \<Rightarrow> unregistration" where
  "unregister cx stdin forced t =
     (let p = default_config_path (cx_vars cx);
          stop = (\<lambda>r. \<lparr>un_outcome = r, un_posts = [], un_argvs = [], un_fs = t\<rparr>)
      in if \<not> exists t (path_of p) then
           stop (if forced then Cli_Ok ()
                 else Cli_Error (''No config found at '' @ p @ ''. Node is not registered.''))
         else (case load_from (cx_toml cx) (cx_io cx) t p of
           Inl e \<Rightarrow> stop (Cli_Error e)
         | Inr c \<Rightarrow> (case (if forced then Inr True else map_sum id confirmed stdin) of
             Inl e \<Rightarrow> stop (Cli_Error e)
           | Inr False \<Rightarrow> stop (Cli_Ok ())
           | Inr True \<Rightarrow> (case remove_config cx forced t of
               (r, t1) \<Rightarrow> \<lparr>un_outcome = r, un_posts = [offline_heartbeat c],
                 un_argvs = try_commands (cx_run cx) STOP_ARGVS, un_fs = t1\<rparr>))))"

section \<open>Reset\<close>

definition disable_service :: "life_env \<Rightarrow> string \<Rightarrow> bool \<Rightarrow> world \<Rightarrow> world" where
  "disable_service lx svc user wd = snd (perform lx
     (if user then [''systemctl'', ''--user'', ''disable'', svc] else [''sudo'', ''systemctl'', ''disable'', svc]) wd)"

definition stop_service :: "life_env \<Rightarrow> string \<Rightarrow> world \<Rightarrow> world" where
  "stop_service lx svc wd = (case perform lx [''systemctl'', ''--user'', ''stop'', svc] wd of
     (user_stop, wd1) \<Rightarrow>
       if proc_success user_stop then disable_service lx svc True wd1
       else (case perform lx [''sudo'', ''systemctl'', ''stop'', svc] wd1 of
         (system_stop, wd2) \<Rightarrow>
           if proc_success system_stop then disable_service lx svc False wd2
           else snd (perform lx [''pkill'', ''-f'', svc] wd2)))"

definition stop_and_disable_services :: "life_env \<Rightarrow> world \<Rightarrow> world" where
  "stop_and_disable_services lx wd =
     fold (stop_service lx) [''nexus-link-agent'', ''nexus-link-service''] wd"

definition remove_unit :: "life_env \<Rightarrow> string \<Rightarrow> world \<Rightarrow> world" where
  "remove_unit lx unit wd =
     (if exists (snd wd) (path_of unit) then snd (perform lx [''sudo'', ''rm'', ''-f'', unit] wd) else wd)"

definition remove_systemd_units :: "life_env \<Rightarrow> world \<Rightarrow> world" where
  "remove_systemd_units lx wd =
     snd (perform lx [''sudo'', ''systemctl'', ''daemon-reload'']
       (fold (remove_unit lx) [AGENT_UNIT_PATH, SERVICE_UNIT_PATH] wd))"

definition remove_dir_if_exists :: "life_env \<Rightarrow> string \<Rightarrow> world \<Rightarrow> world" where
  "remove_dir_if_exists lx dir wd =
     (if exists (snd wd) (path_of dir)
      then (fst wd, snd (remove_dir_all (cx_io (lx_cx lx)) (lx_kept lx) (path_of dir) (snd wd))) else wd)"

definition remove_system_dir :: "life_env \<Rightarrow> string \<Rightarrow> world \<Rightarrow> world" where
  "remove_system_dir lx dir wd =
     (if exists (snd wd) (path_of dir) then snd (perform lx [''sudo'', ''rm'', ''-rf'', dir] wd) else wd)"

definition present :: "fs \<Rightarrow> path \<Rightarrow> bool" where
  "present t p \<longleftrightarrow> Option.bind (entry t p) (lookup t) \<noteq> None"

definition INSTALLED_BINARIES :: "string list" where
  "INSTALLED_BINARIES = map (join_path INSTALL_DIR) SETUP_BINARIES"

definition remove_binary :: "life_env \<Rightarrow> string \<Rightarrow> world \<Rightarrow> world" where
  "remove_binary lx bin wd =
     (if exists (snd wd) (path_of bin) \<or> present (snd wd) (path_of bin)
      then snd (perform lx [''sudo'', ''rm'', ''-f'', bin] wd) else wd)"

definition remove_installed_binaries :: "life_env \<Rightarrow> world \<Rightarrow> world" where
  "remove_installed_binaries lx wd = fold (remove_binary lx) INSTALLED_BINARIES wd"

text \<open>Only an \<open>id\<close> that ran and failed says that the user does not exist.\<close>

definition remove_system_user :: "life_env \<Rightarrow> world \<Rightarrow> world" where
  "remove_system_user lx wd = (case perform lx [''id'', SERVICE_USER] wd of
     (Exited code out err, wd1) \<Rightarrow>
       if proc_success (Exited code out err)
       then snd (perform lx [''sudo'', ''userdel'', SERVICE_USER] wd1) else wd1
   | (Spawn_Error e, wd1) \<Rightarrow> snd (perform lx [''sudo'', ''userdel'', SERVICE_USER] wd1))"

definition reset_steps :: "life_env \<Rightarrow> world \<Rightarrow> world" where
  "reset_steps lx wd =
     remove_system_user lx
       (remove_installed_binaries lx
         (remove_system_dir lx SYSTEM_STATE_DIR
           (remove_system_dir lx SYSTEM_CONFIG_DIR
             (remove_dir_if_exists lx (dirs_home (cx_vars (lx_cx lx)))
               (remove_systemd_units lx (stop_and_disable_services lx wd))))))"

definition reset :: "life_env \<Rightarrow> string + string \<Rightarrow> bool \<Rightarrow> world \<Rightarrow> unit cli \<times> world" where
  "reset lx stdin forced wd =
     (case (if forced then Inr True else map_sum id confirmed stdin) of
        Inl e \<Rightarrow> (Cli_Error e, wd)
      | Inr False \<Rightarrow> (Cli_Ok (), wd)
      | Inr True \<Rightarrow> (Cli_Ok (), reset_steps lx wd))"

end
