(* ===== verification/Cli_Agent.thy ===== *)
theory Cli_Agent
  imports Cli_Lifecycle
begin

text \<open>
  \<open>crates/nexus-link-cli/src/commands/agent.rs\<close>: starting, restarting and stopping the two systemd
  services, generating their units when there are none, and reading their logs.

  Whether the process runs as root is an input (\<open>geteuid\<close>). The commands run are the history of
  the world; progress messages are left out.
\<close>

section \<open>The mode\<close>

definition AGENT_SERVICE_NAME :: string where "AGENT_SERVICE_NAME = ''nexus-link-agent''"
definition SERVICE_SERVICE_NAME :: string where "SERVICE_SERVICE_NAME = ''nexus-link-service''"

datatype systemd_mode = System_Mode | User_Mode

definition has_sudo :: "life_env \<Rightarrow> world \<Rightarrow> bool \<times> world" where
  "has_sudo lx wd = (case perform lx [''sudo'', ''-n'', ''true''] wd of
     (r, wd1) \<Rightarrow> (proc_success r, wd1))"

text \<open>\<open>is_root() || has_sudo()\<close>: the second is not asked when the first holds.\<close>

definition detect_systemd_mode :: "life_env \<Rightarrow> bool \<Rightarrow> world \<Rightarrow> systemd_mode \<times> world" where
  "detect_systemd_mode lx is_root wd =
     (if is_root then (System_Mode, wd)
      else (case has_sudo lx wd of (b, wd1) \<Rightarrow> (if b then System_Mode else User_Mode, wd1)))"

section \<open>\<open>systemctl\<close>\<close>

definition systemctl_args :: "systemd_mode \<Rightarrow> string \<Rightarrow> string \<Rightarrow> string list" where
  "systemctl_args mode cmd svc = (if mode = User_Mode then [''--user''] else []) @ [cmd, svc]"

definition systemctl_failed :: "string \<Rightarrow> string \<Rightarrow> string \<Rightarrow> string \<Rightarrow> string" where
  "systemctl_failed flag cmd svc err =
     ''systemctl '' @ flag @ cmd @ '' '' @ svc @ '' failed: '' @ trim (lossy err)"

definition systemctl ::
    "life_env \<Rightarrow> systemd_mode \<Rightarrow> string \<Rightarrow> string \<Rightarrow> world \<Rightarrow> (string + unit) \<times> world" where
  "systemctl lx mode cmd svc wd =
     (case perform lx (''systemctl'' # systemctl_args mode cmd svc) wd of
        (Spawn_Error e, wd1) \<Rightarrow> (Inl e, wd1)
      | (Exited code out err, wd1) \<Rightarrow>
          if proc_success (Exited code out err) then (Inr (), wd1)
          else if mode = System_Mode then
            (case perform lx (''sudo'' # ''systemctl'' # systemctl_args mode cmd svc) wd1 of
               (Spawn_Error e, wd2) \<Rightarrow> (Inl e, wd2)
             | (Exited code2 out2 err2, wd2) \<Rightarrow>
                 (if proc_success (Exited code2 out2 err2) then Inr ()
                  else Inl (systemctl_failed [] cmd svc err2), wd2))
          else (Inl (systemctl_failed ''--user '' cmd svc err), wd1))"

text \<open>A sequence of \<open>systemctl(..)?\<close>.\<close>

fun systemctl_all ::
    "life_env \<Rightarrow> systemd_mode \<Rightarrow> (string \<times> string) list \<Rightarrow> world \<Rightarrow> (string + unit) \<times> world" where
  "systemctl_all lx mode [] wd = (Inr (), wd)"
| "systemctl_all lx mode ((cmd, svc) # rest) wd = (case systemctl lx mode cmd svc wd of
     (Inl e, wd1) \<Rightarrow> (Inl e, wd1) | (Inr _, wd1) \<Rightarrow> systemctl_all lx mode rest wd1)"

definition reload_systemd :: "life_env \<Rightarrow> systemd_mode \<Rightarrow> world \<Rightarrow> world" where
  "reload_systemd lx mode wd =
     (case perform lx (''systemctl'' # (if mode = User_Mode then [''--user''] else []) @ [''daemon-reload'']) wd of
        (r, wd1) \<Rightarrow>
          if proc_success r then wd1
          else if mode = System_Mode then snd (perform lx [''sudo'', ''systemctl'', ''daemon-reload''] wd1)
          else wd1)"

section \<open>Units\<close>

definition home_or_root :: "env_vars \<Rightarrow> string" where
  "home_or_root vars = (case vars ''HOME'' of Some h \<Rightarrow> h | None \<Rightarrow> ''/root'')"

definition systemd_unit_path :: "env_vars \<Rightarrow> string \<Rightarrow> systemd_mode \<Rightarrow> string" where
  "systemd_unit_path vars svc mode = (case mode of
     System_Mode \<Rightarrow> ''/etc/systemd/system/'' @ svc @ ''.service''
   | User_Mode \<Rightarrow> join_path (join_path (home_or_root vars) ''.config/systemd/user'') (svc @ ''.service''))"

definition dirs_local_bin :: "env_vars \<Rightarrow> string" where
  "dirs_local_bin vars = join_path (home_or_root vars) ''.local/bin''"

definition which_binary :: "life_env \<Rightarrow> string \<Rightarrow> world \<Rightarrow> (string + string) \<times> world" where
  "which_binary lx name wd =
     (case find (\<lambda>p. exists (snd wd) (path_of p))
             [join_path (dirs_local_bin (cx_vars (lx_cx lx))) name, ''/usr/local/bin/'' @ name,
              ''/usr/bin/'' @ name] of
        Some p \<Rightarrow> (Inr p, wd)
      | None \<Rightarrow> (case perform lx [''which'', name] wd of
          (Spawn_Error e, wd1) \<Rightarrow> (Inl e, wd1)
        | (Exited code out err, wd1) \<Rightarrow>
            (if proc_success (Exited code out err) then Inr (trim (lossy out))
             else Inl (''Binary '' @ quoted name @ '' not found. Ensure nexus-link is installed in PATH.''),
             wd1)))"

definition hardening :: "string \<Rightarrow> string \<Rightarrow> string" where
  "hardening working_dir dir = join [LF]
     [''# Security hardening'', ''NoNewPrivileges=true'', ''ProtectSystem=strict'', ''ProtectHome=yes'',
      ''ReadWritePaths='' @ working_dir @ '' '' @ dir, ''PrivateTmp=true'', ''ProtectKernelTunables=yes'',
      ''ProtectControlGroups=yes'', ''RestrictSUIDSGID=yes'']"

text \<open>The \<open>User=\<close> lines: the service user when the system directory exists, else the caller.\<close>

definition user_directive :: "env_vars \<Rightarrow> bool \<Rightarrow> string \<Rightarrow> string" where
  "user_directive vars dedicated cfg_path =
     (if dedicated then join [LF]
        [''User='' @ SERVICE_USER, ''Group='' @ SERVICE_GROUP, ''SupplementaryGroups=docker'',
         ''Environment=NEXUS_LINK_CONFIG='' @ cfg_path]
      else
        (let u = (case vars ''USER'' of Some u \<Rightarrow> u | None \<Rightarrow> ''root'') in
         if u \<noteq> ''root''
         then join [LF] [''User='' @ u, ''Group='' @ u, ''Environment=HOME='' @ home_or_root vars]
         else []))"

definition unit_file ::
    "string \<Rightarrow> string \<Rightarrow> string \<Rightarrow> string \<Rightarrow> string \<Rightarrow> string \<Rightarrow> string \<Rightarrow> string \<Rightarrow> string" where
  "unit_file descr after bin log working_dir user extra inst = join [LF]
     [''[Unit]'', ''Description='' @ descr, ''Documentation=https://github.com/gwnexus/nexus-link'',
      ''After='' @ after, ''Wants=network-online.target'', [],
      ''[Service]'', ''Type=simple'', ''ExecStart='' @ bin, ''Restart=always'', ''RestartSec=10'',
      ''Environment=RUST_LOG='' @ log @ ''=info'', ''WorkingDirectory='' @ working_dir, user, extra, [],
      ''[Install]'', inst, []]"

text \<open>Both units, from the paths of their binaries.\<close>

definition unit_texts ::
    "cli_env \<Rightarrow> fs \<Rightarrow> systemd_mode \<Rightarrow> string \<Rightarrow> string \<Rightarrow> string \<times> string" where
  "unit_texts cx t mode agent_bin service_bin =
     (let cfg_path = effective_config_path (cx_vars cx) t;
          working_dir = (case parent_of cfg_path of Some d \<Rightarrow> d | None \<Rightarrow> SYSTEM_CONFIG_DIR);
          dedicated = exists t (path_of SYSTEM_CONFIG_DIR);
          dir = (case cx_load cx t of Inr c \<Rightarrow> compose_dir (compose c) | Inl _ \<Rightarrow> ''/opt/dgx-llm'');
          (user, inst, extra) = (case mode of
             System_Mode \<Rightarrow> (user_directive (cx_vars cx) dedicated cfg_path,
               ''WantedBy=multi-user.target'', hardening working_dir dir)
           | User_Mode \<Rightarrow> ([], ''WantedBy=default.target'', []))
      in (unit_file ''Nexus Link Telemetry Agent'' ''network-online.target docker.service'' agent_bin
            ''nexus_link_agent'' working_dir user extra inst,
          unit_file ''Nexus Link Command Service'' ''network-online.target'' service_bin
            ''nexus_link_service'' working_dir user extra inst))"

text \<open>In system mode a refused write is tried again through \<open>sudo tee\<close>.\<close>

definition write_unit_file ::
    "life_env \<Rightarrow> systemd_mode \<Rightarrow> string \<Rightarrow> string \<Rightarrow> world \<Rightarrow> (string + unit) \<times> world" where
  "write_unit_file lx mode p content wd =
     (case write_file (cx_io (lx_cx lx)) (path_of p) content (snd wd) of
        (Inr _, t1) \<Rightarrow> (Inr (), (fst wd, t1))
      | (Inl e, t1) \<Rightarrow>
          if mode = User_Mode then (Inl (io_display e), (fst wd, t1))
          else if e = Permission_Denied then
            (case perform_tee lx p content (fst wd, t1) of
               (Inl m, wd1) \<Rightarrow> (Inl m, wd1)
             | (Inr ok, wd1) \<Rightarrow>
                 (if ok then Inr () else Inl (''Failed to write '' @ p
                    @ '' -- sudo required. Run: sudo nexus-link agent start''), wd1))
          else (Inl (''Failed to write '' @ p @ '': '' @ io_display e), (fst wd, t1)))"

definition make_unit_dir :: "life_env \<Rightarrow> systemd_mode \<Rightarrow> string \<Rightarrow> world \<Rightarrow> (string + unit) \<times> world" where
  "make_unit_dir lx mode agent_path wd =
     (if mode = User_Mode \<and> path_of agent_path \<noteq> [] then
        (case create_dir_all (cx_io (lx_cx lx)) (butlast (path_of agent_path)) (snd wd) of
           (Inl e, t1) \<Rightarrow> (Inl (io_display e), (fst wd, t1))
         | (Inr _, t1) \<Rightarrow> (Inr (), (fst wd, t1)))
      else (Inr (), wd))"

definition generate_systemd_units :: "life_env \<Rightarrow> systemd_mode \<Rightarrow> world \<Rightarrow> (string + unit) \<times> world" where
  "generate_systemd_units lx mode wd = (case which_binary lx AGENT_SERVICE_NAME wd of
     (Inl e, wd1) \<Rightarrow> (Inl e, wd1)
   | (Inr agent_bin, wd1) \<Rightarrow> (case which_binary lx SERVICE_SERVICE_NAME wd1 of
       (Inl e, wd2) \<Rightarrow> (Inl e, wd2)
     | (Inr service_bin, wd2) \<Rightarrow>
         (let (agent_unit, service_unit) = unit_texts (lx_cx lx) (snd wd2) mode agent_bin service_bin;
              vars = cx_vars (lx_cx lx);
              agent_path = systemd_unit_path vars AGENT_SERVICE_NAME mode;
              service_path = systemd_unit_path vars SERVICE_SERVICE_NAME mode
          in case make_unit_dir lx mode agent_path wd2 of
               (Inl e, wd3) \<Rightarrow> (Inl e, wd3)
             | (Inr _, wd3) \<Rightarrow> (case write_unit_file lx mode agent_path agent_unit wd3 of
                 (Inl e, wd4) \<Rightarrow> (Inl e, wd4)
               | (Inr _, wd4) \<Rightarrow> write_unit_file lx mode service_path service_unit wd4))))"

section \<open>The commands\<close>

definition START_CALLS :: "(string \<times> string) list" where
  "START_CALLS = [(''enable'', AGENT_SERVICE_NAME), (''start'', AGENT_SERVICE_NAME),
     (''enable'', SERVICE_SERVICE_NAME), (''start'', SERVICE_SERVICE_NAME)]"

definition needs_linger :: "proc_result \<Rightarrow> bool" where
  "needs_linger r = (case r of
     Exited code out err \<Rightarrow> if proc_success r then \<not> contains (lossy out) ''Linger=yes'' else True
   | Spawn_Error e \<Rightarrow> True)"

text \<open>In user mode the command ends by asking for the lingering of the user.\<close>

definition check_linger :: "life_env \<Rightarrow> systemd_mode \<Rightarrow> world \<Rightarrow> bool \<times> world" where
  "check_linger lx mode wd =
     (if mode = User_Mode then
        (case perform lx [''loginctl'', ''show-user'',
             (case cx_vars (lx_cx lx) ''USER'' of Some u \<Rightarrow> u | None \<Rightarrow> []), ''--property=Linger''] wd of
           (r, wd1) \<Rightarrow> (needs_linger r, wd1))
      else (False, wd))"

definition ensure_units :: "life_env \<Rightarrow> systemd_mode \<Rightarrow> world \<Rightarrow> (string + unit) \<times> world" where
  "ensure_units lx mode wd =
     (if exists (snd wd) (path_of (systemd_unit_path (cx_vars (lx_cx lx)) AGENT_SERVICE_NAME mode))
      then (Inr (), wd)
      else (case generate_systemd_units lx mode wd of
        (Inl e, wd1) \<Rightarrow> (Inl e, wd1) | (Inr _, wd1) \<Rightarrow> (Inr (), reload_systemd lx mode wd1)))"

text \<open>The value says whether the warning about lingering is printed.\<close>

definition agent_start :: "life_env \<Rightarrow> bool \<Rightarrow> world \<Rightarrow> bool cli \<times> world" where
  "agent_start lx is_root wd = (case cx_load (lx_cx lx) (snd wd) of
     Inl e \<Rightarrow> (Cli_Error e, wd)
   | Inr c \<Rightarrow> (case detect_systemd_mode lx is_root wd of
       (mode, wd1) \<Rightarrow> (case ensure_units lx mode wd1 of
         (Inl e, wd2) \<Rightarrow> (Cli_Error e, wd2)
       | (Inr _, wd2) \<Rightarrow> (case systemctl_all lx mode START_CALLS wd2 of
           (Inl e, wd3) \<Rightarrow> (Cli_Error e, wd3)
         | (Inr _, wd3) \<Rightarrow> (case check_linger lx mode wd3 of (b, wd4) \<Rightarrow> (Cli_Ok b, wd4))))))"

definition start_unless :: "life_env \<Rightarrow> systemd_mode \<Rightarrow> string + unit \<Rightarrow> string \<Rightarrow> world \<Rightarrow> world" where
  "start_unless lx mode restarted svc wd =
     (if isl restarted then snd (systemctl lx mode ''start'' svc wd) else wd)"

definition agent_restart :: "life_env \<Rightarrow> bool \<Rightarrow> world \<Rightarrow> unit cli \<times> world" where
  "agent_restart lx is_root wd = (case cx_load (lx_cx lx) (snd wd) of
     Inl e \<Rightarrow> (Cli_Error e, wd)
   | Inr c \<Rightarrow> (case detect_systemd_mode lx is_root wd of
       (mode, wd1) \<Rightarrow> (case systemctl lx mode ''restart'' AGENT_SERVICE_NAME wd1 of
         (agent_r, wd2) \<Rightarrow> (case systemctl lx mode ''restart'' SERVICE_SERVICE_NAME wd2 of
           (service_r, wd3) \<Rightarrow>
             (Cli_Ok (), start_unless lx mode service_r SERVICE_SERVICE_NAME
                (start_unless lx mode agent_r AGENT_SERVICE_NAME wd3))))))"

definition agent_stop :: "life_env \<Rightarrow> bool \<Rightarrow> world \<Rightarrow> unit cli \<times> world" where
  "agent_stop lx is_root wd = (case detect_systemd_mode lx is_root wd of
     (mode, wd1) \<Rightarrow> (case systemctl lx mode ''stop'' AGENT_SERVICE_NAME wd1 of
       (a, wd2) \<Rightarrow> (case systemctl lx mode ''stop'' SERVICE_SERVICE_NAME wd2 of
         (s, wd3) \<Rightarrow>
           (Cli_Ok (), if isl a \<and> isl s
             then snd (perform lx [''pkill'', ''-f'', ''nexus-link-service'']
                    (snd (perform lx [''pkill'', ''-f'', ''nexus-link-agent''] wd3)))
             else wd3))))"

text \<open>The log text, or nothing when \<open>journalctl\<close> fails (a hint is printed then).\<close>

definition journal_args :: "systemd_mode \<Rightarrow> u32 \<Rightarrow> string list" where
  "journal_args mode tail_n =
     [''-u'', AGENT_SERVICE_NAME, ''-u'', SERVICE_SERVICE_NAME, ''-n'', show_word tail_n,
      ''--no-pager'', ''-o'', ''short-iso''] @ (if mode = User_Mode then [''--user''] else [])"

definition agent_logs :: "life_env \<Rightarrow> bool \<Rightarrow> u32 \<Rightarrow> world \<Rightarrow> string option cli \<times> world" where
  "agent_logs lx is_root tail_n wd = (case detect_systemd_mode lx is_root wd of
     (mode, wd1) \<Rightarrow> (case perform lx (''journalctl'' # journal_args mode tail_n) wd1 of
       (r, wd2) \<Rightarrow> (Cli_Ok (case r of
          Exited code out err \<Rightarrow> if proc_success r then Some (lossy out) else None
        | Spawn_Error e \<Rightarrow> None), wd2)))"

end
