(* ===== verification/Cli_Main.thy ===== *)
theory Cli_Main
  imports Cli_Agent Cli_Upgrade
begin

text \<open>
  \<open>crates/nexus-link-cli/src/main.rs\<close>: from the parsed command line to the command and its exit
  status. \<open>clap\<close> does the parsing; its result, with the defaults of the attributes filled in, is a
  value of \<open>cli_args\<close>. What a command prints is not part of the result here.
\<close>

definition DEFAULT_API_URL :: string where "DEFAULT_API_URL = ''https://nexus.gatewarden.eu''"
definition DEFAULT_LOG_TAIL :: u32 where "DEFAULT_LOG_TAIL = 50"

datatype config_action = Show | Set string string | Get string | Path

datatype agent_action = Start | Stop | Restart | Logs u32

datatype commands =
    Register register_args
  | Preflight bool
  | Refresh string
  | Refresh_Cmd string
  | Status
  | Unregister bool
  | Reset bool
  | Upgrade bool
  | Config config_action
  | Agent agent_action

record cli_args =
  ca_command :: commands
  ca_config :: "string option"

text \<open>Everything a command can ask of its surroundings.\<close>

record main_env =
  me_life :: life_env
  me_lower :: "nat \<Rightarrow> nat list"
  me_machine :: machine
  me_register :: "register_post \<Rightarrow> string + register_reply"
  me_heartbeat :: "heartbeat \<Rightarrow> string + nat"
  me_upgrade :: upgrade_env
  me_stdin :: "string + string"
  me_root :: bool

text \<open>\<open>set_var("NEXUS_LINK_CONFIG", ..)\<close> when \<open>--config\<close> is given.\<close>

definition with_config_var :: "string option \<Rightarrow> env_vars \<Rightarrow> env_vars" where
  "with_config_var cfg vars = (case cfg of
     Some p \<Rightarrow> vars(''NEXUS_LINK_CONFIG'' \<mapsto> p) | None \<Rightarrow> vars)"

definition wire_config :: "string option \<Rightarrow> life_env \<Rightarrow> life_env" where
  "wire_config cfg lx =
     lx\<lparr>lx_cx := (lx_cx lx)\<lparr>cx_vars := with_config_var cfg (cx_vars (lx_cx lx))\<rparr>,
        lx_host := (lx_host lx)\<lparr>or_vars := with_config_var cfg (or_vars (lx_host lx))\<rparr>\<rparr>"

text \<open>An \<open>Err\<close> of \<open>main\<close> exits with 1, a panic with 101.\<close>

fun exit_status :: "'a cli \<Rightarrow> nat" where
  "exit_status (Cli_Ok a) = 0"
| "exit_status (Cli_Error e) = 1"
| "exit_status Cli_Panic = 101"

definition preflight_command :: "main_env \<Rightarrow> life_env \<Rightarrow> bool \<Rightarrow> world \<Rightarrow> nat \<times> world" where
  "preflight_command me lx setup wd =
     (let report = run_preflight (me_lower me) (me_machine me);
          verdict_status = (if pf_verdict report = Incompatible then 1 else 0)
      in if setup then
           (case perform_setup lx wd of
              (setup_rep, wd1) \<Rightarrow> (if sr_success setup_rep then verdict_status else 1, wd1))
         else (verdict_status, wd))"

definition config_command :: "cli_env \<Rightarrow> config_action \<Rightarrow> fs \<Rightarrow> nat \<times> fs" where
  "config_command cx act t = (case act of
     Show \<Rightarrow> (exit_status (config_show cx t), t)
   | Set key value \<Rightarrow> map_prod exit_status id (config_set cx key value t)
   | Get key \<Rightarrow> (exit_status (config_get cx key t), t)
   | Path \<Rightarrow> (0, t))"

definition agent_command :: "life_env \<Rightarrow> bool \<Rightarrow> agent_action \<Rightarrow> world \<Rightarrow> nat \<times> world" where
  "agent_command lx is_root act wd = (case act of
     Start \<Rightarrow> map_prod exit_status id (agent_start lx is_root wd)
   | Stop \<Rightarrow> map_prod exit_status id (agent_stop lx is_root wd)
   | Restart \<Rightarrow> map_prod exit_status id (agent_restart lx is_root wd)
   | Logs n \<Rightarrow> map_prod exit_status id (agent_logs lx is_root n wd))"

text \<open>A command that changes files directly leaves the history as it is.\<close>

definition on_files :: "(fs \<Rightarrow> nat \<times> fs) \<Rightarrow> world \<Rightarrow> nat \<times> world" where
  "on_files f wd = (case f (snd wd) of (n, t) \<Rightarrow> (n, (fst wd, t)))"

definition cli_main :: "main_env \<Rightarrow> cli_args \<Rightarrow> world \<Rightarrow> nat \<times> world" where
  "cli_main me ca wd =
     (let lx = wire_config (ca_config ca) (me_life me); cx = lx_cx lx in
      case ca_command ca of
        Register ra \<Rightarrow>
          (let r = register (me_lower me) (me_machine me) lx (me_register me) ra wd
           in (exit_status (re_outcome r), re_world r))
      | Preflight setup \<Rightarrow> preflight_command me lx setup wd
      | Refresh tok \<Rightarrow> on_files (\<lambda>t. case refresh cx (me_heartbeat me) tok t of
          (r, t', _) \<Rightarrow> (exit_status r, t')) wd
      | Refresh_Cmd tok \<Rightarrow> on_files (\<lambda>t. map_prod exit_status id (refresh_cmd cx tok t)) wd
      | Status \<Rightarrow> on_files (\<lambda>t. (exit_status (node_status cx t), t)) wd
      | Unregister forced \<Rightarrow> on_files (\<lambda>t.
          let u = unregister cx (me_stdin me) forced t in (exit_status (un_outcome u), un_fs u)) wd
      | Reset forced \<Rightarrow> map_prod exit_status id (reset lx (me_stdin me) forced wd)
      | Upgrade forced \<Rightarrow> on_files (\<lambda>t. case upgrade (me_upgrade me) forced t of
          (r, t') \<Rightarrow> (if isl r then 1 else 0, t')) wd
      | Config act \<Rightarrow> on_files (config_command cx act) wd
      | Agent act \<Rightarrow> agent_command lx (me_root me) act wd)"

end
