(* ===== verification/Path_Laws.thy ===== *)
theory Path_Laws
  imports File_Laws
begin

text \<open>
  Paths that meet no symbolic link: such a path is its own canonical form as long as it exists.
  Removing a subtree or a leaf keeps the tree well-formed.
\<close>

section \<open>Paths without links\<close>

definition plain :: "fs \<Rightarrow> path \<Rightarrow> bool" where
  "plain t p \<longleftrightarrow> ''..'' \<notin> set p \<and>
     list_all (\<lambda>i. case lookup t (take i p) of Some (Link _ _) \<Rightarrow> False | _ \<Rightarrow> True) [0..<Suc (length p)]"

lemma plain_not_link:
  "plain t (a @ b) \<Longrightarrow> lookup t a \<noteq> Some (Link x y)"
  by (force simp: plain_def list_all_iff dest!: bspec [of _ _ "length a"])

lemma plain_no_dots: "plain t p \<Longrightarrow> ''..'' \<notin> set p"
  by (simp add: plain_def)

lemma walk_plain:
  "walk (lookup t) n base cs = Some (q, m) \<Longrightarrow> plain t (base @ cs) \<Longrightarrow> q = base @ cs"
proof (induction cs arbitrary: base)
  case (Cons c cs)
  from Cons.prems(2) have p: "plain t ((base @ [c]) @ cs)" by simp
  have "c \<noteq> ''..''" using plain_no_dots [OF p] by auto
  moreover have "\<nexists>x y. lookup t (base @ [c]) = Some (Link x y)" using plain_not_link [OF p] by blast
  ultimately show ?case
    using Cons.prems(1) Cons.IH [OF _ p] by (auto split: option.splits node.splits if_splits)
qed simp

lemma look_wf_prefix:
  "look_wf look \<Longrightarrow> look (a @ b) \<noteq> None \<Longrightarrow> b \<noteq> [] \<Longrightarrow> look a = Some Dir"
proof (induction b rule: rev_induct)
  case (snoc x xs)
  have "look (a @ xs) = Some Dir"
    using snoc.prems by (auto simp: look_wf_def simp flip: append_assoc dest!: spec [of _ "(a @ xs) @ [x]"])
  with snoc show ?case by (cases xs) auto
qed simp

lemma walk_plain_exists:
  "fs_wf t \<Longrightarrow> plain t (base @ cs) \<Longrightarrow> lookup t (base @ cs) \<noteq> None \<Longrightarrow>
   walk (lookup t) n base cs = Some (base @ cs, n)"
proof (induction cs arbitrary: base)
  case (Cons c cs)
  let ?b = "base @ [c]"
  from Cons.prems have p: "plain t (?b @ cs)" and e: "lookup t (?b @ cs) \<noteq> None" by simp_all
  have c: "c \<noteq> ''..''" using plain_no_dots [OF p] by auto
  have ih: "walk (lookup t) n ?b cs = Some (?b @ cs, n)" by (rule Cons.IH [OF Cons.prems(1) p e])
  show ?case
  proof (cases "cs = []")
    case True
    with c e ih plain_not_link [OF p] show ?thesis by (auto split: node.split option.split)
  next
    case False
    have "lookup t ?b = Some Dir"
      using look_wf_prefix [of "lookup t" ?b cs] e False Cons.prems(1) by (simp add: fs_wf_def)
    with c ih show ?thesis by simp
  qed
qed simp

lemma canonical_plain:
  assumes "fs_wf t" and "plain t p"
  shows "canonicalize t p = (if lookup t p = None then None else Some p)"
proof (cases "lookup t p = None")
  case True
  then show ?thesis
    using walk_plain [of t MAX_LINKS "[]" p] assms(2)
    by (auto simp: canonicalize_def locate_def split: option.split)
next
  case False
  with walk_plain_exists [of t "[]" p MAX_LINKS] assms show ?thesis
    by (simp add: canonicalize_def locate_def)
qed

lemma exists_plain: "fs_wf t \<Longrightarrow> plain t p \<Longrightarrow> exists t p \<longleftrightarrow> lookup t p \<noteq> None"
  by (simp add: exists_def canonical_plain)

lemma plain_prefix: "plain t (a @ b) \<Longrightarrow> plain t a"
proof -
  assume p: "plain t (a @ b)"
  have "case lookup t (take i a) of Some (Link x y) \<Rightarrow> False | _ \<Rightarrow> True" for i
  proof -
    have "plain t (take i a @ (drop i a @ b))" using p by (simp flip: append_assoc)
    then show ?thesis using plain_not_link [of t "take i a" "drop i a @ b"]
      by (cases "lookup t (take i a)") (auto split: node.split)
  qed
  with plain_no_dots [OF p] show ?thesis by (simp add: plain_def list_all_iff)
qed

lemma plain_butlast: "plain t p \<Longrightarrow> plain t (butlast p)"
  using plain_prefix [of t "butlast p" "[last p]"] by (cases "p = []") auto

lemma entry_plain:
  assumes "fs_wf t" and "plain t p" and "p \<noteq> []" and "lookup t p \<noteq> None"
  shows "entry t p = Some p"
proof -
  have d: "lookup t (butlast p) = Some Dir" using assms by (auto simp: fs_wf_def look_wf_def)
  then have "canonicalize t (butlast p) = Some (butlast p)"
    using canonical_plain [OF assms(1) plain_butlast [OF assms(2)]] by simp
  with d assms(3) show ?thesis by (simp add: entry_def)
qed

section \<open>Removing\<close>

lemma starts_with_path_iff: "starts_with_path k a \<longleftrightarrow> (\<exists>r. k = a @ r)"
  by (metis append_eq_conv_conj append_take_drop_id starts_with_path_def)

lemma absent_below:
  assumes "fs_wf t" and "lookup t p = None" and "starts_with_path k p"
  shows "lookup t k = None"
proof (rule ccontr)
  assume k: "lookup t k \<noteq> None"
  from assms(3) obtain r where r: "k = p @ r" by (auto simp: starts_with_path_iff)
  with k assms(2) have "r \<noteq> []" by auto
  with look_wf_prefix [of "lookup t" p r] k r assms show False by (simp add: fs_wf_def)
qed

lemma lookup_prune:
  "a \<noteq> [] \<Longrightarrow> lookup (prune a kept t) k = (if starts_with_path k a \<and> \<not> kept k then None else lookup t k)"
proof -
  assume "a \<noteq> []"
  moreover have "map_of (filter (\<lambda>(k, _). \<not> starts_with_path k a \<or> kept k) xs) k
      = (if starts_with_path k a \<and> \<not> kept k then None else map_of xs k)" for xs :: "(path \<times> node) list"
    by (induction xs) auto
  ultimately show ?thesis by (auto simp: lookup_def prune_def starts_with_path_def)
qed

lemma fs_wf_without_subtree:
  assumes "fs_wf t" and "a \<noteq> []"
    and "\<And>k. lookup t' k = (if starts_with_path k a then None else lookup t k)"
  shows "fs_wf t'"
proof -
  have b: "starts_with_path p a" if "p \<noteq> []" "starts_with_path (butlast p) a" for p
  proof -
    from that obtain r where "butlast p = a @ r" by (auto simp: starts_with_path_iff)
    then have "p = a @ (r @ [last p])" using that(1) by (metis append.assoc append_butlast_last_id)
    then show ?thesis unfolding starts_with_path_iff by blast
  qed
  have "\<not> starts_with_path [] a" using assms(2) by (simp add: starts_with_path_def)
  then show ?thesis
    using assms(1,3) b unfolding fs_wf_def look_wf_def by (metis (no_types, lifting))
qed

text \<open>Removing part of a subtree leaves a tree when what is kept includes the directories above it.\<close>

lemma fs_wf_prune:
  assumes "fs_wf t" and "a \<noteq> []" and "\<And>k. kept k \<Longrightarrow> kept (butlast k)"
  shows "fs_wf (prune a kept t)"
proof -
  have b: "starts_with_path p a" if "p \<noteq> []" "starts_with_path (butlast p) a" for p
  proof -
    from that obtain r where "butlast p = a @ r" by (auto simp: starts_with_path_iff)
    then have "p = a @ (r @ [last p])" using that(1) by (metis append.assoc append_butlast_last_id)
    then show ?thesis unfolding starts_with_path_iff by blast
  qed
  have "\<not> starts_with_path [] a" using assms(2) by (simp add: starts_with_path_def)
  with assms(1,3) b show ?thesis
    unfolding fs_wf_def look_wf_def lookup_prune [OF assms(2)] by (metis (no_types, lifting))
qed

lemma fs_wf_without_leaf:
  assumes "fs_wf t" and "a \<noteq> []" and "lookup t a \<noteq> Some Dir"
    and "\<And>k. lookup t' k = (if k = a then None else lookup t k)"
  shows "fs_wf t'"
  using assms by (auto simp: fs_wf_def look_wf_def)

section \<open>Writing elsewhere\<close>

lemma modes_put [simp]: "modes (put_node q n t) = modes t"
  by (simp add: put_node_def)

lemma write_file_shape:
  assumes "fs_wf t" and "locate t p = Some q" and "write_file env p s t = (r, t')"
  shows "same_shape (lookup t) (lookup t') \<and> (\<forall>k. k \<noteq> q \<longrightarrow> lookup t' k = lookup t k) \<and> modes t' = modes t"
proof (cases "lookup t q = Some Dir")
  case True
  with assms show ?thesis by (simp add: write_file_def)
next
  case False
  have "regular (lookup t q)" by (rule locate_no_link [OF assms(2,1) False])
  moreover have "q \<noteq> []" using locate_writable [OF assms(2,1) False] by blast
  ultimately show ?thesis
    using assms(2,3) False by (auto simp: write_file_def same_shape_put lookup_put split: option.splits)
qed

lemma write_file_elsewhere:
  assumes "fs_wf t" and "locate t p \<noteq> locate t p'" and "write_file env p s t = (r, t')"
  shows "node_at t' p' = node_at t p'"
proof (cases "locate t p")
  case None
  with assms(3) show ?thesis by (simp add: write_file_def)
next
  case (Some q)
  from write_file_shape [OF assms(1) Some assms(3)] have
    s: "locate t' p' = locate t p'" and k: "\<forall>k. k \<noteq> q \<longrightarrow> lookup t' k = lookup t k"
    using same_shape_locate [of t t' p'] by auto
  from assms(2) Some k have "lookup t' q' = lookup t q'" if "locate t p' = Some q'" for q'
    using that by auto
  with s show ?thesis by (auto simp: node_at_def canonicalize_def split: option.splits)
qed

end
