(* ===== verification/Reset_Laws.thy ===== *)
theory Reset_Laws
  imports Cli_Lifecycle Path_Laws
begin

text \<open>
  A reset removes at most the paths it names, all of them when every removal succeeds, and touches
  nothing else: each step is a \<open>clears\<close>, which composes. What the privileged commands do to the files
  is stated in \<open>command_spec\<close>, failures of \<open>rm\<close> included.
\<close>

section \<open>Reset\<close>

text \<open>The commands a reset may run.\<close>

definition reset_action :: "action \<Rightarrow> bool" where
  "reset_action a = (case a of
     Ran argv \<Rightarrow> list_ex (\<lambda>svc. argv \<in> set
         [[''systemctl'', ''--user'', ''stop'', svc], [''systemctl'', ''--user'', ''disable'', svc],
          [''sudo'', ''systemctl'', ''stop'', svc], [''sudo'', ''systemctl'', ''disable'', svc],
          [''pkill'', ''-f'', svc]]) [''nexus-link-agent'', ''nexus-link-service'']
       \<or> argv \<in> set [[''sudo'', ''systemctl'', ''daemon-reload''], [''id'', SERVICE_USER],
          [''sudo'', ''userdel'', SERVICE_USER],
          [''sudo'', ''rm'', ''-rf'', SYSTEM_CONFIG_DIR], [''sudo'', ''rm'', ''-rf'', SYSTEM_STATE_DIR]]
       \<or> argv \<in> set (map (\<lambda>p. [''sudo'', ''rm'', ''-f'', p])
          ([AGENT_UNIT_PATH, SERVICE_UNIT_PATH] @ INSTALLED_BINARIES))
   | Teed p content \<Rightarrow> False)"

text \<open>From \<open>t\<close> to \<open>t'\<close> at most the locations \<open>D\<close> are removed, all of them when \<open>complete\<close>.\<close>

definition removes :: "path set \<Rightarrow> bool \<Rightarrow> fs \<Rightarrow> fs \<Rightarrow> bool" where
  "removes D complete t t' \<longleftrightarrow> fs_wf t' \<and>
     (\<forall>k. lookup t' k = (if k \<in> D then None else lookup t k)
       \<or> (k \<in> D \<and> \<not> complete \<and> lookup t' k = lookup t k))"

text \<open>
  What the commands do to the files: \<open>rm\<close> removes the entry it names, or, when it fails, a part of
  it; every other command may change the files \<open>sys\<close> of the operating system (user database, links of
  enabled units). A removal that fails half way keeps the directories above what it keeps.
\<close>

definition command_spec :: "(path \<Rightarrow> bool) \<Rightarrow> life_env \<Rightarrow> bool" where
  "command_spec sys lx \<longleftrightarrow> (\<forall>k. lx_kept lx k \<longrightarrow> lx_kept lx (butlast k)) \<and> (\<forall>h t. fs_wf t \<longrightarrow>
     (\<forall>p. removes (case entry t (path_of p) of
            Some a \<Rightarrow> if lookup t a = Some Dir then {} else {a} | None \<Rightarrow> {})
          (proc_success (or_run (lx_host lx) h [''sudo'', ''rm'', ''-f'', p])) t
          (lx_effect lx h (Ran [''sudo'', ''rm'', ''-f'', p]) t)) \<and>
     (\<forall>p. removes (case entry t (path_of p) of
            Some a \<Rightarrow> {k. starts_with_path k a} | None \<Rightarrow> {})
          (proc_success (or_run (lx_host lx) h [''sudo'', ''rm'', ''-rf'', p])) t
          (lx_effect lx h (Ran [''sudo'', ''rm'', ''-rf'', p]) t)) \<and>
     (\<forall>argv. take 2 argv \<noteq> [''sudo'', ''rm''] \<longrightarrow> fs_wf (lx_effect lx h (Ran argv) t) \<and>
       (\<forall>k. \<not> sys k \<longrightarrow> lookup (lx_effect lx h (Ran argv) t) k = lookup t k)))"

text \<open>Every \<open>rm\<close> among the actions, run after \<open>h\<close>, succeeded.\<close>

fun rm_succeeded :: "life_env \<Rightarrow> history \<Rightarrow> action list \<Rightarrow> bool" where
  "rm_succeeded lx h [] \<longleftrightarrow> True"
| "rm_succeeded lx h (a # as) \<longleftrightarrow>
     (case a of
        Ran argv \<Rightarrow> take 2 argv \<noteq> [''sudo'', ''rm''] \<or> proc_success (or_run (lx_host lx) h argv)
      | Teed p content \<Rightarrow> True) \<and> rm_succeeded lx (h @ [a]) as"

lemma rm_succeeded_append:
  "rm_succeeded lx h (as @ bs) \<longleftrightarrow> rm_succeeded lx h as \<and> rm_succeeded lx (h @ as) bs"
  by (induction as arbitrary: h) auto

definition USER_DIR :: "life_env \<Rightarrow> string" where
  "USER_DIR lx = dirs_home (cx_vars (lx_cx lx))"

definition all_removed :: "life_env \<Rightarrow> history \<Rightarrow> action list \<Rightarrow> bool" where
  "all_removed lx h as \<longleftrightarrow>
     rm_succeeded lx h as \<and> fault (cx_io (lx_cx lx)) (Op_remove (path_of (USER_DIR lx))) = None"

definition clears :: "(path \<Rightarrow> bool) \<Rightarrow> life_env \<Rightarrow> path set \<Rightarrow> world \<Rightarrow> world \<Rightarrow> bool" where
  "clears sys lx D wd wd' \<longleftrightarrow> fs_wf (snd wd') \<and>
     (\<exists>as. fst wd' = fst wd @ as \<and> list_all reset_action as
       \<and> (\<forall>k. \<not> sys k \<longrightarrow> lookup (snd wd') k = (if k \<in> D then None else lookup (snd wd) k)
            \<or> (k \<in> D \<and> \<not> all_removed lx (fst wd) as \<and> lookup (snd wd') k = lookup (snd wd) k)))"

lemma clears_refl: "fs_wf (snd wd) \<Longrightarrow> clears sys lx {} wd wd"
  by (simp add: clears_def)

lemma clearsI:
  assumes "fst wd' = fst wd @ [Ran argv]" and "reset_action (Ran argv)"
    and "removes D (proc_success (or_run (lx_host lx) (fst wd) argv)) (snd wd) (snd wd')"
    and "take 2 argv = [''sudo'', ''rm'']"
  shows "clears sys lx D wd wd'"
proof -
  have "lookup (snd wd') k = (if k \<in> D then None else lookup (snd wd) k)
      \<or> (k \<in> D \<and> \<not> all_removed lx (fst wd) [Ran argv] \<and> lookup (snd wd') k = lookup (snd wd) k)" for k
  proof (cases "proc_success (or_run (lx_host lx) (fst wd) argv)")
    case True
    with assms(3) show ?thesis by (auto simp: removes_def)
  next
    case False
    with assms(4) have "\<not> all_removed lx (fst wd) [Ran argv]" by (simp add: all_removed_def)
    with assms(3) False show ?thesis by (auto simp: removes_def)
  qed
  moreover have "fs_wf (snd wd')" using assms(3) by (simp add: removes_def)
  ultimately show ?thesis unfolding clears_def
    by (intro conjI exI [of _ "[Ran argv]"]) (use assms(1,2) in simp_all)
qed

lemma clears_trans:
  assumes "clears sys lx D wd wd1" and "clears sys lx E wd1 wd2"
  shows "clears sys lx (D \<union> E) wd wd2"
proof -
  from assms(1) obtain as where a: "fst wd1 = fst wd @ as" "list_all reset_action as"
    "\<And>k. \<not> sys k \<Longrightarrow> lookup (snd wd1) k = (if k \<in> D then None else lookup (snd wd) k)
       \<or> (k \<in> D \<and> \<not> all_removed lx (fst wd) as \<and> lookup (snd wd1) k = lookup (snd wd) k)"
    by (auto simp: clears_def)
  from assms(2) obtain bs where b: "fst wd2 = fst wd1 @ bs" "list_all reset_action bs"
    "\<And>k. \<not> sys k \<Longrightarrow> lookup (snd wd2) k = (if k \<in> E then None else lookup (snd wd1) k)
       \<or> (k \<in> E \<and> \<not> all_removed lx (fst wd1) bs \<and> lookup (snd wd2) k = lookup (snd wd1) k)"
    by (auto simp: clears_def)
  have s: "all_removed lx (fst wd) (as @ bs) \<longleftrightarrow> all_removed lx (fst wd) as \<and> all_removed lx (fst wd1) bs"
    by (auto simp: all_removed_def rm_succeeded_append a(1))
  show ?thesis unfolding clears_def
  proof (intro conjI exI [of _ "as @ bs"] allI impI)
    fix k assume "\<not> sys k"
    with a(3) [of k] b(3) [of k] s
    show "lookup (snd wd2) k = (if k \<in> D \<union> E then None else lookup (snd wd) k)
      \<or> (k \<in> D \<union> E \<and> \<not> all_removed lx (fst wd) (as @ bs) \<and> lookup (snd wd2) k = lookup (snd wd) k)"
      by (cases "k \<in> D"; cases "k \<in> E") auto
  qed (use assms a b in \<open>auto simp: clears_def\<close>)
qed

lemma clears_lookup:
  "clears sys lx D wd wd' \<Longrightarrow> \<not> sys k \<Longrightarrow> lookup (snd wd') k = None \<or> lookup (snd wd') k = lookup (snd wd) k"
  unfolding clears_def by (metis (full_types))

text \<open>A location named without links, none of whose prefixes belongs to the system.\<close>

definition target :: "(path \<Rightarrow> bool) \<Rightarrow> fs \<Rightarrow> path \<Rightarrow> bool" where
  "target sys t p \<longleftrightarrow> p \<noteq> [] \<and> plain t p \<and> list_all (\<lambda>i. \<not> sys (take i p)) [0..<Suc (length p)]"

lemma target_not_sys: "target sys t p \<Longrightarrow> \<not> sys p"
  by (auto simp: target_def list_all_iff dest!: bspec [of _ _ "length p"])

lemma target_clears:
  assumes "target sys (snd wd) p" and "clears sys lx D wd wd'"
  shows "target sys (snd wd') p"
proof -
  have "lookup (snd wd') (take i p) = None \<or> lookup (snd wd') (take i p) = lookup (snd wd) (take i p)"
    if "i \<in> set [0..<Suc (length p)]" for i
    using assms(1) that by (intro clears_lookup [OF assms(2)]) (auto simp: target_def list_all_iff)
  with assms(1) show ?thesis
    unfolding target_def plain_def list_all_iff
    by (metis (no_types, lifting) option.case(1))
qed

lemma leaf_clears:
  "target sys (snd wd) p \<Longrightarrow> lookup (snd wd) p \<noteq> Some Dir \<Longrightarrow> clears sys lx D wd wd' \<Longrightarrow>
   lookup (snd wd') p \<noteq> Some Dir"
  using target_not_sys [of sys "snd wd" p] clears_lookup [of sys lx D wd wd' p] by auto

lemma perform_clears:
  assumes "command_spec sys lx" and "fs_wf (snd wd)" and "perform lx argv wd = (r, wd')"
    and "take 2 argv \<noteq> [''sudo'', ''rm'']" and "reset_action (Ran argv)"
  shows "clears sys lx {} wd wd'"
  using assms by (cases wd) (auto simp: perform_def clears_def command_spec_def)

lemma rm_leaf_effect:
  assumes "command_spec sys lx" and "fs_wf t" and "entry t (path_of p) = Some a" and "lookup t a \<noteq> Some Dir"
  shows "removes {a} (proc_success (or_run (lx_host lx) h [''sudo'', ''rm'', ''-f'', p])) t
    (lx_effect lx h (Ran [''sudo'', ''rm'', ''-f'', p]) t)"
proof -
  have "removes (case entry t (path_of p) of
            Some a \<Rightarrow> if lookup t a = Some Dir then {} else {a} | None \<Rightarrow> {})
          (proc_success (or_run (lx_host lx) h [''sudo'', ''rm'', ''-f'', p])) t
          (lx_effect lx h (Ran [''sudo'', ''rm'', ''-f'', p]) t)"
    using assms(1,2) unfolding command_spec_def by blast
  with assms(3,4) show ?thesis by simp
qed

lemma rm_tree_effect:
  assumes "command_spec sys lx" and "fs_wf t" and "entry t (path_of p) = Some a"
  shows "removes {k. starts_with_path k a} (proc_success (or_run (lx_host lx) h [''sudo'', ''rm'', ''-rf'', p])) t
    (lx_effect lx h (Ran [''sudo'', ''rm'', ''-rf'', p]) t)"
proof -
  have "removes (case entry t (path_of p) of
            Some a \<Rightarrow> {k. starts_with_path k a} | None \<Rightarrow> {})
          (proc_success (or_run (lx_host lx) h [''sudo'', ''rm'', ''-rf'', p])) t
          (lx_effect lx h (Ran [''sudo'', ''rm'', ''-rf'', p]) t)"
    using assms(1,2) unfolding command_spec_def by blast
  with assms(3) show ?thesis by simp
qed

definition below :: "string \<Rightarrow> path set" where
  "below d = {k. starts_with_path k (path_of d)}"

lemma remove_leaf_clears:
  assumes "command_spec sys lx" and "fs_wf (snd wd)" and "target sys (snd wd) (path_of p)"
    and "lookup (snd wd) (path_of p) \<noteq> Some Dir" and "reset_action (Ran [''sudo'', ''rm'', ''-f'', p])"
    and "lookup (snd wd) (path_of p) \<noteq> None"
  shows "clears sys lx {path_of p} wd (snd (perform lx [''sudo'', ''rm'', ''-f'', p] wd))"
proof -
  obtain h t where wd: "wd = (h, t)" by fastforce
  have "entry t (path_of p) = Some (path_of p)"
    using assms wd by (intro entry_plain) (auto simp: target_def)
  from rm_leaf_effect [OF assms(1) _ this] assms(2,4) wd show ?thesis
    by (intro clearsI [OF _ assms(5)]) (simp_all add: perform_def)
qed

lemma remove_tree_clears:
  assumes "command_spec sys lx" and "fs_wf (snd wd)" and "target sys (snd wd) (path_of d)"
    and "reset_action (Ran [''sudo'', ''rm'', ''-rf'', d])"
  shows "clears sys lx (below d) wd (remove_system_dir lx d wd)"
proof -
  obtain h t where wd: "wd = (h, t)" by fastforce
  have p: "plain t (path_of d)" "path_of d \<noteq> []" "fs_wf t" using assms wd by (auto simp: target_def)
  show ?thesis
  proof (cases "lookup t (path_of d) = None")
    case True
    with p wd assms(2) absent_below [OF p(3) True] show ?thesis
      by (simp add: remove_system_dir_def exists_plain clears_def below_def)
  next
    case False
    then have "entry t (path_of d) = Some (path_of d)" using p by (intro entry_plain)
    from rm_tree_effect [OF assms(1) p(3) this] False p wd show ?thesis
      by (intro clearsI [OF _ assms(4)])
        (simp_all add: remove_system_dir_def exists_plain perform_def below_def)
  qed
qed

text \<open>A location to be removed that is no directory.\<close>

definition leaf :: "(path \<Rightarrow> bool) \<Rightarrow> fs \<Rightarrow> string \<Rightarrow> bool" where
  "leaf sys t p \<longleftrightarrow> target sys t (path_of p) \<and> lookup t (path_of p) \<noteq> Some Dir"

lemma leaf_kept: "leaf sys (snd wd) p \<Longrightarrow> clears sys lx D wd wd' \<Longrightarrow> leaf sys (snd wd') p"
  using target_clears leaf_clears unfolding leaf_def by blast

lemma clears_wf: "clears sys lx D wd wd' \<Longrightarrow> fs_wf (snd wd')"
  by (simp add: clears_def)

lemma clears_absent: "fs_wf (snd wd) \<Longrightarrow> lookup (snd wd) p = None \<Longrightarrow> clears sys lx {p} wd wd"
  by (simp add: clears_def)

lemma remove_unit_clears:
  assumes "command_spec sys lx" and "fs_wf (snd wd)" and "leaf sys (snd wd) p"
    and "reset_action (Ran [''sudo'', ''rm'', ''-f'', p])"
  shows "clears sys lx {path_of p} wd (remove_unit lx p wd)"
    and "clears sys lx {path_of p} wd (remove_binary lx p wd)"
proof -
  from assms have p: "plain (snd wd) (path_of p)" "target sys (snd wd) (path_of p)" "path_of p \<noteq> []"
    "lookup (snd wd) (path_of p) \<noteq> Some Dir" by (auto simp: leaf_def target_def)
  have "clears sys lx {path_of p} wd (if lookup (snd wd) (path_of p) \<noteq> None
      then snd (perform lx [''sudo'', ''rm'', ''-f'', p] wd) else wd)"
    using remove_leaf_clears [OF assms(1,2) p(2,4) assms(4)] clears_absent [OF assms(2)] by auto
  moreover have "present (snd wd) (path_of p) \<Longrightarrow> lookup (snd wd) (path_of p) \<noteq> None"
  proof -
    assume "present (snd wd) (path_of p)"
    then obtain a where a: "entry (snd wd) (path_of p) = Some a" "lookup (snd wd) a \<noteq> None"
      by (auto simp: present_def bind_eq_Some_conv)
    from a(1) p(3) canonical_plain [OF assms(2) plain_butlast [OF p(1)]]
    have "a = path_of p" by (auto simp: entry_Some split: if_splits)
    with a(2) show ?thesis by simp
  qed
  ultimately show "clears sys lx {path_of p} wd (remove_unit lx p wd)"
    "clears sys lx {path_of p} wd (remove_binary lx p wd)"
    using exists_plain [OF assms(2) p(1)] by (auto simp: remove_unit_def remove_binary_def)
qed

text \<open>A removal step applied to each of a list of leaves.\<close>

lemma fold_clears:
  assumes "\<And>p wd. p \<in> set ps \<Longrightarrow> fs_wf (snd wd) \<Longrightarrow> leaf sys (snd wd) p \<Longrightarrow>
      clears sys lx {path_of p} wd (step p wd)"
    and "fs_wf (snd wd)" and "list_all (leaf sys (snd wd)) ps"
  shows "clears sys lx (path_of ` set ps) wd (fold step ps wd)"
  using assms
proof (induction ps arbitrary: wd)
  case (Cons p ps)
  have p: "clears sys lx {path_of p} wd (step p wd)" using Cons.prems by simp
  have "list_all (leaf sys (snd (step p wd))) ps"
    using Cons.prems(3) leaf_kept [OF _ p] by (auto simp: list_all_iff)
  then have "clears sys lx (path_of ` set ps) (step p wd) (fold step ps (step p wd))"
    using Cons.prems(1) clears_wf [OF p] by (intro Cons.IH) auto
  from clears_trans [OF p this] show ?case by simp
qed (simp add: clears_refl)

lemma stop_service_clears:
  assumes "command_spec sys lx" and "fs_wf (snd wd)" and "svc \<in> {''nexus-link-agent'', ''nexus-link-service''}"
  shows "clears sys lx {} wd (stop_service lx svc wd)"
proof -
  have c: "clears sys lx {} w (snd (perform lx argv w))"
    if "fs_wf (snd w)" "take 2 argv \<noteq> [''sudo'', ''rm'']" "reset_action (Ran argv)" for argv w
    using that by (intro perform_clears [OF assms(1), of _ argv "fst (perform lx argv w)"]) simp_all
  have s: "clears sys lx {} wd w2"
    if "clears sys lx {} wd w" "take 2 argv \<noteq> [''sudo'', ''rm'']" "reset_action (Ran argv)"
      "w2 = snd (perform lx argv w)" for argv w w2
    using clears_trans [OF that(1) c [OF clears_wf [OF that(1)] that(2,3)]] that(4) by simp
  have a: "reset_action (Ran argv)" if "argv \<in> {[''systemctl'', ''--user'', ''stop'', svc],
      [''systemctl'', ''--user'', ''disable'', svc], [''sudo'', ''systemctl'', ''stop'', svc],
      [''sudo'', ''systemctl'', ''disable'', svc], [''pkill'', ''-f'', svc]}" for argv
    using that assms(3) by (auto simp: reset_action_def)
  obtain r1 w1 where 1: "perform lx [''systemctl'', ''--user'', ''stop'', svc] wd = (r1, w1)" by (rule prod.exhaust)
  obtain r2 w2 where 2: "perform lx [''sudo'', ''systemctl'', ''stop'', svc] w1 = (r2, w2)" by (rule prod.exhaust)
  have w1: "clears sys lx {} wd w1" 
    by (rule s [OF clears_refl [OF assms(2)], of "[''systemctl'', ''--user'', ''stop'', svc]"])
      (simp_all add: 1 a)
  have w2: "clears sys lx {} wd w2" 
    by (rule s [OF w1, of "[''sudo'', ''systemctl'', ''stop'', svc]"]) (simp_all add: 2 a)
  have d: "clears sys lx {} wd (disable_service lx svc user w)" if "clears sys lx {} wd w" for user w
    unfolding disable_service_def by (rule s [OF that _ _ refl]) (auto intro: a)
  have k: "clears sys lx {} wd (snd (perform lx [''pkill'', ''-f'', svc] w2))"
    by (rule s [OF w2 _ _ refl]) (simp_all add: a)
  show ?thesis using 1 2 w1 w2 d k by (simp add: stop_service_def)
qed

lemma stop_services_clears:
  assumes "command_spec sys lx" and "fs_wf (snd wd)"
  shows "clears sys lx {} wd (stop_and_disable_services lx wd)"
proof -
  have a: "clears sys lx {} wd (stop_service lx ''nexus-link-agent'' wd)"
    by (rule stop_service_clears [OF assms]) simp
  have "clears sys lx {} (stop_service lx ''nexus-link-agent'' wd)
      (stop_service lx ''nexus-link-service'' (stop_service lx ''nexus-link-agent'' wd))"
    by (rule stop_service_clears [OF assms(1) clears_wf [OF a]]) simp
  from clears_trans [OF a this] show ?thesis by (simp add: stop_and_disable_services_def)
qed

lemma remove_user_clears:
  assumes "command_spec sys lx" and "fs_wf (snd wd)"
  shows "clears sys lx {} wd (remove_system_user lx wd)"
proof -
  obtain r w1 where 1: "perform lx [''id'', SERVICE_USER] wd = (r, w1)" by (rule prod.exhaust)
  have w1: "clears sys lx {} wd w1"
    by (rule perform_clears [OF assms 1]) (simp_all add: reset_action_def)
  obtain r2 w2 where 2: "perform lx [''sudo'', ''userdel'', SERVICE_USER] w1 = (r2, w2)" by (rule prod.exhaust)
  have "clears sys lx {} w1 w2"
    by (rule perform_clears [OF assms(1) clears_wf [OF w1] 2]) (simp_all add: reset_action_def)
  from w1 clears_trans [OF w1 this] 1 2 show ?thesis
    by (simp add: remove_system_user_def split: proc_result.split)
qed

lemma remove_home_clears:
  assumes "command_spec sys lx" and "fs_wf (snd wd)" and "target sys (snd wd) (path_of (USER_DIR lx))"
    and "lookup (snd wd) (path_of (USER_DIR lx)) \<in> {None, Some Dir}"
  shows "clears sys lx (below (USER_DIR lx)) wd (remove_dir_if_exists lx (USER_DIR lx) wd)"
proof -
  let ?d = "path_of (USER_DIR lx)" and ?io = "cx_io (lx_cx lx)"
  obtain h t where wd: "wd = (h, t)" by fastforce
  have p: "plain t ?d" "?d \<noteq> []" "fs_wf t" using assms wd by (auto simp: target_def)
  show ?thesis
  proof (cases "lookup t ?d = None")
    case True
    with p wd assms(2) absent_below [OF p(3) True] show ?thesis
      by (simp add: remove_dir_if_exists_def exists_plain clears_def below_def)
  next
    case False
    then have "entry t ?d = Some ?d" using p by (intro entry_plain)
    moreover have "lookup t ?d = Some Dir" using False assms(4) wd by auto
    moreover define kept where "kept = (if fault ?io (Op_remove ?d) = None then (\<lambda>_. False) else lx_kept lx)"
    ultimately have r: "remove_dir_if_exists lx (USER_DIR lx) wd = (h, prune ?d kept t)"
      using p wd by (simp add: remove_dir_if_exists_def exists_plain remove_dir_all_def split: option.split)
    have "kept k \<Longrightarrow> kept (butlast k)" for k
      using assms(1) by (simp add: kept_def command_spec_def split: if_splits)
    then have "fs_wf (prune ?d kept t)" by (rule fs_wf_prune [OF p(3,2)])
    with r wd lookup_prune [OF p(2), of kept t] show ?thesis
      by (auto simp: clears_def below_def all_removed_def kept_def)
  qed
qed

lemma reset_commands:
  "p \<in> {AGENT_UNIT_PATH, SERVICE_UNIT_PATH} \<union> set INSTALLED_BINARIES \<Longrightarrow>
   reset_action (Ran [''sudo'', ''rm'', ''-f'', p])"
  "d \<in> {SYSTEM_CONFIG_DIR, SYSTEM_STATE_DIR} \<Longrightarrow> reset_action (Ran [''sudo'', ''rm'', ''-rf'', d])"
  by (auto simp: reset_action_def)

definition UNIT_PATHS :: "string list" where
  "UNIT_PATHS = [AGENT_UNIT_PATH, SERVICE_UNIT_PATH]"

text \<open>The files are where they are expected: no links on the way, directories where a directory is
  meant.\<close>

definition reset_ready :: "(path \<Rightarrow> bool) \<Rightarrow> life_env \<Rightarrow> fs \<Rightarrow> bool" where
  "reset_ready sys lx t \<longleftrightarrow>
     list_all (\<lambda>d. target sys t (path_of d)) [USER_DIR lx, SYSTEM_CONFIG_DIR, SYSTEM_STATE_DIR]
     \<and> list_all (leaf sys t) (UNIT_PATHS @ INSTALLED_BINARIES)
     \<and> lookup t (path_of (USER_DIR lx)) \<in> {None, Some Dir}"

text \<open>The locations that a reset is to remove, as its own steps name them.\<close>

definition reset_removes :: "life_env \<Rightarrow> path set" where
  "reset_removes lx = below (USER_DIR lx) \<union> below SYSTEM_CONFIG_DIR \<union> below SYSTEM_STATE_DIR
     \<union> path_of ` set (UNIT_PATHS @ INSTALLED_BINARIES)"

lemma remove_units_clears:
  assumes "command_spec sys lx" and "fs_wf (snd wd)" and "list_all (leaf sys (snd wd)) UNIT_PATHS"
  shows "clears sys lx (path_of ` set UNIT_PATHS) wd (remove_systemd_units lx wd)"
proof -
  let ?w = "fold (remove_unit lx) UNIT_PATHS wd"
  have u: "clears sys lx (path_of ` set UNIT_PATHS) wd ?w"
    by (rule fold_clears [OF _ assms(2,3)])
      (auto simp: UNIT_PATHS_def intro!: remove_unit_clears(1) [OF assms(1)] reset_commands)
  obtain r w where r: "perform lx [''sudo'', ''systemctl'', ''daemon-reload''] ?w = (r, w)"
    by (rule prod.exhaust)
  have "clears sys lx {} ?w w"
    by (rule perform_clears [OF assms(1) clears_wf [OF u] r]) (simp_all add: reset_action_def)
  from clears_trans [OF u this] r show ?thesis
    by (simp add: remove_systemd_units_def UNIT_PATHS_def)
qed

lemma reset_steps_clear:
  assumes spec: "command_spec sys lx" and wf: "fs_wf (snd wd)" and ready: "reset_ready sys lx (snd wd)"
  shows "clears sys lx (reset_removes lx) wd (reset_steps lx wd)"
proof -
  let ?w1 = "stop_and_disable_services lx wd" let ?w2 = "remove_systemd_units lx ?w1"
  let ?w3 = "remove_dir_if_exists lx (USER_DIR lx) ?w2"
  let ?w4 = "remove_system_dir lx SYSTEM_CONFIG_DIR ?w3"
  let ?w5 = "remove_system_dir lx SYSTEM_STATE_DIR ?w4" let ?w6 = "remove_installed_binaries lx ?w5"
  from ready have dirs: "target sys (snd wd) (path_of d)"
    if "d \<in> {USER_DIR lx, SYSTEM_CONFIG_DIR, SYSTEM_STATE_DIR}" for d
    using that by (auto simp: reset_ready_def)
  have leaves: "list_all (leaf sys (snd w)) ps"
    if "clears sys lx D wd w" "set ps \<subseteq> set (UNIT_PATHS @ INSTALLED_BINARIES)" for w D ps
    using ready that leaf_kept [OF _ that(1)] by (auto simp: reset_ready_def list_all_iff)
  have c1: "clears sys lx {} wd ?w1" by (rule stop_services_clears [OF spec wf])
  have c2: "clears sys lx (path_of ` set UNIT_PATHS) wd ?w2"
    using clears_trans [OF c1 remove_units_clears [OF spec clears_wf [OF c1] leaves [OF c1]]] by simp
  have home: "lookup (snd ?w2) (path_of (USER_DIR lx)) \<in> {None, Some Dir}"
    using clears_lookup [OF c2 target_not_sys [OF dirs, of "USER_DIR lx"]] ready
    by (auto simp: reset_ready_def)
  have c3: "clears sys lx (path_of ` set UNIT_PATHS \<union> below (USER_DIR lx)) wd ?w3"
    by (rule clears_trans [OF c2 remove_home_clears [OF spec clears_wf [OF c2]]])
      (use home ready target_clears [OF dirs c2, of "USER_DIR lx"] in \<open>auto simp: reset_ready_def\<close>)
  have c4: "clears sys lx (path_of ` set UNIT_PATHS \<union> below (USER_DIR lx) \<union> below SYSTEM_CONFIG_DIR) wd ?w4"
    by (rule clears_trans [OF c3 remove_tree_clears [OF spec clears_wf [OF c3] target_clears [OF dirs c3]]])
      (simp_all add: reset_commands)
  have c5: "clears sys lx (path_of ` set UNIT_PATHS \<union> below (USER_DIR lx) \<union> below SYSTEM_CONFIG_DIR
      \<union> below SYSTEM_STATE_DIR) wd ?w5"
    by (rule clears_trans [OF c4 remove_tree_clears [OF spec clears_wf [OF c4] target_clears [OF dirs c4]]])
      (simp_all add: reset_commands)
  have "clears sys lx (path_of ` set INSTALLED_BINARIES) ?w5 ?w6"
    unfolding remove_installed_binaries_def
    by (rule fold_clears [OF _ clears_wf [OF c5] leaves [OF c5]])
      (auto intro!: remove_unit_clears(2) [OF spec] reset_commands)
  note c6 = clears_trans [OF c5 this]
  note c7 = clears_trans [OF c6 remove_user_clears [OF spec clears_wf [OF c6]]]
  have "reset_removes lx = path_of ` set UNIT_PATHS \<union> below (USER_DIR lx) \<union> below SYSTEM_CONFIG_DIR
      \<union> below SYSTEM_STATE_DIR \<union> path_of ` set INSTALLED_BINARIES \<union> {}"
    by (auto simp: reset_removes_def)
  with c7 show ?thesis by (simp add: reset_steps_def USER_DIR_def)
qed

section \<open>Properties\<close>

text \<open>C12. A forced reset, on a host where the locations it is about are named without links, and
  whatever the outcome of its commands (an \<open>rm\<close> that fails removes a part of what it names): it reports
  success in every case; it ran none but the listed commands, none of them Docker's; it removed nothing
  but the user directory, the configuration directory and the state directory with what is below them,
  the two system units and the three binaries of \<open>/usr/local/bin\<close>; and when every removal succeeded,
  all of these are gone. Every other file survives: the compose directory, but also the units that the
  agent wrote for a user and a binary installed elsewhere.\<close>

theorem reset_removes_exactly:
  assumes "command_spec sys lx" and "fs_wf t" and "reset_ready sys lx t" and "\<not> sys k"
    and "reset lx stdin True (h, t) = (r, (h', t'))"
  shows "r = Cli_Ok () \<and> (\<exists>as. h' = h @ as \<and> list_all reset_action as
    \<and> (if k \<in> reset_removes lx
       then (if all_removed lx h as then lookup t' k = None else lookup t' k \<in> {None, lookup t k})
       else lookup t' k = lookup t k))"
proof -
  have "clears sys lx (reset_removes lx) (h, t) (reset_steps lx (h, t))"
    by (rule reset_steps_clear) (use assms(1-3) in simp_all)
  moreover have "r = Cli_Ok ()" "reset_steps lx (h, t) = (h', t')"
    using assms(5) by (simp_all add: reset_def)
  ultimately obtain as where "r = Cli_Ok ()" "h' = h @ as" "list_all reset_action as"
    "lookup t' k = (if k \<in> reset_removes lx then None else lookup t k)
      \<or> (k \<in> reset_removes lx \<and> \<not> all_removed lx h as \<and> lookup t' k = lookup t k)"
    using assms(4) by (auto simp: clears_def)
  then show ?thesis by (intro conjI exI [of _ as]) auto
qed

text \<open>A host on which every command succeeds, and \<open>rm\<close> removes.\<close>

definition rm_effect :: "history \<Rightarrow> action \<Rightarrow> fs \<Rightarrow> fs" where
  "rm_effect h a t = (case a of
     Ran [c, r, f, p] \<Rightarrow>
       if c = ''sudo'' \<and> r = ''rm'' then
         (case entry t (path_of p) of
            None \<Rightarrow> t
          | Some e \<Rightarrow>
              if f = ''-rf'' then prune e (\<lambda>_. False) t
              else if f = ''-f'' \<and> lookup t e \<noteq> Some Dir then del_node e t else t)
       else t
   | _ \<Rightarrow> t)"

definition reset_host :: life_env where
  "reset_host =
     \<lparr>lx_cx = \<lparr>cx_vars = (\<lambda>_. None), cx_io = no_faults, cx_toml = sample_toml,
               cx_run = (\<lambda>_. Exited (Some 0) [] [])\<rparr>,
      lx_host = \<lparr>or_run = (\<lambda>_ _. Exited (Some 0) [] []), or_tee = (\<lambda>_ _. Inr True),
        or_exists = (\<lambda>_ _. False), or_link = (\<lambda>_ _. False), or_canon = (\<lambda>_ _. None),
        or_exe = Inr ''/usr/local/bin/nexus-link'', or_vars = (\<lambda>_. None)\<rparr>,
      lx_effect = rm_effect, lx_kept = (\<lambda>_. False)\<rparr>"

lemma reset_host_spec: "command_spec (\<lambda>_. False) reset_host"
proof -
  have e: "lx_effect reset_host = rm_effect" by (simp add: reset_host_def)
  have w: "rm_effect h (Ran argv) t = t" if "take 2 argv \<noteq> [''sudo'', ''rm'']" for h argv t
    using that by (auto simp: rm_effect_def split: list.split)
  have wf1: "fs_wf (rm_effect h (Ran [''sudo'', ''rm'', f, p]) t)" if "fs_wf t" for h f p t
    using that entry_ne by (auto simp: rm_effect_def intro!: fs_wf_prune fs_wf_del split: option.split)
  have f: "lookup (rm_effect h (Ran [''sudo'', ''rm'', ''-f'', p]) t) k =
      (if entry t (path_of p) = Some k \<and> lookup t k \<noteq> Some Dir then None else lookup t k)" for h t p k
    by (auto simp: rm_effect_def lookup_del entry_ne split: option.split)
  have rf: "lookup (rm_effect h (Ran [''sudo'', ''rm'', ''-rf'', p]) t) k =
      (case entry t (path_of p) of
         Some a \<Rightarrow> if starts_with_path k a then None else lookup t k | None \<Rightarrow> lookup t k)" for h t p k
    by (auto simp: rm_effect_def lookup_prune entry_ne split: option.split)
  show ?thesis unfolding command_spec_def e removes_def using f rf wf1
    by (simp add: w reset_host_def split: option.split)
qed

definition installed_fs :: fs where
  "installed_fs = \<lparr>tree =
     [([''etc''], Dir), ([''etc'', ''nexus-link''], Dir),
      ([''etc'', ''nexus-link'', ''config.toml''], File ''secret''),
      ([''root''], Dir), ([''root'', ''.nexus-link''], Dir),
      ([''root'', ''.config''], Dir), ([''root'', ''.config'', ''systemd''], Dir),
      ([''root'', ''.config'', ''systemd'', ''user''], Dir),
      ([''root'', ''.config'', ''systemd'', ''user'', ''nexus-link-agent.service''], File ''unit''),
      ([''usr''], Dir), ([''usr'', ''local''], Dir), ([''usr'', ''local'', ''bin''], Dir),
      ([''usr'', ''local'', ''bin'', ''nexus-link''], File ''elf''),
      ([''opt''], Dir), ([''opt'', ''compose.yaml''], File ''services'')], modes = []\<rparr>"

lemma installed_wf: "fs_wf installed_fs"
  by (rule fs_wf_check) code_simp

lemma installed_ready: "reset_ready (\<lambda>_. False) reset_host installed_fs"
  by code_simp

lemma reset_host_succeeds: "all_removed reset_host h as"
proof -
  have "rm_succeeded reset_host h as"
    by (induction as arbitrary: h) (simp_all add: reset_host_def split: action.split)
  then show ?thesis by (simp add: all_removed_def reset_host_def no_faults_def)
qed

text \<open>The configuration of the system is gone; the unit that the agent wrote for the user is still
  there.\<close>

lemma reset_removes_exactly_witness:
  "lookup (snd (snd (reset reset_host (Inl []) True ([], installed_fs))))
     [''etc'', ''nexus-link'', ''config.toml''] = None
   \<and> lookup installed_fs [''etc'', ''nexus-link'', ''config.toml''] = Some (File ''secret'')
   \<and> lookup (snd (snd (reset reset_host (Inl []) True ([], installed_fs))))
     [''root'', ''.config'', ''systemd'', ''user'', ''nexus-link-agent.service''] = Some (File ''unit'')"
proof -
  let ?c = "[''etc'', ''nexus-link'', ''config.toml'']"
  let ?u = "[''root'', ''.config'', ''systemd'', ''user'', ''nexus-link-agent.service'']"
  obtain r h' t' where r: "reset reset_host (Inl []) True ([], installed_fs) = (r, (h', t'))"
    using prod_cases3 by blast
  have f: "\<not> (\<lambda>_. False) k" for k :: path by simp
  have k: "?c \<in> reset_removes reset_host"
    by (simp add: reset_removes_def below_def starts_with_path_def path_of_def SYSTEM_CONFIG_DIR_def)
  have u: "?u \<notin> reset_removes reset_host"
    unfolding reset_removes_def below_def image_Un Un_iff mem_Collect_eq image_set by code_simp
  have "lookup t' ?c = None"
    using reset_removes_exactly [OF reset_host_spec installed_wf installed_ready f r, of ?c] k
      reset_host_succeeds by auto
  moreover have "lookup t' ?u = lookup installed_fs ?u"
    using reset_removes_exactly [OF reset_host_spec installed_wf installed_ready f r, of ?u] u by auto
  moreover have "lookup installed_fs ?c = Some (File ''secret'')" "lookup installed_fs ?u = Some (File ''unit'')"
    by code_simp+
  ultimately show ?thesis using r by simp
qed

end
