(* ===== verification/Cli_Laws.thy ===== *)
theory Cli_Laws
  imports Cli_Config Service_State Replace_Laws Path_Laws
begin

text \<open>
  The configuration commands end to end, wherever the configuration file is: what a key is set to is
  what is read back, every outcome of rotating the node token, and the two cases in which the
  migration of the next load defeats a command.
\<close>

section \<open>Saving and loading through the commands\<close>

definition saved_form :: "config \<Rightarrow> config" where
  "saved_form c = migrate_legacy_fields (c\<lparr>api := (api c)\<lparr>push_interval_secs := None\<rparr>\<rparr>)"

lemma cx_save_Ok:
  "cx_save cx c t = (Cli_Ok u, t') \<longleftrightarrow>
     save (cx_toml cx) (cx_io cx) (cx_vars cx) c t = (Inr (), t')"
  by (auto simp: cx_save_def split: prod.split sum.split)

text \<open>A file that can be read is reached through directories only.\<close>

lemma parent_is_dir:
  assumes "fs_wf t" and "canonicalize t p = Some q" and "lookup t q \<noteq> Some Dir"
  shows "p \<noteq> [] \<and> is_dir t (butlast p)"
proof -
  from assms(2) obtain m where w: "walk (lookup t) MAX_LINKS [] p = Some (q, m)"
    by (auto simp: canonicalize_def locate_def split: option.splits if_splits)
  have ne: "p \<noteq> []" using w assms(3) by auto
  with w have "walk (lookup t) MAX_LINKS [] (butlast p @ [last p]) = Some (q, m)" by simp
  from walk_prefix_dir [OF this] assms(1) obtain d k
    where "walk (lookup t) MAX_LINKS [] (butlast p) = Some (d, k)" "lookup t d = Some Dir"
    by (auto simp: fs_wf_def)
  with ne show ?thesis by (simp add: is_dir_def node_at_def canonicalize_def locate_def)
qed

text \<open>Saving over a file: whatever fails, no other location changes; on success the file holds the
  whole new text.\<close>

lemma save_content_over:
  assumes "fs_wf t" and "canonicalize t p = Some q" and "lookup t q \<noteq> Some Dir"
    and "save_content ser env c p t = (r, t')"
  shows "(lookup t' = lookup t \<and> r \<noteq> Inr ()) \<or> (\<exists>s n. toml_to ser c = Inr s
      \<and> lookup t' = lookup (put_node q (File (take n s)) t) \<and> (r = Inr () \<longrightarrow> take n s = s))"
proof -
  from assms(2) have l: "locate t p = Some q"
    by (auto simp: canonicalize_def split: option.splits if_splits)
  have put: "lookup (snd (set_permissions env p 384 t1)) = lookup t1" for t1
    by (rule set_permissions_lookup)
  show ?thesis
  proof (cases "toml_to ser c")
    case (Inl e)
    with assms(4) show ?thesis by (auto simp: save_content_def)
  next
    case (Inr s)
    obtain w t1 where w: "write_file env p s t = (w, t1)" by fastforce
    obtain m t2 where m: "set_permissions env p 384 t1 = (m, t2)" by fastforce
    with put [of t1] have l2: "lookup t2 = lookup t1" by simp
    show ?thesis
    proof (cases w)
      case (Inl e)
      with w assms(3) l have "lookup t1 = lookup t \<or> (\<exists>n. lookup t1 = lookup (put_node q (File (take n s)) t))"
        by (auto simp: write_file_def split: option.splits)
      with Inl Inr w assms(4) show ?thesis by (auto simp: save_content_def)
    next
      case (Inr u)
      with w l have "t1 = put_node q (File s) t" by (auto simp: write_file_Inr)
      then have "lookup t' = lookup (put_node q (File (take (length s) s)) t)"
        using \<open>toml_to ser c = Inr s\<close> Inr w m l2 assms(4) by (cases m) (auto simp: save_content_def)
      with \<open>toml_to ser c = Inr s\<close> show ?thesis by (intro disjI2 exI [of _ s] exI [of _ "length s"]) simp
    qed
  qed
qed

lemma save_over:
  assumes "fs_wf t" and "canonicalize t (path_of path) = Some q" and "lookup t q \<noteq> Some Dir"
    and "save_to ser env c path t = (r, t')"
  shows "(lookup t' = lookup t \<and> r \<noteq> Inr ()) \<or> (\<exists>s n. toml_to ser c = Inr s
      \<and> lookup t' = lookup (put_node q (File (take n s)) t) \<and> (r = Inr () \<longrightarrow> take n s = s))"
proof -
  let ?p = "path_of path"
  from parent_is_dir [OF assms(1-3)] have p: "?p \<noteq> []" "is_dir t (butlast ?p)" by simp_all
  define t1 where "t1 = (if bare_name path then t else snd (set_permissions env (butlast ?p) 448 t))"
  have l1: "lookup t1 = lookup t" by (simp add: t1_def set_permissions_lookup)
  have "q \<noteq> []" using assms(3) by auto
  with l1 have l2: "lookup (put_node q n t1) = lookup (put_node q n t)" for n
    by (simp add: lookup_put fun_eq_iff)
  have "fs_wf t1" using assms(1) l1 by (simp add: fs_wf_def)
  from save_content_over [OF this, of ?p q ser env c r t'] assms(2,3) l1 l2
    same_lookup_canonicalize [OF l1]
  have over: "save_content ser env c ?p t1 = (r, t') \<Longrightarrow> ?thesis" by simp
  show ?thesis
  proof (cases "bare_name path")
    case True
    with assms(4) over show ?thesis by (simp add: save_to_def Let_def t1_def)
  next
    case False
    show ?thesis
    proof (cases "fault env (Op_create_dir_all (butlast ?p))")
      case None
      with create_dir_all_existing [OF assms(1) p(2), of env] False p assms(4) over show ?thesis
        by (simp add: save_to_def Let_def t1_def)
    next
      case (Some e)
      with False p assms(4) show ?thesis by (auto simp: save_to_def Let_def create_dir_all_def)
    qed
  qed
qed

text \<open>The configuration file in effect is there and can be read.\<close>

definition config_present :: "cli_env \<Rightarrow> fs \<Rightarrow> bool" where
  "config_present cx t \<longleftrightarrow> (let p = path_of (effective_config_path (cx_vars cx) t) in
     is_file t p \<and> fault (cx_io cx) (Op_read p) = None)"

lemma loaded_present:
  assumes "cx_load cx t = Inr c"
  shows "\<exists>q s. canonicalize t (path_of (effective_config_path (cx_vars cx) t)) = Some q
    \<and> lookup t q = Some (File s) \<and> config_present cx t"
  using assms
  by (auto simp: cx_load_def load_def load_from_def read_to_string_def read_bytes_def node_at_def
      config_present_def is_file_def bind_eq_Some_conv split: sum.splits option.splits node.splits)

text \<open>Rewriting the file leaves the effective path what it is.\<close>

lemma put_file_exists:
  assumes "q \<noteq> []" and "regular (lookup t q)" and "lookup t q \<noteq> None"
    and "lookup t' = lookup (put_node q (File s) t)"
  shows "exists t' p = exists t p"
proof -
  have "same_shape (lookup t) (lookup t')" using same_shape_put [OF assms(1,2)] assms(4) by simp
  then have "locate t' p = locate t p" by (simp flip: same_shape_locate)
  with assms show ?thesis
    by (auto simp: exists_def canonicalize_def lookup_put split: option.splits)
qed

lemma effective_path_kept:
  assumes "\<And>p. exists t' p = exists t p"
  shows "effective_config_path vars t' = effective_config_path vars t"
  unfolding effective_config_path_def assms ..

lemma canonical_regular:
  "canonicalize t p = Some q \<Longrightarrow> fs_wf t \<Longrightarrow> lookup t q \<noteq> Some Dir \<Longrightarrow> q \<noteq> [] \<and> regular (lookup t q)"
  using locate_no_link [of t p q] locate_writable [of t p q]
  by (auto simp: canonicalize_def split: option.splits if_splits)

lemma saved_then_loaded:
  assumes "fs_wf t" and "config_present cx t" and "toml_spec (cx_toml cx) c"
    and "cx_save cx c t = (Cli_Ok u, t')"
  shows "cx_load cx t' = Inr (saved_form c)"
proof -
  let ?path = "effective_config_path (cx_vars cx) t"
  from assms(4) have s: "save_to (cx_toml cx) (cx_io cx) c ?path t = (Inr (), t')"
    by (simp add: cx_save_Ok save_def)
  from assms(2) obtain q x0 where q: "canonicalize t (path_of ?path) = Some q" "lookup t q = Some (File x0)"
    and f: "fault (cx_io cx) (Op_read (path_of ?path)) = None"
    by (auto simp: config_present_def is_file_def node_at_def bind_eq_Some_conv Let_def
        split: option.splits node.splits)
  then have d: "lookup t q \<noteq> Some Dir" by simp
  from load_from_saved [OF assms(1,3) s f]
  have l: "load_from (cx_toml cx) (cx_io cx) t' ?path = Inr (saved_form c)" by (simp add: saved_form_def)
  from save_over [OF assms(1) q(1) d s] obtain x where x: "lookup t' = lookup (put_node q (File x) t)" by auto
  have "exists t' p = exists t p" for p
    using canonical_regular [OF q(1) assms(1) d] q(2) by (intro put_file_exists [OF _ _ _ x]) simp_all
  then have "effective_config_path (cx_vars cx) t' = ?path" by (rule effective_path_kept)
  with l show ?thesis by (simp add: cx_load_def load_def)
qed

lemma saved_form_sel [simp]:
  "node (saved_form c) = node c" "compose (saved_form c) = compose c"
  "service (saved_form c) = service c" "base_url (api (saved_form c)) = base_url (api c)"
  "agent (saved_form c) = agent c"
  by (simp_all add: saved_form_def migrate_legacy_fields_def migrate_interval_def
      migrate_telemetry_def migrate_command_def split: option.split)

lemma saved_form_tokens:
  "telemetry (tokens (api (saved_form c))) =
     (case telemetry (tokens (api c)) of Some t \<Rightarrow> Some t
      | None \<Rightarrow> if node_tok (node c) = [] then None
                else Some \<lparr>te_token = node_tok (node c), te_scope = ''read''\<rparr>)"
  "command (tokens (api (saved_form c))) =
     (case command (tokens (api c)) of Some t \<Rightarrow> Some t
      | None \<Rightarrow> map_option (\<lambda>m. \<lparr>te_token = m, te_scope = ''read_write''\<rparr>)
                  (compose_cmd_token (compose c)))"
  by (simp_all add: saved_form_def migrate_tokens split: option.split)

lemma saved_form_cmd_token: "cmd_token (saved_form c) = cmd_token c"
  by (simp add: saved_form_def migrate_cmd_token) (simp add: cmd_token_def split: option.split)

lemma saved_form_node_token: "node_token (saved_form c) = node_token c"
  by (simp add: saved_form_def migrate_node_token) (simp add: node_token_def split: option.split)

text \<open>A loaded configuration has been migrated.\<close>

lemma loaded_migrated:
  assumes "cx_load cx t = Inr c"
  shows "\<exists>c0. c = migrate_legacy_fields c0"
  using assms by (auto simp: cx_load_def load_def load_from_def split: sum.splits)

lemma loaded_command:
  assumes "cx_load cx t = Inr c" and "compose_cmd_token (compose c) = Some m"
  shows "command (tokens (api c)) \<noteq> None"
proof -
  from loaded_migrated [OF assms(1)] obtain c0 where "c = migrate_legacy_fields c0" by blast
  moreover from this have "compose c = compose c0" by (simp add: migrate_legacy_fields_def)
  ultimately show ?thesis using assms(2) by (simp add: migrate_tokens split: option.split)
qed

section \<open>Setting and getting\<close>

text \<open>What \<open>get\<close> is expected to print after \<open>set\<close>.\<close>

fun normal_value :: "config_key \<Rightarrow> string \<Rightarrow> string" where
  "normal_value K_Push_Sec v = (case parse_u64 v of Some n \<Rightarrow> show_word n | None \<Rightarrow> v)"
| "normal_value K_Poll_Sec v = (case parse_u64 v of Some n \<Rightarrow> show_word n | None \<Rightarrow> v)"
| "normal_value K_Port v = (case parse_u16 v of Some n \<Rightarrow> show_word n | None \<Rightarrow> v)"
| "normal_value K_Tags v = join '','' (map trim (split_char (CHR '','') v))"
| "normal_value K_Telemetry v = (if v = [] then ''(not configured)'' else v)"
| "normal_value K_Command v = (if v = [] then ''(not configured)'' else v)"
| "normal_value K_Cmd_Token v = (if v = [] then ''(not configured)'' else v)"
| "normal_value K_Signing_Key v = (if v = [] then ''(not configured)'' else v)"
| "normal_value k v = v"

lemma parse_bool_Some: "parse_bool v = Some b \<Longrightarrow> show_bool b = v"
  by (auto simp: parse_bool_def show_bool_def split: if_splits)

lemma set_signing_key_Ok:
  "set_signing_key cx v c t = (Cli_Ok c', t') \<Longrightarrow>
   c' = c\<lparr>compose := (compose c)\<lparr>signing_public_key := (if v = [] then None else Some v)\<rparr>\<rparr>"
  by (auto simp: set_signing_key_def Let_def split: if_splits prod.splits sum.splits)

lemma set_signing_key_wf:
  assumes "fs_wf t"
  shows "fs_wf (snd (set_signing_key cx v c t))"
proof (cases "v = []")
  case True
  with assms show ?thesis by (simp add: set_signing_key_def Let_def remove_file_wf)
next
  case False
  obtain r t1 where d: "create_dir_all (cx_io cx) (butlast (signing_key_file cx)) t = (r, t1)"
    by fastforce
  obtain q t2 where w: "write_file (cx_io cx) (signing_key_file cx) v t1 = (q, t2)" by fastforce
  from create_dir_all_wf [OF assms, of "cx_io cx" "butlast (signing_key_file cx)"] d
  have w1: "fs_wf t1" by simp
  from write_file_wf [OF w1, of "cx_io cx" "signing_key_file cx" v] w have w2: "fs_wf t2" by simp
  show ?thesis using False d w w1 w2
    by (cases r; cases q) (simp_all add: set_signing_key_def Let_def)
qed

lemma parse_secs_Inr: "parse_secs what v = Inr n \<Longrightarrow> parse_u64 v = Some n"
  by (auto simp: parse_secs_def split: option.splits if_splits)

lemma set_plain_get:
  assumes "set_plain k v c = Cli_Ok c'" and "k \<noteq> K_Telemetry \<or> v \<noteq> []"
  shows "get_field k (saved_form c') = normal_value k v"
  using assms
proof (cases k)
  case K_Telemetry
  with assms show ?thesis
    by (auto simp: set_telemetry_def telemetry_entry_def Let_def saved_form_tokens or_none_def)
next
  case K_Command
  with assms show ?thesis
    by (auto simp: set_command_def command_entry_def saved_form_tokens or_none_def)
next
  case K_Cmd_Token
  with assms show ?thesis by (auto simp: or_none_def split: if_splits)
qed (auto dest: parse_secs_Inr parse_bool_Some split: sum.splits option.splits)

lemma apply_set_get:
  assumes "apply_set cx k v c t = (Cli_Ok c', t')" and "k \<noteq> K_Telemetry \<or> v \<noteq> []"
  shows "get_field k (saved_form c') = normal_value k v"
proof (cases "k = K_Signing_Key")
  case True
  with assms(1) have "c' = c\<lparr>compose := (compose c)
      \<lparr>signing_public_key := (if v = [] then None else Some v)\<rparr>\<rparr>"
    by (simp add: apply_set_def set_signing_key_Ok)
  with True show ?thesis by (simp add: or_none_def)
next
  case False
  with assms(1) have "set_plain k v c = Cli_Ok c'" by (simp add: apply_set_def)
  from set_plain_get [OF this assms(2)] show ?thesis .
qed

lemma apply_set_wf: "fs_wf t \<Longrightarrow> apply_set cx k v c t = (r, t') \<Longrightarrow> fs_wf t'"
  using set_signing_key_wf [of t cx v c] by (auto simp: apply_set_def split: if_splits)

lemma config_set_run:
  assumes "cx_load cx t = Inr c" and "settable_key key = Some k"
    and "apply_set cx k v c t = (Cli_Ok c', t1)"
  shows "config_set cx key v t = cx_save cx c' t1"
  using assms by (simp add: config_set_def)

lemma settable_gettable: "settable_key key = Some k \<Longrightarrow> gettable_key key = Some k"
  by (auto simp: settable_key_def gettable_key_def split: option.splits config_key.splits)

text \<open>Which value is read back: the normalised one, except that a cleared telemetry token comes back
  from \<open>node.token\<close>.\<close>

definition read_back :: "config_key \<Rightarrow> string \<Rightarrow> config \<Rightarrow> string" where
  "read_back k v c = (if k = K_Telemetry \<and> v = [] \<and> node_tok (node c) \<noteq> []
     then node_tok (node c) else normal_value k v)"

lemma set_telemetry_cleared:
  "get_field K_Telemetry (saved_form (set_telemetry [] c)) =
     (if node_tok (node c) = [] then ''(not configured)'' else node_tok (node c))"
  by (simp add: saved_form_tokens set_telemetry_def telemetry_entry_def or_none_def)

lemma apply_set_read_back:
  assumes "apply_set cx k v c t = (Cli_Ok c', t')"
  shows "get_field k (saved_form c') = read_back k v c"
proof (cases "k = K_Telemetry \<and> v = []")
  case True
  with assms have "c' = set_telemetry [] c" by (simp add: apply_set_def)
  with True show ?thesis by (simp add: read_back_def set_telemetry_cleared del: get_field.simps)
next
  case False
  then have k: "k \<noteq> K_Telemetry \<or> v \<noteq> []" and b: "read_back k v c = normal_value k v"
    by (auto simp: read_back_def)
  from apply_set_get [OF assms k] show ?thesis by (simp only: b)
qed

lemma apply_set_present:
  assumes "cx_load cx t = Inr c" and "apply_set cx k v c t = (r, t1)"
    and "k = K_Signing_Key \<Longrightarrow> config_present cx t1"
  shows "config_present cx t1"
  using assms loaded_present [OF assms(1)] by (cases "k = K_Signing_Key") (auto simp: apply_set_def)

lemma set_get_correct:
  assumes "fs_wf t" and "cx_load cx t = Inr c" and "settable_key key = Some k"
    and "apply_set cx k v c t = (Cli_Ok c', t1)" and "k = K_Signing_Key \<Longrightarrow> config_present cx t1"
    and "toml_spec (cx_toml cx) c'" and "config_set cx key v t = (Cli_Ok (), t')"
  shows "config_get cx key t' = Cli_Ok (read_back k v c)"
proof -
  from assms(7) have s: "cx_save cx c' t1 = (Cli_Ok (), t')"
    by (simp add: config_set_run [OF assms(2-4)])
  have wf: "fs_wf t1" by (rule apply_set_wf [OF assms(1,4)])
  have "cx_load cx t' = Inr (saved_form c')"
    by (rule saved_then_loaded [OF wf apply_set_present [OF assms(2,4,5)] assms(6) s])
  with settable_gettable [OF assms(3)] apply_set_read_back [OF assms(4)] show ?thesis
    by (simp add: config_get_def)
qed

section \<open>Rotation\<close>

lemma refresh_rejected:
  assumes "cx_load cx t = Inr c" and "node_tok (node c) \<noteq> tok"
    and "\<not> (validate_token_format tok \<and> send_heartbeat (with_node_token tok c) backend)"
    and "refresh cx backend tok t = (r, t', argvs)"
  shows "(\<exists>e. r = Cli_Error e) \<and> t' = t \<and> argvs = []"
  using assms by (auto simp: refresh_def split: if_splits)

text \<open>Accepted by the backend: what remains is to save.\<close>

lemma refresh_accepted:
  assumes "cx_load cx t = Inr c" and "node_tok (node c) \<noteq> tok" and "validate_token_format tok"
    and "send_heartbeat (with_node_token tok c) backend"
    and "refresh cx backend tok t = (r, t', argvs)"
  shows "cx_save cx (with_node_token tok c) t = (r, t')
    \<and> argvs = (if r = Cli_Ok () then restart_agent (cx_run cx) else [])"
  using assms by (auto simp: refresh_def split: prod.splits cli.splits)

lemma cx_save_over:
  assumes "fs_wf t" and "cx_load cx t = Inr c0"
    and "canonicalize t (path_of (effective_config_path (cx_vars cx) t)) = Some q"
    and "cx_save cx c t = (r, t')"
  shows "(\<forall>k. k \<noteq> q \<longrightarrow> lookup t' k = lookup t k)
    \<and> (r = Cli_Ok () \<or> (\<exists>e. r = Cli_Error e))
    \<and> (lookup t' q = lookup t q \<or> (\<exists>s n. toml_to (cx_toml cx) c = Inr s \<and> lookup t' q = Some (File (take n s))))"
proof -
  from loaded_present [OF assms(2)] assms(3) have d: "lookup t q \<noteq> Some Dir" by auto
  then have "q \<noteq> []" by auto
  obtain w where "save (cx_toml cx) (cx_io cx) (cx_vars cx) c t = (w, t')"
    using assms(4) by (auto simp: cx_save_def split: prod.splits sum.splits)
  from save_over [OF assms(1,3) d this [unfolded save_def]]
  have "lookup t' = lookup t \<or> (\<exists>s n. toml_to (cx_toml cx) c = Inr s
      \<and> lookup t' = lookup (put_node q (File (take n s)) t))" by blast
  with \<open>q \<noteq> []\<close> have "(\<forall>k. k \<noteq> q \<longrightarrow> lookup t' k = lookup t k) \<and> (lookup t' q = lookup t q
      \<or> (\<exists>s n. toml_to (cx_toml cx) c = Inr s \<and> lookup t' q = Some (File (take n s))))"
    by (auto simp: lookup_put simp del: take_all_iff)
  moreover have "r = Cli_Ok () \<or> (\<exists>e. r = Cli_Error e)"
    using assms(4) by (auto simp: cx_save_def split: prod.splits sum.splits)
  ultimately show ?thesis by blast
qed

lemma rotated_token:
  assumes "fs_wf t" and "cx_load cx t = Inr c" and "toml_spec (cx_toml cx) (with_node_token tok c)"
    and "cx_save cx (with_node_token tok c) t = (Cli_Ok (), t')"
  shows "\<exists>c'. cx_load cx t' = Inr c' \<and> node_token c' = tok \<and> node_tok (node c') = tok"
proof -
  from loaded_present [OF assms(2)] have "config_present cx t" by blast
  from saved_then_loaded [OF assms(1) this assms(3,4)]
  have l: "cx_load cx t' = Inr (saved_form (with_node_token tok c))" .
  have "node_token (with_node_token tok c) = tok" "node_tok (node (with_node_token tok c)) = tok"
    by (simp_all add: with_node_token_def node_token_def split: option.split)
  with l show ?thesis by (simp add: saved_form_node_token)
qed

lemma refresh_cmd_effect:
  assumes "fs_wf t" and "cx_load cx t = Inr c"
    and "compose_cmd_token (compose c) = Some m" and "m \<noteq> tok"
    and "toml_spec (cx_toml cx) (c\<lparr>compose := (compose c)\<lparr>compose_cmd_token := Some tok\<rparr>\<rparr>)"
    and "refresh_cmd cx tok t = (Cli_Ok (), t')"
  shows "\<exists>c'. cx_load cx t' = Inr c' \<and> cmd_token c' = cmd_token c \<and>
    compose_cmd_token (compose c') = Some tok"
proof -
  let ?c = "c\<lparr>compose := (compose c)\<lparr>compose_cmd_token := Some tok\<rparr>\<rparr>"
  from assms(2-4,6) have s: "cx_save cx ?c t = (Cli_Ok (), t')"
    by (auto simp: refresh_cmd_def split: if_splits)
  from loaded_present [OF assms(2)] have "config_present cx t" by blast
  from saved_then_loaded [OF assms(1) this assms(5) s] have l: "cx_load cx t' = Inr (saved_form ?c)" .
  from loaded_command [OF assms(2,3)] obtain e where "command (tokens (api c)) = Some e" by auto
  then have "cmd_token ?c = cmd_token c" by (simp add: cmd_token_def)
  with l show ?thesis by (simp add: saved_form_cmd_token)
qed

section \<open>Properties\<close>

text \<open>A node whose configuration file reads \<open>old\<close> before a command and \<open>new\<close> after it.\<close>

definition sample_cx :: "config \<Rightarrow> cli_env" where
  "sample_cx c = \<lparr>cx_vars = (\<lambda>v. if v = ''NEXUS_LINK_CONFIG'' then Some ''/n.toml'' else None),
     cx_io = no_faults,
     cx_toml = \<lparr>toml_from = (\<lambda>s. if s = ''old'' then Inr sample_config
         else Inr (c\<lparr>api := (api c)\<lparr>push_interval_secs := None\<rparr>\<rparr>)), toml_to = (\<lambda>_. Inr ''new'')\<rparr>,
     cx_run = (\<lambda>_. Exited (Some 0) [] [])\<rparr>"

definition node_fs :: fs where
  "node_fs = \<lparr>tree = [([''n.toml''], File ''old'')], modes = []\<rparr>"

definition loaded_sample :: config where
  "loaded_sample = migrate_legacy_fields sample_config"

lemma node_fs_wf: "fs_wf node_fs"
  by (auto simp: fs_wf_def look_wf_def lookup_def node_fs_def)

lemma sample_cx_load: "cx_load (sample_cx c) node_fs = Inr loaded_sample"
proof -
  have "valid_utf8 ''old''" by (rule valid_utf8_ascii) (simp add: is_ascii_def byte_def)
  moreover have "path_of ''/n.toml'' = [''n.toml'']" by (simp add: path_of_def)
  ultimately show ?thesis
    by (simp add: cx_load_def load_def sample_cx_def effective_config_path_def load_from_def
        read_to_string_def read_bytes_def no_faults_def node_at_def canonicalize_def locate_def
        lookup_def node_fs_def loaded_sample_def MAX_LINKS_def)
qed

lemma sample_cx_toml: "toml_spec (cx_toml (sample_cx c)) c"
proof -
  have "valid_utf8 ''new''" by (rule valid_utf8_ascii) (simp add: is_ascii_def byte_def)
  then show ?thesis by (simp add: toml_spec_def sample_cx_def)
qed

lemma save_to_cong:
  "toml_to ser c = toml_to ser' c' \<Longrightarrow> save_to ser env c path t = save_to ser' env c' path t"
proof -
  assume "toml_to ser c = toml_to ser' c'"
  then have eq: "save_content ser env c = save_content ser' env c'"
    by (simp add: save_content_def fun_eq_iff)
  show ?thesis unfolding save_to_def eq ..
qed

lemma sample_cx_save:
  "\<exists>t'. cx_save (sample_cx d) c node_fs = (Cli_Ok (), t')"
proof -
  have "cx_save (sample_cx d) c node_fs = cx_save (sample_cx sample_config) sample_config node_fs"
    using save_to_cong [of "cx_toml (sample_cx d)" c "cx_toml (sample_cx sample_config)" sample_config]
    by (simp add: cx_save_def save_def sample_cx_def)
  moreover have "fst (cx_save (sample_cx sample_config) sample_config node_fs) = Cli_Ok ()"
    by code_simp
  ultimately show ?thesis by (metis prod.collapse)
qed

text \<open>C21. A configuration key that \<open>config set\<close> accepted reads back, through the file (wherever it is)
  and the migration of the next load, as the normalised value that was set (numbers without leading
  zeros or sign, tags trimmed one by one, an empty secret as not configured); the one exception is an
  empty telemetry token on a node that has \<open>node.token\<close>, which is what is read back then. Setting the
  signing key also writes a file: that the configuration is still there afterwards is a premise.\<close>

theorem config_set_then_get:
  assumes "fs_wf t" and "cx_load cx t = Inr c" and "settable_key key = Some k"
    and "apply_set cx k v c t = (Cli_Ok c', t1)" and "k = K_Signing_Key \<Longrightarrow> config_present cx t1"
    and "toml_spec (cx_toml cx) c'" and "config_set cx key v t = (Cli_Ok (), t')"
  shows "config_get cx key t' = Cli_Ok
    (if k = K_Telemetry \<and> v = [] \<and> node_tok (node c) \<noteq> [] then node_tok (node c) else normal_value k v)"
  using set_get_correct [OF assms] by (simp only: read_back_def)

definition ported_sample :: config where
  "ported_sample = loaded_sample\<lparr>service := (service loaded_sample)\<lparr>port := 9000\<rparr>\<rparr>"

lemma config_set_then_get_witness:
  "\<exists>t'. config_set (sample_cx ported_sample) ''port'' ''+09000'' node_fs = (Cli_Ok (), t') \<and>
     config_get (sample_cx ported_sample) ''port'' t' = Cli_Ok ''9000''"
proof -
  let ?cx = "sample_cx ported_sample"
  have p: "parse_u16 ''+09000'' = Some 9000"
    by (simp add: parse_u16_def parse_uint_def digit_val_def byte_def)
  have k: "settable_key ''port'' = Some K_Port" by code_simp
  have a: "apply_set ?cx K_Port ''+09000'' loaded_sample node_fs = (Cli_Ok ported_sample, node_fs)"
    by (simp add: apply_set_def p ported_sample_def)
  obtain t' where s: "cx_save ?cx ported_sample node_fs = (Cli_Ok (), t')"
    using sample_cx_save by blast
  have c: "config_set ?cx ''port'' ''+09000'' node_fs = (Cli_Ok (), t')"
    using config_set_run [OF sample_cx_load k a] s by simp
  have n: "normal_value K_Port ''+09000'' = ''9000''"
  proof -
    have "char_of (57 :: nat) = CHR ''9''" "char_of (48 :: nat) = CHR ''0''" by code_simp+
    with p show ?thesis by (simp add: show_word_def show_nat.simps)
  qed
  have g: "K_Port = K_Signing_Key \<Longrightarrow> config_present ?cx node_fs" by simp
  from config_set_then_get [OF node_fs_wf sample_cx_load k a g sample_cx_toml c] c n
  show ?thesis by simp
qed

text \<open>C37. Clearing the telemetry token is undone: \<open>config set api.tokens.telemetry\<close> with an empty
  value leaves \<open>node.token\<close> in place, and the migration of the next load restores the token from
  it.\<close>

theorem telemetry_clear_undone:
  assumes "fs_wf t" and "cx_load cx t = Inr c" and "node_tok (node c) \<noteq> []"
    and "toml_spec (cx_toml cx) (set_telemetry [] c)"
    and "config_set cx ''api.tokens.telemetry'' [] t = (Cli_Ok (), t')"
  shows "config_get cx ''api.tokens.telemetry'' t' = Cli_Ok (node_tok (node c))"
proof -
  have k: "settable_key ''api.tokens.telemetry'' = Some K_Telemetry" by code_simp
  have a: "apply_set cx K_Telemetry [] c t = (Cli_Ok (set_telemetry [] c), t)"
    by (simp add: apply_set_def)
  from assms(5) have s: "cx_save cx (set_telemetry [] c) t = (Cli_Ok (), t')"
    by (simp add: config_set_run [OF assms(2) k a])
  from loaded_present [OF assms(2)] have "config_present cx t" by blast
  from saved_then_loaded [OF assms(1) this assms(4) s] set_telemetry_cleared [of c] assms(3)
    settable_gettable [OF k] show ?thesis by (simp add: config_get_def)
qed

lemma telemetry_clear_undone_witness:
  "\<exists>t'. config_set (sample_cx (set_telemetry [] loaded_sample)) ''api.tokens.telemetry'' [] node_fs
      = (Cli_Ok (), t') \<and>
     config_get (sample_cx (set_telemetry [] loaded_sample)) ''api.tokens.telemetry'' t'
      = Cli_Ok ''nxs_node_a''"
proof -
  let ?cx = "sample_cx (set_telemetry [] loaded_sample)"
  have k: "settable_key ''api.tokens.telemetry'' = Some K_Telemetry" by code_simp
  have a: "apply_set ?cx K_Telemetry [] loaded_sample node_fs
      = (Cli_Ok (set_telemetry [] loaded_sample), node_fs)"
    by (simp add: apply_set_def)
  obtain t' where "cx_save ?cx (set_telemetry [] loaded_sample) node_fs = (Cli_Ok (), t')"
    using sample_cx_save by blast
  then have c: "config_set ?cx ''api.tokens.telemetry'' [] node_fs = (Cli_Ok (), t')"
    using config_set_run [OF sample_cx_load k a] by simp
  have n: "node_tok (node loaded_sample) = ''nxs_node_a''"
    by (simp add: loaded_sample_def migrate_legacy_fields_def sample_config_def)
  from telemetry_clear_undone [OF node_fs_wf sample_cx_load _ sample_cx_toml c] c n
  show ?thesis by simp
qed

text \<open>C22. What a rotation of the node token to a new token can do. Unless the token has the form of a
  node token and the backend accepts it, the command fails, no file changes and no agent is
  restarted. Otherwise no file but the configuration changes, and either the command succeeds, the
  next load uses the new token in both places and a restart of the agent was asked for; or it fails,
  without a restart, and the configuration file is what it was or a beginning of the new text (a
  write that failed half way).\<close>

theorem refresh_outcomes:
  assumes "fs_wf t" and "cx_load cx t = Inr c" and "node_tok (node c) \<noteq> tok"
    and "toml_spec (cx_toml cx) (with_node_token tok c)"
    and "canonicalize t (path_of (effective_config_path (cx_vars cx) t)) = Some q"
    and "refresh cx backend tok t = (r, t', argvs)"
  shows "if validate_token_format tok \<and> send_heartbeat (with_node_token tok c) backend
    then (\<forall>k. k \<noteq> q \<longrightarrow> lookup t' k = lookup t k)
      \<and> (if r = Cli_Ok ()
         then (\<exists>c'. cx_load cx t' = Inr c' \<and> node_token c' = tok \<and> node_tok (node c') = tok)
           \<and> argvs = restart_agent (cx_run cx)
         else (\<exists>e. r = Cli_Error e) \<and> argvs = []
           \<and> (\<exists>s n. toml_to (cx_toml cx) (with_node_token tok c) = Inr s
                \<and> lookup t' q \<in> {lookup t q, Some (File (take n s))}))
    else (\<exists>e. r = Cli_Error e) \<and> t' = t \<and> argvs = []"
proof (cases "validate_token_format tok \<and> send_heartbeat (with_node_token tok c) backend")
  case True
  then have a: "cx_save cx (with_node_token tok c) t = (r, t')"
    "argvs = (if r = Cli_Ok () then restart_agent (cx_run cx) else [])"
    using refresh_accepted [OF assms(2,3) _ _ assms(6)] by blast+
  from assms(4) obtain s where "toml_to (cx_toml cx) (with_node_token tok c) = Inr s"
    by (auto simp: toml_spec_def)
  with True cx_save_over [OF assms(1,2,5) a(1)] a rotated_token [OF assms(1,2,4), of t'] show ?thesis
    by auto
next
  case False
  from refresh_rejected [OF assms(2,3) False assms(6)] show ?thesis by (simp only: False if_False)
qed

lemma refresh_outcomes_witness:
  "\<exists>c' t'. fst (refresh (sample_cx (with_node_token ''nxs_node_b'' loaded_sample)) (\<lambda>_. Inr 200)
      ''nxs_node_b'' node_fs) = Cli_Ok () \<and>
    cx_load (sample_cx (with_node_token ''nxs_node_b'' loaded_sample)) t' = Inr c' \<and>
    node_token c' = ''nxs_node_b''"
proof -
  let ?c = "with_node_token ''nxs_node_b'' loaded_sample"
  let ?cx = "sample_cx ?c"
  have n: "node_tok (node loaded_sample) \<noteq> ''nxs_node_b''"
    by (simp add: loaded_sample_def migrate_legacy_fields_def sample_config_def)
  obtain t' where s: "cx_save ?cx ?c node_fs = (Cli_Ok (), t')" using sample_cx_save by blast
  have v: "validate_token_format ''nxs_node_b''" by code_simp
  have r: "refresh ?cx (\<lambda>_. Inr 200) ''nxs_node_b'' node_fs
      = (Cli_Ok (), t', restart_agent (cx_run ?cx))"
    using s v n sample_cx_load by (simp add: refresh_def send_heartbeat_def)
  have q: "canonicalize node_fs (path_of (effective_config_path (cx_vars ?cx) node_fs)) = Some [''n.toml'']"
    by (simp add: sample_cx_def effective_config_path_def path_of_def canonicalize_def locate_def
        lookup_def node_fs_def MAX_LINKS_def)
  from refresh_outcomes [OF node_fs_wf sample_cx_load n sample_cx_toml q r] r v s
  have "\<exists>c'. cx_load ?cx t' = Inr c' \<and> node_token c' = ''nxs_node_b''"
    by (simp add: send_heartbeat_def) blast
  with r show ?thesis by auto
qed

text \<open>C38. Rotating the command token does not reach the inbound gate: on a node that has a command
  token, a successful \<open>refresh-cmd\<close> changes \<open>compose.cmd_token\<close>, but the effective command token of
  every later load is still the old one.\<close>

theorem refresh_cmd_keeps_old_token:
  assumes "fs_wf t" and "cx_load cx t = Inr c"
    and "compose_cmd_token (compose c) = Some m" and "m \<noteq> tok"
    and "toml_spec (cx_toml cx) (c\<lparr>compose := (compose c)\<lparr>compose_cmd_token := Some tok\<rparr>\<rparr>)"
    and "refresh_cmd cx tok t = (Cli_Ok (), t')"
  shows "\<exists>c'. cx_load cx t' = Inr c' \<and> cmd_token c' = cmd_token c \<and>
    compose_cmd_token (compose c') = Some tok"
  by (rule refresh_cmd_effect [OF assms])

lemma refresh_cmd_keeps_old_token_witness:
  "\<exists>t' c'. refresh_cmd (sample_cx (loaded_sample\<lparr>compose :=
        (compose loaded_sample)\<lparr>compose_cmd_token := Some ''nxs_cmd_b''\<rparr>\<rparr>)) ''nxs_cmd_b'' node_fs
      = (Cli_Ok (), t') \<and>
    cx_load (sample_cx (loaded_sample\<lparr>compose :=
        (compose loaded_sample)\<lparr>compose_cmd_token := Some ''nxs_cmd_b''\<rparr>\<rparr>)) t' = Inr c' \<and>
    cmd_token c' = Some ''nxs_cmd_a''"
proof -
  let ?c = "loaded_sample\<lparr>compose := (compose loaded_sample)\<lparr>compose_cmd_token := Some ''nxs_cmd_b''\<rparr>\<rparr>"
  let ?cx = "sample_cx ?c"
  have m: "compose_cmd_token (compose loaded_sample) = Some ''nxs_cmd_a''"
    by (simp add: loaded_sample_def migrate_legacy_fields_def sample_config_def)
  have k: "cmd_token loaded_sample = Some ''nxs_cmd_a''"
    by (simp add: loaded_sample_def migrate_cmd_token) (simp add: cmd_token_def sample_config_def)
  obtain t' where s: "cx_save ?cx ?c node_fs = (Cli_Ok (), t')" using sample_cx_save by blast
  have v: "validate_cmd_token_format ''nxs_cmd_b''" "abbreviate 16 ''nxs_cmd_b'' \<noteq> None"
    by code_simp+
  have r: "refresh_cmd ?cx ''nxs_cmd_b'' node_fs = (Cli_Ok (), t')"
    using s v m sample_cx_load by (simp add: refresh_cmd_def)
  from refresh_cmd_keeps_old_token [OF node_fs_wf sample_cx_load m _ sample_cx_toml r] r k
  show ?thesis by auto
qed

section \<open>Every configuration in use is well-formed\<close>

text \<open>No legacy interval, and a legacy token never without its entry in the token table.\<close>

definition config_wf :: "config \<Rightarrow> bool" where
  "config_wf c \<longleftrightarrow> push_interval_secs (api c) = None
     \<and> (if node_tok (node c) = [] then True else telemetry (tokens (api c)) \<noteq> None)
     \<and> (if compose_cmd_token (compose c) = None then True else command (tokens (api c)) \<noteq> None)"

lemma migrated_wf: "config_wf (migrate_legacy_fields c)"
proof -
  have "node (migrate_legacy_fields c) = node c" "compose (migrate_legacy_fields c) = compose c"
    "push_interval_secs (api (migrate_legacy_fields c)) = None"
    by (simp_all add: migrate_legacy_fields_def)
  then show ?thesis by (simp add: config_wf_def migrate_tokens split: option.split)
qed

text \<open>C23. Every configuration that a program loads, whatever file it comes from, satisfies the type
  invariant of the current layout, is a fixed point of the migration, and gives the service a
  command hash exactly when a command token is configured anywhere.\<close>

theorem loaded_config_wf:
  assumes "load ser env vars t = Inr c" and "app_state_new cr env vars t docker c = Inr st"
  shows "config_wf c \<and> migrate_legacy_fields c = c
    \<and> (cmd_token_hash st = None \<longleftrightarrow> command (tokens (api c)) = None)
    \<and> (cmd_token_hash st = None \<longleftrightarrow> command (tokens (api c)) = None \<and> compose_cmd_token (compose c) = None)"
proof -
  from assms(1) obtain c0 where c: "c = migrate_legacy_fields c0"
    by (auto simp: load_def load_from_def split: sum.splits)
  have w: "config_wf c" unfolding c by (rule migrated_wf)
  have m: "migrate_legacy_fields c = c" unfolding c by (rule migrate_idem)
  have "cmd_token_hash st = None \<longleftrightarrow> cmd_token c = None"
    using app_state_new_Inr [OF assms(2)] by simp
  with w m show ?thesis by (auto simp: config_wf_def cmd_token_def split: option.splits if_splits)
qed

lemma loaded_config_wf_witness:
  "config_wf loaded_sample \<and> migrate_legacy_fields loaded_sample = loaded_sample"
proof -
  let ?cx = "sample_cx sample_config"
  have l: "load (cx_toml ?cx) (cx_io ?cx) (cx_vars ?cx) node_fs = Inr loaded_sample"
    using sample_cx_load [of sample_config] by (simp add: cx_load_def)
  obtain st where s: "app_state_new (undefined :: unit crypto) (cx_io ?cx) (cx_vars ?cx) node_fs (Inr ()) loaded_sample
      = Inr st" by (simp add: app_state_new_def)
  from loaded_config_wf [OF l s] show ?thesis by blast
qed

end
