(* ===== verification/Setup_Laws.thy ===== *)
theory Setup_Laws
  imports Core_Setup
begin

text \<open>
  The setup: what it may run at all, what it leaves alone on a host that is already set up, and
  which paths the units it installs name as writable.
\<close>

section \<open>Only queries and sudo\<close>

definition allowed_action :: "action \<Rightarrow> bool" where
  "allowed_action a = (case a of
     Ran argv \<Rightarrow> argv = [''id'', SERVICE_USER] \<or> argv = [''getent'', ''group'', ''docker'']
       \<or> argv = [''id'', ''-nG'', SERVICE_USER] \<or> (argv \<noteq> [] \<and> hd argv = ''sudo'')
   | Teed p content \<Rightarrow> (p, content) = (AGENT_UNIT_PATH, render_unit AGENT_UNIT_LINES)
       \<or> (p, content) = (SERVICE_UNIT_PATH, render_unit SERVICE_UNIT_LINES))"

definition extends :: "history \<Rightarrow> history \<Rightarrow> bool" where
  "extends h h' \<longleftrightarrow> (\<exists>es. h' = h @ es \<and> list_all allowed_action es)"

lemma extends_refl [simp]: "extends h h"
  by (simp add: extends_def)

lemma extends_trans: "extends h h' \<Longrightarrow> extends h' h'' \<Longrightarrow> extends h h''"
  unfolding extends_def by (metis append.assoc list_all_append)

lemma extends_one: "allowed_action a \<Longrightarrow> extends h (h @ [a])"
  by (auto simp: extends_def)

lemma sudo_extends: "sudo w args h = (r, h') \<Longrightarrow> extends h h'"
  by (auto simp: sudo_def allowed_action_def intro!: extends_one split: proc_result.splits)

lemma sudo_chain_extends: "sudo_chain w as h = (r, h') \<Longrightarrow> extends h h'"
proof (induction as arbitrary: h)
  case (Cons a as)
  obtain q h1 where q: "sudo w a h = (q, h1)" by fastforce
  with Cons sudo_extends [OF q] show ?case
    by (cases q) (auto simp: sudo_chain.simps intro: extends_trans)
qed (simp add: sudo_chain.simps)

lemma query_extends:
  "run_query w argv h = (r, h') \<Longrightarrow> allowed_action (Ran argv) \<Longrightarrow> extends h h'"
  by (auto simp: run_query_def intro: extends_one)

lemma tee_extends:
  "write_file_sudo w p c h = (r, h') \<Longrightarrow> allowed_action (Teed p c) \<Longrightarrow> extends h h'"
  by (auto simp: write_file_sudo_def intro: extends_one split: sum.splits)

lemma allowed_queries [simp]:
  "allowed_action (Ran [''id'', SERVICE_USER])" "allowed_action (Ran [''getent'', ''group'', ''docker''])"
  "allowed_action (Ran [''id'', ''-nG'', SERVICE_USER])"
  "allowed_action (Teed AGENT_UNIT_PATH (render_unit AGENT_UNIT_LINES))"
  "allowed_action (Teed SERVICE_UNIT_PATH (render_unit SERVICE_UNIT_LINES))"
  by (simp_all add: allowed_action_def)

lemmas action_extends = sudo_extends sudo_chain_extends query_extends tee_extends

lemma create_system_user_extends: "extends h (snd (create_system_user w h))"
proof -
  obtain c h1 where q: "run_query w [''id'', SERVICE_USER] h = (c, h1)" by fastforce
  obtain r h2 where s: "sudo w [''useradd'', ''--system'', ''--no-create-home'', ''--shell'',
    ''/usr/sbin/nologin'', ''--home-dir'', SYSTEM_CONFIG_DIR, SERVICE_USER] h1 = (r, h2)" by fastforce
  have "extends h h1" "extends h1 h2" using query_extends [OF q] sudo_extends [OF s] by simp_all
  with q s show ?thesis by (cases r) (auto simp: create_system_user_def intro: extends_trans)
qed

lemma add_docker_group_extends: "extends h (snd (add_docker_group w h))"
proof -
  obtain c h1 where q: "run_query w [''getent'', ''group'', ''docker''] h = (c, h1)" by fastforce
  obtain i h2 where n: "run_query w [''id'', ''-nG'', SERVICE_USER] h1 = (i, h2)" by fastforce
  obtain r h3 where s: "sudo w [''usermod'', ''-aG'', ''docker'', SERVICE_USER] h2 = (r, h3)" by fastforce
  have "extends h h1" "extends h1 h2" "extends h2 h3"
    using query_extends [OF q] query_extends [OF n] sudo_extends [OF s] by simp_all
  with q n s show ?thesis
    by (cases r) (auto simp: add_docker_group_def intro: extends_trans)
qed

lemma ensure_dir_extends: "ensure_dir w dir owner mode h = (r, h') \<Longrightarrow> extends h h'"
  by (auto simp: ensure_dir_def intro: sudo_chain_extends split: if_splits prod.splits sum.splits)

lemma create_config_dir_extends: "extends h (snd (create_config_dir w h))"
proof -
  obtain a h1 where a: "ensure_dir w SYSTEM_CONFIG_DIR ''root:root'' ''755'' h = (a, h1)" by fastforce
  obtain b h2 where b: "ensure_dir w SYSTEM_STATE_DIR SERVICE_OWNER ''700'' h1 = (b, h2)" by fastforce
  from ensure_dir_extends [OF a] ensure_dir_extends [OF b] a b show ?thesis
    by (cases a; cases b) (auto simp: create_config_dir_def intro: extends_trans)
qed

lemma migrate_key_extends: "extends h (migrate_key w h)"
proof -
  have "extends h (snd (sudo_chain w as h))" for as
    by (rule sudo_chain_extends [of w as h "fst (sudo_chain w as h)"]) simp
  then show ?thesis by (simp add: migrate_key_def split: option.split)
qed

lemma migrate_legacy_config_extends: "extends h (snd (migrate_legacy_config w h))"
proof -
  have c: "extends h (migrate_key w (snd (sudo_chain w as h)))" for as
    by (rule extends_trans [OF sudo_chain_extends migrate_key_extends, of w as h "fst (sudo_chain w as h)"])
      simp
  then show ?thesis
    by (simp add: migrate_legacy_config_def Let_def split_beta split: option.split)
qed

lemma install_one_extends: "install_one w d b h = (r, h') \<Longrightarrow> extends h h'"
proof -
  assume i: "install_one w d b h = (r, h')"
  let ?src = "join_path d b" and ?tgt = "join_path INSTALL_DIR b"
  obtain q h1 where q: "(if or_exists w h ?tgt \<or> or_link w h ?tgt
      then sudo w [''rm'', ''-f'', ?tgt] h else (Inr (), h)) = (q, h1)" by fastforce
  obtain c h2 where c: "sudo_chain w [[''cp'', ?src, ?tgt], [''chmod'', ''755'', ?tgt]] h1 = (c, h2)"
    by fastforce
  have "extends h h1" using q sudo_extends by (auto split: if_splits)
  moreover have "extends h1 h2" by (rule sudo_chain_extends [OF c])
  ultimately show ?thesis
    using i q c by (cases q; cases c) (auto simp: install_one_def Let_def intro: extends_trans split: if_splits)
qed

lemma install_each_extends: "extends h (snd (snd (install_each w d bs h)))"
proof (induction bs arbitrary: h)
  case (Cons b bs)
  obtain r h1 where r: "install_one w d b h = (r, h1)" by fastforce
  obtain x y h2 where e: "install_each w d bs h1 = (x, y, h2)" using prod_cases3 by blast
  from install_one_extends [OF r] Cons.IH [of h1] r e show ?case
    by (auto intro: extends_trans split: option.split sum.split)
qed simp

lemma install_binaries_extends: "extends h (snd (install_binaries w h))"
  using install_each_extends [of h w]
  by (simp add: install_binaries_def Let_def split_beta split: sum.split option.split)

lemma install_systemd_units_extends: "extends h (snd (install_systemd_units w h))"
proof -
  obtain a h1 where a: "write_file_sudo w AGENT_UNIT_PATH (render_unit AGENT_UNIT_LINES) h = (a, h1)"
    by fastforce
  obtain b h2 where b: "write_file_sudo w SERVICE_UNIT_PATH (render_unit SERVICE_UNIT_LINES) h1 = (b, h2)"
    by fastforce
  obtain c h3 where c: "sudo w [''systemctl'', ''daemon-reload''] h2 = (c, h3)" by fastforce
  have "extends h h1" "extends h1 h2" "extends h2 h3"
    using tee_extends [OF a] tee_extends [OF b] sudo_extends [OF c] by simp_all
  with a b c show ?thesis
    by (cases a; cases b; cases c) (auto simp: install_systemd_units_def Let_def intro: extends_trans)
qed

lemma enable_services_extends: "extends h (snd (enable_services w h))"
  by (auto simp: enable_services_def intro: sudo_chain_extends split: prod.split sum.split)

lemma setup_steps_extend: "f \<in> set (setup_steps w) \<Longrightarrow> extends h (snd (f h))"
  using create_system_user_extends add_docker_group_extends create_config_dir_extends
    migrate_legacy_config_extends install_binaries_extends install_systemd_units_extends
    enable_services_extends
  by (auto simp: setup_steps_def)

lemma run_steps_extend:
  "(\<And>f h. f \<in> set fs \<Longrightarrow> extends h (snd (f h))) \<Longrightarrow>
   extends h (snd (run_steps fs h)) \<and> length (fst (run_steps fs h)) = length fs"
proof (induction fs arbitrary: h)
  case (Cons f fs)
  obtain s h1 where s: "f h = (s, h1)" by fastforce
  obtain ss h2 where ss: "run_steps fs h1 = (ss, h2)" by fastforce
  have "extends h h1" using Cons.prems [of f h] s by simp
  moreover have "extends h1 h2 \<and> length ss = length fs"
    using Cons.IH [of h1] Cons.prems ss by simp
  ultimately show ?case using s ss by (auto intro: extends_trans)
qed simp

section \<open>Properties\<close>

text \<open>C26. Whatever the host answers, the setup runs all seven steps, reports success exactly when
  none of them failed, and does nothing to the machine but three fixed queries, commands through
  \<open>sudo\<close>, and writing the two unit files with their fixed content.\<close>

theorem setup_only_privileged_actions:
  "(\<exists>actions. snd (run_setup w h) = h @ actions \<and> list_all allowed_action actions)
   \<and> length (sr_steps (fst (run_setup w h))) = 7
   \<and> sr_success (fst (run_setup w h))
       = list_all (\<lambda>s. ss_status s \<noteq> Step_Failed) (sr_steps (fst (run_setup w h)))"
proof -
  obtain ss h1 where r: "run_steps (setup_steps w) h = (ss, h1)" by fastforce
  have "extends h (snd (run_steps (setup_steps w) h)) \<and>
      length (fst (run_steps (setup_steps w) h)) = length (setup_steps w)"
    by (rule run_steps_extend) (rule setup_steps_extend)
  with r have "extends h h1" "length ss = 7" by (simp_all add: setup_steps_def)
  with r show ?thesis by (simp add: run_setup_def extends_def)
qed

text \<open>A host that is set up: the user exists and is in the docker group, the directories and the
  configuration are there, and the running binary is in the installation directory with no newer
  one in a user directory.\<close>

definition settled :: "setup_host \<Rightarrow> bool" where
  "settled w \<longleftrightarrow>
     (\<forall>h. proc_success (or_run w h [''id'', SERVICE_USER])
        \<and> proc_success (or_run w h [''getent'', ''group'', ''docker''])
        \<and> in_docker_group (or_run w h [''id'', ''-nG'', SERVICE_USER])
        \<and> or_exists w h SYSTEM_CONFIG_DIR \<and> or_exists w h SYSTEM_STATE_DIR
        \<and> or_exists w h system_config_path
        \<and> find_user_binary_dir w h = None
        \<and> or_canon w h (projr (or_exe w)) = Some ''/usr/local/bin/nexus-link'') \<and> \<not> isl (or_exe w)"

definition SETTLED_STEPS :: "action list" where
  "SETTLED_STEPS = [Ran [''id'', SERVICE_USER], Ran [''getent'', ''group'', ''docker''],
     Ran [''id'', ''-nG'', SERVICE_USER]]"

lemma settled_first_five:
  assumes "settled w"
  shows "map ss_status (fst (run_steps (take 5 (setup_steps w)) h)) = replicate 5 Skipped
    \<and> snd (run_steps (take 5 (setup_steps w)) h) = h @ SETTLED_STEPS"
proof -
  from assms obtain exe where exe: "or_exe w = Inr exe"
    and canon: "or_canon w h' exe = Some ''/usr/local/bin/nexus-link''"
    and f: "find_user_binary_dir w h' = None" for h'
    by (cases "or_exe w") (auto simp: settled_def)
  have p: "parent_of ''/usr/local/bin/nexus-link'' = Some ''/usr/local/bin''"
    by (simp add: parent_of_def path_of_def)
  have u: "create_system_user w h' =
      (mk_step ''System user'' Skipped (''User '' @ quoted SERVICE_USER @ '' already exists''),
       h' @ [Ran [''id'', SERVICE_USER]])" for h'
    using assms by (simp add: settled_def create_system_user_def run_query_def)
  have g: "add_docker_group w h' =
      (mk_step ''Docker group'' Skipped (''User '' @ quoted SERVICE_USER @ '' already in docker group''),
       h' @ [Ran [''getent'', ''group'', ''docker''], Ran [''id'', ''-nG'', SERVICE_USER]])" for h'
    using assms by (simp add: settled_def add_docker_group_def run_query_def)
  have c: "\<exists>m. create_config_dir w h' = (mk_step ''Directories'' Skipped m, h')" for h'
    using assms by (simp add: settled_def create_config_dir_def ensure_dir_def mk_step_def)
  have m: "\<exists>m. migrate_legacy_config w h' = (mk_step ''Config migration'' Skipped m, h')" for h'
    using assms by (simp add: settled_def migrate_legacy_config_def mk_step_def)
  have b: "\<exists>m. install_binaries w h' = (mk_step ''Install binaries'' Skipped m, h')" for h'
    by (simp add: install_binaries_def exe canon p effective_source_def f INSTALL_DIR_def
        Let_def mk_step_def)
  let ?h = "h @ SETTLED_STEPS"
  from c m b obtain x y z where "create_config_dir w ?h = (mk_step ''Directories'' Skipped x, ?h)"
    "migrate_legacy_config w ?h = (mk_step ''Config migration'' Skipped y, ?h)"
    "install_binaries w ?h = (mk_step ''Install binaries'' Skipped z, ?h)" by metis
  then show ?thesis
    by (simp add: setup_steps_def u g mk_step_def eval_nat_numeral SETTLED_STEPS_def)
qed

text \<open>C27. The setup is idempotent where it matters: on a host that is set up, the first five steps
  skip, and run nothing but the three queries: no user, directory, configuration file, key or
  binary is touched again.\<close>

theorem setup_idempotent:
  assumes "settled w"
  shows "map ss_status (fst (run_steps (take 5 (setup_steps w)) h)) = replicate 5 Skipped
    \<and> snd (run_steps (take 5 (setup_steps w)) h) = h @ SETTLED_STEPS"
  by (rule settled_first_five [OF assms])

definition settled_host :: setup_host where
  "settled_host = \<lparr>or_run = (\<lambda>_ _. Exited (Some 0) ''docker'' []), or_tee = (\<lambda>_ _. Inr True),
     or_exists = (\<lambda>_ p. p = SYSTEM_CONFIG_DIR \<or> p = SYSTEM_STATE_DIR \<or> p = system_config_path),
     or_link = (\<lambda>_ _. False), or_canon = (\<lambda>_ _. Some ''/usr/local/bin/nexus-link''),
     or_exe = Inr ''/usr/local/bin/nexus-link'', or_vars = (\<lambda>_. None)\<rparr>"

lemma settled_host_settled: "settled settled_host"
proof -
  have g: "in_docker_group (Exited (Some 0) ''docker'' [])" by code_simp
  have f: "find_user_binary_dir settled_host h = None" for h
    by (simp add: find_user_binary_dir_def settled_host_def join_path_def invoking_home_def
        SYSTEM_CONFIG_DIR_def SYSTEM_STATE_DIR_def system_config_path_def)
  show ?thesis unfolding settled_def using f g by (simp add: settled_host_def)
qed

lemma setup_idempotent_witness:
  "snd (run_steps (take 5 (setup_steps settled_host)) []) = SETTLED_STEPS"
  using setup_idempotent [OF settled_host_settled, of "[]"] by simp

text \<open>The words of the \<open>ReadWritePaths=\<close> lines of a unit.\<close>

definition read_write_paths :: "string list \<Rightarrow> string list" where
  "read_write_paths unit = concat (map (\<lambda>l.
     if starts_with l ''ReadWritePaths='' then split_char (CHR '' '') (drop 15 l) else []) unit)"

text \<open>The units the setup installs name the state directory only, not the compose directory.\<close>

lemma installed_unit_paths:
  "read_write_paths SERVICE_UNIT_LINES = [SYSTEM_STATE_DIR]"
  "read_write_paths AGENT_UNIT_LINES = [SYSTEM_STATE_DIR]"
  by (simp_all add: read_write_paths_def SERVICE_UNIT_LINES_def AGENT_UNIT_LINES_def unit_text_def
      SYSTEM_STATE_DIR_def starts_with_def)

lemma run_steps_append:
  "run_steps (fs @ gs) h = (case run_steps fs h of (ss, h1) \<Rightarrow>
     (case run_steps gs h1 of (ts, h2) \<Rightarrow> (ss @ ts, h2)))"
  by (induction fs arbitrary: h) (simp_all split: prod.split)

text \<open>On a settled host on which \<open>sudo\<close> works, the whole setup succeeds.\<close>

lemma settled_host_success: "sr_success (fst (run_setup settled_host h))"
proof -
  obtain ss h1 where five: "run_steps (take 5 (setup_steps settled_host)) h = (ss, h1)" by fastforce
  have s5: "map ss_status ss = replicate 5 Skipped"
    using settled_first_five [OF settled_host_settled, of h] five by simp
  have "list_all (\<lambda>s. ss_status s \<noteq> Step_Failed) ss"
  proof -
    have "ss_status s = Skipped" if "s \<in> set ss" for s
    proof -
      from that have "ss_status s \<in> set (map ss_status ss)" by simp
      then show ?thesis unfolding s5 by simp
    qed
    then show ?thesis by (simp add: list_all_iff)
  qed
  moreover have split: "setup_steps settled_host = take 5 (setup_steps settled_host)
      @ [install_systemd_units settled_host, enable_services settled_host]"
    by (simp add: setup_steps_def)
  have r: "run_steps (setup_steps settled_host) h = (case run_steps (take 5 (setup_steps settled_host)) h of
      (ss, h1) \<Rightarrow> (case run_steps [install_systemd_units settled_host, enable_services settled_host] h1 of
        (ts, h2) \<Rightarrow> (ss @ ts, h2)))"
    by (subst split) (rule run_steps_append)
  obtain m h2 where
    "install_systemd_units settled_host h1 = (mk_step ''Systemd units'' Created m, h2)"
    by (simp add: install_systemd_units_def settled_host_def write_file_sudo_def sudo_def Let_def mk_step_def)
  moreover obtain m' h3 where
    "enable_services settled_host h2 = (mk_step ''Enable services'' Created m', h3)"
    by (simp add: enable_services_def settled_host_def sudo_chain.simps sudo_def mk_step_def)
  ultimately show ?thesis
    by (simp add: run_setup_def r five mk_step_def)
qed

end
