(* ===== verification/Register_Laws.thy ===== *)
theory Register_Laws
  imports Cli_Lifecycle Cli_Laws Setup_Laws Replace_Laws Path_Laws
begin

text \<open>
  Registration stores credentials only after the backend accepted; what it stores is what every
  later command loads; unregistering misses a configuration in the system directory.
\<close>

section \<open>What is sent, and when\<close>

text \<open>What the backend has to answer for the registration to count.\<close>

definition accepted :: "string + register_reply \<Rightarrow> register_response option" where
  "accepted reply = (case reply of
     Inl e \<Rightarrow> None
   | Inr y \<Rightarrow> if 200 \<le> ry_status y \<and> ry_status y < 300
       then (case ry_decoded y of Inr r \<Rightarrow> Some r | Inl e \<Rightarrow> None) else None)"

lemma finish_not_accepted:
  "accepted reply = None \<Longrightarrow> \<exists>m. finish_registration lx ra nm reply wd = (Cli_Error m, wd)"
  by (auto simp: finish_registration_def accepted_def split: sum.splits if_splits)

lemma finish_accepted:
  assumes "accepted reply = Some r" and "finish_registration lx ra nm reply wd = (Cli_Ok p, wd2)"
  shows "\<exists>wd1. save_registered lx (registered_config ra nm r) wd = (Inr p, wd1) \<and>
    (case reg_signing_public_key r of None \<Rightarrow> wd2 = wd1
     | Some key \<Rightarrow> write_signing_key lx p key wd1 = (Inr (), wd2))"
proof -
  obtain s wd1 where s: "save_registered lx (registered_config ra nm r) wd = (s, wd1)"
    by (rule prod.exhaust)
  from assms s show ?thesis
    by (auto simp: finish_registration_def accepted_def split: sum.splits if_splits option.splits prod.splits)
qed

definition is_error :: "'a cli \<Rightarrow> bool" where
  "is_error r \<longleftrightarrow> (case r of Cli_Error m \<Rightarrow> True | _ \<Rightarrow> False)"

text \<open>Either nothing was sent, or one request was, after the setup succeeded and the tokens passed.\<close>

lemma register_cases:
  obtains (stopped) m where "re_outcome (register ul mc lx backend ra wd) = Cli_Error m"
      and "re_posts (register ul mc lx backend ra wd) = []"
      and "re_world (register ul mc lx backend ra wd) \<in> {wd, snd (perform_setup lx wd)}"
  | (sent) post wd1 where "perform_setup lx wd = (fst (perform_setup lx wd), wd1)"
      and "sr_success (fst (perform_setup lx wd))" and "token_checks ra = None"
      and "rp_bearer post = ra_token ra" and "rp_url post = ra_api_url ra @ ''/api/nodes/register''"
      and "re_posts (register ul mc lx backend ra wd) = [post]"
      and "finish_registration lx ra (node_name_of lx ra) (backend post) wd1
        = (re_outcome (register ul mc lx backend ra wd), re_world (register ul mc lx backend ra wd))"
proof -
  obtain report wd1 where s: "perform_setup lx wd = (report, wd1)" by (rule prod.exhaust)
  obtain ip where ip: "detect_private_ip (cx_run (lx_cx lx)) = Some ip"
    using detect_total [of "cx_run (lx_cx lx)"] by blast
  let ?gate = "if ra_skip_preflight ra then None
    else preflight_gate (pf_verdict (run_preflight ul mc)) (ra_force ra)"
  let ?post = "\<lparr>rp_url = ra_api_url ra @ ''/api/nodes/register'', rp_bearer = ra_token ra,
    rp_body = register_body ra (host_name_of lx) (node_name_of lx ra) ip\<rparr>"
  obtain r wd2 where f: "finish_registration lx ra (node_name_of lx ra) (backend ?post) wd1 = (r, wd2)"
    by (rule prod.exhaust)
  have gate: "register ul mc lx backend ra wd = (case ?gate of
        Some m \<Rightarrow> \<lparr>re_outcome = Cli_Error m, re_posts = [], re_world = wd\<rparr>
      | None \<Rightarrow> if \<not> sr_success report
          then \<lparr>re_outcome = Cli_Error (''System setup failed '' @ EM_DASH
            @ '' resolve the issues above before registering.''), re_posts = [], re_world = wd1\<rparr>
          else (case token_checks ra of
              Some m \<Rightarrow> \<lparr>re_outcome = Cli_Error m, re_posts = [], re_world = wd1\<rparr>
            | None \<Rightarrow> \<lparr>re_outcome = r, re_posts = [?post], re_world = wd2\<rparr>))"
    unfolding register_def Let_def s prod.case ip option.case f by (rule refl)
  show thesis
  proof (cases ?gate)
    case (Some m)
    then show thesis using gate by (intro stopped [of m]) simp_all
  next
    case None
    note gate = gate [unfolded None option.case]
    show thesis
    proof (cases "sr_success report")
      case True
      then show thesis
      proof (cases "token_checks ra")
        case None
        with gate True f s show thesis by (intro sent [of wd1 ?post]) simp_all
      next
        case (Some m)
        with gate True s show thesis by (intro stopped [of m]) simp_all
      qed
    next
      case False
      with gate s show thesis by (intro stopped [OF _ _]) simp_all
    qed
  qed
qed

lemma gate_closed:
  assumes "\<not> ra_skip_preflight ra" and "\<not> ra_force ra"
    and "pf_device_match (run_preflight ul mc) = None"
  shows "re_posts (register ul mc lx backend ra wd) = [] \<and> re_world (register ul mc lx backend ra wd) = wd"
  using assms by (auto simp: register_def Let_def run_preflight_def preflight_gate_def
      split: if_splits)

lemma token_checks_None: "token_checks ra = None \<Longrightarrow> validate_token_format (ra_token ra)"
  by (simp add: token_checks_def split: if_splits)

section \<open>Saving below an existing directory\<close>

text \<open>What a successful save leaves: the file, its mode, the mode of its directory.\<close>

lemma save_to_effect:
  assumes "fs_wf t" and "is_dir t (butlast (path_of path))" and "butlast (path_of path) \<noteq> []"
    and "save_to ser env c path t = (Inr u, t')"
  shows "\<exists>s. toml_to ser c = Inr s \<and> node_at t' (path_of path) = Some (File s)
    \<and> same_shape (lookup t) (lookup t') \<and> fs_wf t'
    \<and> (fault env (Op_chmod (butlast (path_of path)) 448) = None \<longrightarrow>
        mode_of t' (butlast (path_of path)) = Some 448)"
proof -
  let ?p = "path_of path" and ?d = "butlast (path_of path)"
  obtain q1 t1 where c1: "set_permissions env ?d 448 t = (q1, t1)" by fastforce
  have l1: "lookup t1 = lookup t" using set_permissions_lookup [of env ?d 448 t] c1 by simp
  have w1: "fs_wf t1" using assms(1) l1 by (simp add: fs_wf_def)
  from assms(3) have "path_of path \<noteq> []" "\<not> bare_name path" by (auto simp: bare_name_def)
  with assms create_dir_all_existing [OF assms(1,2)] c1
  have "save_content ser env c ?p t1 = (Inr u, t')"
    by (auto simp: save_to_def Let_def split: option.splits)
  from save_content_Inr [OF this] obtain s t2 where s: "toml_to ser c = Inr s"
    and w: "write_file env ?p s t1 = (Inr (), t2)" and m: "set_permissions env ?p 384 t2 = (Inr (), t')"
    by blast
  have l2: "lookup t' = lookup t2" using set_permissions_lookup [of env ?p 384 t2] m by simp
  from w obtain q where q: "locate t1 ?p = Some q" "t2 = put_node q (File s) t1" by (auto simp: write_file_Inr)
  have qn: "q \<noteq> []" using locate_writable [OF q(1) w1] w q by (auto simp: write_file_Inr)
  from write_file_shape [OF w1 q(1) w] have sh: "same_shape (lookup t) (lookup t')"
    and k: "modes t2 = modes t1" by (simp_all add: l1 l2)
  have n: "node_at t' ?p = Some (File s)"
    using write_then_node_at [OF w1 w] l2 by (metis same_lookup_node_at)
  have wf: "fs_wf t'" using write_file_wf [OF w1, of env ?p s] w l2 by (simp add: fs_wf_def)
  have "mode_of t' ?d = Some 448" if f: "fault env (Op_chmod ?d 448) = None"
  proof -
    from assms(2) obtain d where d: "canonicalize t ?d = Some d" "lookup t d = Some Dir"
      by (auto simp: is_dir_def node_at_def bind_eq_Some_conv)
    with c1 f have m1: "modes t1 = AList.update d 448 (modes t)" by (auto simp: set_permissions_def)
    from same_shape_canonical_dir [OF sh, of ?d d] d have d': "canonicalize t' ?d = Some d" by simp
    have "lookup t' q = Some (File s)" using q qn l2 by (simp add: lookup_put)
    moreover have "lookup t' d = Some Dir" using same_shape_dir [OF sh] d by simp
    ultimately have "q \<noteq> d" by auto
    moreover have "modes t' = AList.update q 384 (modes t2)"
    proof -
      have "locate t2 ?p = Some q"
        using same_shape_locate [of t1 t2 ?p] write_file_shape [OF w1 q(1) w] q(1) by simp
      then have "canonicalize t2 ?p = Some q" using q qn by (simp add: canonicalize_def lookup_put)
      with m show ?thesis by (auto simp: set_permissions_def split: option.splits)
    qed
    ultimately show ?thesis using d' k m1 by (simp add: mode_of_def update_conv')
  qed
  then show ?thesis by (intro exI [of _ s] conjI s n sh wf impI)
qed

section \<open>After a successful registration\<close>

lemma registered_config_loaded:
  "migrate_legacy_fields (registered_config ra nm r) = registered_config ra nm r"
  by (cases "resolved_cmd_token ra r")
    (simp_all add: registered_config_def migrate_legacy_fields_def migrate_interval_none
      migrate_telemetry_none migrate_command_none)

lemma registered_config_sel:
  "node_id (node (registered_config ra nm r)) = reg_node_id r"
  "node_token (registered_config ra nm r) = reg_token r"
  "cmd_token (registered_config ra nm r) = resolved_cmd_token ra r"
  "node_tok (node (registered_config ra nm r)) = reg_token r"
  "base_url (api (registered_config ra nm r)) = ra_api_url ra"
  "signing_public_key (compose (registered_config ra nm r)) = reg_signing_public_key r"
  by (simp_all add: registered_config_def node_token_def cmd_token_def split: option.split)

definition CONFIG_FILE :: path where "CONFIG_FILE = path_of system_config_path"

definition KEY_FILE :: string where "KEY_FILE = key_path_beside system_config_path"

definition OWN_KEY :: "string list" where "OWN_KEY = [''sudo'', ''chown'', SERVICE_OWNER, KEY_FILE]"

text \<open>What is relied on of the commands run after the save: they leave the configuration file alone
  (\<open>chown\<close> and \<open>chmod\<close> change no content, \<open>tee\<close> writes the key file).\<close>

definition keeps_config :: "life_env \<Rightarrow> bool" where
  "keeps_config lx \<longleftrightarrow> (\<forall>h t a. (a \<in> {Ran OWN_CONFIG, Ran RESTRICT_CONFIG, Ran OWN_KEY}
       \<or> (\<exists>c. a = Teed KEY_FILE c)) \<longrightarrow>
     node_at (lx_effect lx h a t) CONFIG_FILE = node_at t CONFIG_FILE
     \<and> (a \<in> {Ran OWN_CONFIG, Ran RESTRICT_CONFIG} \<longrightarrow> fs_wf t \<longrightarrow>
        fs_wf (lx_effect lx h a t) \<and>
        locate (lx_effect lx h a t) (path_of KEY_FILE) = locate t (path_of KEY_FILE) \<and>
        locate (lx_effect lx h a t) CONFIG_FILE = locate t CONFIG_FILE \<and>
        mode_of (lx_effect lx h a t) (path_of SYSTEM_CONFIG_DIR) = mode_of t (path_of SYSTEM_CONFIG_DIR)))"

lemma config_paths:
  "CONFIG_FILE = [''etc'', ''nexus-link'', ''config.toml'']"
  "path_of SYSTEM_CONFIG_DIR = [''etc'', ''nexus-link'']"
  "path_of KEY_FILE = [''etc'', ''nexus-link'', ''signing_key.pub'']"
  by code_simp+

lemma keeps_config_node:
  assumes "keeps_config lx"
    and "a \<in> {Ran OWN_CONFIG, Ran RESTRICT_CONFIG, Ran OWN_KEY} \<or> (\<exists>c. a = Teed KEY_FILE c)"
  shows "node_at (lx_effect lx h a t) CONFIG_FILE = node_at t CONFIG_FILE"
  using assms unfolding keeps_config_def by blast

lemma keeps_config_rest:
  assumes "keeps_config lx" and "a \<in> {Ran OWN_CONFIG, Ran RESTRICT_CONFIG}" and "fs_wf t"
  shows "fs_wf (lx_effect lx h a t)"
    and "locate (lx_effect lx h a t) (path_of KEY_FILE) = locate t (path_of KEY_FILE)"
    and "locate (lx_effect lx h a t) CONFIG_FILE = locate t CONFIG_FILE"
    and "mode_of (lx_effect lx h a t) (path_of SYSTEM_CONFIG_DIR) = mode_of t (path_of SYSTEM_CONFIG_DIR)"
  using assms unfolding keeps_config_def by blast+

lemma save_registered_effect:
  assumes "fs_wf t" and "is_dir t (path_of SYSTEM_CONFIG_DIR)" and "keeps_config lx"
    and "save_registered lx c (h, t) = (Inr p, wd1)"
  shows "p = system_config_path \<and> fst wd1 = h @ [Ran OWN_CONFIG, Ran RESTRICT_CONFIG] \<and> fs_wf (snd wd1)
    \<and> (\<exists>s. toml_to (cx_toml (lx_cx lx)) c = Inr s \<and> node_at (snd wd1) CONFIG_FILE = Some (File s))
    \<and> locate (snd wd1) (path_of KEY_FILE) = locate t (path_of KEY_FILE)
    \<and> locate (snd wd1) CONFIG_FILE = locate t CONFIG_FILE
    \<and> (if fault (cx_io (lx_cx lx)) (Op_chmod (path_of SYSTEM_CONFIG_DIR) 448) = None
       then mode_of (snd wd1) (path_of SYSTEM_CONFIG_DIR) = Some 448 else True)"
proof -
  let ?cx = "lx_cx lx"
  have path: "butlast (path_of system_config_path) = path_of SYSTEM_CONFIG_DIR"
    "butlast (path_of system_config_path) \<noteq> []"
    using config_paths by (simp_all add: CONFIG_FILE_def path_of_def SYSTEM_CONFIG_DIR_def)
  have e: "exists t (path_of SYSTEM_CONFIG_DIR)"
    using assms(2) by (auto simp: is_dir_def node_at_def exists_def bind_eq_Some_conv)
  obtain r t1 where sv: "save_to (cx_toml ?cx) (cx_io ?cx) c system_config_path t = (r, t1)" by fastforce
  from assms(4) e sv have r: "r = Inr ()" by (cases r) (simp_all add: save_registered_def)
  let ?t2 = "lx_effect lx h (Ran OWN_CONFIG) t1"
  let ?t3 = "lx_effect lx (h @ [Ran OWN_CONFIG]) (Ran RESTRICT_CONFIG) ?t2"
  from assms(4) e sv r have p: "p = system_config_path"
    and w: "wd1 = (h @ [Ran OWN_CONFIG, Ran RESTRICT_CONFIG], ?t3)"
    by (simp_all add: save_registered_def perform_def)
  from save_to_effect [OF assms(1) _ path(2) sv [unfolded r]] assms(2) path(1)
  obtain s where s: "toml_to (cx_toml ?cx) c = Inr s" "node_at t1 CONFIG_FILE = Some (File s)"
    and sh: "same_shape (lookup t) (lookup t1)" and wf1: "fs_wf t1"
    and m: "fault (cx_io ?cx) (Op_chmod (path_of SYSTEM_CONFIG_DIR) 448) = None \<longrightarrow>
      mode_of t1 (path_of SYSTEM_CONFIG_DIR) = Some 448"
    by (auto simp: CONFIG_FILE_def)
  have o: "Ran OWN_CONFIG \<in> {Ran OWN_CONFIG, Ran RESTRICT_CONFIG}"
    and q: "Ran RESTRICT_CONFIG \<in> {Ran OWN_CONFIG, Ran RESTRICT_CONFIG}" by simp_all
  note k2 = keeps_config_rest [OF assms(3) o wf1, of h]
  note k3 = keeps_config_rest [OF assms(3) q k2(1), of "h @ [Ran OWN_CONFIG]"]
  have "node_at ?t3 CONFIG_FILE = Some (File s)"
    using s(2) keeps_config_node [OF assms(3)] by simp
  moreover have "locate ?t3 x = locate t x" if "x \<in> {path_of KEY_FILE, CONFIG_FILE}" for x
    using that k2 k3 same_shape_locate [OF sh] by auto
  ultimately show ?thesis using p w s(1) k2(4) k3(1,4) m by simp
qed

lemma write_key_keeps_config:
  assumes "fs_wf (snd wd)" and "keeps_config lx"
    and "locate (snd wd) (path_of KEY_FILE) \<noteq> locate (snd wd) CONFIG_FILE"
    and "write_signing_key lx system_config_path key wd = (Inr u, wd')"
  shows "node_at (snd wd') CONFIG_FILE = node_at (snd wd) CONFIG_FILE"
proof -
  obtain h t where wd: "wd = (h, t)" by fastforce
  obtain r t1 where w: "write_file (cx_io (lx_cx lx)) (path_of KEY_FILE) key t = (r, t1)" by fastforce
  have n: "node_at t1 CONFIG_FILE = node_at t CONFIG_FILE"
    by (rule write_file_elsewhere [OF _ _ w]) (use assms wd in simp_all)
  have k: "key_path_beside system_config_path = KEY_FILE" by (simp add: KEY_FILE_def)
  from assms(4) wd w k n show ?thesis
    by (cases r) (auto simp: write_signing_key_def Let_def perform_def perform_tee_def OWN_KEY_def
        keeps_config_node [OF assms(2)] keeps_config_node [OF assms(2), unfolded OWN_KEY_def] split: sum.splits)
qed

lemma registered_saved:
  assumes "fs_wf t" and "is_dir t (path_of SYSTEM_CONFIG_DIR)" and "keeps_config lx"
    and "locate t (path_of KEY_FILE) \<noteq> locate t CONFIG_FILE" and "accepted reply = Some r"
    and "finish_registration lx ra nm reply (h, t) = (Cli_Ok p, wd2)"
  shows "p = system_config_path \<and> (\<exists>s. toml_to (cx_toml (lx_cx lx)) (registered_config ra nm r) = Inr s
    \<and> node_at (snd wd2) CONFIG_FILE = Some (File s))"
proof -
  from finish_accepted [OF assms(5,6)] obtain wd1
    where sv: "save_registered lx (registered_config ra nm r) (h, t) = (Inr p, wd1)"
      and key: "case reg_signing_public_key r of None \<Rightarrow> wd2 = wd1
        | Some key \<Rightarrow> write_signing_key lx p key wd1 = (Inr (), wd2)" by blast
  note e = save_registered_effect [OF assms(1-3) sv]
  have "node_at (snd wd2) CONFIG_FILE = node_at (snd wd1) CONFIG_FILE"
  proof (cases "reg_signing_public_key r")
    case None
    with key show ?thesis by simp
  next
    case (Some k)
    show ?thesis
      by (rule write_key_keeps_config [of wd1 lx k "()" wd2]) (use e key Some assms(3,4) in simp_all)
  qed
  with e show ?thesis by simp
qed

section \<open>Loading what was registered\<close>

text \<open>A host ready to register: the setup left the system directory and no link from the key file to
  the configuration, no \<open>NEXUS_LINK_CONFIG\<close>, and the configuration file can be read.\<close>

definition register_ready :: "life_env \<Rightarrow> world \<Rightarrow> bool" where
  "register_ready lx wd \<longleftrightarrow>
     (let t = snd (snd (perform_setup lx wd)) in
      fs_wf t \<and> is_dir t (path_of SYSTEM_CONFIG_DIR)
      \<and> locate t (path_of KEY_FILE) \<noteq> locate t CONFIG_FILE)
     \<and> keeps_config lx \<and> cx_vars (lx_cx lx) ''NEXUS_LINK_CONFIG'' = None
     \<and> fault (cx_io (lx_cx lx)) (Op_read CONFIG_FILE) = None"

lemma load_system_config:
  assumes "cx_vars cx ''NEXUS_LINK_CONFIG'' = None" and "fault (cx_io cx) (Op_read CONFIG_FILE) = None"
    and "node_at t CONFIG_FILE = Some (File s)" and "toml_spec (cx_toml cx) c" and "toml_to (cx_toml cx) c = Inr s"
  shows "cx_load cx t = Inr (migrate_legacy_fields (c\<lparr>api := (api c)\<lparr>push_interval_secs := None\<rparr>\<rparr>))"
proof -
  from assms(3) have "exists t (path_of system_config_path)"
    by (auto simp: exists_def node_at_def CONFIG_FILE_def bind_eq_Some_conv)
  with assms(1) have p: "effective_config_path (cx_vars cx) t = system_config_path"
    by (simp add: effective_config_path_def Let_def)
  from assms(4,5) have v: "valid_utf8 s"
    and f: "toml_from (cx_toml cx) s = Inr (c\<lparr>api := (api c)\<lparr>push_interval_secs := None\<rparr>\<rparr>)"
    by (auto simp: toml_spec_def)
  show ?thesis unfolding cx_load_def load_def p
    by (rule load_from_node [OF _ _ v f]) (use assms(2,3) in \<open>simp_all add: CONFIG_FILE_def\<close>)
qed

lemma register_finished:
  assumes "re_posts (register ul mc lx backend ra wd) = [post]"
    and "re_outcome (register ul mc lx backend ra wd) = Cli_Ok p"
  shows "finish_registration lx ra (node_name_of lx ra) (backend post) (snd (perform_setup lx wd))
    = (Cli_Ok p, re_world (register ul mc lx backend ra wd))"
proof (cases rule: register_cases [of ul mc lx backend ra wd])
  case (stopped m)
  with assms show ?thesis by simp
next
  case (sent post' wd1)
  from sent(1) have "snd (perform_setup lx wd) = wd1" by (metis snd_conv)
  with sent(6,7) assms show ?thesis by simp
qed

lemma register_ok:
  assumes "register_ready lx wd" and "toml_spec (cx_toml (lx_cx lx)) (registered_config ra (node_name_of lx ra) r)"
    and "re_posts (register ul mc lx backend ra wd) = [post]" and "accepted (backend post) = Some r"
    and "re_outcome (register ul mc lx backend ra wd) = Cli_Ok p"
  shows "p = system_config_path
    \<and> cx_load (lx_cx lx) (snd (re_world (register ul mc lx backend ra wd)))
      = Inr (registered_config ra (node_name_of lx ra) r)"
proof -
  let ?reg = "register ul mc lx backend ra wd" and ?c = "registered_config ra (node_name_of lx ra) r"
  obtain h t where ht: "snd (perform_setup lx wd) = (h, t)" by fastforce
  have f: "finish_registration lx ra (node_name_of lx ra) (backend post) (h, t) = (Cli_Ok p, re_world ?reg)"
    using register_finished [OF assms(3,5)] ht by simp
  from assms(1) ht have rdy: "fs_wf t" "is_dir t (path_of SYSTEM_CONFIG_DIR)" "keeps_config lx"
    "locate t (path_of KEY_FILE) \<noteq> locate t CONFIG_FILE"
    and env: "cx_vars (lx_cx lx) ''NEXUS_LINK_CONFIG'' = None"
      "fault (cx_io (lx_cx lx)) (Op_read CONFIG_FILE) = None"
    by (simp_all add: register_ready_def Let_def)
  from registered_saved [OF rdy assms(4) f] obtain s where p: "p = system_config_path"
    and s: "toml_to (cx_toml (lx_cx lx)) ?c = Inr s" "node_at (snd (re_world ?reg)) CONFIG_FILE = Some (File s)"
    by blast
  have "?c\<lparr>api := (api ?c)\<lparr>push_interval_secs := None\<rparr>\<rparr> = ?c" by (simp add: registered_config_def)
  with load_system_config [OF env s(2) assms(2) s(1)] p show ?thesis
    by (simp add: registered_config_loaded)
qed

section \<open>Properties\<close>

text \<open>C15. Who is told and what is stored: at most one request goes out, to the address given, with
  the node token, whose format was checked; unless the backend accepts it, the files are those the
  setup left (or untouched) and the command ends with an error. A device that is not in the registry
  stops everything before the setup, unless forced or the check is skipped.\<close>

theorem registration_gates:
  "(case re_posts (register ul mc lx backend ra wd) of
      [] \<Rightarrow> is_error (re_outcome (register ul mc lx backend ra wd))
        \<and> re_world (register ul mc lx backend ra wd) \<in> {wd, snd (perform_setup lx wd)}
    | p # ps \<Rightarrow> ps = [] \<and> rp_bearer p = ra_token ra \<and> validate_token_format (ra_token ra)
        \<and> rp_url p = ra_api_url ra @ ''/api/nodes/register''
        \<and> sr_success (fst (perform_setup lx wd))
        \<and> (if accepted (backend p) = None
           then is_error (re_outcome (register ul mc lx backend ra wd))
             \<and> re_world (register ul mc lx backend ra wd) = snd (perform_setup lx wd) else True))
   \<and> (if pf_device_match (run_preflight ul mc) = None \<and> \<not> (ra_skip_preflight ra \<or> ra_force ra)
      then re_posts (register ul mc lx backend ra wd) = [] \<and> re_world (register ul mc lx backend ra wd) = wd
      else True)"
proof (cases rule: register_cases [of ul mc lx backend ra wd])
  case (stopped m)
  with gate_closed [of ra ul mc lx backend wd] show ?thesis by (simp add: is_error_def)
next
  case (sent post wd1)
  have "snd (perform_setup lx wd) = wd1" using sent(1) by (metis snd_conv)
  with sent finish_not_accepted [of "backend post" lx ra "node_name_of lx ra" wd1]
    gate_closed [of ra ul mc lx backend wd] token_checks_None [OF sent(3)]
  show ?thesis by (auto simp: is_error_def)
qed


text \<open>C35. Unregistering looks at the user's configuration only: after a registration that stored its
  credentials in the system directory, \<open>unregister --force\<close> reports success, notifies nobody, stops
  nothing, and the credentials are still the ones every command loads.\<close>

theorem unregister_misses_system_config:
  assumes "register_ready lx wd" and "toml_spec (cx_toml (lx_cx lx)) (registered_config ra (node_name_of lx ra) r)"
    and "re_posts (register ul mc lx backend ra wd) = [post]" and "accepted (backend post) = Some r"
    and "re_outcome (register ul mc lx backend ra wd) = Cli_Ok p"
    and "\<not> exists (snd (re_world (register ul mc lx backend ra wd)))
          (path_of (default_config_path (cx_vars (lx_cx lx))))"
    and "unregister (lx_cx lx) stdin True (snd (re_world (register ul mc lx backend ra wd))) = u"
  shows "un_outcome u = Cli_Ok () \<and> un_posts u = [] \<and> un_argvs u = []
    \<and> (\<exists>c. cx_load (lx_cx lx) (un_fs u) = Inr c \<and> node_token c = reg_token r)"
  using register_ok [OF assms(1-5)] assms(6,7)
  by (auto simp: unregister_def Let_def registered_config_sel)

text \<open>C36. A successful registration closes the configuration directory: the setup made it
  \<open>root:root\<close> with mode 755 and the services run as \<open>nexus-link\<close>, but saving sets the directory to 0700
  and only the file, never the directory, is given to \<open>nexus-link\<close>.\<close>

theorem register_locks_config_dir:
  assumes "register_ready lx wd" and "fault (cx_io (lx_cx lx)) (Op_chmod (path_of SYSTEM_CONFIG_DIR) 448) = None"
    and "re_posts (register ul mc lx backend ra wd) = [post]" and "accepted (backend post) = Some r"
    and "reg_signing_public_key r = None"
    and "re_outcome (register ul mc lx backend ra wd) = Cli_Ok p"
  shows "mode_of (snd (re_world (register ul mc lx backend ra wd))) (path_of SYSTEM_CONFIG_DIR) = Some 448
    \<and> fst (re_world (register ul mc lx backend ra wd))
      = fst (snd (perform_setup lx wd)) @ [Ran OWN_CONFIG, Ran RESTRICT_CONFIG]
    \<and> ''User=nexus-link'' \<in> set SERVICE_UNIT_LINES"
proof -
  let ?reg = "register ul mc lx backend ra wd"
  obtain h t where ht: "snd (perform_setup lx wd) = (h, t)" by fastforce
  have f: "finish_registration lx ra (node_name_of lx ra) (backend post) (h, t) = (Cli_Ok p, re_world ?reg)"
    using register_finished [OF assms(3,6)] ht by simp
  from finish_accepted [OF assms(4) f] assms(5)
  have "save_registered lx (registered_config ra (node_name_of lx ra) r) (h, t) = (Inr p, re_world ?reg)" by auto
  from save_registered_effect [OF _ _ _ this] assms(1,2) ht show ?thesis
    by (auto simp: register_ready_def Let_def SERVICE_UNIT_LINES_def unit_text_def)
qed

section \<open>A registration, concretely\<close>

definition sample_args :: register_args where
  "sample_args = \<lparr>ra_api_url = ''https://x'', ra_token = ''nxs_node_'' @ replicate 43 (CHR ''a''),
     ra_cmd_token = None, ra_name = Some ''spark'', ra_tags = [], ra_skip_preflight = True,
     ra_force = False\<rparr>"

definition sample_response :: register_response where
  "sample_response = \<lparr>reg_node_id = ''n1'', reg_token = ''nxs_node_b'', reg_cmd_token = Some ''nxs_cmd_b'',
     reg_signing_public_key = None, reg_database_url = None\<rparr>"

definition sample_registered :: config where
  "sample_registered = registered_config sample_args ''spark'' sample_response"

definition sample_life :: life_env where
  "sample_life =
     \<lparr>lx_cx = \<lparr>cx_vars = (\<lambda>_. None), cx_io = no_faults,
               cx_toml = \<lparr>toml_from = (\<lambda>_. Inr sample_registered), toml_to = (\<lambda>_. Inr ''[node]'')\<rparr>,
               cx_run = (\<lambda>_. Exited (Some 0) [] [])\<rparr>,
      lx_host = settled_host, lx_effect = (\<lambda>_ _ t. t), lx_kept = (\<lambda>_. False)\<rparr>"

definition sample_backend :: "register_post \<Rightarrow> string + register_reply" where
  "sample_backend p = Inr \<lparr>ry_status = 201, ry_status_line = ''201 Created'', ry_text = [],
     ry_decoded = Inr sample_response\<rparr>"

definition system_fs :: fs where
  "system_fs = \<lparr>tree = [([''etc''], Dir), ([''etc'', ''nexus-link''], Dir)], modes = []\<rparr>"

definition sample_registration :: registration where
  "sample_registration = register (\<lambda>_. []) \<lparr>mc_os = [], mc_arch = [], mc_run = (\<lambda>_. Spawn_Error []),
     mc_read = (\<lambda>_. None)\<rparr> sample_life sample_backend sample_args ([], system_fs)"

lemma effects_none: "effects (\<lambda>_ _ t. t) h as t = t"
  by (induction as arbitrary: h) simp_all

lemma sample_setup: "snd (snd (perform_setup sample_life wd)) = snd wd"
  by (cases wd) (simp add: perform_setup_def sample_life_def effects_none split: prod.split)

lemma system_fs_wf: "fs_wf system_fs"
  by (rule fs_wf_check) code_simp

lemma registration_ready: "register_ready sample_life ([], system_fs)"
proof -
  have "keeps_config sample_life" by (simp add: keeps_config_def sample_life_def)
  moreover have "is_dir system_fs (path_of SYSTEM_CONFIG_DIR)" by code_simp
  moreover have "locate system_fs (path_of KEY_FILE) \<noteq> locate system_fs CONFIG_FILE" by code_simp
  ultimately show ?thesis
    by (simp add: register_ready_def Let_def sample_setup system_fs_wf) (simp add: sample_life_def no_faults_def)
qed

lemma registration_accepted: "accepted (sample_backend p) = Some sample_response"
  by (simp add: accepted_def sample_backend_def)

lemma sample_life_toml: "toml_spec (cx_toml (lx_cx sample_life))
    (registered_config sample_args (node_name_of sample_life sample_args) sample_response)"
proof -
  have "valid_utf8 ''[node]''" by (rule valid_utf8_ascii) (simp add: is_ascii_def byte_def)
  moreover have "node_name_of sample_life sample_args = ''spark''"
    by (simp add: node_name_of_def sample_args_def)
  ultimately show ?thesis
    by (simp add: toml_spec_def sample_life_def sample_registered_def) (simp add: registered_config_def)
qed

lemma sample_saved_registration:
  "save_to (cx_toml (lx_cx sample_life)) (cx_io (lx_cx sample_life)) c system_config_path system_fs
     = (Inr (), snd (save_to (cx_toml (lx_cx sample_life)) (cx_io (lx_cx sample_life)) c system_config_path system_fs))"
proof -
  have "fst (save_to (cx_toml (lx_cx sample_life)) (cx_io (lx_cx sample_life)) c system_config_path system_fs)
      = Inr ()" by code_simp
  then show ?thesis by (metis prod.collapse)
qed

lemma registration_run:
  "\<exists>post. re_posts sample_registration = [post]"
  "re_outcome sample_registration = Cli_Ok system_config_path"
proof -
  have gate: "ra_skip_preflight sample_args" by (simp add: sample_args_def)
  have tok: "token_checks sample_args = None"
    by (simp add: token_checks_def sample_args_def) code_simp
  have ip: "detect_private_ip (cx_run (lx_cx sample_life)) = Some None" by code_simp
  obtain rep wd1 where s: "perform_setup sample_life ([], system_fs) = (rep, wd1)" by (rule prod.exhaust)
  have ok: "sr_success rep"
    using s settled_host_success [of "[]"]
    by (auto simp: perform_setup_def sample_life_def split: prod.splits)
  have "snd wd1 = system_fs" using sample_setup [of "([], system_fs)"] s by simp
  then obtain h where w: "wd1 = (h, system_fs)" by (cases wd1) simp
  have e: "exists system_fs (path_of SYSTEM_CONFIG_DIR)" by code_simp
  have none: "reg_signing_public_key sample_response = None" by (simp add: sample_response_def)
  have r: "fst (finish_registration sample_life sample_args nm (sample_backend p) wd1) = Cli_Ok system_config_path"
    for nm p
  proof -
    let ?c = "registered_config sample_args nm sample_response"
    obtain t1 where sv: "save_to (cx_toml (lx_cx sample_life)) (cx_io (lx_cx sample_life)) ?c
        system_config_path system_fs = (Inr (), t1)"
      using sample_saved_registration by blast
    obtain wd2 where "save_registered sample_life ?c wd1 = (Inr system_config_path, wd2)"
      unfolding w by (simp add: save_registered_def Let_def e sv)
    then show ?thesis by (simp add: finish_registration_def sample_backend_def none)
  qed
  show "\<exists>post. re_posts sample_registration = [post]"
    "re_outcome sample_registration = Cli_Ok system_config_path"
    using r by (simp_all add: sample_registration_def register_def Let_def gate s ok tok ip split_beta)
qed


lemma unregister_misses_system_config_witness:
  "un_outcome (unregister (lx_cx sample_life) (Inl []) True (snd (re_world sample_registration))) = Cli_Ok ()
   \<and> (\<exists>c. cx_load (lx_cx sample_life)
        (un_fs (unregister (lx_cx sample_life) (Inl []) True (snd (re_world sample_registration)))) = Inr c
      \<and> node_token c = ''nxs_node_b'')"
proof -
  obtain post where p: "re_posts sample_registration = [post]" using registration_run(1) by blast
  have "\<not> exists (snd (re_world sample_registration)) (path_of (default_config_path (cx_vars (lx_cx sample_life))))"
  proof -
    obtain h where h: "snd (perform_setup sample_life ([], system_fs)) = (h, system_fs)"
      using sample_setup [of "([], system_fs)"] by (metis prod.collapse snd_conv)
    from register_finished [OF p [unfolded sample_registration_def]
        registration_run(2) [unfolded sample_registration_def]] h
    have f: "re_world sample_registration = snd (finish_registration sample_life sample_args
        (node_name_of sample_life sample_args) (sample_backend post) (h, system_fs))"
      by (simp add: sample_registration_def)
    have "\<not> exists (snd (snd (finish_registration sample_life sample_args ''spark'' (sample_backend post)
        (h, system_fs)))) [''root'', ''.nexus-link'', ''config.toml'']" by code_simp
    moreover have "path_of (default_config_path (cx_vars (lx_cx sample_life)))
        = [''root'', ''.nexus-link'', ''config.toml'']" by code_simp
    moreover have "node_name_of sample_life sample_args = ''spark''"
      by (simp add: node_name_of_def sample_args_def)
    ultimately show ?thesis by (simp add: f)
  qed
  from unregister_misses_system_config [OF registration_ready sample_life_toml p [unfolded sample_registration_def]
      registration_accepted registration_run(2) [unfolded sample_registration_def] this [unfolded sample_registration_def] refl,
      of "Inl []"]
  show ?thesis by (auto simp: sample_registration_def sample_response_def)
qed

lemma register_locks_config_dir_witness:
  "mode_of (snd (re_world sample_registration)) [''etc'', ''nexus-link''] = Some 448"
proof -
  obtain post where p: "re_posts sample_registration = [post]" using registration_run(1) by blast
  have "fault (cx_io (lx_cx sample_life)) (Op_chmod (path_of SYSTEM_CONFIG_DIR) 448) = None"
    by (simp add: sample_life_def no_faults_def)
  moreover have "reg_signing_public_key sample_response = None" by (simp add: sample_response_def)
  ultimately show ?thesis
    using register_locks_config_dir [OF registration_ready _ p [unfolded sample_registration_def] registration_accepted _
        registration_run(2) [unfolded sample_registration_def]]
    by (simp add: sample_registration_def config_paths)
qed

lemma registration_gates_witness:
  "\<exists>post. re_posts sample_registration = [post] \<and> rp_bearer post = ra_token sample_args
     \<and> rp_url post = ''https://x/api/nodes/register''"
proof -
  obtain post where p: "re_posts sample_registration = [post]" using registration_run(1) by blast
  with registration_gates [of "\<lambda>_. []" "\<lparr>mc_os = [], mc_arch = [], mc_run = (\<lambda>_. Spawn_Error []),
      mc_read = (\<lambda>_. None)\<rparr>" sample_life sample_backend sample_args "([], system_fs)"]
  show ?thesis by (simp add: sample_registration_def) (simp add: sample_args_def)
qed

end
