(* ===== verification/Units_Laws.thy ===== *)
theory Units_Laws
  imports Cli_Agent Setup_Laws Cli_Laws
begin

text \<open>
  Starting, restarting and stopping the services: which commands run, that units already there are
  left alone, and what the units generated otherwise allow the services to write.
\<close>

section \<open>Commands only\<close>

lemma effects_append: "effects eff h (as @ bs) t = effects eff (h @ as) bs (effects eff h as t)"
  by (induction as arbitrary: h t) simp_all

text \<open>The world moved by running commands that satisfy \<open>P\<close>, and by nothing else.\<close>

definition ran :: "life_env \<Rightarrow> (string list \<Rightarrow> bool) \<Rightarrow> world \<Rightarrow> world \<Rightarrow> bool" where
  "ran lx P wd wd' \<longleftrightarrow> (\<exists>argvs. list_all P argvs \<and>
     wd' = (fst wd @ map Ran argvs, effects (lx_effect lx) (fst wd) (map Ran argvs) (snd wd)))"

lemma ran_refl [intro]: "ran lx P wd wd"
  by (auto simp: ran_def intro!: exI [of _ "[]"])

lemma ran_trans [trans]: "ran lx P wd wd1 \<Longrightarrow> ran lx P wd1 wd2 \<Longrightarrow> ran lx P wd wd2"
  unfolding ran_def
proof (elim exE conjE)
  fix as bs
  assume "list_all P as" "list_all P bs"
    and "wd1 = (fst wd @ map Ran as, effects (lx_effect lx) (fst wd) (map Ran as) (snd wd))"
    and "wd2 = (fst wd1 @ map Ran bs, effects (lx_effect lx) (fst wd1) (map Ran bs) (snd wd1))"
  then show "\<exists>cs. list_all P cs \<and>
      wd2 = (fst wd @ map Ran cs, effects (lx_effect lx) (fst wd) (map Ran cs) (snd wd))"
    by (intro exI [of _ "as @ bs"]) (simp add: effects_append)
qed

lemma perform_ran: "perform lx argv wd = (r, wd') \<Longrightarrow> P argv \<Longrightarrow> ran lx P wd wd'"
  by (cases wd) (auto simp: perform_def ran_def intro!: exI [of _ "[argv]"])

text \<open>The commands that manage the services.\<close>

definition service_command :: "string list \<Rightarrow> bool" where
  "service_command argv \<longleftrightarrow> argv = [''sudo'', ''-n'', ''true'']
     \<or> take 1 argv = [''systemctl''] \<or> take 2 argv = [''sudo'', ''systemctl'']
     \<or> take 2 argv = [''loginctl'', ''show-user'']
     \<or> argv \<in> {[''pkill'', ''-f'', ''nexus-link-agent''], [''pkill'', ''-f'', ''nexus-link-service'']}"

lemma service_commands [simp]:
  "service_command [''sudo'', ''-n'', ''true'']" "service_command (''systemctl'' # args)"
  "service_command (''sudo'' # ''systemctl'' # args)" "service_command (''loginctl'' # ''show-user'' # args)"
  "service_command [''pkill'', ''-f'', ''nexus-link-agent'']"
  "service_command [''pkill'', ''-f'', ''nexus-link-service'']"
  by (simp_all add: service_command_def)

lemma detect_mode_ran: "detect_systemd_mode lx is_root wd = (mode, wd') \<Longrightarrow> ran lx service_command wd wd'"
  by (auto simp: detect_systemd_mode_def has_sudo_def intro: perform_ran split: if_splits prod.splits)

lemma systemctl_ran: "systemctl lx mode cmd svc wd = (r, wd') \<Longrightarrow> ran lx service_command wd wd'"
proof -
  assume s: "systemctl lx mode cmd svc wd = (r, wd')"
  obtain p1 w1 where 1: "perform lx (''systemctl'' # systemctl_args mode cmd svc) wd = (p1, w1)"
    by (rule prod.exhaust)
  obtain p2 w2 where 2: "perform lx (''sudo'' # ''systemctl'' # systemctl_args mode cmd svc) w1 = (p2, w2)"
    by (rule prod.exhaust)
  have r1: "ran lx service_command wd w1" by (rule perform_ran [OF 1]) simp
  have "ran lx service_command w1 w2" by (rule perform_ran [OF 2]) simp
  with r1 have r2: "ran lx service_command wd w2" by (rule ran_trans)
  from s 1 2 have "wd' = w1 \<or> wd' = w2"
    by (auto simp: systemctl_def split: proc_result.splits if_splits)
  with r1 r2 show ?thesis by auto
qed

lemma systemctl_all_ran: "systemctl_all lx mode calls wd = (r, wd') \<Longrightarrow> ran lx service_command wd wd'"
proof (induction calls arbitrary: wd)
  case (Cons c calls)
  obtain cmd svc where c: "c = (cmd, svc)" by fastforce
  obtain q w where q: "systemctl lx mode cmd svc wd = (q, w)" by (rule prod.exhaust)
  show ?case
  proof (cases q)
    case (Inl e)
    with Cons.prems q c systemctl_ran [OF q] show ?thesis by simp
  next
    case (Inr u)
    with Cons.prems q c have "systemctl_all lx mode calls w = (r, wd')" by simp
    then have "ran lx service_command w wd'" by (rule Cons.IH)
    with systemctl_ran [OF q] show ?thesis by (rule ran_trans)
  qed
qed auto

lemma check_linger_ran: "check_linger lx mode wd = (b, wd') \<Longrightarrow> ran lx service_command wd wd'"
  by (auto simp: check_linger_def intro: perform_ran split: if_splits prod.splits)

section \<open>What \<open>systemctl\<close> answers\<close>

text \<open>In system mode the second attempt goes through \<open>sudo\<close>; in user mode there is none.\<close>

lemma systemctl_Inr:
  "fst (systemctl lx mode cmd svc (h, t)) = Inr () \<longleftrightarrow>
     (let argv = ''systemctl'' # systemctl_args mode cmd svc in
      proc_success (or_run (lx_host lx) h argv)
      \<or> mode = System_Mode \<and> (\<exists>code out err. or_run (lx_host lx) h argv = Exited code out err)
        \<and> proc_success (or_run (lx_host lx) (h @ [Ran argv]) (''sudo'' # argv)))"
  by (auto simp: systemctl_def perform_def Let_def split: proc_result.splits)

section \<open>Properties\<close>

text \<open>C29. Starting the services leaves units that are already there alone: when the agent's unit
  exists, whatever it says, the command only runs \<open>sudo -n true\<close>, \<open>systemctl\<close> (also through \<open>sudo\<close>)
  and \<open>loginctl show-user\<close>, and the files change by what those commands do, and by nothing else.\<close>

theorem agent_start_keeps_units:
  assumes "detect_systemd_mode lx is_root wd = (mode, wd1)"
    and "exists (snd wd1) (path_of (systemd_unit_path (cx_vars (lx_cx lx)) AGENT_SERVICE_NAME mode))"
    and "agent_start lx is_root wd = (r, wd')"
  shows "\<exists>argvs. list_all service_command argvs \<and>
    wd' = (fst wd @ map Ran argvs, effects (lx_effect lx) (fst wd) (map Ran argvs) (snd wd))"
proof -
  have u: "ensure_units lx mode wd1 = (Inr (), wd1)" using assms(2) by (simp add: ensure_units_def)
  obtain q w2 where q: "systemctl_all lx mode START_CALLS wd1 = (q, w2)" by (rule prod.exhaust)
  obtain b w3 where b: "check_linger lx mode w2 = (b, w3)" by (rule prod.exhaust)
  have r1: "ran lx service_command wd wd1" by (rule detect_mode_ran [OF assms(1)])
  have r2: "ran lx service_command wd w2" by (rule ran_trans [OF r1 systemctl_all_ran [OF q]])
  have r3: "ran lx service_command wd w3" by (rule ran_trans [OF r2 check_linger_ran [OF b]])
  have "wd' \<in> {wd, w2, w3}"
    using assms(1,3) u q b by (auto simp: agent_start_def split: sum.splits)
  with r2 r3 have "ran lx service_command wd wd'" by auto
  then show ?thesis by (simp add: ran_def)
qed
lemma read_write_line:
  assumes "(''ReadWritePaths='' @ a @ '' '' @ b) \<in> set unit" and "CHR '' '' \<notin> set a" and "CHR '' '' \<notin> set b"
  shows "{a, b} \<subseteq> set (read_write_paths unit)"
proof -
  obtain l where l: "l = ''ReadWritePaths='' @ a @ '' '' @ b" by blast
  have s: "starts_with l ''ReadWritePaths=''" unfolding l by (simp add: starts_with_iff)
  have "drop 15 l = a @ '' '' @ b" by (simp add: l)
  then have "split_char (CHR '' '') (drop 15 l) = [a, b]"
    using assms(2,3) by (simp add: split_char_first split_char_none)
  with s assms(1) [folded l] show ?thesis by (force simp: read_write_paths_def)
qed

text \<open>A line of the hardening block is a line of the unit.\<close>

lemma hardening_line:
  assumes "l \<in> set [''ProtectSystem=strict'', ''ProtectHome=yes'', ''ReadWritePaths='' @ wd @ '' '' @ dir]"
    and "LF \<notin> set wd" and "LF \<notin> set dir"
  shows "l \<in> set (split_char LF (unit_file descr after bin log wdir user (hardening wd dir) inst))"
proof -
  have "LF \<notin> set l" using assms by (auto simp: LF_def)
  then have "l \<in> set (split_char LF (hardening wd dir))"
    unfolding hardening_def using assms(1) by (intro split_join_line) auto
  then show ?thesis
    unfolding unit_file_def using split_join_part [of "hardening wd dir"] by (rule set_mp [rotated]) simp
qed

definition working_dir_of :: "cli_env \<Rightarrow> fs \<Rightarrow> string" where
  "working_dir_of cx t = (case parent_of (effective_config_path (cx_vars cx) t) of
     Some d \<Rightarrow> d | None \<Rightarrow> SYSTEM_CONFIG_DIR)"

text \<open>C30. The units generated in system mode, for any directory names without blanks and line feeds:
  both services are confined by \<open>ProtectSystem=strict\<close> with the configuration directory and the
  configured compose directory among their \<open>ReadWritePaths=\<close> (the units of the setup do not name the
  compose directory), and both hide the home directories by \<open>ProtectHome=yes\<close>.\<close>

theorem generated_units_allow_compose_dir:
  assumes "cx_load cx t = Inr c" and "working_dir_of cx t = wd" and "compose_dir (compose c) = dir"
    and "\<forall>x \<in> {LF, CHR '' ''}. x \<notin> set wd \<and> x \<notin> set dir"
    and "unit_texts cx t System_Mode agent_bin service_bin = (agent_unit, service_unit)"
    and "unit \<in> {split_char LF agent_unit, split_char LF service_unit}"
  shows "''ProtectSystem=strict'' \<in> set unit \<and> {wd, dir} \<subseteq> set (read_write_paths unit)
    \<and> ''ProtectHome=yes'' \<in> set unit"
proof -
  from assms(1-3,5,6) obtain descr after bin log user inst where
    u: "unit = split_char LF (unit_file descr after bin log wd user (hardening wd dir) inst)"
    by (auto simp: unit_texts_def Let_def working_dir_of_def)
  have lf: "LF \<notin> set wd" "LF \<notin> set dir" and sp: "CHR '' '' \<notin> set wd" "CHR '' '' \<notin> set dir"
    using assms(4) by auto
  note line = hardening_line [OF _ lf, of _ descr after bin log wd user inst, folded u]
  from read_write_line [OF line sp] line show ?thesis by simp
qed

section \<open>Instances\<close>

definition units_life :: life_env where
  "units_life = \<lparr>lx_cx = sample_cx sample_config, lx_host = settled_host, lx_effect = (\<lambda>_ _ t. t),
     lx_kept = (\<lambda>_. False)\<rparr>"

definition units_fs :: fs where
  "units_fs = \<lparr>tree = [([''n.toml''], File ''old''), ([''etc''], Dir), ([''etc'', ''systemd''], Dir),
     ([''etc'', ''systemd'', ''system''], Dir),
     ([''etc'', ''systemd'', ''system'', ''nexus-link-agent.service''], File [])], modes = []\<rparr>"

lemma agent_start_keeps_units_witness:
  "snd (snd (agent_start units_life True ([], units_fs))) = units_fs"
proof -
  have d: "detect_systemd_mode units_life True ([], units_fs) = (System_Mode, ([], units_fs))"
    by (simp add: detect_systemd_mode_def)
  have e: "exists (snd ([], units_fs))
      (path_of (systemd_unit_path (cx_vars (lx_cx units_life)) AGENT_SERVICE_NAME System_Mode))"
    by code_simp
  obtain r wd' where s: "agent_start units_life True ([], units_fs) = (r, wd')" by (rule prod.exhaust)
  have n: "effects (\<lambda>_ _ t. t) h as t = t" for h as t by (induction as arbitrary: h) simp_all
  from agent_start_keeps_units [OF d e s] s n show ?thesis by (auto simp: units_life_def)
qed

lemma generated_units_allow_compose_dir_witness:
  "''/opt/dgx-llm'' \<in> set (read_write_paths
     (split_char LF (snd (unit_texts (sample_cx sample_config) node_fs System_Mode ''/a'' ''/b''))))"
proof -
  have w: "working_dir_of (sample_cx sample_config) node_fs = ''/''" by code_simp
  have c: "compose_dir (compose loaded_sample) = ''/opt/dgx-llm''"
    by (simp add: loaded_sample_def migrate_legacy_fields_def sample_config_def default_compose_config_def
        default_compose_dir_def)
  have n: "\<forall>x \<in> {LF, CHR '' ''}. x \<notin> set ''/'' \<and> x \<notin> set ''/opt/dgx-llm''" by (simp add: LF_def)
  obtain a s where u: "unit_texts (sample_cx sample_config) node_fs System_Mode ''/a'' ''/b'' = (a, s)"
    by (rule prod.exhaust)
  have "split_char LF s \<in> {split_char LF a, split_char LF s}" by simp
  from generated_units_allow_compose_dir [OF sample_cx_load w c n u this] u show ?thesis by simp
qed

end
