(* ===== verification/Nonce_Refinement.thy ===== *)
theory Nonce_Refinement
  imports Auth_Laws
begin

text \<open>
  The abstract specification of the command gate: instead of a cache with expiry times that forgets,
  a log of every nonce ever recorded with the time it was. The gate of the code refines it on every
  sequence of requests whose clock does not go back.
\<close>

section \<open>The specification\<close>

type_synonym nonce_log = "(int \<times> string) list"

text \<open>A nonce is spent for six minutes after it was recorded.\<close>

definition spent :: "int \<Rightarrow> string \<Rightarrow> nonce_log \<Rightarrow> bool" where
  "spent now n log \<longleftrightarrow> list_ex (\<lambda>(t, m). m = n \<and> now < t + minutes 6) log"

definition spec_nonce :: "int \<Rightarrow> string \<Rightarrow> nonce_log \<Rightarrow> bool \<times> nonce_log" where
  "spec_nonce now n log = (if spent now n log then (False, log) else (True, (now, n) # log))"

text \<open>The gate over any store of nonces, and its run over a sequence of requests.\<close>

definition auth_over ::
    "(int \<Rightarrow> string \<Rightarrow> 's \<Rightarrow> bool \<times> 's) \<Rightarrow> ('k, 'z) auth_deps_scheme \<Rightarrow> 'k app_state \<Rightarrow> clock \<Rightarrow> request
      \<Rightarrow> 's \<Rightarrow> (http_error + request) \<times> 's" where
  "auth_over check d st clk req s = (case cmd_token_gate d st req of
     Some e \<Rightarrow> (Inl e, s)
   | None \<Rightarrow>
       if is_write req \<and> require_signatures (compose (st_config st)) then
         (case signing_pubkey st of
            None \<Rightarrow> (Inl (http_err 403 ''Signature enforcement enabled but no Ed25519 key is configured''), s)
          | Some pubkey \<Rightarrow>
              (case (req_header req ''x-nexus-signature'', req_header req ''x-nexus-timestamp'',
                     req_header req ''x-nexus-nonce'') of
                 (Some sig_hex, Some ts_str, Some nonce_str) \<Rightarrow>
                   (case timestamp_gate d clk ts_str of
                      Some e \<Rightarrow> (Inl e, s)
                    | None \<Rightarrow>
                        (case check (now_nonce clk) nonce_str s of
                           (False, s1) \<Rightarrow>
                             (Inl (http_err 403 (''Duplicate nonce '' @ EM_DASH @ '' possible replay'')), s1)
                         | (True, s1) \<Rightarrow> (signature_gate d pubkey req sig_hex ts_str nonce_str, s1)))
               | _ \<Rightarrow> (Inl (http_err 403 ''Signature required for write operations''), s)))
       else (Inr req, s))"

fun serve_over ::
    "(int \<Rightarrow> string \<Rightarrow> 's \<Rightarrow> bool \<times> 's) \<Rightarrow> ('k, 'z) auth_deps_scheme \<Rightarrow> 'k app_state
      \<Rightarrow> (clock \<times> request) list \<Rightarrow> 's \<Rightarrow> (http_error + request) list" where
  "serve_over check d st [] s = []"
| "serve_over check d st ((clk, req) # rest) s =
     (let (r, s1) = auth_over check d st clk req s in r # serve_over check d st rest s1)"

lemma code_is_over_cache: "require_cmd_auth = auth_over nonce_check"
  by (intro ext) (simp only: require_cmd_auth_def auth_over_def)

lemma serve_auth_over: "serve_auth d st reqs cache = serve_over nonce_check d st reqs cache"
  by (induction reqs arbitrary: cache) (auto simp: code_is_over_cache split: prod.split)

section \<open>Simulation between two stores\<close>

text \<open>
  The contract of a refinement between stores: related stores answer alike and stay related, and
  a relation survives the passing of time. Every gate over them then answers alike.
\<close>

locale store_refinement =
  fixes conc :: "int \<Rightarrow> string \<Rightarrow> 's \<Rightarrow> bool \<times> 's"
    and abst :: "int \<Rightarrow> string \<Rightarrow> 'a \<Rightarrow> bool \<times> 'a"
    and rel :: "int \<Rightarrow> 's \<Rightarrow> 'a \<Rightarrow> bool"
  assumes step: "rel t0 s a \<Longrightarrow> t0 \<le> t \<Longrightarrow> fst (conc t n s) = fst (abst t n a)"
    and step_rel: "rel t0 s a \<Longrightarrow> t0 \<le> t \<Longrightarrow> rel t (snd (conc t n s)) (snd (abst t n a))"
    and later: "rel t0 s a \<Longrightarrow> t0 \<le> t \<Longrightarrow> rel t s a"
begin

lemma gate_refines:
  assumes "rel t0 s a" and "t0 \<le> now_nonce clk"
  shows "fst (auth_over conc d st clk req s) = fst (auth_over abst d st clk req a)
    \<and> rel (now_nonce clk) (snd (auth_over conc d st clk req s)) (snd (auth_over abst d st clk req a))"
proof -
  have c: "fst (conc (now_nonce clk) n s) = fst (abst (now_nonce clk) n a)"
    "rel (now_nonce clk) (snd (conc (now_nonce clk) n s)) (snd (abst (now_nonce clk) n a))" for n
    using step [OF assms] step_rel [OF assms] by blast+
  have l: "rel (now_nonce clk) s a" by (rule later [OF assms])
  show ?thesis
    using c l
    by (auto simp: auth_over_def split_beta split: option.split bool.split)
qed

lemma run_refines:
  "rel t0 s a \<Longrightarrow> sorted (t0 # map (\<lambda>(c, _). now_nonce c) reqs) \<Longrightarrow>
   serve_over conc d st reqs s = serve_over abst d st reqs a"
proof (induction reqs arbitrary: t0 s a)
  case (Cons cr reqs)
  obtain clk req where cr: "cr = (clk, req)" by fastforce
  with Cons.prems have t: "t0 \<le> now_nonce clk"
    and s: "sorted (now_nonce clk # map (\<lambda>(c, _). now_nonce c) reqs)" by auto
  note g = gate_refines [OF Cons.prems(1) t, of d st req]
  from Cons.IH [OF conjunct2 [OF g] s] g show ?case
    by (simp add: cr split_beta)
qed simp

end

section \<open>The cache refines the log\<close>

definition nonce_rel :: "int \<Rightarrow> nonce_cache \<Rightarrow> nonce_log \<Rightarrow> bool" where
  "nonce_rel now cache log \<longleftrightarrow> (\<forall>n. case cache n of
     None \<Rightarrow> \<forall>t. (t, n) \<in> set log \<longrightarrow> t + minutes 6 \<le> now
   | Some e \<Rightarrow> (e - minutes 6, n) \<in> set log \<and> (\<forall>t. (t, n) \<in> set log \<longrightarrow> t + minutes 6 \<le> e))"

lemma nonce_relD:
  assumes "nonce_rel now cache log"
  shows "cache n = None \<Longrightarrow> (t, n) \<in> set log \<Longrightarrow> t + minutes 6 \<le> now"
    and "cache n = Some e \<Longrightarrow> (e - minutes 6, n) \<in> set log"
    and "cache n = Some e \<Longrightarrow> (t, n) \<in> set log \<Longrightarrow> t + minutes 6 \<le> e"
  using assms by (auto simp: nonce_rel_def dest!: spec [of _ n])

lemma retain_rel:
  assumes "nonce_rel t0 cache log" and "t0 \<le> now"
  shows "nonce_rel now (cache_retain now cache) log"
    and "cache_retain now cache n \<noteq> None \<longleftrightarrow> spent now n log"
proof -
  note r = nonce_relD [OF assms(1)]
  show "nonce_rel now (cache_retain now cache) log"
    using r assms(2) unfolding nonce_rel_def
    by (force simp: cache_retain_def split: option.split if_splits)
  show "cache_retain now cache n \<noteq> None \<longleftrightarrow> spent now n log"
  proof (cases "cache n")
    case None
    have "t + minutes 6 \<le> now" if "(t, n) \<in> set log" for t
      using r(1) [OF None that] assms(2) by simp
    then have "\<not> spent now n log" by (fastforce simp: spent_def list_ex_iff)
    with None show ?thesis by (simp add: cache_retain_def)
  next
    case (Some e)
    have "t + minutes 6 \<le> e" if "(t, n) \<in> set log" for t by (rule r(3) [OF Some that])
    moreover have "(e - minutes 6, n) \<in> set log" by (rule r(2) [OF Some])
    ultimately have "spent now n log \<longleftrightarrow> now < e"
      unfolding spent_def list_ex_iff by (force intro: less_le_trans)
    with Some show ?thesis by (simp add: cache_retain_def)
  qed
qed

interpretation nonce_store: store_refinement nonce_check spec_nonce nonce_rel
proof unfold_locales
  fix t0 t :: int and s a n
  assume r: "nonce_rel t0 s a" and t: "t0 \<le> t"
  note rr = retain_rel [OF r t]
  show "fst (nonce_check t n s) = fst (spec_nonce t n a)"
    using rr(2) [of n] by (simp add: nonce_check_def spec_nonce_def Let_def)
  show "nonce_rel t s a"
    using nonce_relD [OF r] t unfolding nonce_rel_def by (force split: option.split)
  show "nonce_rel t (snd (nonce_check t n s)) (snd (spec_nonce t n a))"
  proof (cases "spent t n a")
    case True
    with rr show ?thesis by (simp add: nonce_check_def spec_nonce_def Let_def)
  next
    case False
    have old: "t' + minutes 6 \<le> t" if "(t', n) \<in> set a" for t'
      using False that by (force simp: spent_def list_ex_iff)
    have "nonce_rel t ((cache_retain t s)(n \<mapsto> t + minutes 6)) ((t, n) # a)"
      using rr(1) old unfolding nonce_rel_def
      by (auto simp: minutes_def split: option.splits) force+
    with False rr(2) [of n] show ?thesis by (simp add: nonce_check_def spec_nonce_def Let_def)
  qed
qed

section \<open>Properties\<close>

text \<open>C5. The gate refines its specification: over any sequence of requests whose clock does not go
  back, starting with an empty cache, the answers are those of the gate that keeps a log of all
  nonces and refuses one recorded less than six minutes ago. Forgetting expired entries is never
  visible.\<close>

theorem nonce_cache_refines_log:
  assumes "sorted (map (\<lambda>(c, _). now_nonce c) reqs)"
  shows "serve_auth d st reqs Map.empty = serve_over spec_nonce d st reqs []"
proof (cases reqs)
  case (Cons x xs)
  obtain clk req where x: "x = (clk, req)" by fastforce
  have "nonce_rel (now_nonce clk) Map.empty []" by (simp add: nonce_rel_def)
  moreover have "sorted (now_nonce clk # map (\<lambda>(c, _). now_nonce c) reqs)"
    using assms by (simp add: Cons x)
  ultimately show ?thesis
    unfolding serve_auth_over by (rule nonce_store.run_refines)
qed simp

lemma nonce_cache_refines_log_witness:
  "serve_auth sample_deps sample_state
     [(at_time 0, signed_request ''0'' good_sig), (at_time (minutes 3), signed_request ''0'' good_sig)] Map.empty
   = serve_over spec_nonce sample_deps sample_state
     [(at_time 0, signed_request ''0'' good_sig), (at_time (minutes 3), signed_request ''0'' good_sig)] []"
  by (rule nonce_cache_refines_log) (simp add: minutes_def)

end
