(* ===== verification/Queue_Laws.thy ===== *)
theory Queue_Laws
  imports Poller_Laws
begin

text \<open>
  What a poll cycle does to the files, and that the reports it sends say so: a command that the
  backend hears completed has been executed, one it hears failed has changed nothing.
\<close>

section \<open>The specification, over commands and reports\<close>

text \<open>The commands of the batch that a cycle gets to see.\<close>

definition received_commands ::
    "config \<Rightarrow> (string \<Rightarrow> string \<Rightarrow> string + http_reply) \<Rightarrow> command_item list" where
  "received_commands cfg get = (case compose_cmd_token (compose cfg) of
     None \<Rightarrow> []
   | Some tok \<Rightarrow> (case get (pending_url cfg) tok of
       Inl e \<Rightarrow> []
     | Inr resp \<Rightarrow>
         if reply_status resp = 204 \<or> \<not> is_success (reply_status resp) then []
         else (case Option.bind (reply_json resp) decode_commands of None \<Rightarrow> [] | Some cs \<Rightarrow> cs)))"

definition reported_completed :: "report \<Rightarrow> bool" where
  "reported_completed r \<longleftrightarrow> json_get ''status'' (rep_body r) = Some (JStr ''completed'')"

text \<open>The content of a replacement whose report says that it was completed.\<close>

definition reported_content :: "command_item \<times> report \<Rightarrow> string option" where
  "reported_content cr = (case cr of (cmd, r) \<Rightarrow>
     if ci_type cmd = Put_File \<and> reported_completed r then arg_str ''content'' cmd else None)"

definition reported_contents :: "command_item list \<Rightarrow> report list \<Rightarrow> string list" where
  "reported_contents cmds reports = List.map_filter reported_content (zip cmds reports)"

lemma reported_contents_simps [simp]:
  "reported_contents [] rs = []" "reported_contents cs [] = []"
  "reported_contents (c # cs) (r # rs) =
     (case reported_content (c, r) of None \<Rightarrow> [] | Some x \<Rightarrow> [x]) @ reported_contents cs rs"
  by (simp_all add: reported_contents_def List.map_filter_def split: option.split)

lemma encode_result_status:
  "json_get ''status'' (encode_result r) = Some (JStr (command_status_name (cres_status r)))"
  by (cases "cres_result r"; cases "cres_error r") (simp_all add: encode_result_def)

lemma report_completed_iff:
  "reported_completed \<lparr>rep_url = u, rep_bearer = b, rep_body = encode_result r\<rparr>
     \<longleftrightarrow> cres_status r = Completed"
  by (cases "cres_status r") (simp_all add: reported_completed_def encode_result_status)

section \<open>One command\<close>

text \<open>The file holds \<open>content\<close> if one was accepted, and nothing but it and the temporary file moved.\<close>

definition replaced :: "path \<Rightarrow> string option \<Rightarrow> fs \<Rightarrow> fs \<Rightarrow> bool" where
  "replaced d content t t' \<longleftrightarrow>
     lookup t' (d @ [YAML_NAME]) = (case content of None \<Rightarrow> lookup t (d @ [YAML_NAME]) | Some c \<Rightarrow> Some (File c))
     \<and> (\<forall>k. k \<noteq> d @ [TMP_NAME] \<longrightarrow> k \<noteq> d @ [YAML_NAME] \<longrightarrow> lookup t' k = lookup t k)"

lemma replaced_refl [simp]: "replaced d None t t"
  by (simp add: replaced_def)

lemma replaced_trans:
  "replaced d x t t1 \<Longrightarrow> replaced d y t1 t2 \<Longrightarrow>
   replaced d (case y of None \<Rightarrow> x | Some c \<Rightarrow> Some c) t t2"
  by (auto simp: replaced_def split: option.splits)

lemma put_file_effect:
  assumes "replace_ready t (path_of (compose_dir (compose cfg))) TMP_NAME YAML_NAME d"
    and "execute_put_file yaml env cfg cmd t = (r, t')"
  shows "replaced d (if cres_status r = Completed then arg_str ''content'' cmd else None) t t'
    \<and> replace_ready t' (path_of (compose_dir (compose cfg))) TMP_NAME YAML_NAME d"
proof (cases "arg_str ''content'' cmd")
  case None
  with assms show ?thesis by (auto simp: execute_put_file_def failed_def)
next
  case (Some c)
  then have "queue_replace yaml cfg env c t = (cres_status r = Completed, t')"
    using assms(2) by (simp add: queue_replace_def execute_put_file_def put_command_def arg_str_def)
  from queue_put.replace_effect [OF assms(1) this] Some show ?thesis by (simp add: replaced_def)
qed

lemma execute_command_effect:
  assumes "replace_ready t (path_of (compose_dir (compose cfg))) TMP_NAME YAML_NAME d"
    and "execute_command yaml uni cfg ex cmd t = (res, t')"
  shows "replaced d (case res of None \<Rightarrow> None | Some r \<Rightarrow>
        reported_content (cmd, \<lparr>rep_url = u, rep_bearer = b, rep_body = encode_result r\<rparr>)) t t'
    \<and> replace_ready t' (path_of (compose_dir (compose cfg))) TMP_NAME YAML_NAME d
"
proof (cases "ci_type cmd = Put_File")
  case True
  obtain r t1 where p: "execute_put_file yaml (ex_io ex) cfg cmd t = (r, t1)" by (rule prod.exhaust)
  with True assms(2) have "res = Some r" "t' = t1" by (auto simp: execute_command_def)
  with put_file_effect [OF assms(1) p] True show ?thesis
    by (simp add: reported_content_def report_completed_iff)
next
  case False
  with assms show ?thesis
    by (cases "ci_type cmd") (auto simp: execute_command_def reported_content_def split: option.split)
qed

section \<open>A batch\<close>

lemma last_content:
  "(case case xs of [] \<Rightarrow> None | cs \<Rightarrow> Some (last cs) of None \<Rightarrow> x | Some c \<Rightarrow> Some c)
     = (case (case x of None \<Rightarrow> [] | Some a \<Rightarrow> [a]) @ xs of [] \<Rightarrow> None | ys \<Rightarrow> Some (last ys))"
  by (cases xs; cases x) simp_all

lemma execute_all_effect:
  assumes "replace_ready t (path_of (compose_dir (compose cfg))) TMP_NAME YAML_NAME d"
    and "execute_all yaml uni cfg tok work t = (ok, reports, t')"
  shows "replaced d (case reported_contents (map fst work) reports of [] \<Rightarrow> None | cs \<Rightarrow> Some (last cs)) t t'"
  using assms
proof (induction work arbitrary: t ok reports)
  case (Cons w work)
  note IH = Cons.IH
  obtain cmd ex where w: "w = (cmd, ex)" by fastforce
  obtain res t1 where e: "execute_command yaml uni cfg ex cmd t = (res, t1)" by fastforce
  note eff = execute_command_effect [OF Cons.prems(1) e, of "report_url cfg (ci_id cmd)" tok]
  show ?case
  proof (cases res)
    case None
    with Cons.prems(2) w e have "reports = []" "t' = t1" by auto
    with eff None show ?thesis by simp
  next
    case (Some r)
    obtain ok1 rs t2 where a: "execute_all yaml uni cfg tok work t1 = (ok1, rs, t2)"
      using prod_cases3 by blast
    let ?rep = "\<lparr>rep_url = report_url cfg (ci_id cmd), rep_bearer = tok, rep_body = encode_result r\<rparr>"
    have r: "reports = ?rep # rs" and t: "t' = t2" using Cons.prems(2) w e Some a by auto
    have "replaced d (case reported_contents (map fst work) rs of [] \<Rightarrow> None | cs \<Rightarrow> Some (last cs)) t1 t2"
      using IH [of t1 ok1 rs] eff a t by simp
    from replaced_trans [OF _ this, of "reported_content (cmd, ?rep)" t] eff Some r t
    show ?thesis by (simp add: w last_content)
  qed
qed simp

section \<open>Properties\<close>

text \<open>C11. What a poll cycle does to the files is what it reports: afterwards the compose file holds the
  content of the last replacement that was reported as completed, and is untouched when none was;
  no other location but the temporary file has changed, whatever commands the batch held, whatever
  calls failed, and also when the cycle panicked half way.\<close>

theorem queue_reports_truthful:
  assumes "poll_and_execute yaml uni cfg get envs t = (out, reports, t')"
    and "replace_ready t (path_of (compose_dir (compose cfg))) TMP_NAME YAML_NAME d"
  shows "lookup t' (d @ [YAML_NAME]) =
      (case reported_contents (received_commands cfg get) reports of
         [] \<Rightarrow> lookup t (d @ [YAML_NAME]) | cs \<Rightarrow> Some (File (last cs)))
    \<and> (\<forall>k. if k = d @ [TMP_NAME] \<or> k = d @ [YAML_NAME] then True else lookup t' k = lookup t k)"
proof -
  let ?cs = "received_commands cfg get"
  have "replaced d (case reported_contents ?cs reports of [] \<Rightarrow> None | cs \<Rightarrow> Some (last cs)) t t'"
  proof (cases "?cs = []")
    case True
    then have "t' = t" using assms(1)
      by (auto simp: poll_and_execute_def received_commands_def Let_def
          split: option.splits sum.splits if_splits prod.splits)
    with True show ?thesis by simp
  next
    case False
    then obtain tok ok where a: "execute_all yaml uni cfg tok (zip ?cs (map envs [0..<length ?cs])) t = (ok, reports, t')"
      using assms(1)
      by (auto simp: poll_and_execute_def received_commands_def Let_def
          split: option.splits sum.splits if_splits prod.splits)
    from execute_all_effect [OF assms(2) a] show ?thesis by simp
  qed
  then show ?thesis by (simp add: replaced_def split: list.split)
qed

text \<open>Two replacements, the second refused by the YAML check: the first one stays.\<close>

definition two_puts :: http_reply where
  "two_puts = sample_reply\<lparr>reply_json := Some (JArr (map encode_command
     [put_command ''c1'' ''a: 2'', put_command ''c2'' ''}'']))\<rparr>"

definition queue_run :: "poll_outcome \<times> report list \<times> fs" where
  "queue_run = poll_and_execute (\<lambda>s. if s = ''}'' then Some ''bad'' else None) (\<lambda>_. False) sample_config
     (\<lambda>_ _. Inr two_puts) (\<lambda>_. quiet_env) sample_tree"

lemma queue_reports_truthful_witness:
  "lookup (snd (snd queue_run)) (sample_dir @ [YAML_NAME]) = Some (File ''a: 2'')
   \<and> lookup (snd (snd queue_run)) (sample_dir @ [''.env'']) = Some (File ''K=1'')
   \<and> map reported_completed (fst (snd queue_run)) = [True, False]"
proof -
  have d: "path_of (compose_dir (compose sample_config)) = sample_dir" by code_simp
  have r: "reported_contents (received_commands sample_config (\<lambda>_ _. Inr two_puts)) (fst (snd queue_run)) = [''a: 2'']"
    "map reported_completed (fst (snd queue_run)) = [True, False]" by code_simp+
  have n: "sample_dir @ [''.env''] \<noteq> sample_dir @ [TMP_NAME]" "sample_dir @ [''.env''] \<noteq> sample_dir @ [YAML_NAME]"
    by (simp_all add: TMP_NAME_def YAML_NAME_def)
  have e: "lookup sample_tree (sample_dir @ [''.env'']) = Some (File ''K=1'')" by code_simp
  have "poll_and_execute (\<lambda>s. if s = ''}'' then Some ''bad'' else None) (\<lambda>_. False) sample_config
     (\<lambda>_ _. Inr two_puts) (\<lambda>_. quiet_env) sample_tree
      = (fst queue_run, fst (snd queue_run), snd (snd queue_run))" by (simp add: queue_run_def)
  from queue_reports_truthful [OF this, of sample_dir] sample_ready r n e
  show ?thesis by (simp add: d del: append_same_eq)
qed

end
