(* ===== verification/Node_Life.thy ===== *)
theory Node_Life
  imports Register_Laws Service_Laws
begin

text \<open>
  The programs together: the command line registers a node, the service starts on what was stored,
  and its gates admit the holders of the credentials the backend issued.
\<close>

section \<open>From the configuration to the gates\<close>

text \<open>A bearer token of the given format with the digest of \<open>secret\<close>.\<close>

definition bears :: "('k, 'z) crypto_scheme \<Rightarrow> (string \<Rightarrow> bool) \<Rightarrow> string \<Rightarrow> request \<Rightarrow> bool" where
  "bears cr valid secret req \<longleftrightarrow> (\<exists>tok. req_header req ''authorization'' = Some (''Bearer '' @ tok)
     \<and> valid tok \<and> sha256 cr tok = sha256 cr secret)"

lemma service_start_Inr:
  assumes "service_start parse_ip (Inr c) new_state = Inr (plan, st)"
  shows "new_state c = Inr st
    \<and> sp_poll_secs plan = (if compose_cmd_token (compose c) = None then None else Some (poll_sec (agent c)))
    \<and> (Signatures_Disabled \<in> set (sp_warnings plan)
        \<longleftrightarrow> \<not> require_signatures (compose c) \<and> compose_cmd_token (compose c) \<noteq> None)
    \<and> sp_listener plan = (compose_cmd_token (compose c) \<noteq> None \<and> database_url (api c) \<noteq> None)"
  using assms by (auto simp: service_start_def res_bind_Inr_iff Let_def)

lemma bears_bearer:
  "ct_eq_spec cr \<Longrightarrow> bears cr valid secret req \<longleftrightarrow>
     (case bearer_token (req_header req ''authorization'') of
        None \<Rightarrow> False | Some tok \<Rightarrow> valid tok \<and> verify_token cr tok (hash_token cr secret))"
  by (cases "bearer_token (req_header req ''authorization'')")
    (simp_all add: bears_def bearer_token_Some [symmetric] verify_token_iff hash_token_eq_iff
      del: append_Cons append.simps)

lemma require_auth_bears:
  assumes "ct_eq_spec cr" and "node_token_hash st = hash_token cr secret"
  shows "require_auth cr st req =
    (if bears cr validate_token_format secret req then Inr req else Inl (http_err 401 []))"
  by (simp add: require_auth_def assms(2) bears_bearer [OF assms(1)] split: option.split)

lemma cmd_token_gate_bears:
  assumes "ct_eq_spec cr" and "cmd_token_hash st = Some (hash_token cr secret)"
  shows "cmd_token_gate cr st req =
    (if bears cr validate_cmd_token_format secret req then None else Some (http_err 401 []))"
  by (simp add: cmd_token_gate_def assms(2) bears_bearer [OF assms(1)] split: option.split)

section \<open>Properties\<close>

text \<open>C13. The life of a node, across the three programs. After a successful registration that gave the
  node a command token, the service that starts on the stored configuration polls the queue at the
  default interval and listens when a database was announced; its command route admits exactly the
  bearers of the node token the backend issued, and its compose routes exactly the bearers of the
  command token, also for writes: signatures are not enforced until the operator says so, which the
  service warns of. The key it would verify them with is the one issued now only if the home directory
  of the service holds no key file: such a file comes first.\<close>

theorem registered_node_serves:
  assumes "register_ready lx wd" and "toml_spec (cx_toml (lx_cx lx)) (registered_config ra (node_name_of lx ra) r)"
    and "re_posts (register ul mc lx backend ra wd) = [post]" and "accepted (backend post) = Some r"
    and "re_outcome (register ul mc lx backend ra wd) = Cli_Ok p"
    and "(case reg_cmd_token r of Some ct \<Rightarrow> Some ct | None \<Rightarrow> ra_cmd_token ra) = Some secret"
    and "service_start parse_ip (cx_load (lx_cx lx) (snd (re_world (register ul mc lx backend ra wd))))
        (app_state_new d env vars t docker) = Inr (plan, st)"
    and "ct_eq_spec d"
  shows "sp_poll_secs plan = Some default_poll_sec
    \<and> sp_listener plan = (reg_database_url r \<noteq> None)
    \<and> Signatures_Disabled \<in> set (sp_warnings plan)
    \<and> require_auth d st req = (if bears d validate_token_format (reg_token r) req then Inr req
        else Inl (http_err 401 []))
    \<and> fst (require_cmd_auth d st clk req cache) =
        (if bears d validate_cmd_token_format secret req then Inr req else Inl (http_err 401 []))
    \<and> signing_pubkey st = (case (case read_to_string env t (path_of (signing_key_path vars)) of
          Inr s \<Rightarrow> decode_verifying_key d (trim s) | Inl _ \<Rightarrow> None) of
        Some old \<Rightarrow> Some old
      | None \<Rightarrow> Option.bind (reg_signing_public_key r) (\<lambda>s. decode_verifying_key d (trim s)))"
proof -
  let ?c = "registered_config ra (node_name_of lx ra) r"
  have secret: "resolved_cmd_token ra r = Some secret" using assms(6) by (simp add: resolved_cmd_token_def)
  have l: "cx_load (lx_cx lx) (snd (re_world (register ul mc lx backend ra wd))) = Inr ?c"
    using register_ok [OF assms(1-5)] by blast
  from service_start_Inr [OF assms(7) [unfolded l]]
  have n: "app_state_new d env vars t docker ?c = Inr st"
    and plan: "sp_poll_secs plan = (if compose_cmd_token (compose ?c) = None then None else Some (poll_sec (agent ?c)))"
      "Signatures_Disabled \<in> set (sp_warnings plan)
        \<longleftrightarrow> \<not> require_signatures (compose ?c) \<and> compose_cmd_token (compose ?c) \<noteq> None"
      "sp_listener plan = (compose_cmd_token (compose ?c) \<noteq> None \<and> database_url (api ?c) \<noteq> None)" by auto
  have c: "compose_cmd_token (compose ?c) = Some secret" "\<not> require_signatures (compose ?c)"
    "poll_sec (agent ?c) = default_poll_sec" "database_url (api ?c) = reg_database_url r"
    using secret by (simp_all add: registered_config_def default_compose_config_def default_agent_config_def)
  from app_state_new_Inr [OF n] secret
  have st: "st_config st = ?c" "node_token_hash st = hash_token d (reg_token r)"
    "cmd_token_hash st = Some (hash_token d secret)" by (simp_all add: registered_config_sel)
  have "\<not> signed_write st req" using st(1) c(2) by (simp add: signed_write_def)
  then have "fst (require_cmd_auth d st clk req cache) =
      (if bears d validate_cmd_token_format secret req then Inr req else Inl (http_err 401 []))"
    by (simp add: unsigned_cmd_auth cmd_token_gate_bears [OF assms(8) st(3)])
  moreover have "signing_pubkey st = (case (case read_to_string env t (path_of (signing_key_path vars)) of
          Inr s \<Rightarrow> decode_verifying_key d (trim s) | Inl _ \<Rightarrow> None) of
        Some old \<Rightarrow> Some old
      | None \<Rightarrow> Option.bind (reg_signing_public_key r) (\<lambda>s. decode_verifying_key d (trim s)))"
    using app_state_new_Inr [OF n]
    by (auto simp: load_signing_pubkey_def Let_def registered_config_sel split: option.split sum.split)
  ultimately show ?thesis using plan c require_auth_bears [OF assms(8) st(2)] by simp
qed

section \<open>A node, concretely\<close>

definition sample_service :: "string + (service_plan \<times> string app_state)" where
  "sample_service = service_start Inr (cx_load (lx_cx sample_life) (snd (re_world sample_registration)))
     (app_state_new sample_deps no_faults (\<lambda>_. None) empty_fs (Inr ()))"

definition bearer_request :: "string \<Rightarrow> request" where
  "bearer_request tok = \<lparr>req_method = PUT, req_path = ''/compose/file'',
     req_header = (\<lambda>h. if h = ''authorization'' then Some (''Bearer '' @ tok) else None), req_body = Some []\<rparr>"

lemma registered_node_serves_witness:
  "sp_poll_secs (fst (projr sample_service)) = Some 2
   \<and> fst (require_cmd_auth sample_deps (snd (projr sample_service)) (at_time 0) (bearer_request ''nxs_cmd_b'') Map.empty)
     = Inr (bearer_request ''nxs_cmd_b'')
   \<and> require_auth sample_deps (snd (projr sample_service)) (bearer_request ''nxs_cmd_b'') = Inl (http_err 401 [])"
proof -
  obtain post where p: "re_posts sample_registration = [post]" using registration_run(1) by blast
  note reg = registration_ready sample_life_toml p [unfolded sample_registration_def]
    registration_accepted registration_run(2) [unfolded sample_registration_def]
  from register_ok [OF reg]
  obtain c where "cx_load (lx_cx sample_life) (snd (re_world sample_registration)) = Inr c"
    unfolding sample_registration_def by blast
  then have "sample_service = Inr (fst (projr sample_service), snd (projr sample_service))"
    by (simp add: sample_service_def service_start_def app_state_new_def Let_def)
  note start = this [unfolded sample_service_def sample_registration_def]
  have "(case reg_cmd_token sample_response of Some ct \<Rightarrow> Some ct | None \<Rightarrow> ra_cmd_token sample_args)
      = Some ''nxs_cmd_b''" by (simp add: sample_response_def)
  moreover have "ct_eq_spec sample_deps" by (simp add: ct_eq_spec_def)
  moreover have "bears sample_deps validate_cmd_token_format ''nxs_cmd_b'' (bearer_request ''nxs_cmd_b'')"
    by (simp add: bears_def bearer_request_def validate_cmd_token_format_def CMD_TOKEN_PREFIX_def starts_with_def)
  moreover have "\<not> bears sample_deps validate_token_format (reg_token sample_response) (bearer_request ''nxs_cmd_b'')"
    by (simp add: bears_def bearer_request_def validate_token_format_def TOKEN_PREFIX_def starts_with_def)
  ultimately show ?thesis
    using registered_node_serves [OF reg _ start, of _ "bearer_request ''nxs_cmd_b''" "at_time 0" Map.empty]
    by (simp add: default_poll_sec_def sample_service_def sample_registration_def)
qed

end
