(* ===== verification/Replace_Race.thy ===== *)
theory Replace_Race
  imports Compose_Laws
begin

text \<open>
  Replacements of the compose file at the same time. The HTTP handler (\<open>compose.rs\<close>, lines 322 to
  350) and the queue command (\<open>poller.rs\<close>, lines 209 to 236) run on the threads of the same process,
  take no lock, and write the same temporary file. Here their system calls are interleaved.

  \<open>std::fs::write\<close> is two calls, an open that creates or truncates and a write through the handle
  from offset zero; a handle stays on its file when the name is moved. So files are numbered, the two
  names refer to numbers, and a write leaves what lies beyond its end. Any call can fail, a write
  after any part of its content. The directory is there, so that making it changes nothing.
\<close>

section \<open>The disk\<close>

record disk =
  d_data :: "nat \<Rightarrow> string"
  d_tmp :: "nat option"
  d_live :: "nat option"
  d_next :: nat

text \<open>The content under the name \<open>docker-compose.yaml\<close>.\<close>

definition live_content :: "disk \<Rightarrow> string option" where
  "live_content k = map_option (d_data k) (d_live k)"

definition disk_wf :: "disk \<Rightarrow> bool" where
  "disk_wf k \<longleftrightarrow> (case d_tmp k of None \<Rightarrow> True | Some f \<Rightarrow> f < d_next k)
     \<and> (case d_live k of None \<Rightarrow> True | Some f \<Rightarrow> f < d_next k \<and> d_tmp k \<noteq> Some f)"

section \<open>One replacement, call by call\<close>

datatype stage = Begin | Made | Opened nat | Closed | Cleaning | Ended bool

text \<open>\<open>next_call c x g k\<close>: \<open>x\<close> is \<open>None\<close> when the system grants the call; \<open>Some n\<close> when it fails it, a
  write after \<open>n\<close> bytes. The rename and the removal of a name that is gone fail in any case.\<close>

definition write_at :: "nat \<Rightarrow> string \<Rightarrow> disk \<Rightarrow> disk" where
  "write_at f c k = k\<lparr>d_data := (d_data k)(f := c @ drop (length c) (d_data k f))\<rparr>"

fun next_call :: "string \<Rightarrow> nat option \<Rightarrow> stage \<Rightarrow> disk \<Rightarrow> stage \<times> disk" where
  "next_call c (Some n) Begin k = (Ended False, k)"
| "next_call c None Begin k = (Made, k)"
| "next_call c (Some n) Made k = (Ended False, k)"
| "next_call c None Made k = (case d_tmp k of
     Some f \<Rightarrow> (Opened f, k\<lparr>d_data := (d_data k)(f := [])\<rparr>)
   | None \<Rightarrow> (Opened (d_next k), k\<lparr>d_data := (d_data k)(d_next k := []),
       d_tmp := Some (d_next k), d_next := Suc (d_next k)\<rparr>))"
| "next_call c (Some n) (Opened f) k = (Ended False, write_at f (take n c) k)"
| "next_call c None (Opened f) k = (Closed, write_at f c k)"
| "next_call c (Some n) Closed k = (Cleaning, k)"
| "next_call c None Closed k = (case d_tmp k of
     Some f \<Rightarrow> (Ended True, k\<lparr>d_live := Some f, d_tmp := None\<rparr>)
   | None \<Rightarrow> (Cleaning, k))"
| "next_call c (Some n) Cleaning k = (Ended False, k)"
| "next_call c None Cleaning k = (Ended False, k\<lparr>d_tmp := None\<rparr>)"
| "next_call c x (Ended b) k = (Ended b, k)"

text \<open>How many calls are left at most.\<close>

fun calls_left :: "stage \<Rightarrow> nat" where
  "calls_left Begin = 5"
| "calls_left Made = 4"
| "calls_left (Opened f) = 3"
| "calls_left Closed = 2"
| "calls_left Cleaning = 1"
| "calls_left (Ended b) = 0"

lemma calls_left_0: "calls_left g = 0 \<longleftrightarrow> (\<exists>r. g = Ended r)"
  by (cases g) simp_all

section \<open>Interleaving\<close>

record race =
  rc_disk :: disk
  rc_stages :: "stage list"

definition race_start :: "string list \<Rightarrow> disk \<Rightarrow> race" where
  "race_start cs k = \<lparr>rc_disk = k, rc_stages = replicate (length cs) Begin\<rparr>"

text \<open>An event: the number of a replacement, and whether the system fails its next call.\<close>

type_synonym call = "nat \<times> nat option"

text \<open>\<open>race_step cs s (i, x) s'\<close>: the replacement \<open>i\<close>, which has not ended, makes its next call.\<close>

inductive race_step :: "string list \<Rightarrow> race \<Rightarrow> call \<Rightarrow> race \<Rightarrow> bool" for cs where
  call: "i < length (rc_stages s) \<Longrightarrow> calls_left (rc_stages s ! i) \<noteq> 0 \<Longrightarrow>
    next_call (cs ! i) x (rc_stages s ! i) (rc_disk s) = (g, k) \<Longrightarrow>
    race_step cs s (i, x) \<lparr>rc_disk = k, rc_stages = (rc_stages s)[i := g]\<rparr>"

inductive race_run :: "string list \<Rightarrow> disk \<Rightarrow> call list \<Rightarrow> race \<Rightarrow> bool" for cs k where
  start: "race_run cs k [] (race_start cs k)"
| step: "race_run cs k js s \<Longrightarrow> race_step cs s j s' \<Longrightarrow> race_run cs k (js @ [j]) s'"

inductive_simps race_step_iff: "race_step cs s (i, x) s'"

section \<open>Every schedule ends\<close>

definition calls_of :: "nat \<Rightarrow> call list \<Rightarrow> nat" where
  "calls_of i js = length (filter (\<lambda>j. fst j = i) js)"

lemma next_call_left:
  "calls_left g \<noteq> 0 \<Longrightarrow> next_call c x g k = (g', k') \<Longrightarrow> calls_left g' < calls_left g"
  by (cases g; cases x) (auto split: option.splits)

lemma race_run_bound:
  "race_run cs k js s \<Longrightarrow> length (rc_stages s) = length cs
   \<and> (\<forall>i. calls_of i js + (if i < length cs then calls_left (rc_stages s ! i) else 5) \<le> 5)
   \<and> length js + sum_list (map calls_left (rc_stages s)) \<le> 5 * length cs"
proof (induction rule: race_run.induct)
  case start
  show ?case by (simp add: race_start_def sum_list_replicate calls_of_def)
next
  case (step js s j s')
  obtain i x where j: "j = (i, x)" by fastforce
  from step.hyps(2) obtain g k' where i: "i < length (rc_stages s)" "calls_left (rc_stages s ! i) \<noteq> 0"
    and n: "next_call (cs ! i) x (rc_stages s ! i) (rc_disk s) = (g, k')"
    and s': "s' = \<lparr>rc_disk = k', rc_stages = (rc_stages s)[i := g]\<rparr>" by (auto simp: j race_step_iff)
  have l: "calls_left g < calls_left (rc_stages s ! i)" by (rule next_call_left [OF i(2) n])
  moreover have "sum_list ((map calls_left (rc_stages s))[i := calls_left g])
      + calls_left (rc_stages s ! i) = sum_list (map calls_left (rc_stages s)) + calls_left g"
    using i(1) elem_le_sum_list [of i "map calls_left (rc_stages s)"] by (simp add: sum_list_update)
  ultimately have "Suc (sum_list (map calls_left (rc_stages s')))
      \<le> sum_list (map calls_left (rc_stages s))"
    by (simp add: s' map_update)
  moreover have "calls_of m (js @ [j]) + (if m < length cs then calls_left (rc_stages s' ! m) else 5) \<le> 5" for m
    using step.IH [THEN conjunct2, THEN conjunct1, THEN spec, of m] step.IH i(1) l
    by (cases "m = i") (auto simp: calls_of_def j s' nth_list_update split: if_splits)
  ultimately show ?case using step.IH by (simp add: s')
qed

section \<open>What holds under every schedule\<close>

text \<open>The file that was live at the start is never opened, and as long as no replacement succeeded
  it stays live.\<close>

definition race_inv :: "disk \<Rightarrow> race \<Rightarrow> bool" where
  "race_inv k s \<longleftrightarrow> d_next k \<le> d_next (rc_disk s)
     \<and> (\<forall>f. d_live k = Some f \<longrightarrow> d_data (rc_disk s) f = d_data k f \<and> d_tmp (rc_disk s) \<noteq> Some f
          \<and> Opened f \<notin> set (rc_stages s))
     \<and> (Ended True \<notin> set (rc_stages s) \<longrightarrow> d_live (rc_disk s) = d_live k)"

text \<open>Without a failing call: as long as no replacement succeeded, none fails, and one that has
  opened the temporary file finds it.\<close>

definition clean_inv :: "race \<Rightarrow> bool" where
  "clean_inv s \<longleftrightarrow> Ended True \<in> set (rc_stages s) \<or>
     (Cleaning \<notin> set (rc_stages s) \<and> Ended False \<notin> set (rc_stages s)
      \<and> (set (rc_stages s) \<subseteq> {Begin, Made} \<or> d_tmp (rc_disk s) \<noteq> None))"

lemma set_update_other:
  "i < length xs \<Longrightarrow> y \<noteq> xs ! i \<Longrightarrow> y \<noteq> x \<Longrightarrow> y \<in> set (xs[i := x]) \<longleftrightarrow> y \<in> set xs"
  by (metis in_set_conv_nth length_list_update nth_list_update_eq nth_list_update_neq)

lemma ended_stays:
  assumes "i < length xs" and "calls_left (xs ! i) \<noteq> 0" and "Ended True \<in> set xs"
  shows "Ended True \<in> set (xs[i := g])"
proof (cases "g = Ended True")
  case False
  moreover have "Ended True \<noteq> xs ! i" using assms(2) by (metis calls_left.simps(6))
  ultimately show ?thesis using set_update_other [OF assms(1)] assms(3) by metis
qed (use assms(1) in \<open>simp add: set_update_memI\<close>)

text \<open>What one call can do to the disk.\<close>

lemma next_call_disk:
  assumes "next_call c x g k = (g', k')" and "l < d_next k" and "d_tmp k \<noteq> Some l" and "g \<noteq> Opened l"
  shows "d_data k' l = d_data k l \<and> d_next k \<le> d_next k' \<and> d_tmp k' \<noteq> Some l \<and> g' \<noteq> Opened l
    \<and> (d_live k' = d_live k \<or> g' = Ended True)"
  using assms by (cases g; cases x) (auto simp: write_at_def split: option.splits)

lemma next_call_live:
  "next_call c x g k = (g', k') \<Longrightarrow> d_next k \<le> d_next k' \<and> (d_live k' = d_live k \<or> g' = Ended True)"
  by (cases g; cases x) (auto simp: write_at_def split: option.splits)

lemma race_inv_step:
  assumes inv: "race_inv k s" and wf: "disk_wf k" and st: "race_step cs s j s'"
  shows "race_inv k s'"
proof -
  obtain i x where j: "j = (i, x)" by fastforce
  from st obtain g k' where i: "i < length (rc_stages s)" "calls_left (rc_stages s ! i) \<noteq> 0"
    and n: "next_call (cs ! i) x (rc_stages s ! i) (rc_disk s) = (g, k')"
    and s': "s' = \<lparr>rc_disk = k', rc_stages = (rc_stages s)[i := g]\<rparr>" by (auto simp: j race_step_iff)
  have mem: "rc_stages s ! i \<in> set (rc_stages s)" and new: "g \<in> set ((rc_stages s)[i := g])"
    using i(1) by (simp_all add: set_update_memI)
  have "d_data k' l = d_data k l \<and> d_tmp k' \<noteq> Some l \<and> Opened l \<notin> set ((rc_stages s)[i := g])"
    if "d_live k = Some l" for l
  proof -
    from that inv wf have p: "l < d_next (rc_disk s)" "d_tmp (rc_disk s) \<noteq> Some l"
      "Opened l \<notin> set (rc_stages s)" "d_data (rc_disk s) l = d_data k l"
      by (auto simp: race_inv_def disk_wf_def)
    with mem have "rc_stages s ! i \<noteq> Opened l" by auto
    from next_call_disk [OF n p(1,2) this] p(3,4) set_update_other [OF i(1), of "Opened l" g] this
    show ?thesis by auto
  qed
  moreover have "Ended True \<in> set (rc_stages s) \<Longrightarrow> Ended True \<in> set ((rc_stages s)[i := g])"
    by (rule ended_stays [OF i])
  ultimately show ?thesis
    using next_call_live [OF n] inv new unfolding race_inv_def s' by fastforce
qed

lemma race_inv_start: "disk_wf k \<Longrightarrow> race_inv k (race_start cs k)"
  by (auto simp: race_inv_def race_start_def disk_wf_def split: option.splits)

lemma race_run_inv: "race_run cs k js s \<Longrightarrow> disk_wf k \<Longrightarrow> race_inv k s"
  by (induction rule: race_run.induct) (auto intro: race_inv_start race_inv_step)

lemma clean_inv_step:
  assumes inv: "clean_inv s" and st: "race_step cs s (i, None) s'"
  shows "clean_inv s'"
proof -
  from st obtain g k' where i: "i < length (rc_stages s)" "calls_left (rc_stages s ! i) \<noteq> 0"
    and n: "next_call (cs ! i) None (rc_stages s ! i) (rc_disk s) = (g, k')"
    and s': "s' = \<lparr>rc_disk = k', rc_stages = (rc_stages s)[i := g]\<rparr>" by (auto simp: race_step_iff)
  have mem: "rc_stages s ! i \<in> set (rc_stages s)" and new: "g \<in> set ((rc_stages s)[i := g])"
    using i(1) by (simp_all add: set_update_memI)
  note other = set_update_other [OF i(1), of _ g]
  show ?thesis
  proof (cases "Ended True \<in> set (rc_stages s)")
    case True
    then have "Ended True \<in> set ((rc_stages s)[i := g])" by (rule ended_stays [OF i])
    then show ?thesis by (simp add: clean_inv_def s')
  next
    case False
    with inv have inv': "Cleaning \<notin> set (rc_stages s)" "Ended False \<notin> set (rc_stages s)"
      "set (rc_stages s) \<subseteq> {Begin, Made} \<or> d_tmp (rc_disk s) \<noteq> None" by (auto simp: clean_inv_def)
    show ?thesis
    proof (cases "rc_stages s ! i")
      case Begin
      with n have "g = Made" "k' = rc_disk s" by auto
      with inv' other Begin set_update_subset_insert [of "rc_stages s" i g] show ?thesis
        unfolding clean_inv_def s' by auto
    next
      case Made
      with n inv' other show ?thesis
        unfolding clean_inv_def s' by (cases "d_tmp (rc_disk s)") auto
    next
      case (Opened f)
      with n inv' other mem show ?thesis
        unfolding clean_inv_def s' by (auto simp: write_at_def)
    next
      case Closed
      with n inv' mem new show ?thesis
        unfolding clean_inv_def s' by (cases "d_tmp (rc_disk s)") auto
    qed (use inv' mem i in auto)
  qed
qed

lemma clean_run_inv:
  "race_run cs k js s \<Longrightarrow> list_all (\<lambda>j. snd j = None) js \<Longrightarrow> clean_inv s"
proof (induction rule: race_run.induct)
  case start
  show ?case by (auto simp: clean_inv_def race_start_def)
next
  case (step js s j s')
  from step.prems have j: "j = (fst j, None)" and "list_all (\<lambda>j. snd j = None) js"
    by (auto simp: prod_eq_iff)
  with step.IH have "clean_inv s" by blast
  moreover have "race_step cs s (fst j, None) s'" using step.hyps(2) j by simp
  ultimately show ?case by (rule clean_inv_step)
qed

section \<open>One replacement alone\<close>

text \<open>A replacement whose calls are not interleaved with others.\<close>

definition run_alone :: "string \<Rightarrow> disk \<Rightarrow> stage \<times> disk" where
  "run_alone c k = (case next_call c None Begin k of (g1, k1) \<Rightarrow>
     (case next_call c None g1 k1 of (g2, k2) \<Rightarrow>
       (case next_call c None g2 k2 of (g3, k3) \<Rightarrow> next_call c None g3 k3)))"

lemma run_alone_ends:
  "fst (run_alone c k) = Ended True \<and> d_tmp (snd (run_alone c k)) = None
   \<and> live_content (snd (run_alone c k)) = Some c"
  by (cases "d_tmp k") (simp_all add: run_alone_def live_content_def write_at_def)

text \<open>What the disk says of the two names of the directory \<open>d\<close>.\<close>

definition views :: "path \<Rightarrow> fs \<Rightarrow> disk \<Rightarrow> bool" where
  "views d t k \<longleftrightarrow> lookup t (d @ [TMP_NAME]) = map_option (\<lambda>f. File (d_data k f)) (d_tmp k)
     \<and> lookup t (d @ [YAML_NAME]) = map_option File (live_content k)"

lemma run_alone_refines:
  assumes "replace_ready t dir TMP_NAME YAML_NAME d" and "fault env = (\<lambda>_. None)"
    and "write_compose env dir c t = (r, t')"
  shows "r = Inr () \<and> views d t' (snd (run_alone c k))"
proof -
  have a: "atomic_replace env dir TMP_NAME YAML_NAME c t = (r = Inr (), t')"
    using write_compose_refines [of env dir c t] assms(3) by simp
  moreover from atomic_replace_succeeds [OF assms(1,2), of c] a have "r = Inr ()" by simp
  ultimately show ?thesis
    using atomic_replace_effect [OF assms(1) a] run_alone_ends [of c k] by (simp add: views_def)
qed

section \<open>Two replacements, call about call\<close>

lemma race_run_call:
  "race_run cs k js s \<Longrightarrow> i < length (rc_stages s) \<Longrightarrow> calls_left (rc_stages s ! i) \<noteq> 0 \<Longrightarrow>
   next_call (cs ! i) x (rc_stages s ! i) (rc_disk s) = (g, k') \<Longrightarrow>
   race_run cs k (js @ [(i, x)]) \<lparr>rc_disk = k', rc_stages = (rc_stages s)[i := g]\<rparr>"
  by (rule race_run.step) (auto intro: race_step.call)

lemma open_call:
  "\<exists>f k1. next_call c None Made k = (Opened f, k1) \<and> d_tmp k1 = Some f \<and> d_data k1 f = []"
  by (cases "d_tmp k") simp_all

text \<open>Both make the directory, open, write; then the first renames, and the second fails to.\<close>

definition in_turns :: "call list" where
  "in_turns = map (\<lambda>i. (i, None)) [0, 1, 0, 1, 0, 1, 0, 1, 1]"

lemma race_of_two:
  assumes "length b < length a"
  shows "\<exists>s. race_run [a, b] k in_turns s \<and> rc_stages s = [Ended True, Ended False]
      \<and> live_content (rc_disk s) = Some (b @ drop (length b) a)"
proof -
  obtain f k1 where o: "next_call a None Made k = (Opened f, k1)" "d_tmp k1 = Some f" "d_data k1 f = []"
    using open_call by blast
  define k2 where "k2 = k1\<lparr>d_data := (d_data k1)(f := a)\<rparr>"
  define k3 where "k3 = k1\<lparr>d_data := (d_data k1)(f := b @ drop (length b) a)\<rparr>"
  define k4 where "k4 = k3\<lparr>d_live := Some f, d_tmp := None\<rparr>"
  have k1: "k1\<lparr>d_data := (d_data k1)(f := [])\<rparr> = k1" using o(3) by (simp add: fun_upd_idem)
  let ?r = "\<lambda>js k' gs. race_run [a, b] k (map (\<lambda>i. (i, None)) js) \<lparr>rc_disk = k', rc_stages = gs\<rparr>"
  have "?r [] k [Begin, Begin]"
    using race_run.start [of "[a, b]" k] by (simp add: race_start_def)
  from race_run_call [OF this, of 0 None] have "?r [0] k [Made, Begin]" by simp
  from race_run_call [OF this, of 1 None] have "?r [0, 1] k [Made, Made]" by simp
  from race_run_call [OF this, of 0 None] o have "?r [0, 1, 0] k1 [Opened f, Made]" by simp
  from race_run_call [OF this, of 1 None] o k1 have "?r [0, 1, 0, 1] k1 [Opened f, Opened f]" by simp
  from race_run_call [OF this, of 0 None] o
  have "?r [0, 1, 0, 1, 0] k2 [Closed, Opened f]" by (simp add: k2_def write_at_def)
  from race_run_call [OF this, of 1 None]
  have "?r [0, 1, 0, 1, 0, 1] k3 [Closed, Closed]" by (simp add: k2_def k3_def write_at_def)
  from race_run_call [OF this, of 0 None] o
  have "?r [0, 1, 0, 1, 0, 1, 0] k4 [Ended True, Closed]" by (simp add: k3_def k4_def)
  from race_run_call [OF this, of 1 None]
  have "?r [0, 1, 0, 1, 0, 1, 0, 1] k4 [Ended True, Cleaning]" by (simp add: k4_def)
  from race_run_call [OF this, of 1 None]
  have "?r [0, 1, 0, 1, 0, 1, 0, 1, 1] k4 [Ended True, Ended False]" by (simp add: k4_def)
  moreover have "live_content k4 = Some (b @ drop (length b) a)"
    by (simp add: live_content_def k4_def k3_def)
  ultimately show ?thesis unfolding in_turns_def by fastforce
qed

section \<open>Properties\<close>

text \<open>C9. Replacements at the same time, under every schedule of their calls and whichever of the calls
  fail: each replacement makes at most five calls, so that every schedule ends; until one of them
  succeeds the compose file is the old one, whole; and a reader that opened the old file keeps
  reading it unchanged. When all have ended and no call was failed by the system, at least one has
  succeeded.\<close>

theorem concurrent_replaces_end:
  assumes "race_run cs k js s" and "disk_wf k"
  shows "calls_of i js \<le> 5 \<and> length js \<le> 5 * length cs
    \<and> (if Ended True \<in> set (rc_stages s) then True else live_content (rc_disk s) = live_content k)
    \<and> (case d_live k of None \<Rightarrow> True | Some f \<Rightarrow> d_data (rc_disk s) f = d_data k f)
    \<and> (if cs \<noteq> [] \<and> list_all (\<lambda>g. calls_left g = 0) (rc_stages s) \<and> list_all (\<lambda>j. snd j = None) js
       then Ended True \<in> set (rc_stages s) else True)"
proof -
  note inv = race_run_inv [OF assms, unfolded race_inv_def]
  note b = race_run_bound [OF assms(1)]
  have "Ended True \<in> set (rc_stages s)"
    if ne: "cs \<noteq> []" and e: "list_all (\<lambda>g. calls_left g = 0) (rc_stages s)"
      and c: "list_all (\<lambda>j. snd j = None) js"
  proof -
    from ne b have "hd (rc_stages s) \<in> set (rc_stages s)" by (cases "rc_stages s") auto
    moreover from this e have "calls_left (hd (rc_stages s)) = 0" by (simp only: list_all_iff)
    then obtain r where "hd (rc_stages s) = Ended r" by (auto simp: calls_left_0)
    ultimately show ?thesis using clean_run_inv [OF assms(1) c] by (cases r) (auto simp: clean_inv_def)
  qed
  moreover have "calls_of i js \<le> 5" using b [THEN conjunct2, THEN conjunct1, THEN spec, of i] by simp
  ultimately show ?thesis using inv b
    by (auto simp: live_content_def split: option.split)
qed

text \<open>C34. Two replacements at the same time, without any failing call, can publish a file that neither of
  them sent: both open the shared temporary file, both write it, and the first one renames it. What is
  live then is the shorter content followed by the tail of the longer one; the first is reported as a
  success, the second as a failure. One at a time, the same calls are the replacement of the handler,
  and leave its content.\<close>

theorem concurrent_replaces_mix:
  assumes "replace_ready t dir TMP_NAME YAML_NAME d" and "fault env = (\<lambda>_. None)"
    and "length b < length a"
  shows "(\<exists>s. race_run [a, b] k in_turns s \<and> rc_stages s = [Ended True, Ended False]
      \<and> live_content (rc_disk s) = Some (b @ drop (length b) a))
    \<and> (case write_compose env dir a t of (r, t') \<Rightarrow> r = Inr () \<and> views d t' (snd (run_alone a k))
         \<and> live_content (snd (run_alone a k)) = Some a)"
  using race_of_two [OF assms(3), of k] run_alone_refines [OF assms(1,2)] run_alone_ends [of a k]
  by (auto split: prod.split)

section \<open>Two replacements, concretely\<close>

definition old_disk :: disk where
  "old_disk = \<lparr>d_data = (\<lambda>_. ''a: 1''), d_tmp = None, d_live = Some 0, d_next = 1\<rparr>"

lemma concurrent_replaces_end_witness:
  "\<exists>s. race_run [''a: 1000'', ''b: 2''] old_disk in_turns s
     \<and> Ended True \<in> set (rc_stages s) \<and> d_data (rc_disk s) 0 = ''a: 1''"
proof -
  obtain s where s: "race_run [''a: 1000'', ''b: 2''] old_disk in_turns s"
    "rc_stages s = [Ended True, Ended False]"
    using race_of_two [of "''b: 2''" "''a: 1000''" old_disk] by auto
  moreover have "disk_wf old_disk" by (simp add: disk_wf_def old_disk_def)
  ultimately show ?thesis
    using concurrent_replaces_end [of "[''a: 1000'', ''b: 2'']" old_disk in_turns s]
    by (intro exI [of _ s]) (auto simp: old_disk_def)
qed

lemma concurrent_replaces_mix_witness:
  "\<exists>s. race_run [''a: 1000'', ''b: 2''] old_disk in_turns s
     \<and> rc_stages s = [Ended True, Ended False] \<and> live_content (rc_disk s) = Some ''b: 2000''"
  using concurrent_replaces_mix [OF sample_ready, of no_faults "''b: 2''" "''a: 1000''" old_disk]
  by (auto simp: no_faults_def)

end
