(* ===== verification/Spec2Isabelle.thy ===== *)
theory Spec2Isabelle
  imports Service_Laws Agent_Laws Upgrade_Laws Core_Preflight Cli_Main Reset_Laws Register_Laws
    Units_Laws Nonce_Refinement Queue_Laws Node_Life Replace_Race
begin

text \<open>
  A model of \<open>nexus-link\<close>, the node-side software of the Nexus fleet manager, with the theorems
  that make it correct.

  \<^bold>\<open>The program.\<close> A Rust workspace of four crates. \<open>nexus-link-core\<close> holds what the others share:
  the configuration file, the two bearer credentials, the wire types, the preflight checks and
  the system setup. \<open>nexus-link-service\<close> is an HTTP server on the node plus a command queue: the
  backend reads and replaces the compose file of the node's Docker stack, starts the stack and
  reads its logs, either by calling the node (inbound, behind two gates) or by leaving commands
  in a queue the node polls (outbound), woken early by PostgreSQL notifications.
  \<open>nexus-link-agent\<close> measures the machine and pushes the numbers at a fixed interval.
  \<open>nexus-link-cli\<close> edits the configuration, rotates the credentials and upgrades the binaries.
  All of them meet in the configuration file and in the file system.

  \<^bold>\<open>Conventions.\<close> A string is its bytes in UTF-8, so lengths, slices and prefixes are Rust's; an
  integer of \<open>w\<close> bits is a \<open>w word\<close>; \<open>Result<T, E>\<close> is \<open>'e + 't\<close>; a function that can panic
  returns an option whose \<open>None\<close> is the panic. A function that changes files takes the file
  system and an \<open>io_env\<close> that says which of its calls fail, and returns the new file system. Code
  outside the repository (SHA-256, Ed25519, base64, hex, TOML, YAML, chrono, floating point, the
  operating system's commands, the HTTP client and the database) is a parameter; what a theorem
  needs of it is a premise of that theorem with a name ending in \<open>_spec\<close>.

  \<^bold>\<open>Foundations.\<close>
  \<^item> \<open>Prelude\<close>: integer types, theorem collections, results of processes.
  \<^item> \<open>Rust_Str\<close>, \<open>Rust_Utf8\<close>, \<open>Rust_Text\<close>: the part of \<open>str\<close> and \<open>String\<close> in use. Slices that
    panic off a character boundary, UTF-8 decoding and encoding with their round trip, lossy
    decoding, trimming, splitting, \<open>lines\<close>, decimal parsing and printing at a width.
  \<^item> \<open>File_System\<close>, \<open>File_Laws\<close>: files, directories and symbolic links, path resolution through at
    most 40 links (the bound of Linux: a longer chain is the error \<open>ELOOP\<close>, so the bound is part
    of the behaviour and not a fuel), and the system calls with their failures. Every call keeps
    the tree well-formed; resolution is stable under writes to regular files.
  \<^item> \<open>Replace_Laws\<close>: the abstract operation \<open>atomic_replace\<close> and the locale \<open>file_replacer\<close> of the
    operations that refine it, with the law of the last write proved once for all of them.

  \<^bold>\<open>nexus-link-core\<close> (\<open>crates/nexus-link-core/src\<close>).
  \<^item> \<open>Core_Token\<close>, \<open>token.rs\<close>: generating, validating, hashing and verifying the credentials; the
    locale \<open>prefixed_credential\<close> is shared by the two kinds.
  \<^item> \<open>Core_Config\<close>, \<open>config.rs\<close>: the records and their defaults, the search for the file, load with
    the migration of old layouts, save with mode 0600.
  \<^item> \<open>Core_Types\<close>, \<open>types.rs\<close>, \<open>telemetry.rs\<close>, \<open>error.rs\<close>: the wire types and the JSON coding of the
    queue.
  \<^item> \<open>Core_Network\<close>, \<open>network.rs\<close>; \<open>Core_Preflight\<close>, \<open>preflight.rs\<close>; \<open>Core_Setup\<close>, \<open>setup.rs\<close>, with
    \<open>Setup_Laws\<close>: which commands the setup may run, that it is idempotent, and which paths the
    installed units name as writable. Units are text here: what systemd makes of a line is not modelled.

  \<^bold>\<open>nexus-link-service\<close> (\<open>crates/nexus-link-service/src\<close>).
  \<^item> \<open>Service_State\<close>, \<open>state.rs\<close>; \<open>Service_Auth\<close>, \<open>middleware/\<close>: the gate of the command route and the
    gate of the compose routes, with signatures and the nonce cache. \<open>Auth_Laws\<close> characterises
    acceptance, separates the two credentials, and says how far the protection against replays
    goes (locale \<open>replay_cache\<close>).
  \<^item> \<open>Service_Compose\<close>, \<open>handlers/compose.rs\<close>, with \<open>Compose_Laws\<close>: replacement is atomic under any
    failing call, a read serves what was last written, companion files stay in the directory. Git is
    a parameter that changes the file system; \<open>git_spec\<close> says that it writes its own locations only
    and leaves the work tree alone (hooks that do otherwise are excluded).
    \<open>Replace_Race\<close> interleaves the calls of several replacements, any of which can fail, over files with
    an identity: what still holds under every schedule, and the mixture that two of them can publish.
  \<^item> \<open>Service_Poller\<close>, \<open>poller.rs\<close>, with \<open>Poller_Laws\<close>: a batch is executed and reported in order,
    the queue and the HTTP handlers agree, and where the truncation of output panics. \<open>Queue_Laws\<close>:
    what a cycle does to the files is what its reports say.
  \<^item> \<open>Service_Main\<close>, \<open>main.rs\<close>, \<open>pg_listener.rs\<close>, the other handlers, with \<open>Service_Laws\<close>: routes
    behind their gates, the poll loop as the step relation \<open>loop_step\<close> over timer ticks, wake-ups
    and finished polls, and the back-off of the listener.

  \<^item> \<open>Nonce_Refinement\<close>: the cache of nonces refines a log of all requests. The abstract state
    remembers everything, the cache forgets what is old; the locale \<open>store_refinement\<close> carries the
    simulation and is interpreted on the code's cache.

  \<^bold>\<open>nexus-link-agent\<close> (\<open>crates/nexus-link-agent/src\<close>): \<open>Agent\<close>, \<open>Agent_Laws\<close>. Parsing of the
  measurements, the push loop, and what one failed measurement does to the others.

  \<^bold>\<open>nexus-link-cli\<close> (\<open>crates/nexus-link-cli/src\<close>).
  \<^item> \<open>Cli_Config\<close>, \<open>Cli_Laws\<close>: \<open>commands/config.rs\<close>, \<open>refresh.rs\<close>, \<open>refresh_cmd.rs\<close>, \<open>status.rs\<close>.
    What is set is what is read back, what a rotation can leave behind, and the type invariant
    \<open>config_wf\<close> of every configuration that \<open>load\<close> returns.
  \<^item> \<open>Cli_Upgrade\<close>, \<open>Upgrade_Laws\<close>: \<open>commands/upgrade.rs\<close>.
  \<^item> \<open>Cli_Lifecycle\<close>: \<open>commands/register.rs\<close>, \<open>unregister.rs\<close>, \<open>reset.rs\<close>. The state is \<open>world\<close>, the
    history of the privileged commands with the file system; what a privileged command does to
    files is the parameter \<open>lx_effect\<close>. \<open>Register_Laws\<close>: who is told, what is stored, and that the
    stored configuration is the one loaded afterwards. \<open>Reset_Laws\<close>: a reset removes at most
    the paths it names, all of them when no removal fails. \<open>Path_Laws\<close> holds the lemmas on paths without links.
  \<^item> \<open>Cli_Agent\<close>, \<open>Units_Laws\<close>: \<open>commands/agent.rs\<close>, with the writable paths its unit files name,
    against those of the units that \<open>setup.rs\<close> installs.
  \<^item> \<open>Cli_Main\<close>: \<open>main.rs\<close>, the dispatch of the commands over one \<open>world\<close>.

  \<^bold>\<open>The programs together.\<close> \<open>Node_Life\<close> follows a registration through the stored file into the
  service that loads it: which credentials its gates then admit, and which signing key it uses.

  \<^bold>\<open>Termination and bounds.\<close> Every definition is total and none takes fuel. Text functions recurse
  on the remaining bytes, path resolution on the pair of links left and components left, and the
  loops that run for ever (poll loop, reconnect loop, push loop) are folds or inductive runs over
  the events that drive them, so each theorem about them holds for every finite prefix.

  \<^bold>\<open>Not modelled.\<close> Log and progress output and the layout of printed reports; the HTTP transport,
  TLS (including the certificate verifier that accepts everything) and the database protocol;
  the parsing of the command line, which the \<open>clap\<close> derive macros generate (\<open>Cli_Main\<close> starts from
  the parsed command); the module lists (\<open>lib.rs\<close>, \<open>mod.rs\<close>), the tests, and the installation
  scripts. What \<open>docker compose up\<close> does to files (\<open>activate_compose\<close>, \<open>execute_activate\<close>): its result is
  an input, and a theorem about the files around an activation is about those the program itself
  writes. Concurrency is modelled where state is shared: the nonce cache as a sequence of
  requests under its lock, the wake-up permit as interleaved events, the compose file as interleaved
  calls. Concurrent runs of the command line are not modelled.
\<close>

end
